(* ===== verification/Prelude.thy ===== *)
theory Prelude
  imports Main
begin

text \<open>
  Shared vocabulary of the development: Python exceptions as values, the monadic plumbing for
  operations that may raise, the few string operations of Python the sources use (decimal and
  hexadecimal numerals, prefix tests, the way \<open>str\<close> prints a number), and generic facts about
  lists and strings that several component theories share.

  A Python string is a \<open>string\<close> (a list of 8-bit characters); the sources only manipulate ASCII
  text.  A Python \<open>int\<close> is an \<open>int\<close>.
\<close>

named_theorems res_simps \<open>rules that push a case distinction through the result type\<close>
named_theorems py_eval \<open>equations that evaluate the Python-level helpers on concrete inputs\<close>

section \<open>Exceptions and results\<close>

datatype py_error =
    AssertionError
  | KeyError
  | IndexError
  | ValueError
  | TypeError
  | AttributeError
  | ZeroDivisionError
  | NotImplementedError
  | UnknownTypeExceptionError
  | InvalidRegisterNameError
  | RegisterTypeConflictError
  | UnknownRegisterTypeError

type_synonym 'a res = "py_error + 'a"

definition bind_res :: "'a res \<Rightarrow> ('a \<Rightarrow> 'b res) \<Rightarrow> 'b res" where
  "bind_res m f = (case m of Inl e \<Rightarrow> Inl e | Inr x \<Rightarrow> f x)"

lemma bind_res_simps [simp, res_simps]:
  "bind_res (Inl e) f = Inl e"
  "bind_res (Inr x) f = f x"
  by (simp_all add: bind_res_def)

lemma bind_res_eq_Inr [simp]:
  "bind_res m f = Inr y \<longleftrightarrow> (\<exists>x. m = Inr x \<and> f x = Inr y)"
  by (cases m) auto

lemma bind_res_cong [fundef_cong]:
  "m = m' \<Longrightarrow> (\<And>x. m' = Inr x \<Longrightarrow> f x = f' x) \<Longrightarrow> bind_res m f = bind_res m' f'"
  by (cases m') auto

definition assert_res :: "bool \<Rightarrow> unit res" where
  "assert_res b = (if b then Inr () else Inl AssertionError)"

lemma assert_res_simps [simp]:
  "assert_res True = Inr ()"
  "assert_res False = Inl AssertionError"
  "assert_res b = Inr u \<longleftrightarrow> b"
  by (simp_all add: assert_res_def)

text \<open>Python list indexing with a non-negative index.\<close>

definition py_nth :: "'a list \<Rightarrow> nat \<Rightarrow> 'a res" where
  "py_nth xs i = (if i < length xs then Inr (xs ! i) else Inl IndexError)"

lemma py_nth_Inr [simp]: "py_nth xs i = Inr x \<longleftrightarrow> i < length xs \<and> x = xs ! i"
  by (auto simp: py_nth_def)

lemma py_nth_ok: "i < length xs \<Longrightarrow> py_nth xs i = Inr (xs ! i)"
  by simp

lemma py_nth_Cons [simp]:
  "py_nth (x # xs) 0 = Inr x"
  "py_nth (x # xs) (Suc i) = py_nth xs i"
  by (simp_all add: py_nth_def)

fun mapE :: "('a \<Rightarrow> 'b res) \<Rightarrow> 'a list \<Rightarrow> 'b list res" where
  "mapE f [] = Inr []"
| "mapE f (x # xs) = bind_res (f x) (\<lambda>y. bind_res (mapE f xs) (\<lambda>ys. Inr (y # ys)))"

lemma length_mapE: "mapE f xs = Inr ys \<Longrightarrow> length ys = length xs"
  by (induction xs arbitrary: ys) auto

section \<open>Strings\<close>

definition digit_char :: "nat \<Rightarrow> char" where
  "digit_char n = ''0123456789'' ! n"

fun show_nat :: "nat \<Rightarrow> string" where
  "show_nat n = (if n < 10 then [digit_char n] else show_nat (n div 10) @ [digit_char (n mod 10)])"

declare show_nat.simps [simp del]

definition show_int :: "int \<Rightarrow> string" where
  "show_int i = (if i < 0 then ''-'' @ show_nat (nat (- i)) else show_nat (nat i))"

definition is_decimal :: "char \<Rightarrow> bool" where
  "is_decimal c = (c \<in> set ''0123456789'')"

definition decimal_value :: "char \<Rightarrow> nat" where
  "decimal_value c = length (takeWhile (\<lambda>d. d \<noteq> c) ''0123456789'')"

fun read_nat :: "nat \<Rightarrow> string \<Rightarrow> nat" where
  "read_nat acc [] = acc"
| "read_nat acc (c # cs) = read_nat (10 * acc + decimal_value c) cs"

lemma less_10_cases:
  "n < 10 \<Longrightarrow> n = 0 \<or> n = 1 \<or> n = 2 \<or> n = 3 \<or> n = 4 \<or> n = 5 \<or> n = 6 \<or> n = 7 \<or> n = 8 \<or> n = (9::nat)"
  by arith

lemma is_decimal_digit_char [simp]: "n < 10 \<Longrightarrow> is_decimal (digit_char n)"
  by (drule less_10_cases) (auto simp: is_decimal_def digit_char_def)

lemma decimal_value_digit_char [simp]: "n < 10 \<Longrightarrow> decimal_value (digit_char n) = n"
  by (drule less_10_cases) (auto simp: decimal_value_def digit_char_def)

lemma show_nat_not_Nil [simp]: "show_nat n \<noteq> []"
  by (subst show_nat.simps) simp

lemma show_nat_decimal: "c \<in> set (show_nat n) \<Longrightarrow> is_decimal c"
proof (induction n rule: show_nat.induct)
  case (1 n)
  then show ?case
    by (cases "n < 10") (auto simp: show_nat.simps [of n])
qed

lemma read_nat_append: "read_nat acc (xs @ ys) = read_nat (read_nat acc xs) ys"
  by (induction xs arbitrary: acc) auto

lemma read_show_nat [simp]: "read_nat 0 (show_nat n) = n"
proof (induction n rule: show_nat.induct)
  case (1 n)
  then show ?case
    by (cases "n < 10") (simp_all add: show_nat.simps [of n] read_nat_append)
qed

lemma show_nat_inject [simp]: "show_nat m = show_nat n \<longleftrightarrow> m = n"
  by (metis read_show_nat)

definition startswith :: "string \<Rightarrow> string \<Rightarrow> bool" where
  "startswith s p = (take (length p) s = p)"

definition endswith :: "string \<Rightarrow> string \<Rightarrow> bool" where
  "endswith s p = (length p \<le> length s \<and> drop (length s - length p) s = p)"

definition removeprefix :: "string \<Rightarrow> string \<Rightarrow> string" where
  "removeprefix s p = (if startswith s p then drop (length p) s else s)"

fun contains :: "string \<Rightarrow> string \<Rightarrow> bool" where
  "contains [] p = (p = [])"
| "contains (c # cs) p = (startswith (c # cs) p \<or> contains cs p)"

lemma startswith_append [simp]: "startswith (p @ s) p"
  by (simp add: startswith_def)

lemma startswithE: "startswith s p \<Longrightarrow> \<exists>r. s = p @ r"
  unfolding startswith_def by (metis append_take_drop_id)

lemma removeprefix_append [simp]: "removeprefix (p @ s) p = s"
  by (simp add: removeprefix_def)

lemma endswith_append [simp]: "endswith (s @ p) p"
  by (simp add: endswith_def)

text \<open>\<open>sep.join(xs)\<close>.\<close>

fun join :: "string \<Rightarrow> string list \<Rightarrow> string" where
  "join sep [] = []"
| "join sep [x] = x"
| "join sep (x # y # zs) = x @ sep @ join sep (y # zs)"

section \<open>Integers written in base 16\<close>

definition hex_digits :: string where
  "hex_digits = ''0123456789abcdef''"

definition to_lower_hex :: "char \<Rightarrow> char" where
  "to_lower_hex c =
     (if c = CHR ''A'' then CHR ''a'' else if c = CHR ''B'' then CHR ''b''
      else if c = CHR ''C'' then CHR ''c'' else if c = CHR ''D'' then CHR ''d''
      else if c = CHR ''E'' then CHR ''e'' else if c = CHR ''F'' then CHR ''f'' else c)"

definition hex_value :: "char \<Rightarrow> nat" where
  "hex_value c = length (takeWhile (\<lambda>d. d \<noteq> to_lower_hex c) hex_digits)"

definition is_hex_char :: "char \<Rightarrow> bool" where
  "is_hex_char c = (to_lower_hex c \<in> set hex_digits)"

fun read_hex :: "nat \<Rightarrow> string \<Rightarrow> nat" where
  "read_hex acc [] = acc"
| "read_hex acc (c # cs) = read_hex (16 * acc + hex_value c) cs"

text \<open>
  \<open>int(s, base=16)\<close> for an unsigned literal with or without the prefix \<open>0x\<close> and with an
  optional sign; every other string raises \<open>ValueError\<close>.  (Python also accepts surrounding blanks
  and underscores between digits; no literal of the sources has them.)
\<close>

definition strip_hex_prefix :: "string \<Rightarrow> string" where
  "strip_hex_prefix s = (if startswith s ''0x'' \<or> startswith s ''0X'' then drop 2 s else s)"

definition int_base16 :: "string \<Rightarrow> int res" where
  "int_base16 s =
     (let neg = startswith s ''-'';
          body = strip_hex_prefix (if neg \<or> startswith s ''+'' then drop 1 s else s)
      in if body \<noteq> [] \<and> list_all is_hex_char body
         then Inr (if neg then - int (read_hex 0 body) else int (read_hex 0 body))
         else Inl ValueError)"

text \<open>\<open>int(s)\<close>: an optional sign and decimal digits.\<close>

definition int_base10 :: "string \<Rightarrow> int option" where
  "int_base10 s =
     (let neg = startswith s ''-'';
          body = (if neg \<or> startswith s ''+'' then drop 1 s else s)
      in if body \<noteq> [] \<and> list_all is_decimal body
         then Some (if neg then - int (read_nat 0 body) else int (read_nat 0 body))
         else None)"

lemma show_nat_list_all [simp]: "list_all is_decimal (show_nat n)"
  using show_nat_decimal by (auto simp: list_all_iff)

lemma show_nat_hd_decimal: "show_nat n = c # cs \<Longrightarrow> is_decimal c"
  using show_nat_decimal [of c n] by simp

lemma show_nat_no_sign [simp]:
  "startswith (show_nat n) ''-'' = False"
  "startswith (show_nat n) ''+'' = False"
  by (cases "show_nat n"; use show_nat_hd_decimal in \<open>auto simp: startswith_def is_decimal_def\<close>)+

lemma int_base10_show_nat [simp]: "int_base10 (show_nat n) = Some (int n)"
  by (simp add: int_base10_def Let_def)

lemma int_base10_minus_show_nat [simp]: "int_base10 (CHR ''-'' # show_nat n) = Some (- int n)"
  by (simp add: int_base10_def Let_def startswith_def)

lemma int_base10_show_int [simp]: "int_base10 (show_int i) = Some i"
  by (simp add: show_int_def)

section \<open>Generic list facts\<close>

text \<open>Python's \<open>list.remove\<close>: the first element satisfying the test goes.\<close>

fun remove_first :: "('a \<Rightarrow> bool) \<Rightarrow> 'a list \<Rightarrow> 'a list" where
  "remove_first p [] = []"
| "remove_first p (x # xs) = (if p x then xs else x # remove_first p xs)"

lemma remove_first_none: "\<not> (\<exists>x\<in>set xs. p x) \<Longrightarrow> remove_first p xs = xs"
  by (induction xs) auto

lemma remove_first_split:
  "x \<in> set xs \<Longrightarrow> p x \<Longrightarrow>
     \<exists>ys y zs. xs = ys @ y # zs \<and> p y \<and> (\<forall>u\<in>set ys. \<not> p u) \<and> remove_first p xs = ys @ zs"
proof (induction xs)
  case Nil
  then show ?case by simp
next
  case (Cons a xs)
  show ?case
  proof (cases "p a")
    case True
    then show ?thesis by (intro exI [of _ "[]"]) auto
  next
    case False
    with Cons have "x \<in> set xs" by auto
    with Cons obtain ys y zs where "xs = ys @ y # zs" "p y" "\<forall>u\<in>set ys. \<not> p u"
      "remove_first p xs = ys @ zs" by blast
    with False show ?thesis
      by (intro exI [of _ "a # ys"] exI [of _ y] exI [of _ zs]) auto
  qed
qed

lemma set_remove_first: "set (remove_first p xs) \<subseteq> set xs"
  by (induction xs) auto

lemma length_remove_first: "x \<in> set xs \<Longrightarrow> p x \<Longrightarrow> length (remove_first p xs) < length xs"
  by (induction xs) auto

end
