(* ===== verification/Value_Types.thy ===== *)
theory Value_Types
  imports Prelude
begin

text \<open>
  The value types of the expression manager: \<open>BaseType\<close>, \<open>ASMType\<close>/\<open>ASMTypes\<close> and
  \<open>OpenCLType\<close>/\<open>OpenCLTypes\<close> (\<open>src/src/expression_manager/types\<close>), with \<open>get_common_type\<close>
  of \<open>expression_node.py\<close>.  A member of one of the two Python enumerations is the unknown type or a
  scalar kind with a vector width; the enumerations list their members in the order of the source.
  The strings are the ones the code prints, because \<open>get_common_type\<close>, \<open>set_number_of_components\<close>
  and \<open>set_is_integer\<close> all go through \<open>str\<close> and \<open>from_string\<close>.
\<close>

section \<open>BaseType\<close>

record base_type =
  size_bytes :: int
  is_signed :: bool
  is_integer :: bool
  number_of_components :: int

definition get_size :: "base_type \<Rightarrow> int" where
  "get_size t = size_bytes t * number_of_components t"

text \<open>Record equality is the \<open>__eq__\<close> of \<open>BaseType\<close>: all four attributes agree.\<close>

definition mk_base_type :: "int \<Rightarrow> bool \<Rightarrow> bool \<Rightarrow> int \<Rightarrow> base_type" where
  "mk_base_type n s i c =
     \<lparr>size_bytes = n, is_signed = s, is_integer = i, number_of_components = c\<rparr>"

lemma mk_base_type_sel [simp]:
  "size_bytes (mk_base_type n s i c) = n"
  "is_signed (mk_base_type n s i c) = s"
  "is_integer (mk_base_type n s i c) = i"
  "number_of_components (mk_base_type n s i c) = c"
  by (simp_all add: mk_base_type_def)

section \<open>The enumerations\<close>

datatype scalar =
  CHAR_T | UCHAR_T | SHORT_T | USHORT_T | INT_T | UINT_T | LONG_T | ULONG_T | HALF_T | FLOAT_T | DOUBLE_T

datatype width = W1 | W2 | W3 | W4 | W8

datatype opencl_types = OUnknown | OType scalar width

datatype asm_types = AUnknown | AType scalar width

fun scalar_size :: "scalar \<Rightarrow> int" where
  "scalar_size CHAR_T = 1"
| "scalar_size UCHAR_T = 1"
| "scalar_size SHORT_T = 2"
| "scalar_size USHORT_T = 2"
| "scalar_size INT_T = 4"
| "scalar_size UINT_T = 4"
| "scalar_size LONG_T = 8"
| "scalar_size ULONG_T = 8"
| "scalar_size HALF_T = 2"
| "scalar_size FLOAT_T = 4"
| "scalar_size DOUBLE_T = 8"

fun scalar_signed :: "scalar \<Rightarrow> bool" where
  "scalar_signed UCHAR_T = False"
| "scalar_signed USHORT_T = False"
| "scalar_signed UINT_T = False"
| "scalar_signed ULONG_T = False"
| "scalar_signed _ = True"

fun scalar_integer :: "scalar \<Rightarrow> bool" where
  "scalar_integer HALF_T = False"
| "scalar_integer FLOAT_T = False"
| "scalar_integer DOUBLE_T = False"
| "scalar_integer _ = True"

fun width_components :: "width \<Rightarrow> int" where
  "width_components W1 = 1"
| "width_components W2 = 2"
| "width_components W3 = 3"
| "width_components W4 = 4"
| "width_components W8 = 8"

definition type_value :: "scalar \<Rightarrow> width \<Rightarrow> base_type" where
  "type_value s w =
     mk_base_type (scalar_size s) (scalar_signed s) (scalar_integer s) (width_components w)"

text \<open>\<open>UnknownOpenCLType()\<close> and \<open>UnknownASMType()\<close> have size 0 and one component.\<close>

definition unknown_value :: base_type where
  "unknown_value = mk_base_type 0 True True 1"

fun opencl_value :: "opencl_types \<Rightarrow> base_type" where
  "opencl_value OUnknown = unknown_value"
| "opencl_value (OType s w) = type_value s w"

fun asm_value :: "asm_types \<Rightarrow> base_type" where
  "asm_value AUnknown = unknown_value"
| "asm_value (AType s w) = type_value s w"

definition base_scalars :: "scalar list" where
  "base_scalars = [CHAR_T, UCHAR_T, SHORT_T, USHORT_T, INT_T, UINT_T, LONG_T, ULONG_T, HALF_T, FLOAT_T, DOUBLE_T]"

text \<open>The members of \<open>OpenCLTypes\<close> and of \<open>ASMTypes\<close> in their order of declaration.  The assembly
  enumeration has no three-component vectors.\<close>

definition opencl_members :: "opencl_types list" where
  "opencl_members =
     OUnknown # map (\<lambda>s. OType s W1) base_scalars
       @ concat (map (\<lambda>s. map (OType s) [W2, W3, W4, W8]) base_scalars)"

definition asm_members :: "asm_types list" where
  "asm_members =
     AUnknown # map (\<lambda>s. AType s W1) base_scalars
       @ concat (map (\<lambda>s. map (AType s) [W2, W4, W8]) base_scalars)"

section \<open>Printing\<close>

text \<open>\<open>ASMType.get_type_string\<close> and \<open>ASMType.__str__\<close>.\<close>

definition asm_type_string :: "base_type \<Rightarrow> string res" where
  "asm_type_string t =
     (if is_integer t
      then (let signed_prefix = (if is_integer t \<and> \<not> is_signed t then ''u'' else ''i'')
            in if size_bytes t \<in> {1, 2, 4, 8}
               then Inr (signed_prefix @ show_int (size_bytes t * 8))
               else Inl UnknownTypeExceptionError)
      else if size_bytes t \<in> {2, 4, 8}
           then Inr (''f'' @ show_int (size_bytes t * 8))
           else Inl UnknownTypeExceptionError)"

definition asm_type_str :: "base_type \<Rightarrow> string res" where
  "asm_type_str t =
     (if size_bytes t \<le> 0 then Inr ''Unknown ASM Type''
      else bind_res (asm_type_string t) (\<lambda>type_prefix.
        Inr (type_prefix
             @ (if number_of_components t = 1 then '''' else show_int (number_of_components t)))))"

text \<open>\<open>_byte_size_to_type_integer\<close> and \<open>_byte_size_to_type_float\<close>.\<close>

definition byte_size_to_type_integer :: "int \<rightharpoonup> string" where
  "byte_size_to_type_integer n =
     (if n = 1 then Some ''char'' else if n = 2 then Some ''short''
      else if n = 4 then Some ''int'' else if n = 8 then Some ''long'' else None)"

definition byte_size_to_type_float :: "int \<rightharpoonup> string" where
  "byte_size_to_type_float n =
     (if n = 2 then Some ''half'' else if n = 4 then Some ''float''
      else if n = 8 then Some ''double'' else None)"

definition opencl_type_string :: "base_type \<Rightarrow> string res" where
  "opencl_type_string t =
     (case (if is_integer t then byte_size_to_type_integer (size_bytes t)
            else byte_size_to_type_float (size_bytes t)) of
        Some s \<Rightarrow> Inr s
      | None \<Rightarrow> Inl UnknownTypeExceptionError)"

definition opencl_type_str :: "base_type \<Rightarrow> string res" where
  "opencl_type_str t =
     (if size_bytes t \<le> 0 then Inr ''Unknown OpenCL Type''
      else let signed_prefix = (if is_integer t \<and> \<not> is_signed t then ''u'' else '''')
           in bind_res (opencl_type_string t) (\<lambda>type_prefix.
                Inr (signed_prefix @ type_prefix
                     @ (if number_of_components t = 1 then ''''
                        else show_int (number_of_components t)))))"

text \<open>\<open>str(e)\<close> of an enumeration member never raises: every member has a printable value.\<close>

definition opencl_str :: "opencl_types \<Rightarrow> string" where
  "opencl_str e = (case opencl_type_str (opencl_value e) of Inr s \<Rightarrow> s | Inl _ \<Rightarrow> [])"

definition asm_str :: "asm_types \<Rightarrow> string" where
  "asm_str e = (case asm_type_str (asm_value e) of Inr s \<Rightarrow> s | Inl _ \<Rightarrow> [])"

section \<open>Parsing\<close>

text \<open>\<open>ASMTypes.from_string\<close> returns at the first match.\<close>

definition asm_from_string :: "string \<Rightarrow> asm_types" where
  "asm_from_string s = (case find (\<lambda>e. asm_str e = s) asm_members of Some e \<Rightarrow> e | None \<Rightarrow> AUnknown)"

definition from_asm_type :: "asm_types \<Rightarrow> opencl_types" where
  "from_asm_type a =
     (case find (\<lambda>t. opencl_value t = asm_value a) opencl_members of Some t \<Rightarrow> t | None \<Rightarrow> OUnknown)"

text \<open>The loop of \<open>OpenCLTypes.from_string\<close> has no \<open>break\<close>: the last matching member wins.\<close>

fun last_match :: "('a \<Rightarrow> bool) \<Rightarrow> 'a list \<Rightarrow> 'a \<Rightarrow> 'a" where
  "last_match p [] d = d"
| "last_match p (x # xs) d = last_match p xs (if p x then x else d)"

definition opencl_from_string :: "string \<Rightarrow> opencl_types res" where
  "opencl_from_string hint0 =
     bind_res (assert_res (\<not> startswith hint0 ''g'')) (\<lambda>_.
     bind_res (assert_res (\<not> startswith hint0 ''__global '')) (\<lambda>_.
       let hint = (if hint0 \<in> {''b16'', ''b32'', ''b64''} then ''u'' @ drop 1 hint0 else hint0);
           opencl_type = last_match (\<lambda>e. opencl_str e = hint) opencl_members OUnknown
       in if opencl_type = OUnknown
          then (let asm_type = asm_from_string hint
                in Inr (if asm_type \<noteq> AUnknown then from_asm_type asm_type else opencl_type))
          else Inr opencl_type))"

section \<open>Changing a type\<close>

definition set_number_of_components :: "opencl_types \<Rightarrow> int \<Rightarrow> opencl_types res" where
  "set_number_of_components e n =
     bind_res (opencl_type_str ((opencl_value e)\<lparr>number_of_components := n\<rparr>)) opencl_from_string"

definition set_is_integer :: "opencl_types \<Rightarrow> bool \<Rightarrow> opencl_types res" where
  "set_is_integer e b =
     bind_res (opencl_type_str ((opencl_value e)\<lparr>is_integer := b\<rparr>)) opencl_from_string"

text \<open>\<open>get_common_type\<close> of \<open>expression_node.py\<close>.\<close>

definition reparse :: "base_type \<Rightarrow> opencl_types res" where
  "reparse t = bind_res (opencl_type_str t) opencl_from_string"

definition common_int_float :: "base_type \<Rightarrow> base_type \<Rightarrow> opencl_types res" where
  "common_int_float int_type float_type =
     (if get_size int_type = get_size float_type then reparse float_type
      else reparse (float_type\<lparr>
             number_of_components := max (number_of_components float_type) (number_of_components int_type),
             size_bytes := max (size_bytes float_type) (size_bytes int_type)\<rparr>))"

definition common_mixed_sign :: "base_type \<Rightarrow> base_type \<Rightarrow> opencl_types res" where
  "common_mixed_sign signed0 unsigned0 =
     (let n = max (number_of_components signed0) (number_of_components unsigned0);
          signed_type = signed0\<lparr>number_of_components := n\<rparr>;
          unsigned_type = unsigned0\<lparr>number_of_components := n\<rparr>
      in if size_bytes unsigned_type \<ge> size_bytes signed_type then reparse unsigned_type
         else let max_signed_value = (2::int) ^ nat (size_bytes signed_type * 8) - 1;
                  max_unsigned_value = (2::int) ^ nat (size_bytes unsigned_type * 8) - 1
              in if max_signed_value \<ge> max_unsigned_value then reparse signed_type
                 else reparse (signed_type\<lparr>is_signed := False\<rparr>))"

definition get_common_type :: "opencl_types \<Rightarrow> opencl_types \<Rightarrow> opencl_types res" where
  "get_common_type first second =
     (if first = second then Inr first
      else if first = OUnknown then Inr second
      else if second = OUnknown then Inr first
      else
        let first_type = opencl_value first; second_type = opencl_value second
        in if is_integer first_type \<noteq> is_integer second_type
           then (let int_type = (if is_integer first_type then first_type else second_type);
                     float_type = (if is_integer first_type then second_type else first_type)
                 in common_int_float int_type float_type)
           else if is_signed first_type = is_signed second_type
           then reparse (first_type\<lparr>
                  number_of_components := max (number_of_components first_type) (number_of_components second_type),
                  size_bytes := max (size_bytes first_type) (size_bytes second_type)\<rparr>)
           else (let signed_type = (if is_signed first_type then first_type else second_type);
                     unsigned_type = (if is_signed first_type then second_type else first_type)
                 in common_mixed_sign signed_type unsigned_type))"

section \<open>Closed form of the common type\<close>

text \<open>
  Reference definitions that do not go through strings: the scalar kind with a given size, sign and
  domain, the wider of two vector widths, and the common type of two known types.
\<close>

definition scalar_of :: "int \<Rightarrow> bool \<Rightarrow> bool \<Rightarrow> scalar" where
  "scalar_of n sg i =
     (if i then
        (if n = 1 then (if sg then CHAR_T else UCHAR_T)
         else if n = 2 then (if sg then SHORT_T else USHORT_T)
         else if n = 4 then (if sg then INT_T else UINT_T)
         else (if sg then LONG_T else ULONG_T))
      else if n = 2 then HALF_T else if n = 4 then FLOAT_T else DOUBLE_T)"

definition wmax :: "width \<Rightarrow> width \<Rightarrow> width" where
  "wmax v w = (if width_components v \<le> width_components w then w else v)"

fun total_size :: "opencl_types \<Rightarrow> int" where
  "total_size OUnknown = 0"
| "total_size (OType s w) = scalar_size s * width_components w"

definition wider :: "scalar \<Rightarrow> scalar \<Rightarrow> bool \<Rightarrow> bool \<Rightarrow> width \<Rightarrow> width \<Rightarrow> opencl_types" where
  "wider s s' sg i w w' = OType (scalar_of (max (scalar_size s) (scalar_size s')) sg i) (wmax w w')"

fun common_ref :: "opencl_types \<Rightarrow> opencl_types \<Rightarrow> opencl_types" where
  "common_ref OUnknown t = t"
| "common_ref t OUnknown = t"
| "common_ref (OType s w) (OType s' w') =
     (if scalar_integer s \<and> \<not> scalar_integer s'
      then (if total_size (OType s w) = total_size (OType s' w') then OType s' w'
            else wider s s' True False w w')
      else if \<not> scalar_integer s \<and> scalar_integer s'
      then (if total_size (OType s w) = total_size (OType s' w') then OType s w
            else wider s s' True False w w')
      else if scalar_signed s = scalar_signed s'
      then wider s s' (scalar_signed s) (scalar_integer s) w w'
      else wider s s'
             (if scalar_signed s then scalar_size s > scalar_size s' else scalar_size s' > scalar_size s)
             True w w')"

lemma opencl_members_complete: "e \<in> set opencl_members"
  by (cases e rule: opencl_types.exhaust; simp add: opencl_members_def base_scalars_def)
     (rename_tac s w, case_tac s; case_tac w; simp)

lemma opencl_roundtrip_members:
  "map (\<lambda>e. opencl_from_string (opencl_str e)) opencl_members = map Inr opencl_members"
  by code_simp

lemma opencl_str_value: "opencl_type_str (opencl_value e) = Inr (opencl_str e)"
proof -
  have "list_all (\<lambda>e. opencl_type_str (opencl_value e) = Inr (opencl_str e)) opencl_members"
    by code_simp
  with opencl_members_complete [of e] show ?thesis by (simp add: list_all_iff)
qed

lemma opencl_from_string_str: "opencl_from_string (opencl_str e) = Inr e"
  using opencl_roundtrip_members opencl_members_complete [of e] by (auto simp: map_eq_conv)

lemma reparse_opencl_value: "reparse (opencl_value e) = Inr e"
  by (simp add: reparse_def opencl_str_value opencl_from_string_str)

lemma reparse_type_value: "reparse (type_value s w) = Inr (OType s w)"
  using reparse_opencl_value [of "OType s w"] by simp

lemma scalar_of_self: "scalar_of (scalar_size s) (scalar_signed s) (scalar_integer s) = s"
  by (cases s) (simp_all add: scalar_of_def)

lemma max_width_components:
  "max (width_components v) (width_components w) = width_components (wmax v w)"
  by (simp add: wmax_def)

lemma wmax_commute: "wmax v w = wmax w v"
  by (cases v; cases w) (simp_all add: wmax_def)

lemma scalar_size_cases: "scalar_size s \<in> {1, 2, 4, 8}"
  by (cases s) simp_all

lemma float_size_cases: "\<not> scalar_integer s \<Longrightarrow> scalar_size s \<in> {2, 4, 8} \<and> scalar_signed s"
  by (cases s) simp_all

lemma mk_base_type_integer:
  "n \<in> {1, 2, 4, 8} \<Longrightarrow>
     mk_base_type n sg True (width_components w) = type_value (scalar_of n sg True) w"
  by (cases sg) (auto simp: type_value_def scalar_of_def)

lemma mk_base_type_float:
  "n \<in> {2, 4, 8} \<Longrightarrow>
     mk_base_type n True False (width_components w) = type_value (scalar_of n True False) w"
  by (auto simp: type_value_def scalar_of_def)

lemma record_mk:
  "(mk_base_type n s i c)\<lparr>number_of_components := c', size_bytes := n'\<rparr> = mk_base_type n' s i c'"
  "(mk_base_type n s i c)\<lparr>number_of_components := c'\<rparr> = mk_base_type n s i c'"
  "(mk_base_type n s i c)\<lparr>size_bytes := n'\<rparr> = mk_base_type n' s i c"
  "(mk_base_type n s i c)\<lparr>is_signed := s'\<rparr> = mk_base_type n s' i c"
  by (simp_all add: mk_base_type_def)

lemma max_size_integer: "max (scalar_size s) (scalar_size s') \<in> {1, 2, 4, 8}"
  by (cases s; cases s') simp_all

lemma max_size_float:
  "\<not> scalar_integer s \<or> \<not> scalar_integer s' \<Longrightarrow> max (scalar_size s) (scalar_size s') \<in> {2, 4, 8}"
  by (cases s; cases s') simp_all

lemma reparse_widen_integer:
  "reparse (mk_base_type (max (scalar_size s) (scalar_size s')) sg True (width_components w))
     = Inr (OType (scalar_of (max (scalar_size s) (scalar_size s')) sg True) w)"
  by (simp only: mk_base_type_integer [OF max_size_integer] reparse_type_value)

lemma reparse_widen_float:
  "\<not> scalar_integer s \<or> \<not> scalar_integer s' \<Longrightarrow>
   reparse (mk_base_type (max (scalar_size s) (scalar_size s')) True False (width_components w))
     = Inr (OType (scalar_of (max (scalar_size s) (scalar_size s')) True False) w)"
  by (simp only: mk_base_type_float [OF max_size_float] reparse_type_value)

end
