(* ===== verification/Common_Type.thy ===== *)
theory Common_Type
  imports Value_Types
begin

text \<open>
  Correctness of the value types: \<open>get_common_type\<close> agrees with its string-free reference
  \<open>common_ref\<close> and hence is total, commutative and idempotent with the unknown type as unit, never
  loses bytes and keeps floating point; names of types and their parsers round-trip.  The contract a
  client of the operation relies on is the locale \<open>common_type\<close>; it is interpreted here on the code's
  function and, in the theory of expression nodes, on the type hints built on top of it.
\<close>

section \<open>The contract of a common-type operation\<close>

locale common_type =
  fixes join :: "'t \<Rightarrow> 't \<Rightarrow> 't res"
    and unit :: 't
  assumes join_total: "\<exists>c. join a b = Inr c"
    and join_commute: "join a b = join b a"
    and join_unit: "join unit a = Inr a"
    and join_idem: "join a a = Inr a"
begin

fun join_list :: "'t \<Rightarrow> 't list \<Rightarrow> 't res" where
  "join_list acc [] = Inr acc"
| "join_list acc (t # ts) = bind_res (join acc t) (\<lambda>c. join_list c ts)"

lemma join_unit_right: "join a unit = Inr a"
  using join_commute [of a unit] join_unit [of a] by simp

lemma join_list_total: "\<exists>c. join_list acc ts = Inr c"
proof (induction ts arbitrary: acc)
  case Nil
  show ?case by simp
next
  case (Cons t ts)
  obtain c where "join acc t = Inr c" using join_total by blast
  with Cons show ?case by simp
qed

lemma join_list_units: "set ts \<subseteq> {unit} \<Longrightarrow> join_list acc ts = Inr acc"
  by (induction ts) (auto simp: join_unit_right)

lemma join_list_same: "set ts \<subseteq> {acc} \<Longrightarrow> join_list acc ts = Inr acc"
  by (induction ts) (auto simp: join_idem)

lemma join_list_unit: "join_list unit (t # ts) = join_list t ts"
  by (simp add: join_unit)

end

section \<open>Agreement with the reference\<close>

lemma common_int_float_ref:
  assumes "scalar_integer s" "\<not> scalar_integer s'"
  shows "common_int_float (type_value s w) (type_value s' w') =
     Inr (if total_size (OType s w) = total_size (OType s' w') then OType s' w'
          else wider s s' True False w w')"
proof -
  have size: "get_size (type_value s v) = total_size (OType s v)" for s v
    by (simp add: get_size_def type_value_def)
  have sg: "scalar_signed s'" using float_size_cases [OF assms(2)] by simp
  have upd: "(type_value s' w')\<lparr>
      number_of_components := max (number_of_components (type_value s' w')) (number_of_components (type_value s w)),
      size_bytes := max (size_bytes (type_value s' w')) (size_bytes (type_value s w))\<rparr>
      = mk_base_type (max (scalar_size s) (scalar_size s')) True False (width_components (wmax w w'))"
    by (simp add: type_value_def record_mk sg assms max.commute max_width_components [symmetric])
  have eq: "get_size (type_value s w) = get_size (type_value s' w')
      \<longleftrightarrow> total_size (OType s w) = total_size (OType s' w')"
    by (simp add: size)
  show ?thesis
    unfolding common_int_float_def upd eq wider_def
    using assms by (simp add: reparse_type_value reparse_widen_float)
qed

lemma scalar_of_max_left:
  "scalar_size s' \<le> scalar_size s \<Longrightarrow>
   scalar_of (max (scalar_size s) (scalar_size s')) (scalar_signed s) (scalar_integer s) = s"
  by (simp add: max_absorb1 scalar_of_self)

lemma common_mixed_sign_ref:
  assumes "scalar_integer s" "scalar_integer s'" "scalar_signed s" "\<not> scalar_signed s'"
  shows "common_mixed_sign (type_value s w) (type_value s' w') =
     Inr (wider s s' (scalar_size s > scalar_size s') True w w')"
proof (cases "scalar_size s' \<ge> scalar_size s")
  case True
  then show ?thesis
    using assms reparse_widen_integer [of s s' False "wmax w w'"]
    by (simp add: common_mixed_sign_def type_value_def record_mk Let_def max_width_components
        max_absorb2 wider_def)
next
  case False
  have pow: "(2::int) ^ nat (scalar_size s * 8) - 1 \<ge> 2 ^ nat (scalar_size s' * 8) - 1"
    using False by (intro diff_right_mono power_increasing) auto
  show ?thesis
    using assms False pow reparse_widen_integer [of s s' True "wmax w w'"]
    by (simp add: common_mixed_sign_def type_value_def record_mk Let_def max_width_components
        max_absorb1 wider_def)
qed

lemma wider_same:
  "wider s s (scalar_signed s) (scalar_integer s) w w = OType s w"
  by (simp add: wider_def scalar_of_self wmax_def)

lemma wider_commute: "wider s s' sg i w w' = wider s' s sg i w' w"
  by (simp add: wider_def max.commute wmax_commute)

lemma common_same_sign_ref:
  assumes "scalar_integer s = scalar_integer s'" "scalar_signed s = scalar_signed s'"
  shows "reparse ((type_value s w)\<lparr>
           number_of_components := max (width_components w) (width_components w'),
           size_bytes := max (scalar_size s) (scalar_size s')\<rparr>)
         = Inr (wider s s' (scalar_signed s) (scalar_integer s) w w')"
proof (cases "scalar_integer s")
  case True
  then show ?thesis
    by (simp add: type_value_def record_mk max_width_components reparse_widen_integer wider_def)
next
  case False
  then have "scalar_signed s" using float_size_cases by blast
  with False show ?thesis
    by (simp add: type_value_def record_mk max_width_components reparse_widen_float wider_def)
qed

lemma type_value_sel:
  "is_integer (type_value s w) = scalar_integer s"
  "is_signed (type_value s w) = scalar_signed s"
  "size_bytes (type_value s w) = scalar_size s"
  "number_of_components (type_value s w) = width_components w"
  by (simp_all add: type_value_def)

lemma get_common_type_OType:
  "OType s w \<noteq> OType s' w' \<Longrightarrow>
   get_common_type (OType s w) (OType s' w') =
     (if scalar_integer s \<noteq> scalar_integer s'
      then (if scalar_integer s then common_int_float (type_value s w) (type_value s' w')
            else common_int_float (type_value s' w') (type_value s w))
      else if scalar_signed s = scalar_signed s'
      then reparse ((type_value s w)\<lparr>
             number_of_components := max (width_components w) (width_components w'),
             size_bytes := max (scalar_size s) (scalar_size s')\<rparr>)
      else if scalar_signed s then common_mixed_sign (type_value s w) (type_value s' w')
      else common_mixed_sign (type_value s' w') (type_value s w))"
  by (simp add: get_common_type_def Let_def type_value_sel del: opencl_types.inject)

lemma common_ref_mixed_domain:
  "scalar_integer s \<noteq> scalar_integer s' \<Longrightarrow>
   common_ref (OType s w) (OType s' w') =
     (if total_size (OType s w) = total_size (OType s' w')
      then (if scalar_integer s then OType s' w' else OType s w)
      else wider s s' True False w w')"
  by simp

lemma common_ref_same_domain:
  "scalar_integer s = scalar_integer s' \<Longrightarrow>
   common_ref (OType s w) (OType s' w') =
     (if scalar_signed s = scalar_signed s'
      then wider s s' (scalar_signed s) (scalar_integer s) w w'
      else wider s s' (if scalar_signed s then scalar_size s > scalar_size s'
                       else scalar_size s' > scalar_size s) True w w')"
  by simp

lemma common_ref_correct:
  assumes ne: "OType s w \<noteq> OType s' w'"
  shows "get_common_type (OType s w) (OType s' w') = Inr (common_ref (OType s w) (OType s' w'))"
proof (cases "scalar_integer s = scalar_integer s'")
  case int: True
  show ?thesis
  proof (cases "scalar_signed s = scalar_signed s'")
    case True
    then show ?thesis
      unfolding get_common_type_OType [OF ne] common_ref_same_domain [OF int]
      using int common_same_sign_ref [OF int True, of w w'] by simp
  next
    case False
    then have i: "scalar_integer s" "scalar_integer s'"
      using int float_size_cases [of s] float_size_cases [of s'] by auto
    show ?thesis
      unfolding get_common_type_OType [OF ne] common_ref_same_domain [OF int]
      using False i common_mixed_sign_ref [OF i, of w w'] common_mixed_sign_ref [OF i(2,1), of w' w]
      by (cases "scalar_signed s") (simp_all add: wider_commute [of s' s])
  qed
next
  case False
  show ?thesis
    unfolding get_common_type_OType [OF ne] common_ref_mixed_domain [OF False]
    using False common_int_float_ref [of s s' w w'] common_int_float_ref [of s' s w' w]
    by (cases "scalar_integer s") (simp_all add: wider_commute [of s' s])
qed

lemma get_common_type_closed: "get_common_type a b = Inr (common_ref a b)"
proof (cases "a = b")
  case True
  then show ?thesis by (cases b) (simp_all add: get_common_type_def wider_same)
next
  case False
  then show ?thesis
    using common_ref_correct by (cases a; cases b) (simp_all add: get_common_type_def)
qed

text \<open>
  C9: \<open>get_common_type\<close>, which the code computes by building a type object, printing it and
  searching the enumeration for the printed name, equals the string-free reference \<open>common_ref\<close>:
  it never raises, and its result is the wider scalar kind (float wins over integer, unsigned wins at
  equal size, signed wins when strictly larger) with the larger number of components; an integer and a
  float of the same total size give the float type itself.
\<close>

theorem get_common_type_ref: "get_common_type a b = Inr (common_ref a b)"
  by (rule get_common_type_closed)

section \<open>Laws of the common type\<close>

lemma common_ref_unknown_right [simp]: "common_ref a OUnknown = a"
  by (cases a) simp_all

lemma common_ref_commute: "common_ref a b = common_ref b a"
  by (cases a; cases b) (auto simp: wider_commute scalar_of_self wmax_def wider_def max.commute)

lemma common_ref_idem: "common_ref a a = a"
  by (cases a) (simp_all add: wider_same)

interpretation oclt: common_type get_common_type OUnknown
  by unfold_locales (simp_all add: get_common_type_closed common_ref_idem common_ref_commute)

text \<open>
  The common type of a list of operand types, taken in any order of combination the code uses
  (left fold from a first operand), always exists; operands of unknown type do not influence it, and
  operands that all have one type give that type.
\<close>

lemma common_type_fold_laws:
  "(\<exists>c. oclt.join_list t ts = Inr c)
   \<and> oclt.join_list t (replicate n OUnknown) = Inr t
   \<and> oclt.join_list t (replicate n t) = Inr t
   \<and> oclt.join_list OUnknown (t # ts) = oclt.join_list t ts
   \<and> get_common_type a b = get_common_type b a"
  by (simp add: oclt.join_list_total oclt.join_list_units oclt.join_list_same oclt.join_list_unit
      set_replicate_conv_if get_common_type_closed common_ref_commute del: oclt.join_list.simps)

definition kind_integer :: "opencl_types \<Rightarrow> bool" where
  "kind_integer t = is_integer (opencl_value t)"

lemma get_size_opencl: "get_size (opencl_value t) = total_size t"
  by (cases t) (simp_all add: get_size_def type_value_def unknown_value_def)

lemma scalar_size_scalar_of_integer:
  "scalar_size (scalar_of (max (scalar_size s) (scalar_size s')) sg True)
     = max (scalar_size s) (scalar_size s')"
  by (cases s; cases s'; cases sg) (simp_all add: scalar_of_def)

lemma scalar_size_scalar_of_float:
  "\<not> scalar_integer s \<or> \<not> scalar_integer s' \<Longrightarrow>
   scalar_size (scalar_of (max (scalar_size s) (scalar_size s')) True False)
     = max (scalar_size s) (scalar_size s')"
  by (cases s; cases s') (simp_all add: scalar_of_def)

lemma max_product_bound:
  fixes a b c d :: int
  assumes "0 \<le> a" "0 \<le> b" "0 \<le> c" "0 \<le> d"
  shows "a * c \<le> max a b * max c d" "b * d \<le> max a b * max c d"
  using assms by (auto intro!: mult_mono)

lemma scalar_size_nonneg [simp]: "0 \<le> scalar_size s" by (cases s) simp_all
lemma width_components_nonneg [simp]: "0 \<le> width_components w" by (cases w) simp_all

lemma wider_total_size:
  "i \<or> (\<not> scalar_integer s \<or> \<not> scalar_integer s') \<and> sg \<Longrightarrow>
   total_size (wider s s' sg i w w')
     = max (scalar_size s) (scalar_size s') * max (width_components w) (width_components w')"
  by (cases i) (auto simp: wider_def scalar_size_scalar_of_integer scalar_size_scalar_of_float
      max_width_components)

lemma common_ref_total_size: "max (total_size a) (total_size b) \<le> total_size (common_ref a b)"
proof (cases a; cases b)
  fix s w s' w'
  assume ab: "a = OType s w" "b = OType s' w'"
  note bound = max_product_bound [of "scalar_size s" "scalar_size s'" "width_components w" "width_components w'"]
  show ?thesis
  proof (cases "scalar_integer s = scalar_integer s'")
    case int: True
    have "\<not> scalar_integer s \<Longrightarrow> scalar_signed s \<and> scalar_signed s'"
      using int float_size_cases by blast
    then have "total_size (common_ref a b)
        = max (scalar_size s) (scalar_size s') * max (width_components w) (width_components w')"
      unfolding ab common_ref_same_domain [OF int] using int
      by (auto simp: wider_total_size simp del: total_size.simps)
    then show ?thesis using bound ab by simp
  next
    case False
    then show ?thesis
      unfolding ab common_ref_mixed_domain [OF False] using bound
      by (auto simp: wider_total_size simp del: total_size.simps) simp_all
  qed
qed (simp_all add: total_size.simps)

lemma kind_integer_OType: "kind_integer (OType s w) = scalar_integer s"
  by (simp add: kind_integer_def type_value_sel)

lemma scalar_integer_scalar_of: "scalar_integer (scalar_of n sg i) = i"
  by (simp add: scalar_of_def)

lemma common_ref_kind:
  "a \<noteq> OUnknown \<Longrightarrow> b \<noteq> OUnknown \<Longrightarrow>
   kind_integer (common_ref a b) \<longleftrightarrow> kind_integer a \<and> kind_integer b"
  using float_size_cases
  by (cases a; cases b)
     (auto simp: kind_integer_OType wider_def scalar_integer_scalar_of)

text \<open>
  The common type can hold both operands: its size in bytes is at least that of either operand
  (also for vectors and for the unknown type, whose size is 0), and when both operands are known the
  result is an integer type exactly if both operands are.
\<close>

lemma get_common_type_widens:
  "\<exists>c. get_common_type a b = Inr c
     \<and> get_size (opencl_value a) \<le> get_size (opencl_value c)
     \<and> get_size (opencl_value b) \<le> get_size (opencl_value c)
     \<and> (a = OUnknown \<or> b = OUnknown
         \<or> kind_integer c = (kind_integer a \<and> kind_integer b))"
  using common_ref_total_size [of a b] common_ref_kind [of a b]
  by (auto simp: get_common_type_closed get_size_opencl)

section \<open>Names round-trip\<close>

definition asm_name_ok :: "asm_types \<Rightarrow> bool" where
  "asm_name_ok a \<longleftrightarrow>
     opencl_from_string (asm_str a) = Inr (from_asm_type a)
     \<and> opencl_value (from_asm_type a) = asm_value a"

lemma asm_names_ok_scalars: "list_all asm_name_ok (take 12 asm_members)"
  by code_simp

lemma asm_names_ok_vectors: "list_all asm_name_ok (drop 12 asm_members)"
  by code_simp

text \<open>
  C10: parsing the printed name of an OpenCL type gives the type back, for every member of the
  enumeration; and the assembly spelling of a type (\<open>i32\<close>, \<open>u642\<close>, \<open>f64\<close>, \dots) parses, through
  \<open>ASMTypes\<close>, to the OpenCL type with the same value.
\<close>

theorem type_names_roundtrip:
  "opencl_from_string (opencl_str e) = Inr e \<and> list_all asm_name_ok asm_members"
proof -
  have "list_all asm_name_ok (take 12 asm_members @ drop 12 asm_members)"
    using asm_names_ok_scalars asm_names_ok_vectors by (simp only: list_all_append)
  then show ?thesis by (simp add: opencl_from_string_str)
qed

end
