(* ===== verification/Register_Types.thy ===== *)
theory Register_Types
  imports Prelude
begin

text \<open>
  \<open>RegisterType\<close>, \<open>RegisterSignType\<close> and the table \<open>CONSTANT_VALUES\<close> of
  \<open>src/src/register_type.py\<close>, and the string-level type tables of \<open>src/src/opencl_types.py\<close>.  The
  members of \<open>RegisterType\<close> that the source writes once per dimension (\<open>GLOBAL_ID_X\<close>,
  \<open>GLOBAL_ID_Y\<close>, \<open>GLOBAL_ID_Z\<close>, which the code also builds as \<open>RegisterType[f"GLOBAL_ID_{dim}"]\<close>)
  are one constructor applied to the dimension.
\<close>

section \<open>RegisterType\<close>

datatype dim = DX | DY | DZ

definition dims :: "dim list" where
  "dims = [DX, DY, DZ]"

fun dim_index :: "dim \<Rightarrow> nat" where
  "dim_index DX = 0"
| "dim_index DY = 1"
| "dim_index DZ = 2"

datatype register_type =
    UNKNOWN
  | EMPTY
  | GLOBAL_ID dim
  | WORK_GROUP_ID dim
  | WORK_ITEM_ID dim
  | GLOBAL_OFFSET dim
  | GLOBAL_DATA_POINTER
  | LOCAL_DATA_POINTER
  | ARGUMENTS_POINTER
  | DISPATCH_POINTER
  | WORK_GROUP_ID_LOCAL_SIZE dim
  | WORK_GROUP_ID_LOCAL_SIZE_OFFSET dim
  | WORK_GROUP_ID_WORK_ITEM_ID dim
  | KERNEL_ARGUMENT_ELEMENT
  | ADDRESS_KERNEL_ARGUMENT_ELEMENT
  | LOCAL_SIZE dim
  | GLOBAL_SIZE dim
  | NUM_GROUPS dim
  | KERNEL_ARGUMENT_VALUE
  | KERNEL_ARGUMENT_PTR
  | ADDRESS_KERNEL_ARGUMENT
  | PROGRAM_PARAM
  | INT32
  | WORK_DIM
  | GENERAL_SETUP
  | DIVISION_RECIPROCAL
  | DIVISION_PT2 | DIVISION_PT3 | DIVISION_PT4 | DIVISION_PT5 | DIVISION_PT6
  | DIVISION_PT7 | DIVISION_PT8 | DIVISION_PT9 | DIVISION_PT10
  | DIVISION_PASS

datatype register_sign = POSITIVE | NEGATIVE

text \<open>\<open>RegisterSignType.__invert__\<close>; the third branch of the source (\<open>ValueError\<close>) is unreachable
  because the enumeration has no other value.\<close>

fun invert_sign :: "register_sign \<Rightarrow> register_sign" where
  "invert_sign POSITIVE = NEGATIVE"
| "invert_sign NEGATIVE = POSITIVE"

lemma invert_sign_involutive [simp]: "invert_sign (invert_sign s) = s"
  by (cases s) simp_all

lemma invert_sign_eq [simp]: "invert_sign s \<noteq> s" "s \<noteq> invert_sign s"
  by (cases s; simp)+

section \<open>CONSTANT_VALUES\<close>

text \<open>A row of the table: the printed call, its size in bits, its data type and its sign.\<close>

record constant_value =
  cv_text :: string
  cv_bits :: int
  cv_data_type :: string
  cv_sign :: register_sign

definition call_dim :: "string \<Rightarrow> dim \<Rightarrow> string" where
  "call_dim f d = f @ ''('' @ show_nat (dim_index d) @ '')''"

definition u32_row :: "string \<Rightarrow> constant_value" where
  "u32_row s = \<lparr>cv_text = s, cv_bits = 32, cv_data_type = ''u32'', cv_sign = POSITIVE\<rparr>"

definition constant_values :: "register_type \<rightharpoonup> constant_value" where
  "constant_values t = (case t of
     WORK_DIM \<Rightarrow> Some (u32_row ''get_work_dim()'')
   | GLOBAL_SIZE d \<Rightarrow> Some (u32_row (call_dim ''get_global_size'' d))
   | GLOBAL_ID d \<Rightarrow> Some (u32_row (call_dim ''get_global_id'' d))
   | LOCAL_SIZE d \<Rightarrow> Some (u32_row (call_dim ''get_local_size'' d))
   | WORK_ITEM_ID d \<Rightarrow> Some (u32_row (call_dim ''get_local_id'' d))
   | NUM_GROUPS d \<Rightarrow> Some (u32_row (call_dim ''get_num_groups'' d))
   | WORK_GROUP_ID d \<Rightarrow> Some (u32_row (call_dim ''get_group_id'' d))
   | GLOBAL_OFFSET d \<Rightarrow> Some (u32_row (call_dim ''get_global_offset'' d))
   | _ \<Rightarrow> None)"

text \<open>The keys of the dictionary in the order the source writes them.\<close>

definition constant_keys :: "register_type list" where
  "constant_keys = WORK_DIM # map GLOBAL_SIZE dims @ map GLOBAL_ID dims @ map LOCAL_SIZE dims
     @ map WORK_ITEM_ID dims @ map NUM_GROUPS dims @ map WORK_GROUP_ID dims @ map GLOBAL_OFFSET dims"

lemma constant_values_dom: "constant_values t \<noteq> None \<longleftrightarrow> t \<in> set constant_keys"
proof -
  have "d \<in> set dims" for d by (cases d) (simp_all add: dims_def)
  then show ?thesis
    by (cases t) (auto simp: constant_values_def constant_keys_def)
qed

lemma constant_values_u32: "constant_values t = Some r \<Longrightarrow> r = u32_row (cv_text r)"
  by (cases t) (auto simp: constant_values_def u32_row_def)

section \<open>String-level type tables\<close>

definition vector_types :: "string list" where
  "vector_types =
     [''char2'', ''char4'', ''char8'', ''uchar2'', ''uchar4'', ''uchar8'',
      ''short2'', ''short4'', ''short8'', ''ushort2'', ''ushort4'', ''ushort8'',
      ''int2'', ''int4'', ''int8'', ''uint2'', ''uint4'', ''uint8'',
      ''long2'', ''long4'', ''long8'', ''ulong2'', ''ulong4'', ''ulong8'',
      ''float2'', ''float4'', ''float8'', ''half2'', ''half4'', ''half8'']"

definition vector_type_dict :: "(string \<times> string) list" where
  "vector_type_dict = map (\<lambda>v. (v, v)) vector_types"

definition asm_to_opencl_scalar_dict :: "(string \<times> string) list" where
  "asm_to_opencl_scalar_dict =
     [(''u32'', ''uint''), (''gu32'', ''__global uint''), (''i32'', ''int''), (''gi32'', ''__global int''),
      (''u64'', ''ulong''), (''gu64'', ''__global ulong''), (''i64'', ''long''), (''gi64'', ''__global long''),
      (''f32'', ''float''), (''gf32'', ''__global float''), (''f64'', ''double''), (''gf64'', ''__global double''),
      (''b32'', ''uint''), (''b64'', ''ulong''), (''dword'', ''int''), (''dwordx2'', ''long''),
      (''char'', ''char''), (''short'', ''short'')]"

text \<open>\<open>{**a, **b}.get(k, d)\<close>: the second dictionary overrides the first.\<close>

definition get_merged :: "(string \<times> string) list \<Rightarrow> (string \<times> string) list \<Rightarrow> string \<Rightarrow> string \<Rightarrow> string" where
  "get_merged a b d k =
     (case map_of b k of Some v \<Rightarrow> v | None \<Rightarrow> (case map_of a k of Some v \<Rightarrow> v | None \<Rightarrow> d))"

definition make_opencl_type :: "string \<Rightarrow> string" where
  "make_opencl_type t = get_merged asm_to_opencl_scalar_dict vector_type_dict ''unknown type'' t"

definition opencl_to_asm_dict :: "(string \<times> string) list" where
  "opencl_to_asm_dict =
     [(''uint'', ''u32''), (''__global uint'', ''gu32''), (''int'', ''i32''), (''__global int'', ''gi32''),
      (''ulong'', ''u64''), (''__global ulong'', ''gu64''), (''long'', ''i64''), (''__global long'', ''gi64''),
      (''float'', ''f32''), (''__global float'', ''gf32''), (''double'', ''f64''), (''__global double'', ''gf64''),
      (''__global int2'', ''int2''), (''__global uint2'', ''uint2''), (''__global int4'', ''int4''),
      (''__global uint4'', ''uint4''), (''__global int8'', ''int8''), (''__global uint8'', ''uint8''),
      (''__global float4'', ''float4''), (''char'', ''char''), (''__global char'', ''char''),
      (''__global char2'', ''char2''), (''__global char4'', ''char4''), (''short'', ''short''),
      (''__global short'', ''short'')]"

definition make_asm_type :: "string \<Rightarrow> string" where
  "make_asm_type t = get_merged opencl_to_asm_dict vector_type_dict ''unknown type'' t"

text \<open>\<open>evaluate_size\<close>: size in bytes and priority.  The source compares with \<open>"f32:"\<close> and
  \<open>"f64:"\<close> (with a colon) inside branches that exclude those strings.\<close>

definition evaluate_size :: "string \<Rightarrow> bool \<Rightarrow> (int \<times> int) res" where
  "evaluate_size t only_size =
     (if t \<in> {''gu32'', ''u32'', ''gi32'', ''i32'', ''gf32'', ''f32'', ''b32'', ''dword''}
      then Inr (if t = ''f32:'' then (4, 1) else (4, 0))
      else if t \<in> {''gu64'', ''u64'', ''gi64'', ''i64'', ''f64'', ''gf64'', ''uint2'', ''int2'', ''b64'', ''dword2''}
      then Inr (if t = ''f64:'' then (8, 1) else (8, 0))
      else if t \<in> {''uint4'', ''int4'', ''float4''} then Inr (16, 0)
      else if t \<in> {''uint8'', ''int8''} then Inr (32, 0)
      else if t = ''char'' then Inr (1, 1)
      else if t \<in> {''short'', ''char2''} then Inr (2, 1)
      else if t = ''char4'' then Inr (4, 1)
      else if only_size
      then (if contains t ''bytes''
            then (case int_base10 (take 1 t) of Some n \<Rightarrow> Inr (n, 1) | None \<Rightarrow> Inl ValueError)
            else Inr (1, 1))
      else Inr (-1, -1))"

text \<open>\<open>most_common_type\<close>, used when two registers form a pair.\<close>

definition most_common_type :: "string \<Rightarrow> string \<Rightarrow> string res" where
  "most_common_type fst_t snd_t =
     bind_res (evaluate_size fst_t False) (\<lambda>fi.
     bind_res (evaluate_size snd_t False) (\<lambda>si.
       Inr (if fst fi \<ge> fst si
            then (if fst fi = fst si then (if snd fi > snd si then fst_t else snd_t) else fst_t)
            else snd_t)))"

definition asm_size :: "string \<Rightarrow> int" where
  "asm_size t = (case evaluate_size t False of Inr (n, _) \<Rightarrow> n | Inl _ \<Rightarrow> 0)"

lemma evaluate_size_total: "\<exists>n p. evaluate_size t False = Inr (n, p)"
  by (simp add: evaluate_size_def)

lemma evaluate_size_range:
  "evaluate_size t False = Inr (n, p) \<Longrightarrow> n \<in> {-1, 1, 2, 4, 8, 16, 32} \<and> p \<in> {-1, 0, 1}"
  by (simp add: evaluate_size_def split: if_splits)

lemma asm_size_range: "asm_size t \<in> {-1, 1, 2, 4, 8, 16, 32}"
  using evaluate_size_total [of t] evaluate_size_range [of t] by (auto simp: asm_size_def)

lemma asm_size_of: "evaluate_size t False = Inr (n, p) \<Longrightarrow> asm_size t = n"
  by (simp add: asm_size_def)

text \<open>
  \<open>most_common_type\<close> never raises, returns one of its two arguments, and returns the larger one:
  its size is the maximum of the two sizes; on a tie the first argument wins only when its priority is
  strictly higher.
\<close>

lemma most_common_type_max:
  "\<exists>r. most_common_type a b = Inr r \<and> r \<in> {a, b} \<and> asm_size r = max (asm_size a) (asm_size b)"
proof -
  obtain n p m q where ev: "evaluate_size a False = Inr (n, p)" "evaluate_size b False = Inr (m, q)"
    using evaluate_size_total by metis
  then have "asm_size a = n" "asm_size b = m" by (simp_all add: asm_size_of)
  with ev show ?thesis by (auto simp: most_common_type_def)
qed

text \<open>
  A float register never wins the tie against an integer register of the same width: the priority
  test of \<open>evaluate_size\<close> compares with the misspelled names \<open>f32:\<close> and \<open>f64:\<close>, so every 4-byte
  and 8-byte numeric type has priority 0 and the common type of a pair depends on the operand order.
\<close>

lemma float_priority_is_dead:
  "evaluate_size ''f32'' False = Inr (4, 0) \<and> evaluate_size ''f64'' False = Inr (8, 0)
   \<and> most_common_type ''f32'' ''i32'' = Inr ''i32'' \<and> most_common_type ''i32'' ''f32'' = Inr ''f32''
   \<and> most_common_type ''f64'' ''u64'' = Inr ''u64''"
  by (simp add: evaluate_size_def most_common_type_def)

definition scalar_names :: "string list" where
  "scalar_names = [''uint'', ''__global uint'', ''int'', ''__global int'', ''ulong'', ''__global ulong'',
     ''long'', ''__global long'', ''float'', ''__global float'', ''double'', ''__global double'',
     ''char'', ''short''] @ vector_types"

text \<open>
  The OpenCL spelling of a scalar type (with or without \<open>__global\<close>, except the narrow global
  types) and of every vector type survives the translation to the assembly spelling and back.
\<close>

lemma type_tables_roundtrip:
  "list_all (\<lambda>t. make_opencl_type (make_asm_type t) = t) scalar_names"
  by code_simp

end
