(* ===== verification/Expr_Node.thy ===== *)
theory Expr_Node
  imports Common_Type Register_Types Complex_Main
begin

text \<open>
  Expression nodes (\<open>src/src/expression_manager/expression_node.py\<close>): operations, type hints,
  nodes, the two equalities of the code (\<open>__eq__\<close>, which compares identities, and
  \<open>contents_equal\<close>, which does not), \<open>needs_cast\<close>, \<open>cast_to\<close> and \<open>replace\<close>.

  The class \<open>ExpressionNode\<close> is a tagged union on its attribute \<open>type\<close>; each tag is a constructor,
  with the identity, the type hint and the fact whether \<open>parent\<close> is set in \<open>node_info\<close>.  An
  \<open>OP\<close> node whose value is \<open>NOT\<close> and that has no right child is the constructor \<open>NNot\<close>; the
  condition of an \<open>IF_TERNARY\<close> node, which the code keeps in \<open>value\<close>, is its first subtree.  A
  node is a value here: \<open>copy.deepcopy\<close> is the identity (it copies the identifier, too), and an
  assignment to an attribute of a node is seen through the tree that is returned, not through other
  references to the same object.  A Python float is a rational number: rounding is not modelled.
\<close>

section \<open>Operations\<close>

datatype expr_op =
    O_UNKNOWN | O_PLUS | O_MINUS | O_MUL | O_DIV | O_REM | O_LSHIFT | O_RSHIFT
  | O_EQ | O_NE | O_LT | O_LE | O_GT | O_GE | O_LG
  | O_NOT | O_AND | O_OR | O_XOR | O_BITWISE_AND | O_BITWISE_OR | O_MIN

fun op_value :: "expr_op \<Rightarrow> string" where
  "op_value O_UNKNOWN = ''UNKNOWN''"
| "op_value O_PLUS = ''+''"
| "op_value O_MINUS = ''-''"
| "op_value O_MUL = ''*''"
| "op_value O_DIV = ''/''"
| "op_value O_REM = ''%''"
| "op_value O_LSHIFT = ''<<''"
| "op_value O_RSHIFT = ''>>''"
| "op_value O_EQ = ''==''"
| "op_value O_NE = ''!=''"
| "op_value O_LT = ''<''"
| "op_value O_LE = ''<=''"
| "op_value O_GT = ''>''"
| "op_value O_GE = ''>=''"
| "op_value O_LG = ''<>''"
| "op_value O_NOT = ''!''"
| "op_value O_AND = ''&&''"
| "op_value O_OR = ''||''"
| "op_value O_XOR = ''^''"
| "op_value O_BITWISE_AND = ''&''"
| "op_value O_BITWISE_OR = ''|''"
| "op_value O_MIN = ''min''"

definition all_ops :: "expr_op list" where
  "all_ops = [O_UNKNOWN, O_PLUS, O_MINUS, O_MUL, O_DIV, O_REM, O_LSHIFT, O_RSHIFT, O_EQ, O_NE, O_LT,
     O_LE, O_GT, O_GE, O_LG, O_NOT, O_AND, O_OR, O_XOR, O_BITWISE_AND, O_BITWISE_OR, O_MIN]"

definition op_from_string :: "string \<Rightarrow> expr_op" where
  "op_from_string s = (case find (\<lambda>x. op_value x = s) all_ops of Some x \<Rightarrow> x | None \<Rightarrow> O_UNKNOWN)"

definition is_compare_operator :: "expr_op \<Rightarrow> bool" where
  "is_compare_operator x = (x \<in> {O_EQ, O_NE, O_LT, O_LE, O_GT, O_GE, O_LG})"

definition is_logical_operator :: "expr_op \<Rightarrow> bool" where
  "is_logical_operator x = (x \<in> {O_NOT, O_AND, O_OR, O_XOR})"

definition is_bitshift_operator :: "expr_op \<Rightarrow> bool" where
  "is_bitshift_operator x = (x \<in> {O_LSHIFT, O_RSHIFT})"

definition is_bitwise_operator :: "expr_op \<Rightarrow> bool" where
  "is_bitwise_operator x = (x \<in> {O_BITWISE_AND, O_BITWISE_OR})"

text \<open>\<open>get_inverted_operation\<close>: the dictionary has no entry for \<open>LG\<close> (nor for the logical and
  bitwise operations), and a missing entry gives \<open>UNKNOWN\<close>.\<close>

fun get_inverted_operation :: "expr_op \<Rightarrow> expr_op" where
  "get_inverted_operation O_PLUS = O_MINUS"
| "get_inverted_operation O_MINUS = O_PLUS"
| "get_inverted_operation O_MUL = O_DIV"
| "get_inverted_operation O_DIV = O_MUL"
| "get_inverted_operation O_LSHIFT = O_RSHIFT"
| "get_inverted_operation O_RSHIFT = O_LSHIFT"
| "get_inverted_operation O_EQ = O_NE"
| "get_inverted_operation O_NE = O_EQ"
| "get_inverted_operation O_LT = O_GE"
| "get_inverted_operation O_GE = O_LT"
| "get_inverted_operation O_LE = O_GT"
| "get_inverted_operation O_GT = O_LE"
| "get_inverted_operation _ = O_UNKNOWN"

definition are_operations_inverted :: "expr_op \<Rightarrow> expr_op \<Rightarrow> bool" where
  "are_operations_inverted x y =
     (let first_inverted = get_inverted_operation x
      in if first_inverted \<noteq> O_UNKNOWN then first_inverted = y else False)"

section \<open>Type hints\<close>

datatype qualifier = Q_UNKNOWN | Q_GLOBAL | Q_LOCAL | Q_CONST | Q_PRIVATE

fun qualifier_value :: "qualifier \<Rightarrow> string" where
  "qualifier_value Q_UNKNOWN = ''''"
| "qualifier_value Q_GLOBAL = ''__global''"
| "qualifier_value Q_LOCAL = ''__local''"
| "qualifier_value Q_CONST = ''__constant''"
| "qualifier_value Q_PRIVATE = ''__private''"

record type_hint =
  opencl_type :: opencl_types
  qualifier :: qualifier
  is_const :: bool
  is_pointer :: bool
  is_address :: bool

definition mk_hint :: "opencl_types \<Rightarrow> type_hint" where
  "mk_hint t = \<lparr>opencl_type = t, qualifier = Q_UNKNOWN, is_const = False, is_pointer = False,
     is_address = False\<rparr>"

abbreviation empty_hint :: type_hint where
  "empty_hint \<equiv> mk_hint OUnknown"

text \<open>\<open>ExpressionValueTypeHint.__str__\<close> and \<open>to_string_arr\<close>.\<close>

definition hint_str :: "type_hint \<Rightarrow> string" where
  "hint_str h =
     (if qualifier h \<noteq> Q_UNKNOWN then qualifier_value (qualifier h) @ '' '' else '''')
     @ (if is_const h then ''const '' else '''')
     @ opencl_str (opencl_type h)
     @ (if is_pointer h then '' *'' else '''')"

definition hint_str_arr :: "type_hint \<Rightarrow> string" where
  "hint_str_arr h = (if is_pointer h then take (length (hint_str h) - 2) (hint_str h) else hint_str h)"

text \<open>\<open>ExpressionValueTypeHint.get_common_type\<close>.\<close>

definition hint_common :: "type_hint \<Rightarrow> type_hint \<Rightarrow> type_hint res" where
  "hint_common f s =
     bind_res (get_common_type (opencl_type f) (opencl_type s)) (\<lambda>t.
       Inr \<lparr>opencl_type = t,
            qualifier = (if qualifier f = qualifier s then qualifier f else Q_UNKNOWN),
            is_const = (is_const f \<and> is_const s),
            is_pointer = (is_pointer f \<and> is_pointer s),
            is_address = (is_address f \<and> is_address s)\<rparr>)"

text \<open>\<open>ExpressionValueTypeHint.from_string\<close> on a string: a leading \<open>g\<close> marks the global address space
  and is dropped before the type name is parsed.\<close>

definition hint_from_string :: "string \<Rightarrow> type_hint res" where
  "hint_from_string s0 =
     (let g = startswith s0 ''g'';
          s1 = (if g then removeprefix s0 ''g'' else s0);
          gg = startswith s1 ''__global '';
          s2 = (if gg then removeprefix s1 ''__global '' else s1)
      in bind_res (opencl_from_string s2) (\<lambda>t.
           Inr ((mk_hint t)\<lparr>qualifier := (if g \<or> gg then Q_GLOBAL else Q_UNKNOWN)\<rparr>)))"

definition hint_size_bytes :: "type_hint \<Rightarrow> int" where
  "hint_size_bytes h = get_size (opencl_value (opencl_type h))"

definition hint_components :: "type_hint \<Rightarrow> int" where
  "hint_components h = number_of_components (opencl_value (opencl_type h))"

definition hint_set_components :: "type_hint \<Rightarrow> int \<Rightarrow> type_hint res" where
  "hint_set_components h n =
     bind_res (set_number_of_components (opencl_type h) n) (\<lambda>t. Inr (h\<lparr>opencl_type := t\<rparr>))"

definition hint_set_is_integer :: "type_hint \<Rightarrow> bool \<Rightarrow> type_hint res" where
  "hint_set_is_integer h b =
     bind_res (set_is_integer (opencl_type h) b) (\<lambda>t. Inr (h\<lparr>opencl_type := t\<rparr>))"

definition hint_set_is_const :: "type_hint \<Rightarrow> bool \<Rightarrow> type_hint" where
  "hint_set_is_const h b = h\<lparr>is_const := b\<rparr>"

definition hint_is_vector :: "type_hint \<Rightarrow> bool" where
  "hint_is_vector h = (hint_components h > 1)"

definition hint_is_integer :: "type_hint \<Rightarrow> bool" where
  "hint_is_integer h = is_integer (opencl_value (opencl_type h))"

definition hint_is_signed :: "type_hint \<Rightarrow> bool" where
  "hint_is_signed h = is_signed (opencl_value (opencl_type h))"

definition hint_is_unknown :: "type_hint \<Rightarrow> bool" where
  "hint_is_unknown h = (opencl_type h = OUnknown)"

section \<open>Nodes\<close>

datatype const_value = CInt int | CFloat rat | CStr string

record node_info =
  nid :: nat
  hint :: type_hint
  parented :: bool

datatype expr_node =
    NUnknown node_info
  | NOp node_info expr_op expr_node expr_node
  | NNot node_info expr_node
  | NConst node_info const_value
  | NWif node_info register_type
  | NVar node_info string
  | NPermute node_info expr_node expr_node
  | NTernary node_info expr_node expr_node expr_node

fun info :: "expr_node \<Rightarrow> node_info" where
  "info (NUnknown i) = i"
| "info (NOp i x l r) = i"
| "info (NNot i c) = i"
| "info (NConst i v) = i"
| "info (NWif i t) = i"
| "info (NVar i s) = i"
| "info (NPermute i l r) = i"
| "info (NTernary i c l r) = i"

fun set_info :: "node_info \<Rightarrow> expr_node \<Rightarrow> expr_node" where
  "set_info j (NUnknown i) = NUnknown j"
| "set_info j (NOp i x l r) = NOp j x l r"
| "set_info j (NNot i c) = NNot j c"
| "set_info j (NConst i v) = NConst j v"
| "set_info j (NWif i t) = NWif j t"
| "set_info j (NVar i s) = NVar j s"
| "set_info j (NPermute i l r) = NPermute j l r"
| "set_info j (NTernary i c l r) = NTernary j c l r"

abbreviation node_hint :: "expr_node \<Rightarrow> type_hint" where
  "node_hint n \<equiv> hint (info n)"

definition set_hint :: "type_hint \<Rightarrow> expr_node \<Rightarrow> expr_node" where
  "set_hint h n = set_info ((info n)\<lparr>hint := h\<rparr>) n"

definition set_parented :: "bool \<Rightarrow> expr_node \<Rightarrow> expr_node" where
  "set_parented b n = set_info ((info n)\<lparr>parented := b\<rparr>) n"

text \<open>Tests on the attribute \<open>type\<close>.\<close>

fun is_const_node :: "expr_node \<Rightarrow> bool" where
  "is_const_node (NConst i v) = True"
| "is_const_node _ = False"

fun is_var_node :: "expr_node \<Rightarrow> bool" where
  "is_var_node (NVar i s) = True"
| "is_var_node _ = False"

fun is_op_node :: "expr_node \<Rightarrow> bool" where
  "is_op_node (NOp i x l r) = True"
| "is_op_node (NNot i c) = True"
| "is_op_node _ = False"

fun is_unknown_node :: "expr_node \<Rightarrow> bool" where
  "is_unknown_node (NUnknown i) = True"
| "is_unknown_node _ = False"

text \<open>Python's \<open>==\<close> on the values a constant may have: an integer equals the float of the same value.\<close>

fun const_eq :: "const_value \<Rightarrow> const_value \<Rightarrow> bool" where
  "const_eq (CInt i) (CInt j) = (i = j)"
| "const_eq (CInt i) (CFloat q) = (of_int i = q)"
| "const_eq (CFloat q) (CInt i) = (q = of_int i)"
| "const_eq (CFloat p) (CFloat q) = (p = q)"
| "const_eq (CStr s) (CStr t) = (s = t)"
| "const_eq _ _ = False"

text \<open>\<open>__eq__\<close>: identity, children, type, value and type hint; \<open>parent\<close> is ignored.\<close>

fun node_eq :: "expr_node \<Rightarrow> expr_node \<Rightarrow> bool" where
  "node_eq (NUnknown i) m =
     (case m of NUnknown j \<Rightarrow> nid i = nid j \<and> hint i = hint j | _ \<Rightarrow> False)"
| "node_eq (NOp i x l r) m =
     (case m of NOp j y l' r' \<Rightarrow>
        nid i = nid j \<and> node_eq l l' \<and> node_eq r r' \<and> x = y \<and> hint i = hint j | _ \<Rightarrow> False)"
| "node_eq (NNot i c) m =
     (case m of NNot j c' \<Rightarrow> nid i = nid j \<and> node_eq c c' \<and> hint i = hint j | _ \<Rightarrow> False)"
| "node_eq (NConst i v) m =
     (case m of NConst j w \<Rightarrow> nid i = nid j \<and> const_eq v w \<and> hint i = hint j | _ \<Rightarrow> False)"
| "node_eq (NWif i t) m =
     (case m of NWif j u \<Rightarrow> nid i = nid j \<and> t = u \<and> hint i = hint j | _ \<Rightarrow> False)"
| "node_eq (NVar i s) m =
     (case m of NVar j t \<Rightarrow> nid i = nid j \<and> s = t \<and> hint i = hint j | _ \<Rightarrow> False)"
| "node_eq (NPermute i l r) m =
     (case m of NPermute j l' r' \<Rightarrow>
        nid i = nid j \<and> node_eq l l' \<and> node_eq r r' \<and> hint i = hint j | _ \<Rightarrow> False)"
| "node_eq (NTernary i c l r) m =
     (case m of NTernary j c' l' r' \<Rightarrow>
        nid i = nid j \<and> node_eq l l' \<and> node_eq r r' \<and> node_eq c c' \<and> hint i = hint j | _ \<Rightarrow> False)"

text \<open>\<open>contents_equal\<close> on a node that is not \<open>None\<close>: children, type, value and hint.  The condition of a
  ternary is its \<open>value\<close> and is therefore compared with \<open>__eq__\<close>.\<close>

fun contents_equal :: "expr_node \<Rightarrow> expr_node \<Rightarrow> bool" where
  "contents_equal (NUnknown i) m = (case m of NUnknown j \<Rightarrow> hint i = hint j | _ \<Rightarrow> False)"
| "contents_equal (NOp i x l r) m =
     (case m of NOp j y l' r' \<Rightarrow>
        contents_equal l l' \<and> contents_equal r r' \<and> x = y \<and> hint i = hint j | _ \<Rightarrow> False)"
| "contents_equal (NNot i c) m =
     (case m of NNot j c' \<Rightarrow> contents_equal c c' \<and> hint i = hint j | _ \<Rightarrow> False)"
| "contents_equal (NConst i v) m =
     (case m of NConst j w \<Rightarrow> const_eq v w \<and> hint i = hint j | _ \<Rightarrow> False)"
| "contents_equal (NWif i t) m = (case m of NWif j u \<Rightarrow> t = u \<and> hint i = hint j | _ \<Rightarrow> False)"
| "contents_equal (NVar i s) m = (case m of NVar j t \<Rightarrow> s = t \<and> hint i = hint j | _ \<Rightarrow> False)"
| "contents_equal (NPermute i l r) m =
     (case m of NPermute j l' r' \<Rightarrow>
        contents_equal l l' \<and> contents_equal r r' \<and> hint i = hint j | _ \<Rightarrow> False)"
| "contents_equal (NTernary i c l r) m =
     (case m of NTernary j c' l' r' \<Rightarrow>
        contents_equal l l' \<and> contents_equal r r' \<and> node_eq c c' \<and> hint i = hint j | _ \<Rightarrow> False)"

section \<open>Casts\<close>

text \<open>\<open>re.fullmatch(r"0x[\da-f]+", s)\<close>.\<close>

definition is_hex_literal :: "string \<Rightarrow> bool" where
  "is_hex_literal s = (startswith s ''0x'' \<and> drop 2 s \<noteq> [] \<and> list_all (\<lambda>c. c \<in> set hex_digits) (drop 2 s))"

text \<open>The part of \<open>value\<close> that \<open>needs_cast\<close> looks at: a number, or a string.\<close>

fun number_value :: "expr_node \<Rightarrow> rat option" where
  "number_value (NConst i (CInt n)) = Some (of_int n)"
| "number_value (NConst i (CFloat q)) = Some q"
| "number_value _ = None"

fun string_value :: "expr_node \<Rightarrow> string option" where
  "string_value (NConst i (CStr s)) = Some s"
| "string_value (NVar i s) = Some s"
| "string_value _ = None"

definition value_is_hex :: "expr_node \<Rightarrow> bool" where
  "value_is_hex n = (case string_value n of Some s \<Rightarrow> is_hex_literal s | None \<Rightarrow> False)"

definition value_is_nonneg_int :: "expr_node \<Rightarrow> bool" where
  "value_is_nonneg_int n = (case n of NConst i (CInt k) \<Rightarrow> k \<ge> 0 | _ \<Rightarrow> False)"

text \<open>A comparison of \<open>value\<close> with a number raises \<open>TypeError\<close> unless the value is a number.\<close>

definition compare_value :: "expr_node \<Rightarrow> (rat \<Rightarrow> bool) \<Rightarrow> bool res" where
  "compare_value n p = (case number_value n of Some q \<Rightarrow> Inr (p q) | None \<Rightarrow> Inl TypeError)"

text \<open>\<open>self.value != int(self.value)\<close> for a constant.\<close>

fun const_not_integral :: "expr_node \<Rightarrow> bool res" where
  "const_not_integral (NConst i (CInt n)) = Inr False"
| "const_not_integral (NConst i (CFloat q)) = Inr (of_int \<lfloor>q\<rfloor> \<noteq> q)"
| "const_not_integral (NConst i (CStr s)) =
     (case int_base10 s of Some k \<Rightarrow> Inr True | None \<Rightarrow> Inl ValueError)"
| "const_not_integral _ = Inl TypeError"

definition needs_cast :: "expr_node \<Rightarrow> type_hint \<Rightarrow> bool res" where
  "needs_cast n to_hint =
    (let from_hint = node_hint n in
     if hint_is_unknown from_hint then Inr (\<not> hint_is_unknown to_hint)
     else if hint_is_unknown to_hint then Inr False
     else if from_hint = to_hint then Inr False
     else if hint_components from_hint \<noteq> hint_components to_hint then Inr True
     else if hint_components from_hint > 1 \<and> opencl_type from_hint \<noteq> opencl_type to_hint then Inr True
     else
      let is_to_type_smaller = hint_size_bytes from_hint > hint_size_bytes to_hint in
      if \<not> hint_is_integer from_hint \<and> \<not> hint_is_integer to_hint then Inr is_to_type_smaller
      else if hint_is_integer from_hint \<and> hint_is_integer to_hint
      then (if hint_is_signed from_hint = hint_is_signed to_hint
            then (let range_max = (2::rat) ^ nat (hint_size_bytes to_hint * 8);
                      to_hint_min = (if hint_is_signed to_hint then - range_max / 2 else 0);
                      to_hint_max = (if hint_is_signed to_hint then range_max / 2 - 1 else range_max)
                  in if is_to_type_smaller
                     then compare_value n (\<lambda>v. \<not> (v \<ge> to_hint_min \<and> v \<le> to_hint_max))
                     else Inr False)
            else if value_is_hex n then Inr False
            else Inr (\<not> value_is_nonneg_int n))
      else if is_const_node n
      then (if hint_is_integer from_hint
            then (if value_is_hex n then Inr False else Inr is_to_type_smaller)
            else if hint_is_signed to_hint
            then bind_res (const_not_integral n) (\<lambda>b. Inr (b \<or> is_to_type_smaller))
            else bind_res (compare_value n (\<lambda>v. v < 0)) (\<lambda>b. Inr (b \<or> is_to_type_smaller)))
      else Inr is_to_type_smaller)"

text \<open>\<open>ExpressionNode.cast_to\<close> works on a deep copy.\<close>

definition cast_to :: "expr_node \<Rightarrow> opencl_types \<Rightarrow> expr_node" where
  "cast_to n t = set_hint ((node_hint n)\<lparr>opencl_type := t\<rparr>) n"

section \<open>Substitution of nodes\<close>

text \<open>\<open>ExpressionNode.replace\<close>: permutations are not entered; a replacement takes over the parent of the
  node it replaces.\<close>

fun replace :: "expr_node \<Rightarrow> expr_node \<Rightarrow> expr_node \<Rightarrow> expr_node" where
  "replace from_node to_node n =
    (if contents_equal n to_node then n
     else if contents_equal n from_node then set_parented (parented (info n)) to_node
     else case n of
       NOp i x l r \<Rightarrow> NOp i x (replace from_node to_node l) (replace from_node to_node r)
     | NNot i c \<Rightarrow> NNot i (replace from_node to_node c)
     | NTernary i c l r \<Rightarrow>
         NTernary i (replace from_node to_node c) (replace from_node to_node l) (replace from_node to_node r)
     | _ \<Rightarrow> n)"

declare replace.simps [simp del]

end
