(* ===== verification/Expr_Build.thy ===== *)
theory Expr_Build
  imports Expr_Node
begin

unbundle bit_operations_syntax

text \<open>
  The node constructors, constant evaluation and constant typing of
  \<open>src/src/expression_manager/expression_helper_functions.py\<close>.  Python takes a fresh \<open>uuid4\<close> for every
  node; here the identity is an argument, drawn by the manager from a counter.
\<close>

section \<open>Node constructors\<close>

definition mk_info :: "nat \<Rightarrow> type_hint \<Rightarrow> node_info" where
  "mk_info i h = \<lparr>nid = i, hint = h, parented = False\<rparr>"

definition create_const_node :: "nat \<Rightarrow> const_value \<Rightarrow> type_hint \<Rightarrow> expr_node" where
  "create_const_node i v h = NConst (mk_info i h) v"

definition create_var_node :: "nat \<Rightarrow> string \<Rightarrow> type_hint \<Rightarrow> expr_node" where
  "create_var_node i s h = NVar (mk_info i h) s"

definition create_work_item_function_node :: "nat \<Rightarrow> register_type \<Rightarrow> expr_node res" where
  "create_work_item_function_node i t =
     (case constant_values t of
        None \<Rightarrow> Inl KeyError
      | Some row \<Rightarrow>
          let uint_size_bits = get_size (opencl_value (OType UINT_T W1)) * 8
          in Inr (NWif (mk_info i (mk_hint (if cv_bits row = uint_size_bits
                                            then OType UINT_T W1 else OType ULONG_T W1))) t))"

definition create_op_node :: "nat \<Rightarrow> expr_op \<Rightarrow> expr_node \<Rightarrow> expr_node \<Rightarrow> type_hint \<Rightarrow> expr_node" where
  "create_op_node i x l r h = NOp (mk_info i h) x (set_parented True l) (set_parented True r)"

definition create_if_ternary_node :: "nat \<Rightarrow> expr_node \<Rightarrow> expr_node \<Rightarrow> expr_node \<Rightarrow> expr_node res" where
  "create_if_ternary_node i c s0 s1 =
     bind_res (hint_common (node_hint s0) (node_hint s1)) (\<lambda>h.
       Inr (NTernary (mk_info i h) c (set_parented True s0) (set_parented True s1)))"

definition create_permute_node :: "nat \<Rightarrow> expr_node \<Rightarrow> expr_node \<Rightarrow> expr_node res" where
  "create_permute_node i s0 s1 =
     bind_res (hint_common (node_hint s0) (node_hint s1)) (\<lambda>h.
     bind_res (hint_set_components h (hint_components (node_hint s0) + hint_components (node_hint s1))) (\<lambda>h'.
       Inr (NPermute (mk_info i h') (set_parented True s0) (set_parented True s1))))"

definition create_logical_not_node :: "nat \<Rightarrow> expr_node \<Rightarrow> expr_node" where
  "create_logical_not_node i n = NNot (mk_info i (node_hint n)) (set_parented True n)"

section \<open>Constant evaluation\<close>

text \<open>A Python number: its value and whether it is an \<open>int\<close> (else a \<open>float\<close>).\<close>

type_synonym py_num = "rat \<times> bool"

fun to_num :: "const_value \<Rightarrow> py_num res" where
  "to_num (CInt n) = Inr (of_int n, True)"
| "to_num (CFloat q) = Inr (q, False)"
| "to_num (CStr s) = bind_res (int_base16 s) (\<lambda>n. Inr (of_int n, True))"

definition int_op :: "py_num \<Rightarrow> py_num \<Rightarrow> (int \<Rightarrow> int \<Rightarrow> int res) \<Rightarrow> rat res" where
  "int_op a b f =
     (if snd a \<and> snd b then bind_res (f \<lfloor>fst a\<rfloor> \<lfloor>fst b\<rfloor>) (\<lambda>n. Inr (of_int n)) else Inl TypeError)"

definition shift_op :: "(nat \<Rightarrow> int \<Rightarrow> int) \<Rightarrow> int \<Rightarrow> int \<Rightarrow> int res" where
  "shift_op f a b = (if b < 0 then Inl ValueError else Inr (f (nat b) a))"

fun raw_op :: "expr_op \<Rightarrow> py_num \<Rightarrow> py_num \<Rightarrow> rat res" where
  "raw_op O_PLUS a b = Inr (fst a + fst b)"
| "raw_op O_MINUS a b = Inr (fst a - fst b)"
| "raw_op O_MUL a b = Inr (fst a * fst b)"
| "raw_op O_DIV a b = (if fst b = 0 then Inl ZeroDivisionError else Inr (fst a / fst b))"
| "raw_op O_REM a b =
     (if fst b = 0 then Inl ZeroDivisionError else Inr (fst a - fst b * of_int \<lfloor>fst a / fst b\<rfloor>))"
| "raw_op O_LSHIFT a b = int_op a b (shift_op push_bit)"
| "raw_op O_RSHIFT a b = int_op a b (shift_op drop_bit)"
| "raw_op O_EQ a b = Inr (of_bool (fst a = fst b))"
| "raw_op O_NE a b = Inr (of_bool (fst a \<noteq> fst b))"
| "raw_op O_LT a b = Inr (of_bool (fst a < fst b))"
| "raw_op O_LE a b = Inr (of_bool (fst a \<le> fst b))"
| "raw_op O_GT a b = Inr (of_bool (fst a > fst b))"
| "raw_op O_GE a b = Inr (of_bool (fst a \<ge> fst b))"
| "raw_op O_LG a b = Inr (of_bool (fst a > fst b \<or> fst a < fst b))"
| "raw_op O_NOT a b = Inr (of_bool (fst a = 0))"
| "raw_op O_AND a b = Inr (if fst a = 0 then fst a else fst b)"
| "raw_op O_OR a b = Inr (if fst a = 0 then fst b else fst a)"
| "raw_op O_XOR a b = int_op a b (\<lambda>m n. Inr (m XOR n))"
| "raw_op O_BITWISE_AND a b = int_op a b (\<lambda>m n. Inr (m AND n))"
| "raw_op O_BITWISE_OR a b = int_op a b (\<lambda>m n. Inr (m OR n))"
| "raw_op O_MIN a b = Inr (min (fst a) (fst b))"
| "raw_op O_UNKNOWN a b = Inl TypeError"

text \<open>\<open>if result == int(result): result = int(result)\<close>.\<close>

definition normalise_num :: "rat \<Rightarrow> const_value" where
  "normalise_num q = (if q = of_int \<lfloor>q\<rfloor> then CInt \<lfloor>q\<rfloor> else CFloat q)"

definition evaluate_operation :: "const_value \<Rightarrow> expr_op \<Rightarrow> const_value \<Rightarrow> const_value res" where
  "evaluate_operation left_value x right_value =
     bind_res (to_num left_value) (\<lambda>a.
     bind_res (to_num right_value) (\<lambda>b.
     bind_res (raw_op x a b) (\<lambda>q. Inr (normalise_num q))))"

section \<open>Names and kernel arguments\<close>

definition parse_variable_name :: "string \<Rightarrow> (string \<times> bool) res" where
  "parse_variable_name s =
     (case s of [] \<Rightarrow> Inl IndexError
      | c # cs \<Rightarrow> Inr (if c = CHR ''*'' then (cs, True) else (s, False)))"

definition strip_qualifier :: "string \<Rightarrow> string \<times> qualifier" where
  "strip_qualifier s =
     (if startswith s ''__global '' then (removeprefix s ''__global '', Q_GLOBAL)
      else if startswith s ''__local '' then (removeprefix s ''__local '', Q_LOCAL)
      else if startswith s ''__private '' then (removeprefix s ''__private '', Q_PRIVATE)
      else if startswith s ''__constant '' then (removeprefix s ''__constant '', Q_CONST)
      else (s, Q_UNKNOWN))"

definition get_kernel_argument_type_and_qualifiers :: "string \<Rightarrow> (opencl_types \<times> qualifier) res" where
  "get_kernel_argument_type_and_qualifiers type_name =
     (let (s, q) = strip_qualifier type_name
      in bind_res (opencl_from_string s) (\<lambda>t. Inr (t, q)))"

section \<open>The type of a constant\<close>

text \<open>\<open>re.fullmatch(r"[\d]+e[\d]+", s)\<close>.\<close>

definition is_exponent_literal :: "string \<Rightarrow> bool" where
  "is_exponent_literal s =
     (let m = takeWhile is_decimal s; r = dropWhile is_decimal s
      in m \<noteq> [] \<and> r \<noteq> [] \<and> hd r = CHR ''e'' \<and> tl r \<noteq> [] \<and> list_all is_decimal (tl r))"

definition find_char :: "char \<Rightarrow> string \<Rightarrow> int" where
  "find_char c s = (if c \<in> set s then int (length (takeWhile (\<lambda>d. d \<noteq> c) s)) else -1)"

text \<open>
  \<open>float(s)\<close> on a decimal numeral with optional sign, point and exponent.  The spellings of infinities
  and of \<open>nan\<close>, which \<open>float\<close> also accepts, have no rational value and are not modelled.
\<close>

definition pow10 :: "int \<Rightarrow> rat" where
  "pow10 e = (if e \<ge> 0 then 10 ^ nat e else 1 / 10 ^ nat (- e))"

definition py_float :: "string \<Rightarrow> rat option" where
  "py_float s =
     (let neg = startswith s ''-'';
          body = (if neg \<or> startswith s ''+'' then drop 1 s else s);
          ip = takeWhile is_decimal body; r1 = dropWhile is_decimal body;
          dot = startswith r1 ''.'';
          fp = (if dot then takeWhile is_decimal (tl r1) else []);
          r2 = (if dot then dropWhile is_decimal (tl r1) else r1);
          mant = of_nat (read_nat 0 (ip @ fp)) / 10 ^ length fp;
          val = (if r2 = [] then Some mant
                 else if hd r2 = CHR ''e'' \<or> hd r2 = CHR ''E''
                 then map_option (\<lambda>e. mant * pow10 e) (int_base10 (tl r2))
                 else None)
      in if ip = [] \<and> fp = [] then None
         else map_option (\<lambda>v. if neg then - v else v) val)"

definition get_sufficient_type_for_const ::
    "const_value \<Rightarrow> opencl_types \<Rightarrow> const_value \<times> type_hint" where
  "get_sufficient_type_for_const value opencl_type_hint =
     (let h = (mk_hint opencl_type_hint)\<lparr>is_const := True\<rparr>
      in case value of
           CStr s \<Rightarrow>
             (if is_exponent_literal s then (value, h\<lparr>opencl_type := OType DOUBLE_T W1\<rparr>)
              else case int_base10 s of
                Some n \<Rightarrow> (CInt n, h)
              | None \<Rightarrow>
                  (case py_float s of
                     Some q \<Rightarrow>
                       (let decimals_after_point = int (length s) - find_char (CHR ''.'') s
                        in (CFloat q, h\<lparr>opencl_type :=
                              (if decimals_after_point \<le> 7 then OType FLOAT_T W1 else OType DOUBLE_T W1)\<rparr>))
                   | None \<Rightarrow> (value, h)))
         | _ \<Rightarrow> (value, h))"

section \<open>Tests on constants\<close>

text \<open>\<open>expression_optimizations.py\<close>: the tests parse a string constant in base 16.\<close>

definition const_test :: "(rat \<Rightarrow> bool) \<Rightarrow> expr_node \<Rightarrow> bool res" where
  "const_test p n = (case n of NConst i v \<Rightarrow> bind_res (to_num v) (\<lambda>a. Inr (p (fst a))) | _ \<Rightarrow> Inr False)"

definition const_one_node :: "expr_node \<Rightarrow> bool res" where
  "const_one_node n = const_test (\<lambda>v. v = 1) n"

definition const_zero_node :: "expr_node \<Rightarrow> bool res" where
  "const_zero_node n = const_test (\<lambda>v. v = 0) n"

definition const_non_zero_node :: "expr_node \<Rightarrow> bool res" where
  "const_non_zero_node n =
     (if is_const_node n then bind_res (const_zero_node n) (\<lambda>b. Inr (\<not> b)) else Inr False)"

definition const_negative_node :: "expr_node \<Rightarrow> bool res" where
  "const_negative_node n =
     (if is_const_node n \<and> hint_is_signed (node_hint n) then const_test (\<lambda>v. v < 0) n else Inr False)"

text \<open>\<open>abs(node.value)\<close> on a deep copy; \<open>abs\<close> of a string raises.\<close>

fun abs_const :: "expr_node \<Rightarrow> expr_node res" where
  "abs_const (NConst i (CInt n)) = Inr (NConst i (CInt \<bar>n\<bar>))"
| "abs_const (NConst i (CFloat q)) = Inr (NConst i (CFloat \<bar>q\<bar>))"
| "abs_const _ = Inl TypeError"

end
