(* ===== verification/Expr_Semantics.thy ===== *)
theory Expr_Semantics
  imports Expr_Build
begin

unbundle bit_operations_syntax

text \<open>
  The abstract specification the expression manager is judged against: a denotation of expression
  nodes as exact numbers, given the values of the work-item functions and of the variables.  It says
  what an OpenCL expression means when no intermediate result overflows or is rounded; comparisons
  and logical operations give 0 or 1.  The environment is \<open>consistent\<close> when the work-item functions
  satisfy the identities of the OpenCL execution model.
\<close>

named_theorems eval_simps \<open>evaluation of nodes built by the constructors of the code\<close>

record env =
  wi :: "register_type \<Rightarrow> rat"
  var_val :: "string \<Rightarrow> rat"

section \<open>Operators\<close>

definition integral :: "rat \<Rightarrow> bool" where
  "integral q = (of_int \<lfloor>q\<rfloor> = q)"

definition on_ints :: "rat \<Rightarrow> rat \<Rightarrow> (int \<Rightarrow> int \<Rightarrow> int option) \<Rightarrow> rat option" where
  "on_ints a b f = (if integral a \<and> integral b then map_option of_int (f \<lfloor>a\<rfloor> \<lfloor>b\<rfloor>) else None)"

fun op_sem :: "expr_op \<Rightarrow> rat \<Rightarrow> rat \<Rightarrow> rat option" where
  "op_sem O_PLUS a b = Some (a + b)"
| "op_sem O_MINUS a b = Some (a - b)"
| "op_sem O_MUL a b = Some (a * b)"
| "op_sem O_DIV a b = (if b = 0 then None else Some (a / b))"
| "op_sem O_REM a b = (if b = 0 then None else Some (a - b * of_int \<lfloor>a / b\<rfloor>))"
| "op_sem O_LSHIFT a b = on_ints a b (\<lambda>m n. if n < 0 then None else Some (m * 2 ^ nat n))"
| "op_sem O_RSHIFT a b = on_ints a b (\<lambda>m n. if n < 0 then None else Some (m div 2 ^ nat n))"
| "op_sem O_EQ a b = Some (of_bool (a = b))"
| "op_sem O_NE a b = Some (of_bool (a \<noteq> b))"
| "op_sem O_LT a b = Some (of_bool (a < b))"
| "op_sem O_LE a b = Some (of_bool (a \<le> b))"
| "op_sem O_GT a b = Some (of_bool (a > b))"
| "op_sem O_GE a b = Some (of_bool (a \<ge> b))"
| "op_sem O_LG a b = Some (of_bool (a \<noteq> b))"
| "op_sem O_NOT a b = Some (of_bool (a = 0))"
| "op_sem O_AND a b = Some (of_bool (a \<noteq> 0 \<and> b \<noteq> 0))"
| "op_sem O_OR a b = Some (of_bool (a \<noteq> 0 \<or> b \<noteq> 0))"
| "op_sem O_XOR a b = on_ints a b (\<lambda>m n. Some (m XOR n))"
| "op_sem O_BITWISE_AND a b = on_ints a b (\<lambda>m n. Some (m AND n))"
| "op_sem O_BITWISE_OR a b = on_ints a b (\<lambda>m n. Some (m OR n))"
| "op_sem O_MIN a b = Some (min a b)"
| "op_sem O_UNKNOWN a b = None"

text \<open>A constant means what is written: an integer, a decimal, an exponent literal such as \<open>1e12\<close>, or
  a hexadecimal literal.\<close>

definition exponent_value :: "string \<Rightarrow> rat" where
  "exponent_value s =
     of_nat (read_nat 0 (takeWhile is_decimal s)) * 10 ^ read_nat 0 (tl (dropWhile is_decimal s))"

fun const_sem :: "const_value \<Rightarrow> rat option" where
  "const_sem (CInt n) = Some (of_int n)"
| "const_sem (CFloat q) = Some q"
| "const_sem (CStr s) =
     (if is_exponent_literal s then Some (exponent_value s)
      else case int_base16 s of Inr n \<Rightarrow> Some (of_int n) | Inl _ \<Rightarrow> None)"

definition opt2 :: "(rat \<Rightarrow> rat \<Rightarrow> rat option) \<Rightarrow> rat option \<Rightarrow> rat option \<Rightarrow> rat option" where
  "opt2 f a b = (case (a, b) of (Some x, Some y) \<Rightarrow> f x y | _ \<Rightarrow> None)"

lemma opt2_simps [simp]:
  "opt2 f (Some x) (Some y) = f x y" "opt2 f None b = None" "opt2 f a None = None"
  by (simp_all add: opt2_def split: option.splits)

lemma opt2_Some: "opt2 f a b = Some z \<longleftrightarrow> (\<exists>x y. a = Some x \<and> b = Some y \<and> f x y = Some z)"
  by (cases a; cases b) simp_all

definition cond_sem :: "rat option \<Rightarrow> rat option \<Rightarrow> rat option \<Rightarrow> rat option" where
  "cond_sem c a b = (case c of None \<Rightarrow> None | Some v \<Rightarrow> if v \<noteq> 0 then a else b)"

lemma cond_sem_simps [simp]:
  "cond_sem None a b = None" "cond_sem (Some v) a b = (if v \<noteq> 0 then a else b)"
  by (simp_all add: cond_sem_def)

fun eval :: "env \<Rightarrow> expr_node \<Rightarrow> rat option" where
  "eval e (NUnknown i) = None"
| "eval e (NOp i x l r) = opt2 (op_sem x) (eval e l) (eval e r)"
| "eval e (NNot i c) = map_option (\<lambda>v. of_bool (v = 0)) (eval e c)"
| "eval e (NConst i v) = const_sem v"
| "eval e (NWif i t) = Some (wi e t)"
| "eval e (NVar i s) = Some (var_val e s)"
| "eval e (NPermute i l r) = None"
| "eval e (NTernary i c l r) =
     cond_sem (eval e c) (eval e l) (eval e r)"

text \<open>The OpenCL execution model: the identities between the work-item functions, with the composite
  register types the decompiler names.  \<open>sizes\<close> is the required work-group size, when it is known.\<close>

definition consistent :: "int list \<Rightarrow> env \<Rightarrow> bool" where
  "consistent sizes e \<longleftrightarrow>
     (\<forall>d. wi e (WORK_GROUP_ID_LOCAL_SIZE d) = wi e (WORK_GROUP_ID d) * wi e (LOCAL_SIZE d)
        \<and> wi e (GLOBAL_ID d)
            = wi e (GLOBAL_OFFSET d) + wi e (WORK_GROUP_ID_LOCAL_SIZE d) + wi e (WORK_ITEM_ID d)
        \<and> wi e (GLOBAL_SIZE d) = wi e (NUM_GROUPS d) * wi e (LOCAL_SIZE d)
        \<and> (dim_index d < length sizes \<longrightarrow> wi e (LOCAL_SIZE d) = of_int (sizes ! dim_index d)))"

section \<open>Evaluation ignores identities, hints and parents\<close>

lemma eval_set_info [simp, eval_simps]: "eval e (set_info j n) = eval e n"
  by (cases n) simp_all

lemma eval_set_hint [simp, eval_simps]: "eval e (set_hint h n) = eval e n"
  by (simp add: set_hint_def)

lemma eval_set_parented [simp, eval_simps]: "eval e (set_parented b n) = eval e n"
  by (simp add: set_parented_def)

lemma eval_cast_to [simp, eval_simps]: "eval e (cast_to n t) = eval e n"
  by (simp add: cast_to_def)

lemma eval_create_op [simp, eval_simps]:
  "eval e (create_op_node i x l r h) = opt2 (op_sem x) (eval e l) (eval e r)"
  by (simp add: create_op_node_def)

lemma eval_create_const [simp, eval_simps]: "eval e (create_const_node i v h) = const_sem v"
  by (simp add: create_const_node_def)

lemma eval_create_not [simp, eval_simps]:
  "eval e (create_logical_not_node i n) = map_option (\<lambda>v. of_bool (v = 0)) (eval e n)"
  by (simp add: create_logical_not_node_def)

lemma eval_create_wif [simp, eval_simps]:
  "create_work_item_function_node i t = Inr n \<Longrightarrow> eval e n = Some (wi e t)"
  by (auto simp: create_work_item_function_node_def Let_def split: option.splits)

text \<open>Two constants that Python considers equal mean the same number.\<close>

lemma const_eq_sem: "const_eq v w \<Longrightarrow> const_sem v = const_sem w"
  by (cases v; cases w) auto

lemma node_eq_eval: "node_eq n m \<Longrightarrow> eval e n = eval e m"
proof (induction n arbitrary: m)
  case (NTernary i c l r)
  obtain j c' l' r' where m: "m = NTernary j c' l' r'" and eqs: "node_eq l l'" "node_eq r r'" "node_eq c c'"
    using NTernary.prems by (auto split: expr_node.splits)
  show ?case
    using NTernary.IH(1) [OF eqs(3)] NTernary.IH(2) [OF eqs(1)] NTernary.IH(3) [OF eqs(2)] by (simp add: m)
qed (fastforce split: expr_node.splits dest: const_eq_sem)+

lemma contents_equal_eval: "contents_equal n m \<Longrightarrow> eval e n = eval e m"
proof (induction n arbitrary: m)
  case (NTernary i c l r)
  obtain j c' l' r' where m: "m = NTernary j c' l' r'"
    and eqs: "contents_equal l l'" "contents_equal r r'" "node_eq c c'"
    using NTernary.prems by (auto split: expr_node.splits)
  show ?case
    using node_eq_eval [OF eqs(3), of e] NTernary.IH(2) [OF eqs(1)] NTernary.IH(3) [OF eqs(2)]
    by (simp add: m)
qed (fastforce split: expr_node.splits dest: const_eq_sem)+

lemma const_eq_refl [simp]: "const_eq v v"
  by (cases v) simp_all

lemma node_eq_refl [simp]: "node_eq n n"
  by (induction n) simp_all

lemma contents_equal_refl [simp]: "contents_equal n n"
  by (induction n) simp_all

lemma const_eq_trans: "const_eq u v \<Longrightarrow> const_eq v w \<Longrightarrow> const_eq u w"
  by (cases u; cases v; cases w) auto

lemma const_eq_sym: "const_eq u v \<Longrightarrow> const_eq v u"
  by (cases u; cases v) auto

lemma node_eq_sym: "node_eq n m \<Longrightarrow> node_eq m n"
  by (induction n m rule: node_eq.induct) (auto split: expr_node.splits dest: const_eq_sym)

lemma node_eq_contents: "node_eq n m \<Longrightarrow> contents_equal n m"
  by (induction n m rule: node_eq.induct) (auto split: expr_node.splits)

section \<open>Substitution\<close>

lemma replace_leaf:
  assumes "eval e from_node = eval e to_node"
    and "\<And>i x l r. n \<noteq> NOp i x l r" "\<And>i c. n \<noteq> NNot i c" "\<And>i c l r. n \<noteq> NTernary i c l r"
  shows "eval e (replace from_node to_node n) = eval e n"
  using assms contents_equal_eval [of n from_node e]
  by (subst replace.simps) (simp del: contents_equal.simps split: expr_node.split)

text \<open>
  C7: \<open>replace\<close> is value preserving: replacing every occurrence of a subexpression by a node that has
  the same value in an environment does not change the value of the whole expression there.
\<close>

theorem replace_preserves_value:
  "eval e from_node = eval e to_node \<Longrightarrow> eval e (replace from_node to_node n) = eval e n"
proof (induction n)
  case (NOp i x l r)
  then show ?case using contents_equal_eval [of "NOp i x l r" from_node e]
    by (subst replace.simps) (simp del: contents_equal.simps)
next
  case (NNot i c)
  then show ?case using contents_equal_eval [of "NNot i c" from_node e]
    by (subst replace.simps) (simp del: contents_equal.simps)
next
  case (NTernary i c l r)
  then show ?case using contents_equal_eval [of "NTernary i c l r" from_node e]
    by (subst replace.simps) (simp del: contents_equal.simps)
qed (simp_all add: replace_leaf)

theorem replace_preserves_value_witness:
  "eval \<lparr>wi = (\<lambda>_. 0), var_val = (\<lambda>_. 5)\<rparr>
     (replace (NVar (mk_info 1 empty_hint) ''var0'') (NConst (mk_info 2 empty_hint) (CInt 5))
        (NOp (mk_info 0 empty_hint) O_PLUS (NVar (mk_info 1 empty_hint) ''var0'')
           (NConst (mk_info 3 empty_hint) (CInt 2)))) = Some 7"
proof -
  have h: "eval \<lparr>wi = (\<lambda>_. 0), var_val = (\<lambda>_. 5)\<rparr> (NVar (mk_info 1 empty_hint) ''var0'')
     = eval \<lparr>wi = (\<lambda>_. 0), var_val = (\<lambda>_. 5)\<rparr> (NConst (mk_info 2 empty_hint) (CInt 5))" by simp
  show ?thesis using replace_preserves_value [OF h] by simp
qed

section \<open>Constant folding\<close>

text \<open>A constant that is not an exponent literal is read by the folding code as what it means.\<close>

definition plain_const :: "const_value \<Rightarrow> bool" where
  "plain_const v = (case v of CStr s \<Rightarrow> \<not> is_exponent_literal s | _ \<Rightarrow> True)"

lemma to_num_sem: "plain_const v \<Longrightarrow> to_num v = Inr a \<Longrightarrow> const_sem v = Some (fst a)"
  by (cases v) (auto simp: plain_const_def)

lemma to_num_int: "to_num v = Inr a \<Longrightarrow> snd a \<Longrightarrow> integral (fst a)"
  by (cases v) (auto simp: integral_def)

lemma const_sem_normalise [simp]: "const_sem (normalise_num q) = Some q"
  by (simp add: normalise_num_def)

lemma int_op_sem:
  assumes "int_op a b f = Inr q" "integral (fst a)" "integral (fst b)"
    and "\<And>m n k. f m n = Inr k \<Longrightarrow> g m n = Some k"
  shows "on_ints (fst a) (fst b) g = Some q"
  using assms by (auto simp: int_op_def on_ints_def split: if_splits)

lemma int_op_ints: "int_op a b f = Inr q \<Longrightarrow> snd a \<and> snd b"
  by (auto simp: int_op_def split: if_splits)

lemma shift_op_eq: "shift_op f a b = Inr k \<longleftrightarrow> b \<ge> 0 \<and> k = f (nat b) a"
  by (auto simp: shift_op_def)

lemma raw_op_sem:
  assumes "raw_op x a b = Inr q" "snd a \<Longrightarrow> integral (fst a)" "snd b \<Longrightarrow> integral (fst b)"
    and "x \<in> {O_AND, O_OR} \<Longrightarrow> fst a \<in> {0, 1} \<and> fst b \<in> {0, 1}"
  shows "op_sem x (fst a) (fst b) = Some q"
proof -
  have ints: "integral (fst a)" "integral (fst b)" if "int_op a b f = Inr q" for f
    using int_op_ints [OF that] assms(2,3) by auto
  show ?thesis
  proof (cases x)
    case O_LSHIFT
    with assms(1) show ?thesis
      by (auto intro!: int_op_sem simp: ints shift_op_eq push_bit_eq_mult)
  next
    case O_RSHIFT
    with assms(1) show ?thesis
      by (auto intro!: int_op_sem simp: ints shift_op_eq drop_bit_eq_div)
  next
    case O_XOR
    with assms(1) show ?thesis by (auto intro!: int_op_sem simp: ints)
  next
    case O_BITWISE_AND
    with assms(1) show ?thesis by (auto intro!: int_op_sem simp: ints)
  next
    case O_BITWISE_OR
    with assms(1) show ?thesis by (auto intro!: int_op_sem simp: ints)
  qed (use assms(1,4) in \<open>auto split: if_splits\<close>)
qed

lemma evaluate_operation_value:
  assumes "evaluate_operation v x w = Inr c" "plain_const v" "plain_const w"
    and "x \<in> {O_AND, O_OR} \<Longrightarrow> const_sem v \<in> {Some 0, Some 1} \<and> const_sem w \<in> {Some 0, Some 1}"
  shows "opt2 (op_sem x) (const_sem v) (const_sem w) = const_sem c"
proof -
  obtain a b q where h: "to_num v = Inr a" "to_num w = Inr b" "raw_op x a b = Inr q" "c = normalise_num q"
    using assms(1) by (auto simp: evaluate_operation_def)
  have "const_sem v = Some (fst a)" "const_sem w = Some (fst b)"
    using h(1,2) assms(2,3) to_num_sem by blast+
  moreover have "op_sem x (fst a) (fst b) = Some q"
    by (rule raw_op_sem [OF h(3)]) (use h to_num_int assms(4) calculation in \<open>auto\<close>)
  ultimately show ?thesis by (simp add: h(4))
qed



text \<open>
  Outside these hypotheses the folding is wrong: an exponent literal is read as a hexadecimal number
  (\<open>1e12\<close> as \<open>0x1e12\<close>), and a logical connective of numbers other than 0 and 1 returns an operand.
\<close>

lemma evaluate_operation_wrong:
  "evaluate_operation (CStr ''1e12'') O_PLUS (CInt 0) = Inr (CInt 7698)
   \<and> const_sem (CStr ''1e12'') = Some 1000000000000
   \<and> evaluate_operation (CInt 2) O_AND (CInt 3) = Inr (CInt 3)
   \<and> op_sem O_AND 2 3 = Some 1"
  by code_simp

end
