(* ===== verification/Expr_Optim.thy ===== *)
theory Expr_Optim
  imports Expr_Semantics
begin

text \<open>
  The list view of sums and the recognition of \<open>get_group_id * get_local_size\<close> of
  \<open>src/src/expression_manager/expression_optimizations.py\<close>, with the pure parts of
  \<open>ExpressionManager._parse_and_optimize_node_sum\<close>: cancellation of equal summands.  A
  \<open>NodeSumInfo\<close> is a record; its \<open>operation\<close>, which is only ever \<open>PLUS\<close> or \<open>MINUS\<close>, is the
  boolean \<open>si_plus\<close>.
\<close>

section \<open>Sums as lists\<close>

record sum_info =
  si_node :: expr_node
  si_type :: register_type
  si_plus :: bool

definition mk_si :: "expr_node \<Rightarrow> register_type \<Rightarrow> bool \<Rightarrow> sum_info" where
  "mk_si n t p = \<lparr>si_node = n, si_type = t, si_plus = p\<rparr>"

text \<open>The dimension of a product \<open>get_group_id(d) * get_local_size(d)\<close>, in either order.\<close>

definition group_local_dim :: "expr_node \<Rightarrow> expr_node \<Rightarrow> dim option" where
  "group_local_dim l r =
     (case (l, r) of
        (NWif i t, NWif j u) \<Rightarrow>
          (case (t, u) of
             (WORK_GROUP_ID d, LOCAL_SIZE d') \<Rightarrow> if d = d' then Some d else None
           | (LOCAL_SIZE d', WORK_GROUP_ID d) \<Rightarrow> if d = d' then Some d else None
           | _ \<Rightarrow> None)
      | _ \<Rightarrow> None)"

definition leaf_info :: "expr_node \<Rightarrow> bool \<Rightarrow> sum_info" where
  "leaf_info n p = mk_si n (case n of NWif i t \<Rightarrow> t | _ \<Rightarrow> UNKNOWN) p"

fun node_to_list_of_sum_of_nodes :: "expr_node \<Rightarrow> bool \<Rightarrow> sum_info list" where
  "node_to_list_of_sum_of_nodes (NOp i x l r) p =
     (if x = O_PLUS then node_to_list_of_sum_of_nodes l p @ node_to_list_of_sum_of_nodes r p
      else if x = O_MINUS then node_to_list_of_sum_of_nodes l p @ node_to_list_of_sum_of_nodes r (\<not> p)
      else case (if x = O_MUL then group_local_dim l r else None) of
             Some d \<Rightarrow> [mk_si (NOp i x l r) (WORK_GROUP_ID_LOCAL_SIZE d) p]
           | None \<Rightarrow> [leaf_info (NOp i x l r) p])"
| "node_to_list_of_sum_of_nodes n p = [leaf_info n p]"

text \<open>\<open>value == k\<close> for the value of a constant.\<close>

definition const_is_int :: "const_value \<Rightarrow> int \<Rightarrow> bool" where
  "const_is_int v k = const_eq v (CInt k)"

text \<open>\<open>sizes[i]\<close>, where the list may also be \<open>None\<close>.\<close>

definition size_at :: "int list option \<Rightarrow> dim \<Rightarrow> int res" where
  "size_at sizes d = (case sizes of None \<Rightarrow> Inl TypeError | Some xs \<Rightarrow> py_nth xs (dim_index d))"

definition group_id_dim :: "expr_node \<Rightarrow> dim option" where
  "group_id_dim n = (case n of NWif i t \<Rightarrow> (case t of WORK_GROUP_ID d \<Rightarrow> Some d | _ \<Rightarrow> None) | _ \<Rightarrow> None)"

definition wif_or_const :: "expr_node \<Rightarrow> bool" where
  "wif_or_const n = (case n of NWif i t \<Rightarrow> True | NConst i v \<Rightarrow> True | _ \<Rightarrow> False)"

definition group_id_node_mul_size_of_work_groups ::
    "expr_node \<Rightarrow> expr_node \<Rightarrow> int list option \<Rightarrow> register_type res" where
  "group_id_node_mul_size_of_work_groups l r sizes =
     (if \<not> wif_or_const l \<or> \<not> wif_or_const r then Inr UNKNOWN
      else case (case group_id_dim l of Some d \<Rightarrow> Some (d, r)
                 | None \<Rightarrow> (case group_id_dim r of Some d \<Rightarrow> Some (d, l) | None \<Rightarrow> None)) of
             None \<Rightarrow> Inr UNKNOWN
           | Some (d, n) \<Rightarrow>
               (case n of
                  NConst i v \<Rightarrow>
                    bind_res (size_at sizes d) (\<lambda>k.
                      Inr (if const_is_int v k then WORK_GROUP_ID_LOCAL_SIZE d else UNKNOWN))
                | _ \<Rightarrow> Inr UNKNOWN))"

section \<open>Cancellation\<close>

text \<open>The loop over the negative summands: the first summand of the filtered list with equal contents is
  removed, whatever its sign (\<open>list.remove\<close> removes the first equal record); otherwise the negative
  summand is appended.\<close>

definition si_eq :: "sum_info \<Rightarrow> sum_info \<Rightarrow> bool" where
  "si_eq a b \<longleftrightarrow> node_eq (si_node a) (si_node b) \<and> si_type a = si_type b \<and> si_plus a = si_plus b"

definition cancel_step :: "sum_info list \<Rightarrow> sum_info \<Rightarrow> sum_info list" where
  "cancel_step fs i =
     (case find (\<lambda>n. contents_equal (si_node i) (si_node n)) fs of
        Some n \<Rightarrow> remove_first (\<lambda>m. si_eq m n) fs
      | None \<Rightarrow> fs @ [i])"

definition cancel_terms :: "sum_info list \<Rightarrow> sum_info list" where
  "cancel_terms xs = foldl cancel_step (filter si_plus xs) (filter (\<lambda>i. \<not> si_plus i) xs)"

section \<open>The value of a list of summands\<close>

definition sdef :: "env \<Rightarrow> sum_info list \<Rightarrow> bool" where
  "sdef e xs = list_all (\<lambda>i. eval e (si_node i) \<noteq> None) xs"

definition tval :: "env \<Rightarrow> sum_info \<Rightarrow> rat" where
  "tval e i = (let v = the (eval e (si_node i)) in if si_plus i then v else - v)"

definition stot :: "env \<Rightarrow> sum_info list \<Rightarrow> rat" where
  "stot e xs = sum_list (map (tval e) xs)"

lemma sdef_simps [simp]:
  "sdef e []" "sdef e (x # xs) \<longleftrightarrow> eval e (si_node x) \<noteq> None \<and> sdef e xs"
  "sdef e (xs @ ys) \<longleftrightarrow> sdef e xs \<and> sdef e ys"
  by (simp_all add: sdef_def)

lemma stot_simps [simp]:
  "stot e [] = 0" "stot e (x # xs) = tval e x + stot e xs" "stot e (xs @ ys) = stot e xs + stot e ys"
  by (simp_all add: stot_def)

lemma mk_si_simps [simp]:
  "si_node (mk_si n t p) = n" "si_type (mk_si n t p) = t" "si_plus (mk_si n t p) = p"
  by (simp_all add: mk_si_def)

lemma leaf_info_simps [simp]: "si_node (leaf_info n p) = n" "si_plus (leaf_info n p) = p"
  by (simp_all add: leaf_info_def)

lemma tval_mk [simp]:
  "eval e n = Some v \<Longrightarrow> tval e (mk_si n t p) = (if p then v else - v)"
  "eval e n = Some v \<Longrightarrow> tval e (leaf_info n p) = (if p then v else - v)"
  by (simp_all add: tval_def)

text \<open>Flattening a node into summands keeps its value.\<close>

lemma node_to_list_value:
  "eval e n = Some v \<Longrightarrow>
     sdef e (node_to_list_of_sum_of_nodes n p)
     \<and> stot e (node_to_list_of_sum_of_nodes n p) = (if p then v else - v)"
proof (induction n arbitrary: p v)
  case (NOp i x l r)
  show ?case
  proof (cases "x = O_PLUS \<or> x = O_MINUS")
    case True
    with NOp.prems obtain a b where "eval e l = Some a" "eval e r = Some b"
      by (auto simp: opt2_Some)
    with NOp.IH(1) [OF this(1)] NOp.IH(2) [OF this(2)] True NOp.prems show ?thesis by auto
  next
    case False
    with NOp.prems show ?thesis by (auto simp: opt2_Some split: option.splits)
  qed
qed auto

text \<open>The register type recorded for a summand is the work-item value it stands for.\<close>

definition si_typed :: "env \<Rightarrow> sum_info \<Rightarrow> bool" where
  "si_typed e i \<longleftrightarrow> (si_type i = UNKNOWN \<or> eval e (si_node i) = Some (wi e (si_type i)))"

lemma group_local_dim_value:
  "group_local_dim l r = Some d \<Longrightarrow> consistent sizes e \<Longrightarrow>
     opt2 (op_sem O_MUL) (eval e l) (eval e r) = Some (wi e (WORK_GROUP_ID_LOCAL_SIZE d))"
  by (auto simp: group_local_dim_def consistent_def mult.commute
      split: expr_node.splits register_type.splits if_splits)

lemma node_to_list_typed:
  "consistent sizes e \<Longrightarrow> list_all (si_typed e) (node_to_list_of_sum_of_nodes n p)"
proof (induction n arbitrary: p)
  case (NOp i x l r)
  then show ?case
    by (auto simp: si_typed_def leaf_info_def group_local_dim_value split: option.splits)
qed (auto simp: si_typed_def leaf_info_def)

lemma group_id_mul_value:
  assumes "group_id_node_mul_size_of_work_groups l r (Some sizes) = Inr t" "t \<noteq> UNKNOWN"
    and "consistent sizes e"
  shows "\<exists>d. t = WORK_GROUP_ID_LOCAL_SIZE d
           \<and> opt2 (op_sem O_MUL) (eval e l) (eval e r) = Some (wi e (WORK_GROUP_ID_LOCAL_SIZE d))"
  using assms
  by (auto simp: group_id_node_mul_size_of_work_groups_def group_id_dim_def wif_or_const_def size_at_def
      const_is_int_def consistent_def mult.commute
      dest!: const_eq_sem split: if_splits option.splits expr_node.splits register_type.splits)

section \<open>Soundness of the cancellation\<close>

lemma si_eq_tval: "si_eq a b \<Longrightarrow> tval e a = tval e b"
  by (auto simp: si_eq_def tval_def dest: node_eq_eval [of _ _ e])

lemma si_eq_refl [simp]: "si_eq a a"
  by (simp add: si_eq_def)

lemma remove_first_total:
  assumes "n \<in> set fs"
  shows "stot e (remove_first (\<lambda>m. si_eq m n) fs) = stot e fs - tval e n"
    and "sdef e fs \<Longrightarrow> sdef e (remove_first (\<lambda>m. si_eq m n) fs)"
proof -
  obtain ys y zs where "fs = ys @ y # zs" "si_eq y n"
    "remove_first (\<lambda>m. si_eq m n) fs = ys @ zs"
    using remove_first_split [of n fs "\<lambda>m. si_eq m n"] assms by auto
  then show "stot e (remove_first (\<lambda>m. si_eq m n) fs) = stot e fs - tval e n"
    and "sdef e fs \<Longrightarrow> sdef e (remove_first (\<lambda>m. si_eq m n) fs)"
    by (auto simp: si_eq_tval)
qed

text \<open>The condition under which the loop is right: no two negative summands have equal contents.\<close>

fun distinct_contents :: "sum_info list \<Rightarrow> bool" where
  "distinct_contents [] = True"
| "distinct_contents (i # is) \<longleftrightarrow>
     list_all (\<lambda>j. \<not> contents_equal (si_node j) (si_node i)) is \<and> distinct_contents is"

definition no_repeated_minus :: "sum_info list \<Rightarrow> bool" where
  "no_repeated_minus xs = distinct_contents (filter (\<lambda>i. \<not> si_plus i) xs)"

lemma find_SomeD: "find p xs = Some x \<Longrightarrow> x \<in> set xs \<and> p x"
  by (induction xs) (auto split: if_splits)

lemma cancel_step_total:
  assumes "sdef e fs" "eval e (si_node i) \<noteq> None" "\<not> si_plus i"
    and "\<And>n. n \<in> set fs \<Longrightarrow> contents_equal (si_node i) (si_node n) \<Longrightarrow> si_plus n"
  shows "sdef e (cancel_step fs i)" "stot e (cancel_step fs i) = stot e fs + tval e i"
proof -
  show "sdef e (cancel_step fs i)"
    using assms remove_first_total(2)
    by (auto simp: cancel_step_def split: option.splits dest!: find_SomeD)
  show "stot e (cancel_step fs i) = stot e fs + tval e i"
  proof (cases "find (\<lambda>n. contents_equal (si_node i) (si_node n)) fs")
    case None
    then show ?thesis by (simp add: cancel_step_def)
  next
    case (Some n)
    with find_SomeD have n: "n \<in> set fs" "contents_equal (si_node i) (si_node n)" by fast+
    then have "tval e i = - tval e n"
      using assms(3,4) contents_equal_eval [OF n(2), of e] by (simp add: tval_def)
    with Some n(1) show ?thesis by (simp add: cancel_step_def remove_first_total(1))
  qed
qed

lemma set_cancel_step: "set (cancel_step fs i) \<subseteq> insert i (set fs)"
  using set_remove_first [of _ fs] by (auto simp: cancel_step_def split: option.splits)

lemma cancel_fold_total:
  assumes "sdef e fs" "sdef e ms" "list_all (\<lambda>i. \<not> si_plus i) ms" "distinct_contents ms"
    and "\<And>n i. n \<in> set fs \<Longrightarrow> i \<in> set ms \<Longrightarrow> contents_equal (si_node i) (si_node n) \<Longrightarrow> si_plus n"
  shows "sdef e (foldl cancel_step fs ms) \<and> stot e (foldl cancel_step fs ms) = stot e fs + stot e ms"
  using assms
proof (induction ms arbitrary: fs)
  case Nil
  then show ?case by simp
next
  case (Cons i ms)
  have s: "sdef e (cancel_step fs i)" "stot e (cancel_step fs i) = stot e fs + tval e i"
    by (rule cancel_step_total; use Cons.prems in \<open>auto\<close>)+
  have p: "si_plus n" if "n \<in> set (cancel_step fs i)" "j \<in> set ms" "contents_equal (si_node j) (si_node n)" for n j
    using that set_cancel_step [of fs i] Cons.prems(4,5) by (auto simp: list_all_iff)
  show ?case
    using Cons.IH [OF s(1)] Cons.prems s p by simp
qed

lemma stot_filter: "stot e (filter si_plus xs) + stot e (filter (\<lambda>i. \<not> si_plus i) xs) = stot e xs"
  by (induction xs) auto

lemma sdef_filter: "sdef e xs \<Longrightarrow> sdef e (filter p xs)"
  by (induction xs) auto

lemma cancel_terms_total:
  assumes "sdef e xs" "no_repeated_minus xs"
  shows "sdef e (cancel_terms xs) \<and> stot e (cancel_terms xs) = stot e xs"
proof -
  have "list_all (\<lambda>i. \<not> si_plus i) (filter (\<lambda>i. \<not> si_plus i) xs)" by (simp add: list_all_iff)
  then have "sdef e (cancel_terms xs) \<and>
      stot e (cancel_terms xs) = stot e (filter si_plus xs) + stot e (filter (\<lambda>i. \<not> si_plus i) xs)"
    unfolding cancel_terms_def
    by (intro cancel_fold_total) (use assms in \<open>auto simp: sdef_filter no_repeated_minus_def\<close>)
  then show ?thesis by (simp add: stot_filter)
qed

text \<open>
  C6: the cancellation loop of \<open>_parse_and_optimize_node_sum\<close> keeps the value of the sum, provided no
  two negative summands are textually equal: every negative summand is either paired with an equal
  positive one, and both go, or it stays.
\<close>

theorem cancel_terms_value:
  assumes "sdef e xs" "no_repeated_minus xs"
  shows "sdef e (cancel_terms xs) \<and> stot e (cancel_terms xs) = stot e xs"
  using assms by (rule cancel_terms_total)

definition demo_var :: "string \<Rightarrow> expr_node" where
  "demo_var s = NVar (mk_info 1 (mk_hint (OType UINT_T W1))) s"

definition demo_minus :: "expr_node \<Rightarrow> expr_node \<Rightarrow> expr_node" where
  "demo_minus l r = NOp (mk_info 2 (mk_hint (OType UINT_T W1))) O_MINUS l r"

definition demo_env :: env where
  "demo_env = \<lparr>wi = (\<lambda>_. 0), var_val = (\<lambda>s. if s = ''a'' then 7 else if s = ''b'' then 2 else 1)\<rparr>"

theorem cancel_terms_value_witness:
  "stot demo_env (cancel_terms (node_to_list_of_sum_of_nodes (demo_minus (demo_var ''a'') (demo_var ''b'')) True
     @ node_to_list_of_sum_of_nodes (demo_var ''b'') True)) = 7"
proof -
  let ?xs = "node_to_list_of_sum_of_nodes (demo_minus (demo_var ''a'') (demo_var ''b'')) True
     @ node_to_list_of_sum_of_nodes (demo_var ''b'') True"
  have "sdef demo_env ?xs" "no_repeated_minus ?xs" "stot demo_env ?xs = 7"
    by (simp_all add: demo_minus_def demo_var_def demo_env_def no_repeated_minus_def tval_def)
  then show ?thesis using cancel_terms_value [of demo_env ?xs] by simp
qed

text \<open>
  Without that proviso the loop is wrong: the search for a summand to cancel ignores signs, so in
  \<open>(a - b) + (c - b)\<close> the second \<open>- b\<close> removes the first one and the sum becomes \<open>a + c\<close>.
\<close>

lemma cancel_terms_drops_repeated_minus:
  "map (\<lambda>i. (si_plus i, si_node i))
     (cancel_terms (node_to_list_of_sum_of_nodes (demo_minus (demo_var ''a'') (demo_var ''b'')) True
        @ node_to_list_of_sum_of_nodes (demo_minus (demo_var ''c'') (demo_var ''b'')) True))
   = [(True, demo_var ''a''), (True, demo_var ''c'')]"
  by (simp add: demo_minus_def demo_var_def cancel_terms_def cancel_step_def si_eq_def leaf_info_def mk_si_def)

end
