(* ===== verification/State_Res.thy ===== *)
theory State_Res
  imports Prelude
begin

text \<open>
  The shape of a method of a Python object: it reads and updates the object and may raise.  An
  exception loses the state (no caller in the sources looks at an object after one of its methods
  has raised).  \<open>bindS\<close> is sequencing; \<open>liftS\<close> embeds a computation that only may raise.
\<close>

type_synonym ('s, 'a) action = "'s \<Rightarrow> ('a \<times> 's) res"

definition returnS :: "'a \<Rightarrow> ('s, 'a) action" where
  "returnS x = (\<lambda>s. Inr (x, s))"

definition raiseS :: "py_error \<Rightarrow> ('s, 'a) action" where
  "raiseS e = (\<lambda>s. Inl e)"

definition bindS :: "('s, 'a) action \<Rightarrow> ('a \<Rightarrow> ('s, 'b) action) \<Rightarrow> ('s, 'b) action" where
  "bindS m f = (\<lambda>s. bind_res (m s) (\<lambda>(x, s'). f x s'))"

definition liftS :: "'a res \<Rightarrow> ('s, 'a) action" where
  "liftS r = (\<lambda>s. bind_res r (\<lambda>x. Inr (x, s)))"

definition getS :: "('s \<Rightarrow> 'a) \<Rightarrow> ('s, 'a) action" where
  "getS f = (\<lambda>s. Inr (f s, s))"

definition modifyS :: "('s \<Rightarrow> 's) \<Rightarrow> ('s, unit) action" where
  "modifyS f = (\<lambda>s. Inr ((), f s))"

named_theorems method_simps \<open>unfolding of the sequencing combinators\<close>

lemma method_apply [method_simps]:
  "returnS x s = Inr (x, s)"
  "raiseS e s = Inl e"
  "bindS m f s = bind_res (m s) (\<lambda>(y, s'). f y s')"
  "liftS r s = bind_res r (\<lambda>y. Inr (y, s))"
  "getS g s = Inr (g s, s)"
  "modifyS h s = Inr ((), h s)"
  by (simp_all add: returnS_def raiseS_def bindS_def liftS_def getS_def modifyS_def)

lemma bindS_Inr [method_simps]:
  "bindS m f s = Inr (y, s'') \<longleftrightarrow> (\<exists>x s'. m s = Inr (x, s') \<and> f x s' = Inr (y, s''))"
  by (auto simp: bindS_def)

lemma liftS_Inr [method_simps]: "liftS r s = Inr (y, s') \<longleftrightarrow> r = Inr y \<and> s' = s"
  by (auto simp: liftS_def)

lemma bindS_cong [fundef_cong]:
  "m s = m' s' \<Longrightarrow> s = s' \<Longrightarrow> (\<And>x t. m' s' = Inr (x, t) \<Longrightarrow> f x t = f' x t) \<Longrightarrow> bindS m f s = bindS m' f' s'"
  by (cases "m' s'") (auto simp: bindS_def)

lemma bindS_assoc: "bindS (bindS m f) g = bindS m (\<lambda>x. bindS (f x) g)"
  by (auto simp: bindS_def fun_eq_iff bind_res_def split: sum.splits)

lemma bindS_return [simp]: "bindS (returnS x) f = f x" "bindS m returnS = m"
  by (auto simp: bindS_def returnS_def fun_eq_iff bind_res_def split: sum.splits)

lemma returnS_inject [simp]: "returnS x = returnS y \<longleftrightarrow> x = y"
  by (auto simp: returnS_def fun_eq_iff)

text \<open>A method applied to each element of a list, as a comprehension does.\<close>

fun mapS :: "('a \<Rightarrow> ('s, 'b) action) \<Rightarrow> 'a list \<Rightarrow> ('s, 'b list) action" where
  "mapS f [] = returnS []"
| "mapS f (x # xs) = bindS (f x) (\<lambda>y. bindS (mapS f xs) (\<lambda>ys. returnS (y # ys)))"

lemma mapS_return: "(\<And>x. x \<in> set xs \<Longrightarrow> f x = returnS (g x)) \<Longrightarrow> mapS f xs = returnS (map g xs)"
  by (induction xs) auto

section \<open>Invariants of methods\<close>

text \<open>
  \<open>yields P m Q\<close>: started in a state with the invariant \<open>P\<close>, the method, when it returns, has kept
  \<open>P\<close> and its result satisfies \<open>Q\<close>.  The rules compose such judgements along the code.
\<close>

definition yields :: "('s \<Rightarrow> bool) \<Rightarrow> ('s, 'a) action \<Rightarrow> ('a \<Rightarrow> bool) \<Rightarrow> bool" where
  "yields P m Q \<longleftrightarrow> (\<forall>s x s'. P s \<longrightarrow> m s = Inr (x, s') \<longrightarrow> P s' \<and> Q x)"

abbreviation keeps :: "('s \<Rightarrow> bool) \<Rightarrow> ('s, 'a) action \<Rightarrow> bool" where
  "keeps P m \<equiv> yields P m (\<lambda>_. True)"

named_theorems yields_intros \<open>rules that compose judgements about methods\<close>

lemma yieldsI: "(\<And>s x s'. P s \<Longrightarrow> m s = Inr (x, s') \<Longrightarrow> P s' \<and> Q x) \<Longrightarrow> yields P m Q"
  by (auto simp: yields_def)

lemma yieldsD: "yields P m Q \<Longrightarrow> m s = Inr (x, s') \<Longrightarrow> P s \<Longrightarrow> P s' \<and> Q x"
  by (auto simp: yields_def)

lemma yields_return [yields_intros]: "Q x \<Longrightarrow> yields P (returnS x) Q"
  by (auto simp: yields_def method_simps)

lemma yields_raise [yields_intros]: "yields P (raiseS e) Q"
  by (auto simp: yields_def method_simps)

lemma yields_lift [yields_intros]: "(\<And>x. r = Inr x \<Longrightarrow> Q x) \<Longrightarrow> yields P (liftS r) Q"
  by (auto simp: yields_def method_simps)

lemma yields_get [yields_intros]: "(\<And>s. P s \<Longrightarrow> Q (g s)) \<Longrightarrow> yields P (getS g) Q"
  by (auto simp: yields_def method_simps)

lemma yields_modify [yields_intros]: "(\<And>s. P s \<Longrightarrow> P (h s)) \<Longrightarrow> Q () \<Longrightarrow> yields P (modifyS h) Q"
  by (auto simp: yields_def method_simps)

lemma yields_if [yields_intros]:
  "(b \<Longrightarrow> yields P m Q) \<Longrightarrow> (\<not> b \<Longrightarrow> yields P n Q) \<Longrightarrow> yields P (if b then m else n) Q"
  by simp

lemma yields_bind:
  assumes "yields P m R" "\<And>x. R x \<Longrightarrow> yields P (f x) Q"
  shows "yields P (bindS m f) Q"
proof (rule yieldsI)
  fix s y s''
  assume p: "P s" and r: "bindS m f s = Inr (y, s'')"
  from r obtain x s' where "m s = Inr (x, s')" "f x s' = Inr (y, s'')" by (auto simp: method_simps)
  with p assms show "P s'' \<and> Q y" by (metis yieldsD)
qed

lemma yields_bind_keep: "keeps P m \<Longrightarrow> (\<And>x. yields P (f x) Q) \<Longrightarrow> yields P (bindS m f) Q"
  by (rule yields_bind) auto

lemma yields_bind_lift [yields_intros]:
  "(\<And>x. r = Inr x \<Longrightarrow> yields P (f x) Q) \<Longrightarrow> yields P (bindS (liftS r) f) Q"
  by (rule yields_bind [OF yields_lift]) auto

lemma yields_weaken: "yields P m Q \<Longrightarrow> (\<And>x. Q x \<Longrightarrow> R x) \<Longrightarrow> yields P m R"
  by (auto simp: yields_def)

lemma yields_apply: "yields P m Q \<Longrightarrow> P s \<Longrightarrow> m s = Inr (x, s') \<Longrightarrow> Q x"
  by (auto simp: yields_def)

lemma mapS_keeps: "(\<And>x. keeps P (f x)) \<Longrightarrow> keeps P (mapS f xs)"
  by (induction xs) (auto intro!: yields_intros yields_bind_keep)

end
