(* ===== verification/Expr_Manager.thy ===== *)
theory Expr_Manager
  imports Expr_Optim State_Res
begin

text \<open>
  The state of the expression manager and its simplifying constructors
  (\<open>src/src/expression_manager/expression_manager.py\<close>): \<open>add_operation\<close> and the five
  \<open>_optimized_nodes_*\<close> methods, \<open>_parse_and_optimize_node_sum\<close>, \<open>add_register_node\<close>,
  \<open>add_logical_not_node\<close>.

  Identities of nodes are drawn from the counter \<open>next_id\<close> (the source draws a UUID); the dictionary
  \<open>_optimized_nodes_to_original\<close> is an association list searched with \<open>node_eq\<close>.  An assignment to
  the hint of an operand is seen in the tree that is built; that another node may share the same
  hint object is not modelled.
\<close>

section \<open>State\<close>

record manager =
  next_id :: nat
  nodes :: "expr_node list"
  arguments :: "string \<Rightarrow> (string \<Rightarrow> expr_node option) option"
  variables :: "string \<Rightarrow> (string \<Rightarrow> expr_node option) option"
  program_name :: string
  workgroups :: "int list option"
  originals :: "(expr_node \<times> expr_node) list"

type_synonym 'a mgr = "(manager, 'a) action"

definition init_manager :: manager where
  "init_manager = \<lparr>next_id = 0, nodes = [], arguments = Map.empty, variables = Map.empty,
     program_name = '''', workgroups = Some [], originals = []\<rparr>"

definition set_name_of_program :: "string \<Rightarrow> manager \<Rightarrow> manager" where
  "set_name_of_program p m =
     m\<lparr>program_name := p,
       arguments := (if arguments m p = None then (arguments m)(p \<mapsto> Map.empty) else arguments m),
       variables := (if variables m p = None then (variables m)(p \<mapsto> Map.empty) else variables m)\<rparr>"

definition set_size_of_workgroups :: "int list option \<Rightarrow> manager \<Rightarrow> manager" where
  "set_size_of_workgroups s m = m\<lparr>workgroups := s\<rparr>"

definition reset_manager :: "string \<Rightarrow> manager \<Rightarrow> manager" where
  "reset_manager p m = (set_name_of_program p (m\<lparr>nodes := []\<rparr>))\<lparr>workgroups := Some [], originals := []\<rparr>"

definition fresh_id :: "nat mgr" where
  "fresh_id = (\<lambda>m. Inr (next_id m, m\<lparr>next_id := Suc (next_id m)\<rparr>))"

definition add_node :: "expr_node \<Rightarrow> unit mgr" where
  "add_node n =
     (if hint_is_unknown (node_hint n) then raiseS AssertionError
      else modifyS (\<lambda>m. m\<lparr>nodes := nodes m @ [n]\<rparr>))"

definition lookup_original :: "expr_node \<Rightarrow> manager \<Rightarrow> expr_node option" where
  "lookup_original n m = map_option snd (find (\<lambda>(k, u). node_eq k n) (originals m))"

text \<open>Assignment to a dictionary: an equal key is kept and its value replaced.\<close>

fun assoc_update :: "expr_node \<Rightarrow> expr_node \<Rightarrow> (expr_node \<times> expr_node) list \<Rightarrow> (expr_node \<times> expr_node) list" where
  "assoc_update n u [] = [(n, u)]"
| "assoc_update n u ((k, w) # xs) = (if node_eq k n then (k, u) # xs else (k, w) # assoc_update n u xs)"

definition set_original :: "expr_node \<Rightarrow> expr_node \<Rightarrow> unit mgr" where
  "set_original n u = modifyS (\<lambda>m. m\<lparr>originals := assoc_update n u (originals m)\<rparr>)"

definition unoptimized :: "expr_node \<Rightarrow> manager \<Rightarrow> expr_node" where
  "unoptimized n m = (case lookup_original n m of Some u \<Rightarrow> u | None \<Rightarrow> n)"

section \<open>Constants, work-item functions and operations\<close>

definition add_const_node :: "const_value \<Rightarrow> opencl_types \<Rightarrow> expr_node mgr" where
  "add_const_node v t =
     (let (v', h) = get_sufficient_type_for_const v t
      in bindS fresh_id (\<lambda>i. let n = create_const_node i v' h in bindS (add_node n) (\<lambda>_. returnS n)))"

definition add_work_item_function_node :: "register_type \<Rightarrow> expr_node mgr" where
  "add_work_item_function_node t =
     bindS fresh_id (\<lambda>i. bindS (liftS (create_work_item_function_node i t)) (\<lambda>n.
       bindS (add_node n) (\<lambda>_. returnS n)))"

definition new_op :: "expr_op \<Rightarrow> expr_node \<Rightarrow> expr_node \<Rightarrow> type_hint \<Rightarrow> expr_node mgr" where
  "new_op x l r h = bindS fresh_id (\<lambda>i. returnS (create_op_node i x l r h))"

section \<open>Sums\<close>

definition py_remove :: "sum_info \<Rightarrow> sum_info list \<Rightarrow> sum_info list res" where
  "py_remove x xs =
     (if list_ex (\<lambda>y. si_eq y x) xs then Inr (remove_first (\<lambda>y. si_eq y x) xs) else Inl ValueError)"

fun filterE :: "('a \<Rightarrow> bool res) \<Rightarrow> 'a list \<Rightarrow> 'a list res" where
  "filterE p [] = Inr []"
| "filterE p (x # xs) =
     bind_res (p x) (\<lambda>b. bind_res (filterE p xs) (\<lambda>ys. Inr (if b then x # ys else ys)))"

fun merge_global_ids ::
    "dim \<Rightarrow> sum_info list \<Rightarrow> sum_info list \<Rightarrow> sum_info list \<Rightarrow> sum_info list
      \<Rightarrow> (sum_info list \<times> sum_info list) mgr" where
  "merge_global_ids d res (l # ls) (g # gs) (w # ws) =
     bindS (liftS (py_remove l res)) (\<lambda>res1.
     bindS (liftS (py_remove g res1)) (\<lambda>res2.
     bindS (liftS (py_remove w res2)) (\<lambda>res3.
     bindS (add_work_item_function_node (GLOBAL_ID d)) (\<lambda>n.
       merge_global_ids d (res3 @ [mk_si n (GLOBAL_ID d) True]) ls gs ws))))"
| "merge_global_ids d res ls gs ws = returnS (res, ws)"

definition num_groups_times_size :: "int list option \<Rightarrow> dim \<Rightarrow> expr_node \<Rightarrow> expr_node \<Rightarrow> bool res" where
  "num_groups_times_size sizes d a b =
     (case (a, b) of
        (NWif i t, NConst j v) \<Rightarrow>
          if t = NUM_GROUPS d then bind_res (size_at sizes d) (\<lambda>k. Inr (const_is_int v k)) else Inr False
      | _ \<Rightarrow> Inr False)"

definition is_num_groups_term :: "int list option \<Rightarrow> dim \<Rightarrow> sum_info \<Rightarrow> bool res" where
  "is_num_groups_term sizes d i =
     (if si_plus i then
        (case si_node i of
           NOp j x l r \<Rightarrow>
             if x = O_MUL
             then bind_res (num_groups_times_size sizes d l r) (\<lambda>b.
                    if b then Inr True else num_groups_times_size sizes d r l)
             else Inr False
         | _ \<Rightarrow> Inr False)
      else Inr False)"

fun merge_global_sizes ::
    "dim \<Rightarrow> sum_info list \<Rightarrow> sum_info list \<Rightarrow> sum_info list \<Rightarrow> sum_info list mgr" where
  "merge_global_sizes d res (w # ws) (g # gs) =
     bindS (liftS (py_remove g res)) (\<lambda>res1.
     bindS (liftS (py_remove w res1)) (\<lambda>res2.
     bindS (add_work_item_function_node (GLOBAL_SIZE d)) (\<lambda>n.
       merge_global_sizes d (res2 @ [mk_si n (GLOBAL_SIZE d) True]) ws gs)))"
| "merge_global_sizes d res ws gs = returnS res"

definition plus_of_type :: "register_type \<Rightarrow> sum_info list \<Rightarrow> sum_info list" where
  "plus_of_type t xs = filter (\<lambda>n. si_type n = t \<and> si_plus n) xs"

definition is_mul_node :: "expr_node \<Rightarrow> bool" where
  "is_mul_node n = (case n of NOp i x l r \<Rightarrow> x = O_MUL | _ \<Rightarrow> False)"

fun merge_dims :: "int list option \<Rightarrow> sum_info list \<Rightarrow> dim list \<Rightarrow> sum_info list \<Rightarrow> sum_info list mgr" where
  "merge_dims sizes muls [] res = returnS res"
| "merge_dims sizes muls (d # ds) res =
     bindS (merge_global_ids d res (plus_of_type (WORK_ITEM_ID d) res)
              (plus_of_type (GLOBAL_OFFSET d) res) (plus_of_type (WORK_GROUP_ID_LOCAL_SIZE d) res)) (\<lambda>(res1, ws).
     bindS (liftS (filterE (is_num_groups_term sizes d) muls)) (\<lambda>gs.
     bindS (merge_global_sizes d res1 ws gs) (merge_dims sizes muls ds)))"

text \<open>The first summand must be positive: swap in the first positive one, or start from a zero.\<close>

definition plus_first :: "sum_info list \<Rightarrow> sum_info list mgr" where
  "plus_first xs =
     (case xs of
        [] \<Rightarrow> returnS []
      | x # rest \<Rightarrow>
          if si_plus x then returnS xs
          else case dropWhile (\<lambda>i. \<not> si_plus i) rest of
                 p # ps \<Rightarrow> returnS (p # takeWhile (\<lambda>i. \<not> si_plus i) rest @ x # ps)
               | [] \<Rightarrow> bindS (add_const_node (CInt 0) (OType UINT_T W1)) (\<lambda>z. returnS (mk_si z UNKNOWN True # xs)))"

fun chain_terms :: "type_hint \<Rightarrow> expr_node \<Rightarrow> sum_info list \<Rightarrow> expr_node mgr" where
  "chain_terms h cur [] = returnS cur"
| "chain_terms h cur (i # is) =
     bindS (liftS (const_zero_node (si_node i))) (\<lambda>z.
       if z then chain_terms h cur is
       else bindS (new_op (if si_plus i then O_PLUS else O_MINUS) cur (si_node i) h) (\<lambda>n. chain_terms h n is))"

definition parse_and_optimize_node_sum :: "expr_node \<Rightarrow> expr_node \<Rightarrow> type_hint \<Rightarrow> expr_node option mgr" where
  "parse_and_optimize_node_sum l r h =
     (let filtered = cancel_terms (node_to_list_of_sum_of_nodes l True @ node_to_list_of_sum_of_nodes r True)
      in bindS (getS workgroups) (\<lambda>sizes.
         bindS (if length filtered \<ge> 2
                then merge_dims sizes (filter (\<lambda>i. is_mul_node (si_node i)) filtered) dims filtered
                else returnS filtered) (\<lambda>result.
           if result = [] then returnS None
           else bindS (plus_first result) (\<lambda>ordered.
                bindS (chain_terms h (si_node (hd ordered)) (tl ordered)) (\<lambda>n. returnS (Some n))))))"

text \<open>The tail of \<open>_optimized_nodes_sum\<close>, where no operand is a zero or a negative constant.\<close>

definition plain_sum :: "expr_node \<Rightarrow> expr_node \<Rightarrow> type_hint \<Rightarrow> expr_node mgr" where
  "plain_sum s0 s1 h =
     bindS (if is_pointer (node_hint s0) \<and> is_const_node s1
            then bindS (liftS (const_not_integral s1)) (\<lambda>b.
                   if b then bindS (getS (lookup_original s1)) (\<lambda>z.
                               case z of Some u \<Rightarrow> returnS u | None \<Rightarrow> raiseS KeyError)
                   else returnS s1)
            else returnS s1) (\<lambda>s1'.
     bindS (parse_and_optimize_node_sum s0 s1' h) (\<lambda>p.
       case p of None \<Rightarrow> new_op O_PLUS s0 s1' h | Some n \<Rightarrow> returnS n))"

section \<open>Products\<close>

text \<open>
  \<open>add_register_node\<close> and \<open>add_operation\<close> call each other in the source: a work-group offset is built
  as a product, and a product of a group id and the known size is rewritten to a work-group offset.
  The constructor of the offset is therefore an argument here; it is tied back below, and the theory
  \<open>Expr_Sound\<close> proves that the recursive equation of the source holds.
\<close>

type_synonym offset_node = "dim \<Rightarrow> expr_node mgr"

definition optimized_nodes_mul :: "offset_node \<Rightarrow> expr_node \<Rightarrow> expr_node \<Rightarrow> type_hint \<Rightarrow> expr_node mgr" where
  "optimized_nodes_mul off s0 s1 h =
     bindS (liftS (const_zero_node s0)) (\<lambda>z0. if z0 then returnS s0 else
     bindS (liftS (const_zero_node s1)) (\<lambda>z1. if z1 then returnS s1 else
     bindS (liftS (const_one_node s0)) (\<lambda>o0. if o0 then returnS s1 else
     bindS (liftS (const_one_node s1)) (\<lambda>o1. if o1 then returnS s0 else
     bindS (getS workgroups) (\<lambda>sizes.
     bindS (liftS (group_id_node_mul_size_of_work_groups s0 s1 sizes)) (\<lambda>t.
       case t of WORK_GROUP_ID_LOCAL_SIZE d \<Rightarrow> off d | _ \<Rightarrow> new_op O_MUL s0 s1 h))))))"

text \<open>The right operand of a product whose right operand is a constant, with the way to replace it.\<close>

definition mul_by_const :: "expr_node \<Rightarrow> (node_info \<times> expr_node \<times> node_info \<times> const_value) option" where
  "mul_by_const n =
     (case n of
        NOp i x l r \<Rightarrow> if x = O_MUL then (case r of NConst j v \<Rightarrow> Some (i, l, j, v) | _ \<Rightarrow> None) else None
      | _ \<Rightarrow> None)"

definition optimized_nodes_div :: "expr_node \<Rightarrow> expr_node \<Rightarrow> type_hint \<Rightarrow> expr_node mgr" where
  "optimized_nodes_div s0 s1 h =
     bindS (liftS (const_zero_node s1)) (\<lambda>z1. if z1 then raiseS AssertionError else
     bindS (liftS (const_one_node s1)) (\<lambda>o1. if o1 then returnS s0 else
       case (mul_by_const s0, s1) of
         (Some (i, l, j, c), NConst k v) \<Rightarrow>
           bindS (liftS (hint_common (hint j) (hint k))) (\<lambda>simplified.
           bindS (liftS (evaluate_operation c O_DIV v)) (\<lambda>q.
             if const_is_int q 1 then returnS l
             else bindS (add_const_node q (opencl_type simplified)) (\<lambda>c'. returnS (NOp i O_MUL l c'))))
       | _ \<Rightarrow> new_op O_DIV s0 s1 h))"

section \<open>Sums and differences\<close>

definition minus_parts :: "expr_node \<Rightarrow> (expr_node \<times> expr_node) option" where
  "minus_parts n = (case n of NOp i x l r \<Rightarrow> if x = O_MINUS then Some (l, r) else None | _ \<Rightarrow> None)"

definition is_mul_div :: "expr_node \<Rightarrow> bool" where
  "is_mul_div n = (case n of NOp i x l r \<Rightarrow> x = O_MUL \<or> x = O_DIV | _ \<Rightarrow> False)"

fun node_count :: "expr_node \<Rightarrow> nat" where
  "node_count (NOp i x l r) = Suc (node_count l + node_count r)"
| "node_count (NNot i c) = Suc (node_count c)"
| "node_count (NPermute i l r) = Suc (node_count l + node_count r)"
| "node_count (NTernary i c l r) = Suc (node_count c + node_count l + node_count r)"
| "node_count _ = 1"

definition neg_weight :: "expr_node \<Rightarrow> nat" where
  "neg_weight n = (if const_negative_node n = Inr True then 1 else 0)"

lemma minus_parts_count: "minus_parts n = Some (l, r) \<Longrightarrow> node_count n = Suc (node_count l + node_count r)"
  by (cases n) (auto simp: minus_parts_def split: if_splits)

lemma abs_const_weight:
  assumes "abs_const n = Inr a"
  shows "node_count a = node_count n" "neg_weight a = 0"
  using assms
  by (cases n rule: abs_const.cases;
      auto simp: neg_weight_def const_negative_node_def const_test_def)+

function optimized_nodes_sum ::
    "offset_node \<Rightarrow> expr_node \<Rightarrow> expr_node \<Rightarrow> type_hint \<Rightarrow> manager \<Rightarrow> (expr_node \<times> manager) res"
  and optimized_nodes_sub ::
    "offset_node \<Rightarrow> expr_node \<Rightarrow> expr_node \<Rightarrow> type_hint \<Rightarrow> manager \<Rightarrow> (expr_node \<times> manager) res" where
  "optimized_nodes_sum off s0 s1 h m =
     bind_res (const_zero_node s0) (\<lambda>z0. if z0 then Inr (s1, m) else
     bind_res (const_zero_node s1) (\<lambda>z1. if z1 then Inr (s0, m) else
     bind_res (const_negative_node s0) (\<lambda>n0.
     bind_res (const_negative_node s1) (\<lambda>n1.
       if n0 \<and> \<not> n1 then optimized_nodes_sum off s1 s0 h m
       else if n1 then bind_res (abs_const s1) (\<lambda>a. optimized_nodes_sub off s0 a h m)
       else plain_sum s0 s1 h m))))"
| "optimized_nodes_sub off s0 s1 h m =
     bind_res (const_zero_node s0) (\<lambda>z0.
       case (if z0 then minus_parts s1 else None) of
         Some (l, r) \<Rightarrow> optimized_nodes_sub off r l h m
       | None \<Rightarrow>
          if z0 \<and> is_mul_div s1
          then bindS (add_const_node (CInt (-1)) (OType INT_T W1)) (\<lambda>c. optimized_nodes_mul off c s1 h) m
          else
          bind_res (const_zero_node s1) (\<lambda>z1. if z1 then Inr (s0, m) else
          bind_res (const_negative_node s1) (\<lambda>n1.
            if n1 then bind_res (abs_const s1) (\<lambda>a. optimized_nodes_sum off s0 a h m)
            else if node_eq s0 s1 then add_const_node (CInt 0) (OType UINT_T W1) m
            else new_op O_MINUS s0 s1 h m)))"
  by pat_completeness auto

termination
proof (relation "inv_image (less_than <*lex*> less_than <*lex*> less_than)
   (\<lambda>x. case x of
      Inl (off, s0, s1, h, m) \<Rightarrow>
        (node_count s0 + node_count s1, neg_weight s0 + neg_weight s1,
         if neg_weight s0 = 1 \<and> neg_weight s1 = 0 then 1 else 0 :: nat)
    | Inr (off, s0, s1, h, m) \<Rightarrow>
        (node_count s0 + node_count s1, neg_weight s0 + neg_weight s1, 0))"; (simp; fail)?)
qed (auto simp: neg_weight_def abs_const_weight minus_parts_count dest: abs_const_weight(2) split: if_splits)

declare optimized_nodes_sum.simps [simp del] optimized_nodes_sub.simps [simp del]

section \<open>Logical operations\<close>

text \<open>
  \<open>add_logical_not_node\<close>: the optimised copy of a negated or inverted node keeps the identity of the
  node it is copied from.
\<close>

definition add_logical_not_node :: "expr_node \<Rightarrow> expr_node mgr" where
  "add_logical_not_node n =
     bindS (case n of
              NNot i c \<Rightarrow> returnS (Some c)
            | NOp i x l r \<Rightarrow>
                returnS (if is_compare_operator x then Some (NOp i (get_inverted_operation x) l r) else None)
            | _ \<Rightarrow>
                bindS (liftS (const_zero_node n)) (\<lambda>z.
                if z then bindS (add_const_node (CInt 1) (OType UINT_T W1)) (\<lambda>c. returnS (Some c))
                else bindS (liftS (const_non_zero_node n)) (\<lambda>nz.
                     if nz then bindS (add_const_node (CInt 0) (OType UINT_T W1)) (\<lambda>c. returnS (Some c))
                     else returnS None))) (\<lambda>optimized.
     bindS fresh_id (\<lambda>i.
       let logical_not_node = create_logical_not_node i n
       in bindS (add_node logical_not_node) (\<lambda>_.
            case optimized of
              Some u \<Rightarrow> bindS (set_original u logical_not_node) (\<lambda>_. returnS u)
            | None \<Rightarrow> returnS logical_not_node)))"

text \<open>Python's truth value of a constant.\<close>

fun const_truthy :: "const_value \<Rightarrow> bool" where
  "const_truthy (CInt n) = (n \<noteq> 0)"
| "const_truthy (CFloat q) = (q \<noteq> 0)"
| "const_truthy (CStr s) = (s \<noteq> [])"

definition const_operand :: "expr_node \<Rightarrow> expr_node \<Rightarrow> (const_value \<times> expr_node) option" where
  "const_operand s0 s1 =
     (case s0 of NConst i v \<Rightarrow> Some (v, s1)
      | _ \<Rightarrow> (case s1 of NConst i v \<Rightarrow> Some (v, s0) | _ \<Rightarrow> None))"

definition new_const :: "int \<Rightarrow> type_hint \<Rightarrow> expr_node mgr" where
  "new_const k h = bindS fresh_id (\<lambda>i. returnS (create_const_node i (CInt k) h))"

definition optimized_nodes_logical_operation ::
    "expr_op \<Rightarrow> expr_node \<Rightarrow> expr_node \<Rightarrow> type_hint \<Rightarrow> expr_node mgr" where
  "optimized_nodes_logical_operation x s0 s1 h =
     (if x = O_XOR \<and> is_unknown_node s0 then add_logical_not_node s1
      else if x = O_XOR \<and> is_unknown_node s1 then add_logical_not_node s0
      else if is_unknown_node s0 then returnS s1
      else if is_unknown_node s1 then returnS s0
      else case const_operand s0 s1 of
             Some (v, other) \<Rightarrow>
               if x = O_OR \<and> const_truthy v then new_const 1 h
               else if x = O_AND then (if const_truthy v then returnS other else new_const 0 h)
               else new_op x s0 s1 h
           | None \<Rightarrow> new_op x s0 s1 h)"

section \<open>add_operation\<close>

definition adopt_type :: "opencl_types \<Rightarrow> expr_node \<Rightarrow> expr_node" where
  "adopt_type t n =
     (if t \<noteq> OUnknown \<and> hint_is_unknown (node_hint n)
      then set_hint ((node_hint n)\<lparr>opencl_type := t\<rparr>) n else n)"

definition global_var :: "expr_node \<Rightarrow> bool" where
  "global_var n = (is_var_node n \<and> (is_pointer (node_hint n) \<or> qualifier (node_hint n) = Q_GLOBAL))"

definition operation_hint :: "expr_node \<Rightarrow> expr_node \<Rightarrow> type_hint res" where
  "operation_hint s0 s1 =
     (if global_var s0 then Inr (node_hint s0)
      else if global_var s1 then Inr (node_hint s1)
      else if node_hint s0 = node_hint s1 then Inr (node_hint s0)
      else hint_common (node_hint s0) (node_hint s1))"

text \<open>The chain of branches of \<open>add_operation\<close>: on operands that are not both constant, and on two
  constants, where the hint of the unoptimised form is the common type.\<close>

definition combine_nodes ::
    "offset_node \<Rightarrow> expr_node \<Rightarrow> expr_node \<Rightarrow> expr_op \<Rightarrow> type_hint \<Rightarrow> expr_node mgr" where
  "combine_nodes off s0 s1 x h =
     (if x = O_PLUS then optimized_nodes_sum off s0 s1 h
      else if x = O_MINUS then optimized_nodes_sub off s0 s1 h
      else if x = O_MUL then optimized_nodes_mul off s0 s1 h
      else if x = O_DIV then optimized_nodes_div s0 s1 h
      else if is_logical_operator x then optimized_nodes_logical_operation x s0 s1 h
      else new_op x s0 s1 h)"

definition operation_node ::
    "offset_node \<Rightarrow> expr_node \<Rightarrow> expr_node \<Rightarrow> expr_op \<Rightarrow> type_hint \<Rightarrow> (expr_node \<times> type_hint) mgr" where
  "operation_node off s0 s1 x h =
     (case (s0, s1) of
        (NConst i v, NConst j w) \<Rightarrow>
          bindS (liftS (hint_common (hint i) (hint j))) (\<lambda>simplified.
          bindS (liftS (evaluate_operation v x w)) (\<lambda>c.
          bindS (add_const_node c (opencl_type simplified)) (\<lambda>n. returnS (n, simplified))))
      | _ \<Rightarrow> bindS (combine_nodes off s0 s1 x h) (\<lambda>n. returnS (n, h)))"

definition add_operation_with ::
    "offset_node \<Rightarrow> expr_node \<Rightarrow> expr_node \<Rightarrow> expr_op \<Rightarrow> opencl_types \<Rightarrow> expr_node mgr" where
  "add_operation_with off s0' s1' x t =
     (let s0 = adopt_type t s0'; s1 = adopt_type t s1'
      in bindS (liftS (operation_hint s0 s1)) (\<lambda>h.
         bindS (operation_node off s0 s1 x h) (\<lambda>(n, h').
         bindS (getS (unoptimized s0)) (\<lambda>u0.
         bindS (getS (unoptimized s1)) (\<lambda>u1.
         bindS (new_op x u0 u1 h') (\<lambda>u.
         bindS (set_original n u) (\<lambda>_.
         bindS (add_node n) (\<lambda>_. returnS n))))))))"

definition no_offset_node :: offset_node where
  "no_offset_node d = raiseS AssertionError"

definition work_group_offset_node :: offset_node where
  "work_group_offset_node d =
     bindS (add_work_item_function_node (WORK_GROUP_ID d)) (\<lambda>l.
     bindS (add_work_item_function_node (LOCAL_SIZE d)) (\<lambda>r.
       add_operation_with no_offset_node l r O_MUL (OType UINT_T W1)))"

definition add_operation :: "expr_node \<Rightarrow> expr_node \<Rightarrow> expr_op \<Rightarrow> opencl_types \<Rightarrow> expr_node mgr" where
  "add_operation = add_operation_with work_group_offset_node"

text \<open>\<open>add_register_node\<close>; \<open>None\<close> for the unknown register type.\<close>

definition add_register_node :: "register_type \<Rightarrow> const_value option \<Rightarrow> expr_node option mgr" where
  "add_register_node t value =
     (if t = UNKNOWN then returnS None
      else bindS (case t of
             WORK_GROUP_ID_LOCAL_SIZE d \<Rightarrow> work_group_offset_node d
           | _ \<Rightarrow>
             if constant_values t \<noteq> None then add_work_item_function_node t
             else if t = INT32
             then (case value of Some v \<Rightarrow> add_const_node v (OType INT_T W1) | None \<Rightarrow> raiseS AssertionError)
             else raiseS AssertionError) (\<lambda>n. returnS (Some n)))"

definition add_offset_div_data_size_node ::
    "expr_node \<Rightarrow> expr_node \<Rightarrow> int \<Rightarrow> opencl_types \<Rightarrow> expr_node mgr" where
  "add_offset_div_data_size_node s0 s1 data_size t =
     bindS (add_const_node (CInt data_size) (OType UINT_T W1)) (\<lambda>c.
     bindS (add_operation s1 c O_DIV t) (\<lambda>q.
       add_operation s0 q O_PLUS t))"

fun apply_operation_fold :: "expr_op \<Rightarrow> expr_node \<Rightarrow> expr_node list \<Rightarrow> expr_node mgr" where
  "apply_operation_fold x prev [] = returnS prev"
| "apply_operation_fold x prev (n # ns) =
     bindS (add_operation prev n x OUnknown) (\<lambda>p. apply_operation_fold x p ns)"

definition apply_operation_to_nodes :: "expr_node list \<Rightarrow> expr_op \<Rightarrow> expr_node mgr" where
  "apply_operation_to_nodes ns x =
     (case ns of [] \<Rightarrow> raiseS AssertionError | n # rest \<Rightarrow> apply_operation_fold x n rest)"

text \<open>\<open>apply_optimizations\<close> rebuilds a tree of operations; permutations, ternaries, variables and
  work-item functions are kept.\<close>

fun apply_optimizations :: "expr_node \<Rightarrow> expr_node mgr" where
  "apply_optimizations (NNot i c) = add_logical_not_node c"
| "apply_optimizations (NOp i x l r) =
     bindS (apply_optimizations l) (\<lambda>l'. bindS (apply_optimizations r) (\<lambda>r'.
       add_operation l' r' x (opencl_type (hint i))))"
| "apply_optimizations (NConst i v) = add_const_node v (opencl_type (hint i))"
| "apply_optimizations n = returnS n"

definition unoptimized_or :: "expr_node \<Rightarrow> expr_node option \<Rightarrow> expr_node" where
  "unoptimized_or n z = (case z of Some u \<Rightarrow> u | None \<Rightarrow> n)"

definition replace_node :: "expr_node \<Rightarrow> expr_node \<Rightarrow> expr_node \<Rightarrow> expr_node mgr" where
  "replace_node n0 from_node to_node =
     (if contents_equal n0 to_node then returnS n0
      else bindS (getS (unoptimized n0)) (\<lambda>original_node.
           bindS (getS (lookup_original from_node)) (\<lambda>z.
             let n = (case z of
                        Some tmp \<Rightarrow>
                          (let n1 = replace tmp to_node original_node
                           in if contents_equal original_node n1 then replace from_node to_node n1 else n1)
                      | None \<Rightarrow> replace from_node to_node original_node)
             in if \<not> contents_equal original_node n then apply_optimizations n
                else apply_optimizations (replace (unoptimized_or from_node z) to_node n))))"

end
