(* ===== verification/Expr_Sound.thy ===== *)
theory Expr_Sound
  imports Expr_Manager
begin

text \<open>
  Soundness of the simplifier of \<open>Expr_Manager\<close> against the denotation of \<open>Expr_Semantics\<close>: under the
  conditions named here, the node \<open>add_operation\<close> returns has the value of the operation, and every
  entry of \<open>_optimized_nodes_to_original\<close> is a valid pair.
\<close>

section \<open>The invariant of the manager\<close>

definition pair_ok :: "env \<Rightarrow> expr_node \<times> expr_node \<Rightarrow> bool" where
  "pair_ok e p \<longleftrightarrow> (\<forall>v. eval e (snd p) = Some v \<longrightarrow> eval e (fst p) = Some v)"

definition sizes_of :: "int list option \<Rightarrow> int list" where
  "sizes_of s = (case s of Some xs \<Rightarrow> xs | None \<Rightarrow> [])"

definition mgr_ok :: "env \<Rightarrow> manager \<Rightarrow> bool" where
  "mgr_ok e m \<longleftrightarrow> consistent (sizes_of (workgroups m)) e \<and> list_all (pair_ok e) (originals m)"

lemma mgr_ok_upd [simp]:
  "mgr_ok e (m\<lparr>next_id := k\<rparr>) = mgr_ok e m"
  "mgr_ok e (m\<lparr>nodes := ns\<rparr>) = mgr_ok e m"
  by (simp_all add: mgr_ok_def)

lemma assoc_update_ok:
  "list_all (pair_ok e) xs \<Longrightarrow> pair_ok e (n, u) \<Longrightarrow> list_all (pair_ok e) (assoc_update n u xs)"
  by (induction n u xs rule: assoc_update.induct) (auto simp: pair_ok_def dest: node_eq_eval [of _ _ e])

lemma lookup_original_ok:
  "mgr_ok e m \<Longrightarrow> lookup_original n m = Some u \<Longrightarrow> eval e u = Some v \<Longrightarrow> eval e n = Some v"
proof -
  assume m: "mgr_ok e m" and l: "lookup_original n m = Some u" and v: "eval e u = Some v"
  obtain k where k: "(k, u) \<in> set (originals m)" "node_eq k n"
    using l by (auto simp: lookup_original_def dest!: find_SomeD)
  have "pair_ok e (k, u)" using m k(1) by (auto simp: mgr_ok_def list_all_iff)
  then show ?thesis using node_eq_eval [OF k(2), of e] v by (simp add: pair_ok_def)
qed

lemma unoptimized_ok: "mgr_ok e m \<Longrightarrow> eval e (unoptimized n m) = Some v \<Longrightarrow> eval e n = Some v"
  by (auto simp: unoptimized_def lookup_original_ok split: option.splits)

section \<open>Node creation\<close>

lemma yields_fresh [yields_intros]: "(\<And>i. Q i) \<Longrightarrow> yields (mgr_ok e) fresh_id Q"
  by (auto simp: yields_def fresh_id_def)

lemma yields_bind_fresh [yields_intros]:
  "(\<And>i. yields (mgr_ok e) (f i) Q) \<Longrightarrow> yields (mgr_ok e) (bindS fresh_id f) Q"
  by (rule yields_bind_keep) (auto intro: yields_intros)

lemma yields_bind_add_node [yields_intros]:
  "yields (mgr_ok e) (f ()) Q \<Longrightarrow> yields (mgr_ok e) (bindS (add_node n) f) Q"
  by (rule yields_bind_keep) (auto simp: add_node_def intro!: yields_intros)

lemma yields_set_original:
  "pair_ok e (n, u) \<Longrightarrow> keeps (mgr_ok e) (set_original n u)"
  by (auto simp: set_original_def mgr_ok_def intro!: yields_intros assoc_update_ok)

lemma yields_bind_set_original [yields_intros]:
  "pair_ok e (n, u) \<Longrightarrow> yields (mgr_ok e) (f ()) Q \<Longrightarrow> yields (mgr_ok e) (bindS (set_original n u) f) Q"
  by (rule yields_bind_keep [OF yields_set_original]) auto

definition plain_top :: "expr_node \<Rightarrow> bool" where
  "plain_top n = (case n of NConst i v \<Rightarrow> plain_const v | _ \<Rightarrow> True)"

lemma plain_top_nonconst [simp]: "\<not> is_const_node n \<Longrightarrow> plain_top n"
  by (cases n) (simp_all add: plain_top_def)

definition num_const :: "const_value \<Rightarrow> bool" where
  "num_const v = (case v of CStr s \<Rightarrow> False | _ \<Rightarrow> True)"

lemma num_const_simps [simp]: "num_const (CInt n)" "num_const (CFloat q)" "num_const (normalise_num q)"
  by (simp_all add: num_const_def normalise_num_def)

lemma sufficient_num: "num_const v \<Longrightarrow> fst (get_sufficient_type_for_const v t) = v"
  by (cases v) (simp_all add: num_const_def get_sufficient_type_for_const_def)

lemma add_const_node_value:
  "num_const v \<Longrightarrow> yields (mgr_ok e) (add_const_node v t) 
     (\<lambda>n. eval e n = const_sem v \<and> plain_top n)"
  using sufficient_num [of v t]
  by (auto simp: add_const_node_def Let_def create_const_node_def plain_top_def plain_const_def num_const_def
      intro!: yields_intros split: prod.splits const_value.splits)

lemma add_wif_shape:
  "yields (mgr_ok e) (add_work_item_function_node t) (\<lambda>n. \<exists>i. n = NWif i t)"
  by (auto simp: add_work_item_function_node_def create_work_item_function_node_def Let_def
      intro!: yields_intros split: option.splits)

lemma add_wif_value:
  "yields (mgr_ok e) (add_work_item_function_node t) (\<lambda>n. eval e n = Some (wi e t) \<and> \<not> is_const_node n)"
  by (rule yields_weaken [OF add_wif_shape]) auto

lemma new_op_value:
  "opt2 (op_sem x) (eval e l) (eval e r) = Some v \<Longrightarrow>
     yields (mgr_ok e) (new_op x l r h) (\<lambda>n. eval e n = Some v)"
  by (auto simp: new_op_def intro!: yields_intros)

section \<open>Conditions on operands\<close>

fun node_all :: "(expr_node \<Rightarrow> bool) \<Rightarrow> expr_node \<Rightarrow> bool" where
  "node_all p (NOp i x l r) = (p (NOp i x l r) \<and> node_all p l \<and> node_all p r)"
| "node_all p (NNot i c) = (p (NNot i c) \<and> node_all p c)"
| "node_all p (NPermute i l r) = (p (NPermute i l r) \<and> node_all p l \<and> node_all p r)"
| "node_all p (NTernary i c l r) = (p (NTernary i c l r) \<and> node_all p c \<and> node_all p l \<and> node_all p r)"
| "node_all p n = p n"

definition plain_node :: "expr_node \<Rightarrow> bool" where
  "plain_node = node_all plain_top"

definition pointer_free :: "expr_node \<Rightarrow> bool" where
  "pointer_free = node_all (\<lambda>n. \<not> is_pointer (node_hint n))"

definition integral_consts :: "expr_node \<Rightarrow> bool" where
  "integral_consts = node_all (\<lambda>n. const_not_integral n \<noteq> Inr True)"

lemma node_all_top: "node_all p n \<Longrightarrow> p n"
  by (cases n) auto

text \<open>No pointer is combined with a constant that is not an integer: \<open>_optimized_nodes_sum\<close> undoes the
  folding of such a constant.\<close>

definition no_unfolding :: "expr_node \<Rightarrow> expr_node \<Rightarrow> bool" where
  "no_unfolding s0 s1 \<longleftrightarrow>
     pointer_free s0 \<and> pointer_free s1 \<or> integral_consts s0 \<and> integral_consts s1"

definition num_groups_product :: "expr_node \<Rightarrow> bool" where
  "num_groups_product n =
     (case n of
        NOp i x l r \<Rightarrow>
          (case l of NWif j t \<Rightarrow> (case t of NUM_GROUPS d \<Rightarrow> True | _ \<Rightarrow> False) | _ \<Rightarrow> False)
          \<or> (case r of NWif j t \<Rightarrow> (case t of NUM_GROUPS d \<Rightarrow> True | _ \<Rightarrow> False) | _ \<Rightarrow> False)
      | _ \<Rightarrow> False)"

text \<open>The two conditions on the list of summands: no summand is subtracted twice, and no summand is a
  multiple of the number of groups.\<close>

definition summable :: "sum_info list \<Rightarrow> bool" where
  "summable xs \<longleftrightarrow> no_repeated_minus xs \<and> list_all (\<lambda>i. \<not> num_groups_product (si_node i)) xs"

definition term_ok :: "env \<Rightarrow> sum_info \<Rightarrow> bool" where
  "term_ok e i \<longleftrightarrow> eval e (si_node i) \<noteq> None \<and> si_typed e i \<and> plain_top (si_node i)"

lemma terms_ok_sdef: "list_all (term_ok e) xs \<Longrightarrow> sdef e xs"
  by (auto simp: list_all_iff term_ok_def sdef_def)

lemma node_to_list_plain:
  "plain_node n \<Longrightarrow> list_all (\<lambda>i. plain_top (si_node i)) (node_to_list_of_sum_of_nodes n p)"
  unfolding plain_node_def
  by (induction n arbitrary: p) (auto simp: plain_top_def split: option.splits)

lemma node_to_list_ok:
  assumes "consistent sizes e" "plain_node n" "eval e n = Some v"
  shows "list_all (term_ok e) (node_to_list_of_sum_of_nodes n p)"
  using node_to_list_typed [OF assms(1)] node_to_list_plain [OF assms(2)] node_to_list_value [OF assms(3)]
  by (auto simp: list_all_iff term_ok_def sdef_def)

lemma set_foldl_cancel: "set (foldl cancel_step fs ms) \<subseteq> set fs \<union> set ms"
proof (induction ms arbitrary: fs)
  case (Cons i ms)
  then show ?case using set_cancel_step [of fs i] by fastforce
qed simp

lemma set_cancel_terms: "set (cancel_terms xs) \<subseteq> set xs"
  using set_foldl_cancel by (fastforce simp: cancel_terms_def)

lemma const_zero_value: "const_zero_node n = Inr True \<Longrightarrow> plain_top n \<Longrightarrow> eval e n = Some 0"
  by (cases n) (auto simp: const_zero_node_def const_test_def plain_top_def dest: to_num_sem)

lemma const_one_value: "const_one_node n = Inr True \<Longrightarrow> plain_top n \<Longrightarrow> eval e n = Some 1"
  by (cases n) (auto simp: const_one_node_def const_test_def plain_top_def dest: to_num_sem)

lemma const_nonzero_value:
  "const_non_zero_node n = Inr True \<Longrightarrow> plain_top n \<Longrightarrow> \<exists>v. eval e n = Some v \<and> v \<noteq> 0"
  by (cases n)
     (auto simp: const_non_zero_node_def const_zero_node_def const_test_def plain_top_def dest: to_num_sem)

section \<open>Sums\<close>

lemma py_remove_total:
  assumes "py_remove x xs = Inr ys" "list_all (term_ok e) xs"
  shows "list_all (term_ok e) ys" "stot e ys = stot e xs - tval e x"
proof -
  obtain y where y: "y \<in> set xs" "si_eq y x" and ys: "ys = remove_first (\<lambda>y. si_eq y x) xs"
    using assms(1) by (auto simp: py_remove_def list_ex_iff split: if_splits)
  show "list_all (term_ok e) ys"
    using assms(2) set_remove_first [of "\<lambda>y. si_eq y x" xs] by (auto simp: ys list_all_iff)
  obtain us z ws where "xs = us @ z # ws" "si_eq z x" "ys = us @ ws"
    using remove_first_split [of y xs "\<lambda>y. si_eq y x"] y ys by auto
  then show "stot e ys = stot e xs - tval e x" by (simp add: si_eq_tval)
qed

definition stands_for :: "env \<Rightarrow> register_type \<Rightarrow> sum_info \<Rightarrow> bool" where
  "stands_for e t i \<longleftrightarrow> tval e i = wi e t"

lemma plus_of_type_ok:
  "list_all (term_ok e) xs \<Longrightarrow> t \<noteq> UNKNOWN \<Longrightarrow> list_all (stands_for e t) (plus_of_type t xs)"
  by (auto simp: plus_of_type_def list_all_iff term_ok_def si_typed_def stands_for_def tval_def)

definition sums_to :: "env \<Rightarrow> rat \<Rightarrow> sum_info list \<Rightarrow> bool" where
  "sums_to e v xs \<longleftrightarrow> list_all (term_ok e) xs \<and> stot e xs = v"

lemma merge_global_ids_value:
  assumes "consistent sizes e" "sums_to e v res" "list_all (stands_for e (WORK_ITEM_ID d)) ls"
    and "list_all (stands_for e (GLOBAL_OFFSET d)) gs" "list_all (stands_for e (WORK_GROUP_ID_LOCAL_SIZE d)) ws"
  shows "yields (mgr_ok e) (merge_global_ids d res ls gs ws) (\<lambda>(res', ws'). sums_to e v res')"
  using assms
proof (induction d res ls gs ws rule: merge_global_ids.induct)
  case (1 d res l ls g gs w ws)
  have gid: "wi e (GLOBAL_ID d) = wi e (GLOBAL_OFFSET d) + wi e (WORK_GROUP_ID_LOCAL_SIZE d) + wi e (WORK_ITEM_ID d)"
    using 1(2) by (simp add: consistent_def)
  show ?case
    unfolding merge_global_ids.simps
  proof (intro yields_bind_lift yields_bind [OF add_wif_value])
    fix res1 res2 res3 n
    assume r: "py_remove l res = Inr res1" "py_remove g res1 = Inr res2" "py_remove w res2 = Inr res3"
      and n: "eval e n = Some (wi e (GLOBAL_ID d)) \<and> \<not> is_const_node n"
    have "list_all (term_ok e) res" "stot e res = v" using 1(3) by (simp_all add: sums_to_def)
    note a1 = py_remove_total [OF r(1) this(1)]
    note a2 = py_remove_total [OF r(2) a1(1)]
    note a3 = py_remove_total [OF r(3) a2(1)]
    have "sums_to e v (res3 @ [mk_si n (GLOBAL_ID d) True])"
      using a1(2) a2(2) a3 n 1(3-6) gid
      by (simp add: sums_to_def term_ok_def si_typed_def stands_for_def)
    then show "yields (mgr_ok e) (merge_global_ids d (res3 @ [mk_si n (GLOBAL_ID d) True]) ls gs ws)
        (\<lambda>(res', ws'). sums_to e v res')"
      using 1 by (intro "1.IH") auto
  qed
qed (auto intro!: yields_intros)

lemma filterE_none: "filterE p xs = Inr ys \<Longrightarrow> (\<And>x. x \<in> set xs \<Longrightarrow> p x \<noteq> Inr True) \<Longrightarrow> ys = []"
  by (induction xs arbitrary: ys) (auto split: if_splits)

lemma no_num_groups_term: "\<not> num_groups_product (si_node i) \<Longrightarrow> is_num_groups_term sizes d i \<noteq> Inr True"
  by (auto simp: is_num_groups_term_def num_groups_times_size_def num_groups_product_def
      split: expr_node.splits if_splits)

lemma merge_dims_value:
  assumes "consistent sz e" "sums_to e v res" "list_all (\<lambda>i. \<not> num_groups_product (si_node i)) muls"
  shows "yields (mgr_ok e) (merge_dims sizes muls ds res) (sums_to e v)"
  using assms(2)
proof (induction ds arbitrary: res)
  case Nil
  then show ?case by (auto intro!: yields_intros)
next
  case (Cons d ds)
  have ok: "list_all (term_ok e) res" using Cons.prems by (simp add: sums_to_def)
  note m = merge_global_ids_value [OF assms(1) Cons.prems plus_of_type_ok [OF ok] plus_of_type_ok [OF ok]
      plus_of_type_ok [OF ok], of d]
  show ?case
    unfolding merge_dims.simps
  proof (rule yields_bind [OF m]; clarsimp; rule yields_bind_lift)
    fix res1 ws gs
    assume s: "sums_to e v res1" and "filterE (is_num_groups_term sizes d) muls = Inr gs"
    then have "gs = []" using filterE_none no_num_groups_term assms(3) by (metis list_all_iff)
    then show "yields (mgr_ok e) (bindS (merge_global_sizes d res1 ws gs) (merge_dims sizes muls ds)) (sums_to e v)"
      using Cons.IH [OF s] by simp
  qed
qed

lemma plus_first_value:
  assumes "sums_to e v xs" "xs \<noteq> []"
  shows "yields (mgr_ok e) (plus_first xs) (\<lambda>ys. sums_to e v ys \<and> ys \<noteq> [] \<and> si_plus (hd ys))"
proof (cases xs)
  case (Cons x rest)
  let ?t = "takeWhile (\<lambda>i. \<not> si_plus i) rest" and ?d = "dropWhile (\<lambda>i. \<not> si_plus i) rest"
  have rest: "rest = ?t @ ?d" by simp
  show ?thesis
  proof (cases "si_plus x")
    case True
    with assms Cons show ?thesis by (auto simp: plus_first_def intro!: yields_intros)
  next
    case False
    show ?thesis
    proof (cases ?d)
      case Nil
      have z: "sums_to e v (mk_si z UNKNOWN True # xs)" if "eval e z = const_sem (CInt 0)" "plain_top z" for z
        using assms that by (simp add: sums_to_def term_ok_def si_typed_def)
      have "yields (mgr_ok e) (add_const_node (CInt 0) (OType UINT_T W1))
              (\<lambda>n. eval e n = const_sem (CInt 0) \<and> plain_top n)"
        by (rule add_const_node_value) simp
      moreover have "plus_first xs =
          bindS (add_const_node (CInt 0) (OType UINT_T W1)) (\<lambda>z. returnS (mk_si z UNKNOWN True # xs))"
        unfolding plus_first_def Cons list.case Nil using False by simp
      ultimately show ?thesis using z by (auto intro!: yields_bind yields_intros)
    next
      case d: (Cons p ps)
      then have p: "si_plus p" by (simp add: dropWhile_eq_Cons_conv)
      have r: "rest = ?t @ p # ps" by (metis takeWhile_dropWhile_id d)
      have "stot e rest = stot e ?t + tval e p + stot e ps" "list_all (term_ok e) rest \<Longrightarrow>
          list_all (term_ok e) ?t \<and> term_ok e p \<and> list_all (term_ok e) ps"
        by (subst r, simp) (subst (asm) r, simp)
      then show ?thesis
        using assms Cons False d p
        by (auto simp: plus_first_def sums_to_def intro!: yields_intros)
    qed
  qed
qed (use assms in auto)

lemma chain_terms_value:
  assumes "list_all (term_ok e) is" "eval e cur = Some c"
  shows "yields (mgr_ok e) (chain_terms h cur is) (\<lambda>n. eval e n = Some (c + stot e is))"
  using assms
proof (induction "is" arbitrary: cur c)
  case Nil
  then show ?case by (auto intro!: yields_intros)
next
  case (Cons i "is")
  obtain w where w: "eval e (si_node i) = Some w" using Cons.prems by (auto simp: term_ok_def)
  have tv: "tval e i = (if si_plus i then w else - w)" using w by (simp add: tval_def)
  show ?case
    unfolding chain_terms.simps
  proof (rule yields_bind_lift, rule yields_if)
    fix z assume "const_zero_node (si_node i) = Inr z" z
    then have "w = 0" using const_zero_value [of "si_node i" e] Cons.prems w by (auto simp: term_ok_def)
    then show "yields (mgr_ok e) (chain_terms h cur is) (\<lambda>n. eval e n = Some (c + stot e (i # is)))"
      using Cons tv by auto
  next
    have "opt2 (op_sem (if si_plus i then O_PLUS else O_MINUS)) (eval e cur) (eval e (si_node i))
        = Some (c + tval e i)"
      using Cons.prems w tv by simp
    then show "yields (mgr_ok e) (bindS (new_op (if si_plus i then O_PLUS else O_MINUS) cur (si_node i) h)
        (\<lambda>n. chain_terms h n is)) (\<lambda>n. eval e n = Some (c + stot e (i # is)))"
    proof (rule yields_bind [OF new_op_value])
      fix n assume "eval e n = Some (c + tval e i)"
      then show "yields (mgr_ok e) (chain_terms h n is) (\<lambda>n. eval e n = Some (c + stot e (i # is)))"
        using Cons.IH [of n "c + tval e i"] Cons.prems(1) by (simp add: add.assoc)
    qed
  qed
qed

lemma cancel_terms_sums:
  assumes "list_all (term_ok e) xs" "summable xs"
  shows "sums_to e (stot e xs) (cancel_terms xs)"
proof -
  have "list_all (term_ok e) (cancel_terms xs)"
    using assms(1) set_cancel_terms [of xs] by (auto simp only: list_all_iff)
  then show ?thesis
    using cancel_terms_total [of e xs] terms_ok_sdef [OF assms(1)] assms(2)
    by (simp add: sums_to_def summable_def)
qed

lemma cancel_terms_muls:
  "summable xs \<Longrightarrow> list_all (\<lambda>i. \<not> num_groups_product (si_node i)) (filter p (cancel_terms xs))"
  using set_cancel_terms [of xs] by (auto simp only: summable_def list_all_iff set_filter)

definition same_value :: "env \<Rightarrow> rat \<Rightarrow> expr_node option \<Rightarrow> bool" where
  "same_value e v p = (case p of None \<Rightarrow> True | Some n \<Rightarrow> eval e n = Some v)"

lemma finish_sum_value:
  assumes "sums_to e v result"
  shows "yields (mgr_ok e) (if result = [] then returnS None
            else bindS (plus_first result) (\<lambda>ordered.
              bindS (chain_terms h (si_node (hd ordered)) (tl ordered)) (\<lambda>n. returnS (Some n)))) (same_value e v)"
proof (rule yields_if)
  assume "result \<noteq> []"
  then show "yields (mgr_ok e) (bindS (plus_first result) (\<lambda>ordered.
        bindS (chain_terms h (si_node (hd ordered)) (tl ordered)) (\<lambda>n. returnS (Some n)))) (same_value e v)"
  proof (rule yields_bind [OF plus_first_value [OF assms]])
    fix ys assume y: "sums_to e v ys \<and> ys \<noteq> [] \<and> si_plus (hd ys)"
    then obtain i "is" c where i: "ys = i # is" "eval e (si_node i) = Some c" "c + stot e is = v"
      "list_all (term_ok e) is"
      by (cases ys) (auto simp: sums_to_def term_ok_def tval_def)
    show "yields (mgr_ok e) (bindS (chain_terms h (si_node (hd ys)) (tl ys)) (\<lambda>n. returnS (Some n)))
       (same_value e v)"
      unfolding i(1) list.sel
      by (rule yields_bind [OF chain_terms_value [OF i(4,2)]], rule yields_return)
         (simp add: same_value_def i(3))
  qed
next
  assume "result = []"
  then show "yields (mgr_ok e) (returnS None) (same_value e v)"
    by (intro yields_return) (simp add: same_value_def)
qed

lemma parse_sum_value:
  assumes e: "consistent sz e" "plain_node l" "plain_node r" "eval e l = Some a" "eval e r = Some b"
    and s: "summable (node_to_list_of_sum_of_nodes l True @ node_to_list_of_sum_of_nodes r True)"
  shows "yields (mgr_ok e) (parse_and_optimize_node_sum l r h) (same_value e (a + b))"
proof -
  define xs where "xs = node_to_list_of_sum_of_nodes l True @ node_to_list_of_sum_of_nodes r True"
  have xs: "list_all (term_ok e) xs"
    using node_to_list_ok [OF e(1,2,4)] node_to_list_ok [OF e(1,3,5)] by (simp add: xs_def)
  have "stot e xs = a + b"
    using node_to_list_value [OF e(4)] node_to_list_value [OF e(5)] by (simp add: xs_def)
  with cancel_terms_sums [OF xs] s have f: "sums_to e (a + b) (cancel_terms xs)" by (simp add: xs_def)
  have g: "list_all (\<lambda>i. \<not> num_groups_product (si_node i)) (filter (\<lambda>i. is_mul_node (si_node i)) (cancel_terms xs))"
    using cancel_terms_muls s by (simp add: xs_def)
  show ?thesis
    unfolding parse_and_optimize_node_sum_def Let_def xs_def [symmetric]
  proof (rule yields_bind_keep)
    fix sizes
    have "yields (mgr_ok e) (if 2 \<le> length (cancel_terms xs)
            then merge_dims sizes (filter (\<lambda>i. is_mul_node (si_node i)) (cancel_terms xs)) dims (cancel_terms xs)
            else returnS (cancel_terms xs)) (sums_to e (a + b))"
      by (intro yields_if merge_dims_value [OF e(1) f g] yields_return f)
    then show "yields (mgr_ok e)
      (bindS (if 2 \<le> length (cancel_terms xs)
          then merge_dims sizes (filter (\<lambda>i. is_mul_node (si_node i)) (cancel_terms xs)) dims (cancel_terms xs)
          else returnS (cancel_terms xs))
        (\<lambda>result. if result = [] then returnS None
            else bindS (plus_first result) (\<lambda>ordered.
              bindS (chain_terms h (si_node (hd ordered)) (tl ordered)) (\<lambda>n. returnS (Some n)))))
      (same_value e (a + b))"
      by (rule yields_bind) (rule finish_sum_value)
  qed (intro yields_get, simp)
qed

section \<open>Products and quotients\<close>

definition offset_ok :: "env \<Rightarrow> offset_node \<Rightarrow> bool" where
  "offset_ok e off \<longleftrightarrow>
     (\<forall>d. yields (mgr_ok e) (off d) (\<lambda>n. eval e n = Some (wi e (WORK_GROUP_ID_LOCAL_SIZE d))))"

lemma yields_workgroups: "yields (mgr_ok e) (getS workgroups) (\<lambda>s. consistent (sizes_of s) e)"
  by (rule yields_get) (simp add: mgr_ok_def)

lemma group_id_mul_none: "group_id_node_mul_size_of_work_groups l r None = Inr t \<Longrightarrow> t = UNKNOWN"
  by (auto simp: group_id_node_mul_size_of_work_groups_def size_at_def
      split: if_splits option.splits expr_node.splits)

lemma group_id_mul_off:
  assumes "group_id_node_mul_size_of_work_groups l r sizes = Inr t" "consistent (sizes_of sizes) e"
    and "opt2 (op_sem O_MUL) (eval e l) (eval e r) = Some v" "offset_ok e off"
  shows "yields (mgr_ok e) (case t of WORK_GROUP_ID_LOCAL_SIZE d \<Rightarrow> off d | _ \<Rightarrow> new_op O_MUL l r h)
           (\<lambda>n. eval e n = Some v)"
proof (cases "\<exists>d. t = WORK_GROUP_ID_LOCAL_SIZE d")
  case True
  then obtain d where d: "t = WORK_GROUP_ID_LOCAL_SIZE d" ..
  with assms(1) group_id_mul_none obtain xs where xs: "sizes = Some xs" by (cases sizes) auto
  have "v = wi e (WORK_GROUP_ID_LOCAL_SIZE d)"
    using group_id_mul_value [of l r xs t e] assms(1-3) d xs by (auto simp: sizes_of_def)
  then show ?thesis using assms(4) by (simp add: d offset_ok_def)
next
  case False
  then show ?thesis using new_op_value [OF assms(3)] by (cases t) auto
qed

lemma mul_value:
  assumes "offset_ok e off" "eval e s0 = Some a" "eval e s1 = Some b" "plain_top s0" "plain_top s1"
  shows "yields (mgr_ok e) (optimized_nodes_mul off s0 s1 h) (\<lambda>n. eval e n = Some (a * b))"
proof -
  have m: "opt2 (op_sem O_MUL) (eval e s0) (eval e s1) = Some (a * b)" using assms by simp
  note z = const_zero_value [of s0 e] const_zero_value [of s1 e] const_one_value [of s0 e] const_one_value [of s1 e]
  show ?thesis
    unfolding optimized_nodes_mul_def
    by (intro yields_bind_lift yields_if yields_return yields_bind [OF yields_workgroups] group_id_mul_off [OF _ _ m assms(1)])
       (use assms z in auto)
qed

lemma mul_by_const_value:
  assumes "mul_by_const n = Some (i, l, j, c)" "eval e n = Some v"
  shows "\<exists>a b. eval e l = Some a \<and> const_sem c = Some b \<and> v = a * b \<and> n = NOp i O_MUL l (NConst j c)"
  using assms by (auto simp: mul_by_const_def opt2_Some split: expr_node.splits if_splits)

lemma evaluate_num_const: "evaluate_operation v x w = Inr c \<Longrightarrow> num_const c"
  by (auto simp: evaluate_operation_def)

lemma const_is_int_value: "const_is_int v k \<Longrightarrow> const_sem v = Some (of_int k)"
  by (auto simp: const_is_int_def dest: const_eq_sem)

lemma div_value:
  assumes e: "eval e s0 = Some a" "eval e s1 = Some b" "b \<noteq> 0" and p: "plain_node s0" "plain_node s1"
  shows "yields (mgr_ok e) (optimized_nodes_div s0 s1 h) (\<lambda>n. eval e n = Some (a / b))"
proof -
  have dv: "opt2 (op_sem O_DIV) (eval e s0) (eval e s1) = Some (a / b)" using e by simp
  have top: "plain_top s1" using p(2) node_all_top by (auto simp: plain_node_def)
  have "yields (mgr_ok e)
    (case (mul_by_const s0, s1) of
       (Some (i, l, j, c), NConst k v) \<Rightarrow>
         bindS (liftS (hint_common (hint j) (hint k))) (\<lambda>simplified.
         bindS (liftS (evaluate_operation c O_DIV v)) (\<lambda>q.
           if const_is_int q 1 then returnS l
           else bindS (add_const_node q (opencl_type simplified)) (\<lambda>c'. returnS (NOp i O_MUL l c'))))
     | _ \<Rightarrow> new_op O_DIV s0 s1 h) (\<lambda>n. eval e n = Some (a / b))"
  proof (cases "\<exists>i l j c k v. mul_by_const s0 = Some (i, l, j, c) \<and> s1 = NConst k v")
    case True
    then obtain i l j c k v where h: "mul_by_const s0 = Some (i, l, j, c)" "s1 = NConst k v" by auto
    obtain x y where xy: "eval e l = Some x" "const_sem c = Some y" "a = x * y"
      "s0 = NOp i O_MUL l (NConst j c)"
      using mul_by_const_value [OF h(1) e(1)] by auto
    have pc: "plain_const c" "plain_const v" using p h(2) xy(4) by (auto simp: plain_node_def plain_top_def)
    have q: "const_sem q = Some (y / b)" "num_const q" if "evaluate_operation c O_DIV v = Inr q" for q
      using evaluate_operation_value [OF that pc] evaluate_num_const [OF that] xy e h(2) by auto
    show ?thesis
      unfolding h prod.case option.case expr_node.case
    proof (intro yields_bind_lift yields_if yields_return)
      fix t q assume "evaluate_operation c O_DIV v = Inr q" "const_is_int q 1"
      with q const_is_int_value [of q 1] show "eval e l = Some (a / b)" using xy e by auto
    next
      fix t q assume ev: "evaluate_operation c O_DIV v = Inr q"
      show "yields (mgr_ok e) (bindS (add_const_node q (opencl_type t)) (\<lambda>c'. returnS (NOp i O_MUL l c')))
              (\<lambda>n. eval e n = Some (a / b))"
        using q [OF ev] xy
        by (intro yields_bind [OF add_const_node_value] yields_return) auto
    qed
  next
    case False
    then show ?thesis using new_op_value [OF dv] by (auto split: option.splits expr_node.splits)
  qed
  then show ?thesis
    unfolding optimized_nodes_div_def
    using const_one_value [OF _ top] e
    by (intro yields_bind_lift yields_if yields_return yields_raise) auto
qed

section \<open>Sums and differences\<close>

lemma contents_equal_sym: "contents_equal n m \<Longrightarrow> contents_equal m n"
  by (induction n arbitrary: m)
     (fastforce split: expr_node.splits dest: const_eq_sym node_eq_sym)+

lemma distinct_contents_append:
  "distinct_contents (xs @ ys) \<longleftrightarrow> distinct_contents xs \<and> distinct_contents ys
     \<and> (\<forall>x\<in>set xs. \<forall>y\<in>set ys. \<not> contents_equal (si_node y) (si_node x))"
  by (induction xs) (auto simp: list_all_iff)

lemma summable_swap: "summable (xs @ ys) \<Longrightarrow> summable (ys @ xs)"
  using contents_equal_sym
  by (auto simp: summable_def no_repeated_minus_def distinct_contents_append)

lemma summable_right: "summable (xs @ ys) \<Longrightarrow> summable ys"
  by (auto simp: summable_def no_repeated_minus_def distinct_contents_append)

definition base_cond :: "expr_node \<Rightarrow> expr_node \<Rightarrow> bool" where
  "base_cond s0 s1 \<longleftrightarrow> plain_node s0 \<and> plain_node s1 \<and> no_unfolding s0 s1"

definition sum_cond :: "expr_node \<Rightarrow> expr_node \<Rightarrow> bool" where
  "sum_cond s0 s1 \<longleftrightarrow> base_cond s0 s1
     \<and> summable (node_to_list_of_sum_of_nodes s0 True @ node_to_list_of_sum_of_nodes s1 True)"

definition sub_cond :: "expr_node \<Rightarrow> expr_node \<Rightarrow> bool" where
  "sub_cond s0 s1 \<longleftrightarrow> base_cond s0 s1
     \<and> (summable (node_to_list_of_sum_of_nodes s0 True @ node_to_list_of_sum_of_nodes s1 False)
        \<or> is_const_node s1 \<and> const_negative_node s1 \<noteq> Inr True)"

lemma base_cond_swap: "base_cond s0 s1 \<Longrightarrow> base_cond s1 s0"
  by (auto simp: base_cond_def no_unfolding_def)

lemma sum_cond_swap: "sum_cond s0 s1 \<Longrightarrow> sum_cond s1 s0"
  by (auto simp: sum_cond_def base_cond_swap summable_swap)

lemma const_negative_is_const: "const_negative_node n = Inr True \<Longrightarrow> is_const_node n"
  by (auto simp: const_negative_node_def split: if_splits)

lemma abs_const_shape:
  assumes "const_negative_node n = Inr True" "abs_const n = Inr a"
  obtains (int) i k where "n = NConst i (CInt k)" "a = NConst i (CInt (- k))" "k < 0"
    | (float) i q where "n = NConst i (CFloat q)" "a = NConst i (CFloat (- q))" "q < 0"
  using assms
  by (cases n rule: abs_const.cases)
     (auto simp: const_negative_node_def const_test_def abs_if split: if_splits)

lemma abs_const_props:
  assumes "const_negative_node n = Inr True" "abs_const n = Inr a"
  shows "eval e n = Some v \<Longrightarrow> eval e a = Some (- v)" and "is_const_node a"
    and "const_negative_node a \<noteq> Inr True"
    and "plain_node a" and "pointer_free n \<Longrightarrow> pointer_free a"
    and "integral_consts n \<Longrightarrow> integral_consts a"
proof -
  have f: "of_int \<lfloor>- q\<rfloor> = - q" if "of_int \<lfloor>q\<rfloor> = q" for q :: rat
    using that by (metis floor_of_int of_int_minus)
  show "eval e n = Some v \<Longrightarrow> eval e a = Some (- v)"
    by (rule abs_const_shape [OF assms]) simp_all
  show "is_const_node a" by (rule abs_const_shape [OF assms]) simp_all
  show "const_negative_node a \<noteq> Inr True"
    by (rule abs_const_shape [OF assms]) (simp_all add: const_negative_node_def const_test_def)
  show "plain_node a"
    by (rule abs_const_shape [OF assms]) (simp_all add: plain_node_def plain_top_def plain_const_def)
  show "pointer_free n \<Longrightarrow> pointer_free a"
    by (rule abs_const_shape [OF assms]) (simp_all add: pointer_free_def)
  show "integral_consts n \<Longrightarrow> integral_consts a"
    by (rule abs_const_shape [OF assms]) (simp_all add: integral_consts_def f)
qed

lemma base_cond_abs:
  "base_cond s0 n \<Longrightarrow> const_negative_node n = Inr True \<Longrightarrow> abs_const n = Inr a \<Longrightarrow> base_cond s0 a"
  using abs_const_props [of n a] by (auto simp: base_cond_def no_unfolding_def)

lemma const_node_terms:
  "is_const_node n \<Longrightarrow> node_to_list_of_sum_of_nodes n p = [leaf_info n p] \<and> \<not> num_groups_product n"
  by (cases n) (simp_all add: num_groups_product_def)

lemma sub_to_sum_cond:
  assumes "sub_cond s0 n" "const_negative_node n = Inr True" "abs_const n = Inr a"
  shows "sum_cond s0 a"
proof -
  note c = const_negative_is_const [OF assms(2)] abs_const_props(2) [OF assms(2,3)]
  have "summable (node_to_list_of_sum_of_nodes s0 True @ [leaf_info n False])"
    using assms(1,2) const_node_terms [OF c(1)] by (simp add: sub_cond_def)
  then have "summable (node_to_list_of_sum_of_nodes s0 True @ [leaf_info a True])"
    using const_node_terms [OF c(2)]
    by (auto simp: summable_def no_repeated_minus_def distinct_contents_append)
  then show ?thesis
    using assms base_cond_abs const_node_terms [OF c(2)] by (auto simp: sum_cond_def sub_cond_def)
qed

lemma sum_to_sub_cond:
  assumes "sum_cond s0 n" "const_negative_node n = Inr True" "abs_const n = Inr a"
  shows "sub_cond s0 a"
  using assms abs_const_props(2,3) [OF assms(2,3)] base_cond_abs
  by (auto simp: sum_cond_def sub_cond_def)

lemma minus_parts_eq: "minus_parts n = Some (l, r) \<Longrightarrow> \<exists>i. n = NOp i O_MINUS l r"
  by (auto simp: minus_parts_def split: expr_node.splits if_splits)

lemma sub_parts_cond:
  assumes "sub_cond s0 n" "minus_parts n = Some (l, r)"
  shows "sub_cond r l"
proof -
  obtain i where n: "n = NOp i O_MINUS l r" using minus_parts_eq [OF assms(2)] ..
  have "summable (node_to_list_of_sum_of_nodes l False @ node_to_list_of_sum_of_nodes r True)"
    using assms(1) summable_right by (auto simp: sub_cond_def n)
  then have "summable (node_to_list_of_sum_of_nodes r True @ node_to_list_of_sum_of_nodes l False)"
    by (rule summable_swap)
  then show ?thesis
    using assms(1)
    by (auto simp: sub_cond_def base_cond_def n plain_node_def no_unfolding_def pointer_free_def integral_consts_def)
qed

lemma plain_sum_value:
  assumes "sum_cond s0 s1" "eval e s0 = Some a" "eval e s1 = Some b"
  shows "yields (mgr_ok e) (plain_sum s0 s1 h) (\<lambda>n. eval e n = Some (a + b))"
proof (cases "\<exists>sz. consistent sz e")
  case False
  then show ?thesis by (auto simp: yields_def mgr_ok_def)
next
  case True
  then obtain sz where sz: "consistent sz e" ..
  have nu: "\<not> (is_pointer (node_hint s0) \<and> const_not_integral s1 = Inr True)"
    using assms(1) node_all_top
    by (fastforce simp: sum_cond_def base_cond_def no_unfolding_def pointer_free_def integral_consts_def)
  have rhs: "yields (mgr_ok e) (if is_pointer (node_hint s0) \<and> is_const_node s1
            then bindS (liftS (const_not_integral s1)) (\<lambda>b.
                   if b then bindS (getS (lookup_original s1)) (\<lambda>z.
                               case z of Some u \<Rightarrow> returnS u | None \<Rightarrow> raiseS KeyError)
                   else returnS s1)
            else returnS s1) (\<lambda>s1'. s1' = s1)"
    by (intro yields_if yields_bind_lift yields_return) (use nu in auto)
  have p: "yields (mgr_ok e) (parse_and_optimize_node_sum s0 s1 h) (same_value e (a + b))"
    by (rule parse_sum_value [OF sz]) (use assms in \<open>auto simp: sum_cond_def base_cond_def\<close>)
  have "yields (mgr_ok e) (bindS (parse_and_optimize_node_sum s0 s1 h) (\<lambda>p.
       case p of None \<Rightarrow> new_op O_PLUS s0 s1 h | Some n \<Rightarrow> returnS n)) (\<lambda>n. eval e n = Some (a + b))"
  proof (rule yields_bind [OF p])
    fix q assume "same_value e (a + b) q"
    then show "yields (mgr_ok e) (case q of None \<Rightarrow> new_op O_PLUS s0 s1 h | Some n \<Rightarrow> returnS n)
        (\<lambda>n. eval e n = Some (a + b))"
      using assms by (auto simp: same_value_def intro!: yields_return new_op_value split: option.splits)
  qed
  then show ?thesis unfolding plain_sum_def by (intro yields_bind [OF rhs]) simp
qed

lemma optimized_nodes_sum_eq:
  "optimized_nodes_sum off s0 s1 h =
     bindS (liftS (const_zero_node s0)) (\<lambda>z0. if z0 then returnS s1 else
     bindS (liftS (const_zero_node s1)) (\<lambda>z1. if z1 then returnS s0 else
     bindS (liftS (const_negative_node s0)) (\<lambda>n0.
     bindS (liftS (const_negative_node s1)) (\<lambda>n1.
       if n0 \<and> \<not> n1 then optimized_nodes_sum off s1 s0 h
       else if n1 then bindS (liftS (abs_const s1)) (\<lambda>a. optimized_nodes_sub off s0 a h)
       else plain_sum s0 s1 h))))"
  by (rule ext, subst optimized_nodes_sum.simps)
     (auto simp: bindS_def liftS_def returnS_def bind_res_def split: sum.splits)

lemma optimized_nodes_sub_eq:
  "optimized_nodes_sub off s0 s1 h =
     bindS (liftS (const_zero_node s0)) (\<lambda>z0.
       case (if z0 then minus_parts s1 else None) of
         Some (l, r) \<Rightarrow> optimized_nodes_sub off r l h
       | None \<Rightarrow>
          if z0 \<and> is_mul_div s1
          then bindS (add_const_node (CInt (-1)) (OType INT_T W1)) (\<lambda>c. optimized_nodes_mul off c s1 h)
          else
          bindS (liftS (const_zero_node s1)) (\<lambda>z1. if z1 then returnS s0 else
          bindS (liftS (const_negative_node s1)) (\<lambda>n1.
            if n1 then bindS (liftS (abs_const s1)) (\<lambda>a. optimized_nodes_sum off s0 a h)
            else if node_eq s0 s1 then add_const_node (CInt 0) (OType UINT_T W1)
            else new_op O_MINUS s0 s1 h)))"
  by (rule ext, subst optimized_nodes_sub.simps)
     (auto simp: bindS_def liftS_def returnS_def bind_res_def split: sum.splits option.splits)

lemma base_cond_top: "base_cond s0 s1 \<Longrightarrow> plain_top s0 \<and> plain_top s1"
  using node_all_top by (auto simp: base_cond_def plain_node_def)

lemma zero_minus_mul:
  assumes "offset_ok e off" "eval e s1 = Some b" "plain_top s1"
  shows "yields (mgr_ok e) (bindS (add_const_node (CInt (-1)) (OType INT_T W1)) (\<lambda>c. optimized_nodes_mul off c s1 h))
           (\<lambda>n. eval e n = Some (- b))"
proof (rule yields_bind [OF add_const_node_value])
  fix c assume "eval e c = const_sem (CInt (-1)) \<and> plain_top c"
  then show "yields (mgr_ok e) (optimized_nodes_mul off c s1 h) (\<lambda>n. eval e n = Some (- b))"
    using mul_value [OF assms(1) _ assms(2) _ assms(3), of c "-1" h] by simp
qed simp

lemma sum_sub_value:
  fixes m :: manager
  assumes off: "offset_ok e off"
  shows "sum_cond s0 s1 \<Longrightarrow> eval e s0 = Some a \<Longrightarrow> eval e s1 = Some b \<Longrightarrow>
           yields (mgr_ok e) (optimized_nodes_sum off s0 s1 h) (\<lambda>n. eval e n = Some (a + b))"
    and "sub_cond s0 s1 \<Longrightarrow> eval e s0 = Some a \<Longrightarrow> eval e s1 = Some b \<Longrightarrow>
           yields (mgr_ok e) (optimized_nodes_sub off s0 s1 h) (\<lambda>n. eval e n = Some (a - b))"
  using off
proof (induction off s0 s1 h m and off s0 s1 h m arbitrary: a b and a b
    rule: optimized_nodes_sum_optimized_nodes_sub.induct)
  case (1 off s0 s1 h m)
  have top: "plain_top s0" "plain_top s1" using 1(3) base_cond_top by (auto simp: sum_cond_def)
  show ?case
    unfolding optimized_nodes_sum_eq [of off s0 s1 h]
  proof (intro yields_bind_lift yields_if yields_return)
    fix z0 assume "const_zero_node s0 = Inr z0" z0
    then show "eval e s1 = Some (a + b)" using const_zero_value [of s0 e] top 1 by auto
  next
    fix z1 assume "const_zero_node s1 = Inr z1" z1
    then show "eval e s0 = Some (a + b)" using const_zero_value [of s1 e] top 1 by auto
  next
    fix z0 z1 n0 n1
    assume "const_zero_node s0 = Inr z0" "\<not> z0" "const_zero_node s1 = Inr z1" "\<not> z1"
      "const_negative_node s0 = Inr n0" "const_negative_node s1 = Inr n1" "n0 \<and> \<not> n1"
    then show "yields (mgr_ok e) (optimized_nodes_sum off s1 s0 h) (\<lambda>n. eval e n = Some (a + b))"
      using 1(1) [of z0 z1 n0 n1 b a] sum_cond_swap 1(3-) by (simp add: add.commute)
  next
    fix z0 z1 n0 n1 c
    assume n: "const_zero_node s0 = Inr z0" "\<not> z0" "const_zero_node s1 = Inr z1" "\<not> z1"
      "const_negative_node s0 = Inr n0" "const_negative_node s1 = Inr n1" "\<not> (n0 \<and> \<not> n1)" n1
      "abs_const s1 = Inr c"
    then have neg: "const_negative_node s1 = Inr True" by simp
    show "yields (mgr_ok e) (optimized_nodes_sub off s0 c h) (\<lambda>n. eval e n = Some (a + b))"
      using 1(2) [of z0 z1 n0 n1 c a "- b"] n sum_to_sub_cond [OF 1(3) neg n(9)] abs_const_props(1) [OF neg n(9)] 1(4-)
      by simp
  next
    show "yields (mgr_ok e) (plain_sum s0 s1 h) (\<lambda>n. eval e n = Some (a + b))"
      using 1(3-) by (intro plain_sum_value)
  qed
next
  case (2 off s0 s1 h m)
  have top: "plain_top s0" "plain_top s1" using 2(3) base_cond_top by (auto simp: sub_cond_def)
  show ?case
    unfolding optimized_nodes_sub_eq [of off s0 s1 h]
  proof (rule yields_bind_lift)
    fix z0 assume z0: "const_zero_node s0 = Inr z0"
    have a: "z0 \<Longrightarrow> a = 0" using z0 const_zero_value [of s0 e] top 2(4-) by auto
    show "yields (mgr_ok e) (case (if z0 then minus_parts s1 else None) of
         Some (l, r) \<Rightarrow> optimized_nodes_sub off r l h
       | None \<Rightarrow>
          if z0 \<and> is_mul_div s1
          then bindS (add_const_node (CInt (-1)) (OType INT_T W1)) (\<lambda>c. optimized_nodes_mul off c s1 h)
          else
          bindS (liftS (const_zero_node s1)) (\<lambda>z1. if z1 then returnS s0 else
          bindS (liftS (const_negative_node s1)) (\<lambda>n1.
            if n1 then bindS (liftS (abs_const s1)) (\<lambda>a. optimized_nodes_sum off s0 a h)
            else if node_eq s0 s1 then add_const_node (CInt 0) (OType UINT_T W1)
            else new_op O_MINUS s0 s1 h))) (\<lambda>n. eval e n = Some (a - b))"
    proof (cases "if z0 then minus_parts s1 else None")
      case (Some p)
      then obtain l r where p: "p = (l, r)" "z0" "minus_parts s1 = Some (l, r)"
        by (cases p) (auto split: if_splits)
      obtain i where s1: "s1 = NOp i O_MINUS l r" using minus_parts_eq [OF p(3)] ..
      obtain x y where xy: "eval e l = Some x" "eval e r = Some y" "b = x - y"
        using 2(5) by (auto simp: s1 opt2_Some)
      have "yields (mgr_ok e) (optimized_nodes_sub off r l h) (\<lambda>n. eval e n = Some (y - x))"
        using 2(2) [OF z0 Some p(1) [symmetric] sub_parts_cond [OF 2(3) p(3)] xy(2,1)] 2(6) by simp
      then show ?thesis using a p xy(3) Some by simp
    next
      case None
      then show ?thesis
        unfolding None option.case
      proof (intro yields_bind_lift yields_if yields_return)
        assume "z0 \<and> is_mul_div s1"
        then show "yields (mgr_ok e)
            (bindS (add_const_node (CInt (-1)) (OType INT_T W1)) (\<lambda>c. optimized_nodes_mul off c s1 h))
            (\<lambda>n. eval e n = Some (a - b))"
          using zero_minus_mul [OF 2(6) 2(5) top(2)] a by simp
      next
        fix z1 assume "const_zero_node s1 = Inr z1" z1
        then show "eval e s0 = Some (a - b)" using const_zero_value [of s1 e] top 2(4-) by auto
      next
        fix z1 n1 c
        assume n: "\<not> (z0 \<and> is_mul_div s1)" "const_zero_node s1 = Inr z1" "\<not> z1"
          "const_negative_node s1 = Inr n1" n1 "abs_const s1 = Inr c"
        then have neg: "const_negative_node s1 = Inr True" by simp
        show "yields (mgr_ok e) (optimized_nodes_sum off s0 c h) (\<lambda>n. eval e n = Some (a - b))"
          using 2(1) [OF z0 None n(1-6) sub_to_sum_cond [OF 2(3) neg n(6)] 2(4) abs_const_props(1) [OF neg n(6) 2(5)] 2(6)]
          by simp
      next
        assume "node_eq s0 s1"
        then have "a = b" using node_eq_eval [of s0 s1 e] 2(4,5) by simp
        then show "yields (mgr_ok e) (add_const_node (CInt 0) (OType UINT_T W1)) (\<lambda>n. eval e n = Some (a - b))"
          by (intro yields_weaken [OF add_const_node_value]) simp_all
      next
        show "yields (mgr_ok e) (new_op O_MINUS s0 s1 h) (\<lambda>n. eval e n = Some (a - b))"
          using 2(4,5) by (intro new_op_value) simp
      qed
    qed
  qed
qed

section \<open>Logical operations\<close>

definition truth_value :: "env \<Rightarrow> expr_node \<Rightarrow> bool" where
  "truth_value e n \<longleftrightarrow> eval e n \<in> {Some 0, Some 1}"

text \<open>When the negation of a node is simplified correctly: the operand of a double negation is a truth
  value, and a negated comparison is not the ordered \<open>LG\<close>, which has no inverse in the table.\<close>

definition negatable :: "env \<Rightarrow> expr_node \<Rightarrow> bool" where
  "negatable e n \<longleftrightarrow>
     (case n of NNot i c \<Rightarrow> truth_value e c | NOp i x l r \<Rightarrow> x \<noteq> O_LG | _ \<Rightarrow> plain_top n)"

lemma inverted_compare:
  "is_compare_operator x \<Longrightarrow> x \<noteq> O_LG \<Longrightarrow>
     op_sem (get_inverted_operation x) a b = map_option (\<lambda>v. of_bool (v = 0)) (op_sem x a b)"
  by (cases x) (auto simp: is_compare_operator_def)

lemma not_operand_value:
  assumes "eval e n = Some v" "negatable e n"
  shows "yields (mgr_ok e)
     (case n of
        NNot i c \<Rightarrow> returnS (Some c)
      | NOp i x l r \<Rightarrow>
          returnS (if is_compare_operator x then Some (NOp i (get_inverted_operation x) l r) else None)
      | _ \<Rightarrow>
          bindS (liftS (const_zero_node n)) (\<lambda>z.
          if z then bindS (add_const_node (CInt 1) (OType UINT_T W1)) (\<lambda>c. returnS (Some c))
          else bindS (liftS (const_non_zero_node n)) (\<lambda>nz.
               if nz then bindS (add_const_node (CInt 0) (OType UINT_T W1)) (\<lambda>c. returnS (Some c))
               else returnS None))) (same_value e (of_bool (v = 0)))"
proof -
  have leaf: "yields (mgr_ok e)
     (bindS (liftS (const_zero_node n)) (\<lambda>z.
          if z then bindS (add_const_node (CInt 1) (OType UINT_T W1)) (\<lambda>c. returnS (Some c))
          else bindS (liftS (const_non_zero_node n)) (\<lambda>nz.
               if nz then bindS (add_const_node (CInt 0) (OType UINT_T W1)) (\<lambda>c. returnS (Some c))
               else returnS None))) (same_value e (of_bool (v = 0)))" if "plain_top n"
    using const_zero_value [OF _ that, of e] const_nonzero_value [OF _ that, of e] assms(1)
    by (intro yields_bind_lift yields_if yields_bind [OF add_const_node_value] yields_return)
       (auto simp: same_value_def)
  show ?thesis
  proof (cases n)
    case (NOp i x l r)
    then show ?thesis
      using assms inverted_compare [of x]
      by (auto simp: negatable_def same_value_def opt2_Some intro!: yields_return)
  next
    case (NNot i c)
    then show ?thesis
      using assms by (auto simp: negatable_def truth_value_def same_value_def intro!: yields_return)
  qed (use leaf assms(2) in \<open>auto simp: negatable_def\<close>)
qed

lemma not_value:
  assumes "eval e n = Some v" "negatable e n"
  shows "yields (mgr_ok e) (add_logical_not_node n) (\<lambda>u. eval e u = Some (of_bool (v = 0)))"
  unfolding add_logical_not_node_def Let_def
proof (rule yields_bind [OF not_operand_value [OF assms]])
  fix z assume z: "same_value e (of_bool (v = 0)) z"
  show "yields (mgr_ok e) (bindS fresh_id (\<lambda>i. bindS (add_node (create_logical_not_node i n)) (\<lambda>_.
            case z of
              Some u \<Rightarrow> bindS (set_original u (create_logical_not_node i n)) (\<lambda>_. returnS u)
            | None \<Rightarrow> returnS (create_logical_not_node i n)))) (\<lambda>u. eval e u = Some (of_bool (v = 0)))"
  proof (intro yields_bind_fresh yields_bind_add_node)
    fix i
    show "yields (mgr_ok e) (case z of
              Some u \<Rightarrow> bindS (set_original u (create_logical_not_node i n)) (\<lambda>_. returnS u)
            | None \<Rightarrow> returnS (create_logical_not_node i n)) (\<lambda>u. eval e u = Some (of_bool (v = 0)))"
      using z assms
      by (cases z) (auto simp: same_value_def pair_ok_def intro!: yields_bind_set_original yields_return)
  qed
qed

text \<open>An operand of a connective that is folded correctly: a truth value, and not a string constant.\<close>

definition truth_operand :: "env \<Rightarrow> expr_node \<Rightarrow> bool" where
  "truth_operand e n \<longleftrightarrow> truth_value e n \<and> (case n of NConst i v \<Rightarrow> num_const v | _ \<Rightarrow> True)"

lemma truthy_value: "num_const v \<Longrightarrow> const_sem v = Some q \<Longrightarrow> const_truthy v = (q \<noteq> 0)"
  by (cases v) (auto simp: num_const_def)

lemma logical_value:
  assumes e: "opt2 (op_sem x) (eval e s0) (eval e s1) = Some v"
    and t: "x \<in> {O_AND, O_OR} \<Longrightarrow> truth_operand e s0 \<and> truth_operand e s1"
  shows "yields (mgr_ok e) (optimized_nodes_logical_operation x s0 s1 h) (\<lambda>n. eval e n = Some v)"
proof -
  obtain a b where ab: "eval e s0 = Some a" "eval e s1 = Some b" "op_sem x a b = Some v"
    using e by (auto simp: opt2_Some)
  have known: "\<not> is_unknown_node s0" "\<not> is_unknown_node s1" using ab by (cases s0; cases s1; auto)+
  have const: "yields (mgr_ok e) (new_const k h) (\<lambda>n. eval e n = Some (of_int k))" for k
    by (auto simp: new_const_def intro!: yields_intros)
  have "yields (mgr_ok e)
     (if x = O_OR \<and> const_truthy c then new_const 1 h
      else if x = O_AND then (if const_truthy c then returnS other else new_const 0 h)
      else new_op x s0 s1 h) (\<lambda>n. eval e n = Some v)"
    if c: "const_operand s0 s1 = Some (c, other)" for c other
  proof (cases "x \<in> {O_AND, O_OR}")
    case True
    obtain p q where pq: "const_sem c = Some p" "eval e other = Some q" "num_const c" "p \<in> {0, 1}" "q \<in> {0, 1}"
      "a = p \<and> b = q \<or> a = q \<and> b = p"
      using c t [OF True] ab
      by (auto simp: const_operand_def truth_operand_def truth_value_def split: expr_node.splits)
    show ?thesis
      using truthy_value [OF pq(3,1)] pq(2,4-6) ab True const [of 1] const [of 0]
      by (auto intro!: yields_return new_op_value)
  next
    case False
    then show ?thesis using new_op_value [OF e] by auto
  qed
  then show ?thesis
    using known new_op_value [OF e] unfolding optimized_nodes_logical_operation_def
    by (auto split: option.splits)
qed

section \<open>Soundness of add_operation\<close>

definition operands_ok :: "env \<Rightarrow> expr_op \<Rightarrow> expr_node \<Rightarrow> expr_node \<Rightarrow> bool" where
  "operands_ok e x s0 s1 \<longleftrightarrow>
     base_cond s0 s1
     \<and> (x = O_PLUS \<longrightarrow> summable (node_to_list_of_sum_of_nodes s0 True @ node_to_list_of_sum_of_nodes s1 True))
     \<and> (x = O_MINUS \<longrightarrow> summable (node_to_list_of_sum_of_nodes s0 True @ node_to_list_of_sum_of_nodes s1 False))
     \<and> (x \<in> {O_AND, O_OR} \<longrightarrow> truth_operand e s0 \<and> truth_operand e s1)"

lemma folded_value:
  assumes "evaluate_operation v x w = Inr c" "opt2 (op_sem x) (const_sem v) (const_sem w) = Some q"
    and "operands_ok e x (NConst i v) (NConst j w)"
  shows "yields (mgr_ok e) (add_const_node c t) (\<lambda>n. eval e n = Some q)"
proof -
  have "plain_const v" "plain_const w"
    using assms(3) by (auto simp: operands_ok_def base_cond_def plain_node_def plain_top_def)
  then have "opt2 (op_sem x) (const_sem v) (const_sem w) = const_sem c"
    using assms(3) by (intro evaluate_operation_value [OF assms(1)])
      (auto simp: operands_ok_def truth_operand_def truth_value_def)
  then show ?thesis
    using assms(2) evaluate_num_const [OF assms(1)] by (intro yields_weaken [OF add_const_node_value]) auto
qed

lemma operation_node_other:
  "\<not> (is_const_node s0 \<and> is_const_node s1) \<Longrightarrow>
     operation_node off s0 s1 x h = bindS (combine_nodes off s0 s1 x h) (\<lambda>n. returnS (n, h))"
  by (cases s0; cases s1) (simp_all add: operation_node_def)

lemma operation_node_value:
  assumes "offset_ok e off" "operands_ok e x s0 s1" "opt2 (op_sem x) (eval e s0) (eval e s1) = Some v"
  shows "yields (mgr_ok e) (operation_node off s0 s1 x h) (\<lambda>(n, h'). eval e n = Some v)"
proof -
  obtain a b where ab: "eval e s0 = Some a" "eval e s1 = Some b" "op_sem x a b = Some v"
    using assms(3) by (auto simp: opt2_Some)
  have bc: "base_cond s0 s1" using assms(2) by (simp add: operands_ok_def)
  note top = base_cond_top [OF bc]
  have ops: "yields (mgr_ok e) (combine_nodes off s0 s1 x h) (\<lambda>n. eval e n = Some v)"
    unfolding combine_nodes_def
  proof (intro yields_if)
    assume "x = O_PLUS"
    then show "yields (mgr_ok e) (optimized_nodes_sum off s0 s1 h) (\<lambda>n. eval e n = Some v)"
      using sum_sub_value(1) [OF assms(1) _ ab(1,2)] assms(2) bc ab(3) by (auto simp: operands_ok_def sum_cond_def)
  next
    assume "x = O_MINUS"
    then show "yields (mgr_ok e) (optimized_nodes_sub off s0 s1 h) (\<lambda>n. eval e n = Some v)"
      using sum_sub_value(2) [OF assms(1) _ ab(1,2)] assms(2) bc ab(3) by (auto simp: operands_ok_def sub_cond_def)
  next
    assume "x = O_MUL"
    then show "yields (mgr_ok e) (optimized_nodes_mul off s0 s1 h) (\<lambda>n. eval e n = Some v)"
      using mul_value [OF assms(1) ab(1,2)] top ab(3) by auto
  next
    assume "x = O_DIV"
    then show "yields (mgr_ok e) (optimized_nodes_div s0 s1 h) (\<lambda>n. eval e n = Some v)"
      using div_value [OF ab(1,2)] bc ab(3) by (auto simp: base_cond_def split: if_splits)
  next
    show "yields (mgr_ok e) (optimized_nodes_logical_operation x s0 s1 h) (\<lambda>n. eval e n = Some v)"
      using logical_value [OF assms(3)] assms(2) by (auto simp: operands_ok_def)
  next
    show "yields (mgr_ok e) (new_op x s0 s1 h) (\<lambda>n. eval e n = Some v)" by (rule new_op_value [OF assms(3)])
  qed
  show ?thesis
  proof (cases "is_const_node s0 \<and> is_const_node s1")
    case True
    then obtain i c j d where n: "s0 = NConst i c" "s1 = NConst j d"
      by (cases s0; cases s1) auto
    have q: "opt2 (op_sem x) (const_sem c) (const_sem d) = Some v" using assms(3) by (simp add: n)
    show ?thesis
      unfolding operation_node_def n prod.case expr_node.case
    proof (intro yields_bind_lift)
      fix t r assume "evaluate_operation c x d = Inr r"
      then show "yields (mgr_ok e) (bindS (add_const_node r (opencl_type t)) (\<lambda>n. returnS (n, t)))
          (\<lambda>(n, h'). eval e n = Some v)"
        using folded_value [OF _ q] assms(2) n by (auto intro!: yields_bind yields_return)
    qed
  next
    case False
    then show ?thesis
      using ops operation_node_other [OF False] by (auto intro!: yields_bind yields_return)
  qed
qed

lemma eval_adopt [simp]: "eval e (adopt_type t n) = eval e n"
  by (simp add: adopt_type_def)

lemma new_op_eval:
  "yields (mgr_ok e) (new_op x l r h) (\<lambda>n. eval e n = opt2 (op_sem x) (eval e l) (eval e r))"
  by (auto simp: new_op_def intro!: yields_intros)

lemma add_operation_with_value:
  assumes "offset_ok e off" "operands_ok e x (adopt_type t s0) (adopt_type t s1)"
    and "opt2 (op_sem x) (eval e s0) (eval e s1) = Some v"
  shows "yields (mgr_ok e) (add_operation_with off s0 s1 x t) (\<lambda>n. eval e n = Some v)"
proof -
  have orig: "yields (mgr_ok e) (getS (unoptimized s)) (\<lambda>u. \<forall>w. eval e u = Some w \<longrightarrow> eval e s = Some w)" for s
    by (rule yields_get) (auto dest: unoptimized_ok)
  have op: "yields (mgr_ok e) (operation_node off (adopt_type t s0) (adopt_type t s1) x h)
              (\<lambda>(n, h'). eval e n = Some v)" for h
    by (rule operation_node_value [OF assms(1,2)]) (simp add: assms(3))
  show ?thesis
    unfolding add_operation_with_def Let_def
  proof (rule yields_bind_lift, rule yields_bind [OF op], clarify)
    fix h n h'
    assume n: "eval e n = Some v"
    show "yields (mgr_ok e) (bindS (getS (unoptimized (adopt_type t s0))) (\<lambda>u0.
         bindS (getS (unoptimized (adopt_type t s1))) (\<lambda>u1.
         bindS (new_op x u0 u1 h') (\<lambda>u.
         bindS (set_original n u) (\<lambda>_.
         bindS (add_node n) (\<lambda>_. returnS n)))))) (\<lambda>n. eval e n = Some v)"
    proof (rule yields_bind [OF orig], rule yields_bind [OF orig], rule yields_bind [OF new_op_eval])
      fix u0 u1 u
      assume "\<forall>w. eval e u0 = Some w \<longrightarrow> eval e (adopt_type t s0) = Some w"
        "\<forall>w. eval e u1 = Some w \<longrightarrow> eval e (adopt_type t s1) = Some w"
        "eval e u = opt2 (op_sem x) (eval e u0) (eval e u1)"
      then have "pair_ok e (n, u)" using n assms(3) by (auto simp: pair_ok_def opt2_Some)
      then show "yields (mgr_ok e) (bindS (set_original n u) (\<lambda>_. bindS (add_node n) (\<lambda>_. returnS n)))
          (\<lambda>n. eval e n = Some v)"
        using n by (auto intro!: yields_intros)
    qed
  qed
qed

lemma offset_ok_none: "offset_ok e no_offset_node"
  by (simp add: offset_ok_def no_offset_node_def yields_raise)

lemma operands_ok_wif: "operands_ok e O_MUL (adopt_type t (NWif i u)) (adopt_type t (NWif j w))"
  by (simp add: operands_ok_def base_cond_def adopt_type_def set_hint_def plain_node_def no_unfolding_def
      integral_consts_def)

lemma offset_ok_work_group: "offset_ok e work_group_offset_node"
proof (cases "\<exists>sz. consistent sz e")
  case False
  then show ?thesis by (auto simp: offset_ok_def yields_def mgr_ok_def)
next
  case True
  then have c: "wi e (WORK_GROUP_ID_LOCAL_SIZE d) = wi e (WORK_GROUP_ID d) * wi e (LOCAL_SIZE d)" for d
    by (auto simp: consistent_def)
  show ?thesis
    unfolding offset_ok_def work_group_offset_node_def
  proof (rule allI, rule yields_bind [OF add_wif_shape], rule yields_bind [OF add_wif_shape])
    fix d l r assume "\<exists>i. l = NWif i (WORK_GROUP_ID d)" "\<exists>i. r = NWif i (LOCAL_SIZE d)"
    then show "yields (mgr_ok e) (add_operation_with no_offset_node l r O_MUL (OType UINT_T W1))
        (\<lambda>n. eval e n = Some (wi e (WORK_GROUP_ID_LOCAL_SIZE d)))"
      using c by (auto intro!: add_operation_with_value offset_ok_none operands_ok_wif)
  qed
qed

lemma add_operation_value:
  assumes "operands_ok e x (adopt_type t s0) (adopt_type t s1)"
    and "opt2 (op_sem x) (eval e s0) (eval e s1) = Some v"
  shows "yields (mgr_ok e) (add_operation s0 s1 x t) (\<lambda>n. eval e n = Some v)"
  unfolding add_operation_def
  by (rule add_operation_with_value [OF offset_ok_work_group assms])


definition grid_value :: "register_type \<Rightarrow> rat" where
  "grid_value t = (case t of
     WORK_GROUP_ID d \<Rightarrow> 3 | LOCAL_SIZE d \<Rightarrow> 64 | WORK_ITEM_ID d \<Rightarrow> 5 | GLOBAL_OFFSET d \<Rightarrow> 7
   | WORK_GROUP_ID_LOCAL_SIZE d \<Rightarrow> 192 | GLOBAL_ID d \<Rightarrow> 204 | NUM_GROUPS d \<Rightarrow> 10 | GLOBAL_SIZE d \<Rightarrow> 640
   | _ \<Rightarrow> 0)"

definition grid_env :: env where
  "grid_env = \<lparr>wi = grid_value, var_val = (\<lambda>_. 0)\<rparr>"

lemma grid_env_consistent: "consistent sizes grid_env \<longleftrightarrow> (\<forall>d. dim_index d < length sizes \<longrightarrow> sizes ! dim_index d = 64)"
proof -
  have "(64 :: rat) = of_int k \<longleftrightarrow> k = 64" for k
    by (metis of_int_eq_iff of_int_numeral)
  then show ?thesis by (simp add: consistent_def grid_env_def grid_value_def)
qed

definition demo_wif :: "nat \<Rightarrow> register_type \<Rightarrow> expr_node" where
  "demo_wif i t = NWif (mk_info i (mk_hint (OType UINT_T W1))) t"

definition demo_op :: "nat \<Rightarrow> expr_op \<Rightarrow> expr_node \<Rightarrow> expr_node \<Rightarrow> expr_node" where
  "demo_op i x l r = NOp (mk_info i (mk_hint (OType UINT_T W1))) x l r"

definition demo_offset :: expr_node where
  "demo_offset = demo_op 5 O_PLUS (demo_wif 1 (GLOBAL_OFFSET DX))
     (demo_op 4 O_MUL (demo_wif 2 (WORK_GROUP_ID DX)) (demo_wif 3 (LOCAL_SIZE DX)))"

definition demo_manager :: manager where
  "demo_manager = init_manager\<lparr>next_id := 10, workgroups := Some [64, 64, 64]\<rparr>"

definition node_of :: "(expr_node \<times> manager) res \<Rightarrow> expr_node option" where
  "node_of r = (case r of Inr (n, m) \<Rightarrow> Some n | Inl x \<Rightarrow> None)"

lemma node_of_Some: "node_of r = Some n \<Longrightarrow> \<exists>m'. r = Inr (n, m')"
  by (auto simp: node_of_def split: sum.splits prod.splits)

lemma demo_consistent: "consistent [64, 64, 64] grid_env"
proof -
  have "[64, 64, 64 :: int] ! dim_index d = 64" for d by (cases d) simp_all
  then show ?thesis by (simp add: grid_env_consistent)
qed

lemma demo_manager_ok: "mgr_ok grid_env demo_manager"
  by (simp add: mgr_ok_def demo_manager_def init_manager_def sizes_of_def demo_consistent)


text \<open>
  The recognition of \<open>get_global_size\<close> is wrong: with a known work-group size the sum
  \<open>get_num_groups(0) * 64 + get_group_id(0) * get_local_size(0)\<close> becomes \<open>get_global_size(0)\<close>, which
  loses the second summand (640 instead of 832 here).
\<close>

lemma global_size_rule_unsound:
  "\<exists>n m'. add_operation (demo_op 4 O_MUL (demo_wif 1 (NUM_GROUPS DX)) (NConst (mk_info 2 (mk_hint (OType UINT_T W1))) (CInt 64)))
      (demo_op 5 O_MUL (demo_wif 2 (WORK_GROUP_ID DX)) (demo_wif 3 (LOCAL_SIZE DX))) O_PLUS (OType UINT_T W1) demo_manager
      = Inr (n, m')
     \<and> n = demo_wif 10 (GLOBAL_SIZE DX) \<and> mgr_ok grid_env demo_manager
     \<and> eval grid_env (demo_op 6 O_PLUS
           (demo_op 4 O_MUL (demo_wif 1 (NUM_GROUPS DX)) (NConst (mk_info 2 (mk_hint (OType UINT_T W1))) (CInt 64)))
           (demo_op 5 O_MUL (demo_wif 2 (WORK_GROUP_ID DX)) (demo_wif 3 (LOCAL_SIZE DX)))) = Some 832
     \<and> eval grid_env n = Some 640"
proof -
  let ?r = "add_operation (demo_op 4 O_MUL (demo_wif 1 (NUM_GROUPS DX)) (NConst (mk_info 2 (mk_hint (OType UINT_T W1))) (CInt 64)))
      (demo_op 5 O_MUL (demo_wif 2 (WORK_GROUP_ID DX)) (demo_wif 3 (LOCAL_SIZE DX))) O_PLUS (OType UINT_T W1) demo_manager"
  have "node_of ?r = Some (demo_wif 10 (GLOBAL_SIZE DX))" by code_simp
  then obtain m' where r: "?r = Inr (demo_wif 10 (GLOBAL_SIZE DX), m')" using node_of_Some by blast
  show ?thesis
    by (intro exI [of _ "demo_wif 10 (GLOBAL_SIZE DX)"] exI [of _ m'] conjI r demo_manager_ok)
       (simp_all add: demo_op_def demo_wif_def grid_env_def grid_value_def)
qed

section \<open>Negation\<close>



text \<open>
  The negation of an ordered comparison \<open>x <> y\<close> is an operation \<open>UNKNOWN\<close>, which has no value: the
  table of inverse operations has no entry for \<open>LG\<close>.
\<close>

lemma negated_LG_unknown:
  "node_of (add_logical_not_node (demo_op 3 O_LG l r) demo_manager) = Some (demo_op 3 O_UNKNOWN l r)
   \<and> eval e (demo_op 3 O_UNKNOWN l r) = None"
proof -
  have "opt2 (op_sem O_UNKNOWN) a b = None" for a b by (cases a; cases b) simp_all
  then show ?thesis
    by (simp add: add_logical_not_node_def node_of_def method_simps demo_op_def fresh_id_def add_node_def
        create_logical_not_node_def hint_is_unknown_def mk_info_def mk_hint_def Let_def set_original_def
        is_compare_operator_def)
qed

section \<open>The recursion between add_register_node and add_operation\<close>

lemma mul_wif_off: "optimized_nodes_mul off (NWif i t) (NWif j u) h = optimized_nodes_mul off' (NWif i t) (NWif j u) h"
proof -
  have "group_id_node_mul_size_of_work_groups (NWif i t) (NWif j u) sizes = Inr UNKNOWN" for sizes
    by (auto simp: group_id_node_mul_size_of_work_groups_def wif_or_const_def group_id_dim_def
        split: register_type.splits option.splits)
  then show ?thesis
    by (simp add: optimized_nodes_mul_def const_zero_node_def const_one_node_def const_test_def
        fun_eq_iff method_simps)
qed

lemma add_operation_wif_off:
  "add_operation_with off (NWif i t) (NWif j u) O_MUL ty = add_operation_with off' (NWif i t) (NWif j u) O_MUL ty"
proof -
  have "operation_node off (NWif a t) (NWif b u) O_MUL h = operation_node off' (NWif a t) (NWif b u) O_MUL h" for a b h
    by (simp add: operation_node_def combine_nodes_def mul_wif_off [of off _ _ _ _ _ off'])
  then show ?thesis
    by (simp add: add_operation_with_def adopt_type_def set_hint_def Let_def)
qed

lemma wif_method_shape:
  "add_work_item_function_node t m = Inr (n, m') \<Longrightarrow> \<exists>i. n = NWif i t"
  by (auto simp: add_work_item_function_node_def create_work_item_function_node_def method_simps fresh_id_def
      add_node_def Let_def split: option.splits if_splits)

lemma bindS_same:
  "(\<And>s x s'. m s = Inr (x, s') \<Longrightarrow> f x s' = g x s') \<Longrightarrow> bindS m f = bindS m g"
  by (auto simp: bindS_def fun_eq_iff bind_res_def split: sum.splits)

text \<open>
  The two mutually recursive methods satisfy the equation of the source: a work-group offset is
  \<open>add_operation\<close> of the two registers, with the full \<open>add_operation\<close>; the recursion stops because
  the product of two work-item functions is never rewritten again.
\<close>

lemma work_group_offset_rec:
  "add_register_node (WORK_GROUP_ID_LOCAL_SIZE d) v =
     bindS (bindS (add_work_item_function_node (WORK_GROUP_ID d)) (\<lambda>l.
            bindS (add_work_item_function_node (LOCAL_SIZE d)) (\<lambda>r.
              add_operation l r O_MUL (OType UINT_T W1)))) (\<lambda>n. returnS (Some n))"
proof -
  have "bindS (add_work_item_function_node (LOCAL_SIZE d)) (\<lambda>r. add_operation_with no_offset_node (NWif i t) r O_MUL ty)
      = bindS (add_work_item_function_node (LOCAL_SIZE d)) (\<lambda>r. add_operation_with work_group_offset_node (NWif i t) r O_MUL ty)"
    for i t ty
    by (rule bindS_same) (auto dest!: wif_method_shape intro: fun_cong [OF add_operation_wif_off])
  then have "work_group_offset_node d = bindS (add_work_item_function_node (WORK_GROUP_ID d)) (\<lambda>l.
            bindS (add_work_item_function_node (LOCAL_SIZE d)) (\<lambda>r.
              add_operation_with work_group_offset_node l r O_MUL (OType UINT_T W1)))"
    unfolding work_group_offset_node_def [of d]
    by (intro bindS_same) (auto dest!: wif_method_shape)
  then show ?thesis
    by (simp add: add_register_node_def add_operation_def)
qed

end
