(* ===== verification/Expr_Vars.thy ===== *)
theory Expr_Vars
  imports Expr_Manager
begin

text \<open>
  The rest of the expression manager: variables and kernel arguments of the current program, ternaries
  and permutations (\<open>src/src/expression_manager/expression_manager.py\<close>, and
  \<open>src/src/model/kernel_argument.py\<close>).  The entry of a variable is its \<open>var_node\<close>; the field
  \<open>value_node\<close> of \<open>ExpressionVariableInfo\<close> is always \<open>None\<close>.
\<close>

section \<open>Names\<close>

definition delimiter :: string where
  "delimiter = ''___s''"

text \<open>\<open>s.split(sep)\<close> for a separator that is not empty.\<close>

function split_aux :: "string \<Rightarrow> string \<Rightarrow> string \<Rightarrow> string list" where
  "split_aux sep [] acc = [rev acc]"
| "split_aux sep (c # cs) acc =
     (if startswith (c # cs) sep then rev acc # split_aux sep (drop (length sep - 1) cs) []
      else split_aux sep cs (c # acc))"
  by pat_completeness auto
termination by (relation "measure (\<lambda>(sep, s, acc). length s)") auto

definition split_str :: "string \<Rightarrow> string \<Rightarrow> string list" where
  "split_str sep s = split_aux sep s []"

text \<open>\<open>a, b = s.split(sep)\<close> raises unless there are exactly two parts.\<close>

definition split2 :: "string \<Rightarrow> string \<Rightarrow> (string \<times> string) res" where
  "split2 sep s = (case split_str sep s of [a, b] \<Rightarrow> Inr (a, b) | _ \<Rightarrow> Inl ValueError)"

fun strip_stars :: "string \<Rightarrow> string" where
  "strip_stars [] = []"
| "strip_stars (c # cs) = (if c = CHR ''*'' then strip_stars cs else c # cs)"

section \<open>Variables\<close>

definition get_variable_info :: "string \<Rightarrow> manager \<Rightarrow> expr_node option" where
  "get_variable_info s m = (case variables m (program_name m) of Some d \<Rightarrow> d s | None \<Rightarrow> None)"

definition get_variable_node :: "string \<Rightarrow> manager \<Rightarrow> expr_node option" where
  "get_variable_node s m =
     (let t = strip_stars s in if t = [] then None else get_variable_info t m)"

text \<open>Assignment to the entry of a variable of the current program.\<close>

definition put_variable :: "string \<Rightarrow> expr_node \<Rightarrow> unit mgr" where
  "put_variable s n = (\<lambda>m.
     case variables m (program_name m) of
       None \<Rightarrow> Inl KeyError
     | Some d \<Rightarrow> Inr ((), m\<lparr>variables := (variables m)(program_name m \<mapsto> d(s \<mapsto> n))\<rparr>))"

text \<open>
  \<open>add_variable_node\<close>.  For a component \<open>v___s1\<close> of a vector the source calls itself on the base name
  \<open>v\<close>, which contains no further delimiter; the inner call is an argument here, and the equation of
  the source is proved below.
\<close>

definition component_hint ::
    "(string \<Rightarrow> type_hint \<Rightarrow> expr_node mgr) \<Rightarrow> string \<Rightarrow> type_hint \<Rightarrow> type_hint mgr" where
  "component_hint inner var_name h =
     (if contains var_name delimiter
      then bindS (liftS (split2 delimiter var_name)) (\<lambda>(base, comps).
           if comps \<noteq> [] \<and> hint_components h \<noteq> int (length comps)
           then bindS (getS (get_variable_info base)) (\<lambda>z.
                let h' = h\<lparr>is_pointer := is_pointer h \<or> z = None \<and> startswith base ''*''\<rparr>
                in bindS (if z = None then bindS (inner base h) (\<lambda>_. returnS ()) else returnS ()) (\<lambda>_.
                     liftS (hint_set_components h' 1)))
           else returnS h)
      else returnS h)"

definition add_variable_with ::
    "(string \<Rightarrow> type_hint \<Rightarrow> expr_node mgr) \<Rightarrow> string \<Rightarrow> type_hint \<Rightarrow> expr_node mgr" where
  "add_variable_with inner s h0 =
     bindS (liftS (parse_variable_name s)) (\<lambda>(var_name, p).
     let h = h0\<lparr>is_pointer := is_pointer h0 \<or> p\<rparr>
     in bindS (getS (get_variable_info var_name)) (\<lambda>z.
        case z of
          Some n \<Rightarrow>
            if node_hint n \<noteq> h then bindS (put_variable var_name (set_hint h n)) (\<lambda>_. returnS (set_hint h n))
            else returnS n
        | None \<Rightarrow>
            bindS (component_hint inner var_name h) (\<lambda>h'.
            bindS fresh_id (\<lambda>i.
            let n = create_var_node i var_name h'
            in bindS (put_variable var_name n) (\<lambda>_. bindS (add_node n) (\<lambda>_. returnS n))))))"

definition no_inner_variable :: "string \<Rightarrow> type_hint \<Rightarrow> expr_node mgr" where
  "no_inner_variable s h = raiseS AssertionError"

definition add_variable_node :: "string \<Rightarrow> type_hint \<Rightarrow> expr_node mgr" where
  "add_variable_node = add_variable_with (add_variable_with no_inner_variable)"

definition update_variable_type :: "string \<Rightarrow> type_hint \<Rightarrow> bool mgr" where
  "update_variable_type s h =
     bindS (getS (get_variable_info s)) (\<lambda>z.
       case z of
         Some n \<Rightarrow> bindS (put_variable s (set_hint ((node_hint n)\<lparr>opencl_type := opencl_type h\<rparr>) n)) (\<lambda>_. returnS True)
       | None \<Rightarrow> returnS False)"

text \<open>\<open>cast_node\<close>: for a variable the entry is looked up and a cast copy of it is made and dropped.\<close>

definition cast_node :: "expr_node \<Rightarrow> opencl_types \<Rightarrow> expr_node mgr" where
  "cast_node n t =
     (case n of
        NVar i s \<Rightarrow> bindS (getS (get_variable_info s)) (\<lambda>z.
                      case z of None \<Rightarrow> raiseS KeyError | Some u \<Rightarrow> returnS (cast_to n t))
      | _ \<Rightarrow> returnS (cast_to n t))"

definition node_common_type :: "expr_node \<Rightarrow> expr_node \<Rightarrow> type_hint res" where
  "node_common_type s0 s1 = hint_common (node_hint s0) (node_hint s1)"

definition get_empty_node :: "expr_node mgr" where
  "get_empty_node = bindS fresh_id (\<lambda>i. returnS (NUnknown (mk_info i empty_hint)))"

section \<open>Kernel arguments\<close>

record kernel_argument =
  type_name :: string
  arg_name :: string
  arg_offset :: int
  arg_size :: int
  arg_hidden :: bool
  arg_const :: bool
  declared_size :: "int option"

definition is_vector_arg :: "kernel_argument \<Rightarrow> bool res" where
  "is_vector_arg a =
     (if type_name a \<noteq> [] \<and> is_decimal (last (type_name a))
      then (case arg_name a of [] \<Rightarrow> Inl IndexError | c # cs \<Rightarrow> Inr (c \<noteq> CHR ''*''))
      else Inr False)"

definition py_floordiv :: "int \<Rightarrow> int \<Rightarrow> int res" where
  "py_floordiv a b = (if b = 0 then Inl ZeroDivisionError else Inr (a div b))"

definition basic_size :: "kernel_argument \<Rightarrow> int res" where
  "basic_size a =
     bind_res (is_vector_arg a) (\<lambda>v.
       if v then py_floordiv (arg_size a) (int (decimal_value (last (type_name a)))) else Inr (arg_size a))"

definition get_vector_element_by_offset :: "kernel_argument \<Rightarrow> int \<Rightarrow> string res" where
  "get_vector_element_by_offset a offset =
     bind_res (is_vector_arg a) (\<lambda>v. bind_res (assert_res v) (\<lambda>_.
     bind_res (basic_size a) (\<lambda>b. bind_res (py_floordiv (offset - arg_offset a) b) (\<lambda>k.
       Inr (arg_name a @ ''___s'' @ show_int k)))))"

definition find_constant :: "string \<Rightarrow> register_type option" where
  "find_constant s = find (\<lambda>t. map_option cv_text (constant_values t) = Some s) constant_keys"

definition put_argument :: "string \<Rightarrow> expr_node option \<Rightarrow> unit mgr" where
  "put_argument s z = (\<lambda>m.
     case arguments m (program_name m) of
       None \<Rightarrow> Inl KeyError
     | Some d \<Rightarrow> Inr ((), m\<lparr>arguments := (arguments m)(program_name m \<mapsto> d(s := z))\<rparr>))"

definition var_name_of :: "expr_node \<Rightarrow> string" where
  "var_name_of n = (case n of NVar i s \<Rightarrow> s | _ \<Rightarrow> [])"

definition add_kernel_argument :: "kernel_argument \<Rightarrow> int \<Rightarrow> expr_node option mgr" where
  "add_kernel_argument a offset =
     (if arg_name a = ''UNKNOWN'' then bindS get_empty_node (\<lambda>n. returnS (Some n))
      else case find_constant (arg_name a) of
        Some t \<Rightarrow> add_register_node t (Some (CStr (arg_name a)))
      | None \<Rightarrow>
          bindS (liftS (is_vector_arg a)) (\<lambda>v.
          bindS (liftS (if v then get_vector_element_by_offset a offset else Inr (arg_name a))) (\<lambda>name.
          bindS (liftS (get_kernel_argument_type_and_qualifiers (type_name a))) (\<lambda>(t, q).
          bindS (add_variable_node name ((mk_hint t)\<lparr>qualifier := q, is_const := arg_const a\<rparr>)) (\<lambda>var_node.
          bindS (if contains (var_name_of var_node) delimiter
                 then bindS (liftS (split2 delimiter (var_name_of var_node))) (\<lambda>(base, _).
                      bindS (getS (get_variable_node base)) (\<lambda>z. returnS (base, z)))
                 else returnS (var_name_of var_node, Some var_node)) (\<lambda>(name', z).
          bindS (put_argument name' z) (\<lambda>_. returnS (Some var_node))))))))"

section \<open>Ternaries and permutations\<close>

definition add_if_ternary_node :: "expr_node \<Rightarrow> expr_node \<Rightarrow> expr_node \<Rightarrow> expr_node mgr" where
  "add_if_ternary_node c s0 s1 =
     bindS fresh_id (\<lambda>i. bindS (liftS (create_if_ternary_node i c s0 s1)) (\<lambda>n.
     bindS (getS (unoptimized c)) (\<lambda>uc. bindS (getS (unoptimized s0)) (\<lambda>u0. bindS (getS (unoptimized s1)) (\<lambda>u1.
     bindS fresh_id (\<lambda>j. bindS (liftS (create_if_ternary_node j uc u0 u1)) (\<lambda>u.
     bindS (set_original n u) (\<lambda>_. bindS (add_node n) (\<lambda>_. returnS n)))))))))"

text \<open>\<open>node.value.find(...)\<close> needs a value that is a string: a variable, a string constant or the empty
  node, whose value is \<open>UNKNOWN VALUE\<close>.\<close>

definition str_value :: "expr_node \<Rightarrow> string res" where
  "str_value n =
     (case n of
        NConst i v \<Rightarrow> (case v of CStr s \<Rightarrow> Inr s | _ \<Rightarrow> Inl AttributeError)
      | NVar i s \<Rightarrow> Inr s
      | NUnknown i \<Rightarrow> Inr ''UNKNOWN VALUE''
      | _ \<Rightarrow> Inl AttributeError)"

definition digit_list :: "string \<Rightarrow> nat list res" where
  "digit_list s = mapE (\<lambda>c. if is_decimal c then Inr (decimal_value c) else Inl ValueError) s"

definition permute_of :: "expr_node \<Rightarrow> expr_node \<Rightarrow> expr_node mgr" where
  "permute_of s0 s1 =
     bindS fresh_id (\<lambda>i. bindS (liftS (create_permute_node i s0 s1)) (\<lambda>n.
     bindS (add_node n) (\<lambda>_. returnS n)))"

definition merged_vector :: "string \<Rightarrow> nat list \<Rightarrow> expr_node mgr" where
  "merged_vector var0 comps =
     bindS (getS (get_variable_node var0)) (\<lambda>z.
       case z of
         None \<Rightarrow> raiseS AssertionError
       | Some v \<Rightarrow>
           if comps = [0..<length comps] \<and> int (length comps) = hint_components (node_hint v)
           then returnS v
           else bindS (liftS (hint_set_components (node_hint v) (int (length comps)))) (\<lambda>h.
                  add_variable_node (var0 @ delimiter @ concat (map show_nat comps)) h))"

definition add_permute_node :: "expr_node \<Rightarrow> expr_node \<Rightarrow> expr_node mgr" where
  "add_permute_node s0 s1 =
     bindS (liftS (str_value s0)) (\<lambda>a.
     bindS (if contains a delimiter
            then bindS (liftS (str_value s1)) (\<lambda>b. returnS (if contains b delimiter then Some b else None))
            else returnS None) (\<lambda>z.
       case z of
         None \<Rightarrow> permute_of s0 s1
       | Some b \<Rightarrow>
           bindS (liftS (split2 delimiter a)) (\<lambda>(var0, component0).
           bindS (liftS (split2 delimiter b)) (\<lambda>(var1, component1).
             if var0 = var1 \<and> component0 \<noteq> [] \<and> component1 \<noteq> []
             then bindS (getS (get_variable_node var0)) (\<lambda>v.
                  bindS (if v = None then raiseS AssertionError else returnS ()) (\<lambda>_.
                  bindS (liftS (digit_list component0)) (\<lambda>c0. bindS (liftS (digit_list component1)) (\<lambda>c1.
                    merged_vector var0 (c0 @ c1)))))
             else permute_of s0 s1))))"

fun permute_fold :: "expr_node \<Rightarrow> expr_node list \<Rightarrow> expr_node mgr" where
  "permute_fold n [] = returnS n"
| "permute_fold n (k # ks) = bindS (add_permute_node n k) (\<lambda>p. permute_fold p ks)"

definition add_permute_node_from_list :: "expr_node list \<Rightarrow> expr_node option mgr" where
  "add_permute_node_from_list ns =
     (case ns of
        [] \<Rightarrow> returnS None
      | n # rest \<Rightarrow> bindS (permute_fold n rest) (\<lambda>p. bindS (add_node p) (\<lambda>_. returnS (Some p))))"

section \<open>The recursion of add_variable_node\<close>

lemma contains_iff: "contains s p \<longleftrightarrow> (\<exists>k\<le>length s. startswith (drop k s) p)"
proof (induction s)
  case Nil
  then show ?case by (auto simp: startswith_def)
next
  case (Cons c s)
  have "(\<exists>k\<le>length (c # s). startswith (drop k (c # s)) p)
      \<longleftrightarrow> startswith (c # s) p \<or> (\<exists>k\<le>length s. startswith (drop k s) p)"
    by (metis Suc_le_mono drop0 drop_Suc_Cons le0 length_Cons not0_implies_Suc)
  with Cons show ?case by simp
qed

lemma startswith_extend: "startswith s p \<Longrightarrow> startswith (s @ t) p"
  by (auto dest!: startswithE)

lemma split_aux_hd:
  assumes "sep \<noteq> []" "\<And>k. k < length acc \<Longrightarrow> \<not> startswith (drop k (rev acc @ s)) sep"
  shows "\<not> contains (hd (split_aux sep s acc)) sep"
  using assms
proof (induction sep s acc rule: split_aux.induct)
  case (1 sep acc)
  then show ?case by (auto simp: contains_iff startswith_def le_less)
next
  case (2 sep c cs acc)
  show ?case
  proof (cases "startswith (c # cs) sep")
    case True
    have "\<not> startswith (drop k (rev acc)) sep" if "k \<le> length acc" for k
      using that 2(3) 2(4) [of k] startswith_extend [of "drop k (rev acc)" sep "c # cs"]
      by (cases "k = length acc") (auto simp: startswith_def)
    then show ?thesis using True by (auto simp: contains_iff)
  next
    case False
    have "\<not> startswith (drop k (rev (c # acc) @ cs)) sep" if "k < length (c # acc)" for k
      using that 2(4) [of k] False by (cases "k = length acc") auto
    then show ?thesis using 2(2) [OF False 2(3)] False by simp
  qed
qed

lemma split2_base: "split2 delimiter s = Inr (base, comps) \<Longrightarrow> \<not> contains base delimiter"
  using split_aux_hd [of delimiter "[]" s]
  by (auto simp: split2_def split_str_def delimiter_def split: list.splits)

lemma parse_variable_name_contains:
  "parse_variable_name s = Inr (v, p) \<Longrightarrow> contains v delimiter \<Longrightarrow> contains s delimiter"
  by (auto simp: parse_variable_name_def split: list.splits if_splits)

lemma add_variable_plain:
  assumes "\<not> contains s delimiter"
  shows "add_variable_with inner s h = add_variable_with inner' s h"
proof -
  have "component_hint inner v g = component_hint inner' v g" if "parse_variable_name s = Inr (v, p)" for v p g
    using parse_variable_name_contains [OF that] assms by (auto simp: component_hint_def)
  then show ?thesis
    by (auto simp: add_variable_with_def liftS_def bindS_def bind_res_def fun_eq_iff Let_def
        split: sum.splits option.splits)
qed

lemma component_hint_inner:
  assumes "\<And>base g. \<not> contains base delimiter \<Longrightarrow> inner base g = inner' base g"
  shows "component_hint inner s h = component_hint inner' s h"
  using split2_base assms
  by (auto simp: component_hint_def liftS_def bindS_def bind_res_def fun_eq_iff Let_def
      split: sum.splits option.splits)

text \<open>
  \<open>add_variable_node\<close> satisfies the recursive equation of the source: the call for the base name of
  a vector component is \<open>add_variable_node\<close> itself (the base name has no further delimiter, so the
  recursion is at most one level deep and terminates).
\<close>

lemma add_variable_node_rec: "add_variable_node s h = add_variable_with add_variable_node s h"
proof -
  have "add_variable_with no_inner_variable base g = add_variable_with (add_variable_with no_inner_variable) base g"
    if "\<not> contains base delimiter" for base g
    by (rule add_variable_plain [OF that])
  then have "component_hint (add_variable_with no_inner_variable) v g
      = component_hint (add_variable_with (add_variable_with no_inner_variable)) v g" for v g
    by (rule component_hint_inner)
  then show ?thesis by (simp add: add_variable_node_def add_variable_with_def)
qed

lemma info_set_info [simp]: "info (set_info j n) = j"
  by (cases n) simp_all

section \<open>Variables of a program\<close>

text \<open>A successful \<open>put_variable\<close> is an update of the store of the current program.\<close>

lemma put_variable_Inr:
  "put_variable s n m = Inr (u, m') \<Longrightarrow>
     get_variable_info t m' = (if t = s then Some n else get_variable_info t m)
     \<and> program_name m' = program_name m"
  by (auto simp: put_variable_def get_variable_info_def split: option.splits)

lemma add_node_info: "add_node n m = Inr (u, m') \<Longrightarrow> get_variable_info t m' = get_variable_info t m"
  by (auto simp: add_node_def get_variable_info_def method_simps split: if_splits)

lemma fresh_info: "fresh_id m = Inr (i, m') \<Longrightarrow> get_variable_info t m' = get_variable_info t m"
  by (auto simp: fresh_id_def get_variable_info_def)

text \<open>
  C3: after \<open>add_variable_node\<close> the variable of that name is in the table of the current program, its
  entry is the returned node, and the node carries the requested type, except that a component of a
  vector gets the scalar type.
\<close>

theorem add_variable_lookup:
  assumes "add_variable_node s h m = Inr (n, m')" "parse_variable_name s = Inr (v, p)"
  shows "get_variable_info v m' = Some n
    \<and> (contains v delimiter \<or> node_hint n = h\<lparr>is_pointer := is_pointer h \<or> p\<rparr>)"
proof -
  let ?h = "h\<lparr>is_pointer := is_pointer h \<or> p\<rparr>"
  show ?thesis
  proof (cases "get_variable_info v m")
    case (Some u)
    with assms show ?thesis
      by (auto simp: add_variable_node_def add_variable_with_def method_simps set_hint_def Let_def
          dest: put_variable_Inr [where t = v] split: if_splits)
  next
    case None
    then obtain h' i m1 m2 m3 where r: "component_hint (add_variable_with no_inner_variable) v ?h m = Inr (h', m1)"
      "fresh_id m1 = Inr (i, m2)" "n = create_var_node i v h'" "put_variable v n m2 = Inr ((), m3)"
      "add_node n m3 = Inr ((), m')"
      using assms by (auto simp: add_variable_node_def add_variable_with_def method_simps Let_def)
    have "h' = ?h" if "\<not> contains v delimiter"
      using r(1) that by (simp add: component_hint_def method_simps)
    then show ?thesis
      using put_variable_Inr [OF r(4), of v] add_node_info [OF r(5), of v] r(3)
      by (auto simp: create_var_node_def mk_info_def)
  qed
qed

theorem add_variable_lookup_witness:
  "case add_variable_node ''*p'' (mk_hint (OType INT_T W1)) (reset_manager ''k'' init_manager) of
     Inr (n, m') \<Rightarrow> get_variable_info ''p'' m' = Some n \<and> is_pointer (node_hint n) | Inl x \<Rightarrow> False"
proof -
  let ?r = "add_variable_node ''*p'' (mk_hint (OType INT_T W1)) (reset_manager ''k'' init_manager)"
  have "case ?r of Inr (n, m') \<Rightarrow> True | Inl x \<Rightarrow> False" by code_simp
  then obtain n m' where r: "?r = Inr (n, m')" by (auto split: sum.splits)
  have p: "parse_variable_name ''*p'' = Inr (''p'', True)" by (simp add: parse_variable_name_def)
  have "\<not> contains ''p'' delimiter" by (simp add: delimiter_def startswith_def)
  then show ?thesis
    using add_variable_lookup [OF r p] by (simp add: r)
qed

end
