(* ===== verification/Expr_Print.thy ===== *)
theory Expr_Print
  imports Expr_Semantics Expr_Vars
begin

text \<open>
  Printing of expressions (\<open>expression_to_string\<close> and its helpers in
  \<open>src/src/expression_manager/expression_helper_functions.py\<close>, and the printing methods of the
  manager).  How Python prints a float is the parameter \<open>fl\<close>.
\<close>

section \<open>Values and casts\<close>

definition show_const :: "(rat \<Rightarrow> string) \<Rightarrow> const_value \<Rightarrow> string" where
  "show_const fl v = (case v of CInt n \<Rightarrow> show_int n | CFloat q \<Rightarrow> fl q | CStr s \<Rightarrow> s)"

text \<open>\<open>str(node.value)\<close> for the nodes whose value is printed directly.\<close>

definition show_value :: "(rat \<Rightarrow> string) \<Rightarrow> expr_node \<Rightarrow> string" where
  "show_value fl n =
     (case n of NConst i v \<Rightarrow> show_const fl v | NVar i s \<Rightarrow> s | _ \<Rightarrow> ''UNKNOWN VALUE'')"

definition expression_explicit_cast_to_string :: "(rat \<Rightarrow> string) \<Rightarrow> expr_node \<Rightarrow> type_hint \<Rightarrow> string res" where
  "expression_explicit_cast_to_string fl n h =
     (if hint_components h = 1 \<or> hint_components (node_hint n) = 1 \<and> hint_components h > 1
      then Inr (''('' @ hint_str h @ '')'' @ show_value fl n)
      else bind_res (assert_res (hint_components (node_hint n) = hint_components h)) (\<lambda>_.
             Inr (''convert_'' @ opencl_str (opencl_type h) @ ''('' @ show_value fl n @ '')'')))"

section \<open>Brackets\<close>

definition node_op :: "expr_node \<Rightarrow> expr_op option" where
  "node_op n = (case n of NOp i x l r \<Rightarrow> Some x | NNot i c \<Rightarrow> Some O_NOT | _ \<Rightarrow> None)"

definition is_ternary_node :: "expr_node \<Rightarrow> bool" where
  "is_ternary_node n = (case n of NTernary i c l r \<Rightarrow> True | _ \<Rightarrow> False)"

definition check_op_node_needs_brackets :: "expr_op \<Rightarrow> expr_node \<Rightarrow> bool" where
  "check_op_node_needs_brackets x child =
     (case node_op child of
        Some y \<Rightarrow>
          if is_bitshift_operator y \<or> is_bitwise_operator y then True
          else if are_operations_inverted x y then True
          else if x = y \<and> x = O_MINUS then True
          else x \<noteq> y
      | None \<Rightarrow> is_ternary_node child)"

definition bracketed :: "bool \<Rightarrow> string \<Rightarrow> string" where
  "bracketed b s = (if b then ''('' @ s @ '')'' else s)"

definition child_hint :: "expr_node \<Rightarrow> type_hint \<Rightarrow> type_hint" where
  "child_hint n h = (if is_const_node n then mk_hint (opencl_type h) else h)"

text \<open>The left operand of \<open>pointer + index\<close>, printed as \<open>pointer[index]\<close>.\<close>

definition indexed_pointer :: "expr_op \<Rightarrow> expr_node \<Rightarrow> type_hint \<Rightarrow> string option" where
  "indexed_pointer x l h =
     (case l of
        NVar i s \<Rightarrow>
          if x = O_PLUS \<and> is_pointer (hint i) \<and> \<not> is_address (hint i) \<and> \<not> is_pointer h then Some s else None
      | _ \<Rightarrow> None)"

section \<open>Expressions\<close>

definition leaf_to_string :: "(rat \<Rightarrow> string) \<Rightarrow> expr_node \<Rightarrow> type_hint \<Rightarrow> string res" where
  "leaf_to_string fl n h =
     bind_res (assert_res (\<not> (is_var_node n \<and> hint_is_unknown (node_hint n)))) (\<lambda>_.
     bind_res (needs_cast n h) (\<lambda>b.
       if b then expression_explicit_cast_to_string fl n h else Inr (show_value fl n)))"

definition work_item_function_expression_to_string :: "register_type \<Rightarrow> string res" where
  "work_item_function_expression_to_string t =
     (case constant_values t of Some row \<Rightarrow> Inr (cv_text row) | None \<Rightarrow> Inl KeyError)"

definition op_expression_to_string ::
    "expr_op \<Rightarrow> bool \<Rightarrow> expr_node \<Rightarrow> expr_node \<Rightarrow> type_hint \<Rightarrow> (type_hint \<Rightarrow> string res)
       \<Rightarrow> (type_hint \<Rightarrow> string res) \<Rightarrow> string res" where
  "op_expression_to_string x has_parent l r h show_l show_r =
     (if x = O_NOT then bind_res (show_l h) (\<lambda>a. Inr (''!('' @ a @ '')''))
      else case indexed_pointer x l h of
        Some s \<Rightarrow> bind_res (show_r h) (\<lambda>b. Inr (s @ ''['' @ b @ (if has_parent then [] else '']'')))
      | None \<Rightarrow>
          bind_res (show_l (child_hint l h)) (\<lambda>a.
          bind_res (show_r (child_hint r h)) (\<lambda>b.
            if x = O_MIN then Inr (''min('' @ a @ '', '' @ b @ '')'')
            else Inr (bracketed (check_op_node_needs_brackets x l \<and> CHR ''['' \<notin> set a) a
                      @ '' '' @ op_value x @ '' ''
                      @ bracketed (check_op_node_needs_brackets x r) b
                      @ (if CHR ''['' \<in> set a then '']'' else [])))))"

fun expression_to_string :: "(rat \<Rightarrow> string) \<Rightarrow> expr_node \<Rightarrow> type_hint \<Rightarrow> string res" where
  "expression_to_string fl (NOp i x l r) h =
     op_expression_to_string x (parented i) l r h (expression_to_string fl l) (expression_to_string fl r)"
| "expression_to_string fl (NNot i c) h =
     bind_res (expression_to_string fl c h) (\<lambda>a. Inr (''!('' @ a @ '')''))"
| "expression_to_string fl (NPermute i l r) h =
     bind_res (hint_set_components (hint i) (hint_components (node_hint l))) (\<lambda>hl.
     bind_res (hint_set_components (hint i) (hint_components (node_hint r))) (\<lambda>hr.
     bind_res (expression_to_string fl l hl) (\<lambda>a.
     bind_res (expression_to_string fl r hr) (\<lambda>b.
       Inr (''('' @ hint_str (if hint i \<noteq> h then h else hint i) @ '')'' @ ''('' @ a @ '', '' @ b @ '')'')))))"
| "expression_to_string fl (NTernary i c l r) h =
     bind_res (expression_to_string fl c h) (\<lambda>a.
     bind_res (expression_to_string fl l h) (\<lambda>b.
     bind_res (expression_to_string fl r h) (\<lambda>d.
     bind_res (Inr (''('' @ a @ '') ? ('' @ b @ '') : ('' @ d @ '')'')) Inr)))"
| "expression_to_string fl (NWif i t) h = work_item_function_expression_to_string t"
| "expression_to_string fl n h = leaf_to_string fl n h"

definition var_expression_to_string :: "expr_node \<Rightarrow> string res" where
  "var_expression_to_string n =
     (case n of
        NVar i s \<Rightarrow> Inr (hint_str (hint i) @ (if last (hint_str (hint i)) \<noteq> CHR ''*'' then '' '' else []) @ s)
      | _ \<Rightarrow> Inl AssertionError)"

definition kernel_arg_to_string :: "string \<Rightarrow> manager \<Rightarrow> string res" where
  "kernel_arg_to_string s m =
     (let t = strip_stars s
      in if t = [] then Inr []
         else case (case arguments m (program_name m) of Some d \<Rightarrow> d t | None \<Rightarrow> None) of
                Some n \<Rightarrow> var_expression_to_string n
              | None \<Rightarrow> Inr [])"

definition variable_to_string :: "string \<Rightarrow> manager \<Rightarrow> string res" where
  "variable_to_string s m =
     (case get_variable_node s m of Some n \<Rightarrow> var_expression_to_string n | None \<Rightarrow> Inr [])"

section \<open>Regrouping\<close>

lemma integral_of_int [simp]: "integral (of_int n)"
  by (simp add: integral_def)

lemma on_ints_assoc:
  assumes "\<And>a b. f a b = Some (g a b)" "\<And>a b c. g (g a b) c = g a (g b c)"
  shows "opt2 (\<lambda>a b. on_ints a b f) (Some a) (on_ints b c f) = opt2 (\<lambda>a b. on_ints a b f) (on_ints a b f) (Some c)"
  by (auto simp: on_ints_def assms)

definition regroupable :: "expr_op \<Rightarrow> bool" where
  "regroupable x = (x \<in> {O_PLUS, O_MUL, O_AND, O_OR, O_XOR, O_MIN})"

lemma op_sem_assoc:
  assumes "regroupable x"
  shows "opt2 (op_sem x) (Some a) (op_sem x b c) = opt2 (op_sem x) (op_sem x a b) (Some c)"
proof (cases "x = O_XOR")
  case True
  then show ?thesis
    using on_ints_assoc [of "\<lambda>m n. Some (m XOR n)" "\<lambda>m n. m XOR n" a b c]
    by (cases "on_ints a b (\<lambda>m n. Some (m XOR n))"; cases "on_ints b c (\<lambda>m n. Some (m XOR n))")
       (simp_all add: xor.assoc)
next
  case False
  then show ?thesis using assms by (auto simp: regroupable_def min.assoc)
qed

text \<open>
  C4: where the printer leaves out the brackets around a right operand that is an operation, the operand
  has the same operator, and for an associative operator the reader's grouping to the left has the same
  value.
\<close>

theorem omitted_brackets_regroup:
  assumes "\<not> check_op_node_needs_brackets x (NOp i y b c)" "regroupable x"
  shows "y = x \<and> eval e (NOp j x a (NOp i y b c)) = eval e (NOp j x (NOp i y a b) c)"
proof -
  have y: "y = x" using assms(1) by (auto simp: check_op_node_needs_brackets_def node_op_def split: if_splits)
  have "opt2 (op_sem x) (eval e a) (opt2 (op_sem x) (eval e b) (eval e c))
      = opt2 (op_sem x) (opt2 (op_sem x) (eval e a) (eval e b)) (eval e c)"
    using op_sem_assoc [OF assms(2)] by (cases "eval e a"; cases "eval e b"; cases "eval e c") auto
  then show ?thesis by (simp add: y)
qed

definition int_var :: "nat \<Rightarrow> string \<Rightarrow> expr_node" where
  "int_var i s = NVar (mk_info i (mk_hint (OType INT_T W1))) s"

definition int_op_node :: "expr_op \<Rightarrow> expr_node \<Rightarrow> expr_node \<Rightarrow> expr_node" where
  "int_op_node x l r = NOp (mk_info 0 (mk_hint (OType INT_T W1))) x l r"

theorem omitted_brackets_regroup_witness:
  "eval \<lparr>wi = (\<lambda>_. 0), var_val = (\<lambda>_. 4)\<rparr>
     (int_op_node O_PLUS (int_var 1 ''a'') (int_op_node O_PLUS (int_var 2 ''b'') (int_var 3 ''c''))) = Some 12"
proof -
  have n: "\<not> check_op_node_needs_brackets O_PLUS
      (NOp (mk_info 0 (mk_hint (OType INT_T W1))) O_PLUS (int_var 2 ''b'') (int_var 3 ''c''))" by code_simp
  have r: "regroupable O_PLUS" by (simp add: regroupable_def)
  show ?thesis
    unfolding int_op_node_def
    using omitted_brackets_regroup [OF n r, of "\<lparr>wi = (\<lambda>_. 0), var_val = (\<lambda>_. 4)\<rparr>" _ "int_var 1 ''a''"]
    by (simp add: int_var_def)
qed


text \<open>
  A comparison in \<open>needs_cast\<close> raises \<open>TypeError\<close> for a variable: narrowing an integer variable to
  a smaller integer type of the same signedness compares the name of the variable with a number, so the
  expression cannot be printed.
\<close>

lemma narrowing_variable_raises:
  "expression_to_string fl (NVar (mk_info i (mk_hint (OType UINT_T W1))) s) (mk_hint (OType UCHAR_T W1)) = Inl TypeError"
proof -
  have "needs_cast (NVar (mk_info i (mk_hint (OType UINT_T W1))) s) (mk_hint (OType UCHAR_T W1)) = Inl TypeError"
    by (simp add: needs_cast_def mk_info_def mk_hint_def hint_is_unknown_def hint_components_def hint_size_bytes_def
        hint_is_integer_def hint_is_signed_def Let_def compare_value_def type_value_def get_size_def)
  then show ?thesis
    by (simp add: leaf_to_string_def mk_info_def mk_hint_def hint_is_unknown_def)
qed

text \<open>
  The upper bound of the range test is one too large for unsigned types: the constant 256 is printed
  without a cast where an \<open>uchar\<close> is expected.
\<close>

lemma unsigned_range_off_by_one:
  "needs_cast (NConst (mk_info i (mk_hint (OType UINT_T W1))) (CInt 256)) (mk_hint (OType UCHAR_T W1)) = Inr False
   \<and> needs_cast (NConst (mk_info i (mk_hint (OType UINT_T W1))) (CInt 257)) (mk_hint (OType UCHAR_T W1)) = Inr True"
  by (simp add: needs_cast_def mk_info_def mk_hint_def hint_is_unknown_def hint_components_def hint_size_bytes_def
        hint_is_integer_def hint_is_signed_def Let_def compare_value_def type_value_def get_size_def)

section \<open>Permutations\<close>

text \<open>
  A permutation of three or more operands of different origin cannot be built: the second step looks
  for the component delimiter in the value of a permutation node, which is \<open>None\<close>.
\<close>

lemma permute_of_three_raises:
  assumes "\<not> contains s delimiter"
    and "add_permute_node (NVar i s) b m = Inr (NPermute j x y, m')"
  shows "permute_fold (NVar i s) [b, c] m = Inl AttributeError"
  using assms by (simp add: method_simps add_permute_node_def [of "NPermute j x y"] str_value_def)

theorem permute_of_three_raises_witness:
  "permute_fold (NVar (mk_info 1 (mk_hint (OType INT_T W1))) ''a'')
     [NVar (mk_info 2 (mk_hint (OType INT_T W1))) ''b'', NVar (mk_info 3 (mk_hint (OType INT_T W1))) ''c''] init_manager
   = Inl AttributeError"
proof -
  let ?a = "NVar (mk_info 1 (mk_hint (OType INT_T W1))) ''a''" and ?b = "NVar (mk_info 2 (mk_hint (OType INT_T W1))) ''b''"
  have "(case add_permute_node ?a ?b init_manager of Inr (NPermute j x y, m) \<Rightarrow> True | _ \<Rightarrow> False)" by code_simp
  then obtain j x y m' where r: "add_permute_node ?a ?b init_manager = Inr (NPermute j x y, m')"
    by (auto split: sum.splits prod.splits expr_node.splits)
  have "\<not> contains ''a'' delimiter" by (simp add: delimiter_def startswith_def)
  then show ?thesis using r by (rule permute_of_three_raises)
qed

end
