(* ===== verification/IR_Types.thy ===== *)
theory IR_Types
  imports Register_Types State_Res
begin

text \<open>
  The vocabulary of the intermediate representation: operation types
  (\<open>src/src/ir/instructions/types.py\<close>), registers and values (\<open>src/src/ir/registers/reg.py\<close>) and the
  allocator of temporary names (\<open>src/src/ir/temporary_variable_allocator.py\<close>).

  The register classes form a hierarchy in the source (\<open>PredReg\<close> under \<open>Reg64\<close> under
  \<open>CompositeReg\<close>); here each class is a constructor, and the predicates \<open>is_range\<close> and
  \<open>is_predicate\<close> say what \<open>isinstance\<close> says.  A register is its name; the halves of a 64-bit register
  are derived from it.
\<close>

section \<open>Operation types\<close>

datatype ir_type =
    T_NONE | T_PRED
  | T_B8 | T_B16 | T_B32 | T_B64 | T_B128
  | T_U8 | T_U16 | T_U32 | T_U64
  | T_I8 | T_I16 | T_I32 | T_I64
  | T_F16 | T_F32 | T_F64
  | T_I64_I32 | T_U64_U32 | T_I32_F32 | T_F32_I32 | T_F64_I32 | T_I32_F64 | T_F64_U32
  | T_U32_U64 | T_U32_U16 | T_I32_I16 | T_U16_U32

fun ir_suffix :: "ir_type \<Rightarrow> string" where
  "ir_suffix T_NONE = ''none''"
| "ir_suffix T_PRED = ''pred''"
| "ir_suffix T_B8 = ''b8''"
| "ir_suffix T_B16 = ''b16''"
| "ir_suffix T_B32 = ''b32''"
| "ir_suffix T_B64 = ''b64''"
| "ir_suffix T_B128 = ''b128''"
| "ir_suffix T_U8 = ''u8''"
| "ir_suffix T_U16 = ''u16''"
| "ir_suffix T_U32 = ''u32''"
| "ir_suffix T_U64 = ''u64''"
| "ir_suffix T_I8 = ''i8''"
| "ir_suffix T_I16 = ''i16''"
| "ir_suffix T_I32 = ''i32''"
| "ir_suffix T_I64 = ''i64''"
| "ir_suffix T_F16 = ''f16''"
| "ir_suffix T_F32 = ''f32''"
| "ir_suffix T_F64 = ''f64''"
| "ir_suffix T_I64_I32 = ''i64_i32''"
| "ir_suffix T_U64_U32 = ''u64_u32''"
| "ir_suffix T_I32_F32 = ''i32_f32''"
| "ir_suffix T_F32_I32 = ''f32_i32''"
| "ir_suffix T_F64_I32 = ''f64_i32''"
| "ir_suffix T_I32_F64 = ''i32_f64''"
| "ir_suffix T_F64_U32 = ''f64_u32''"
| "ir_suffix T_U32_U64 = ''u32_u64''"
| "ir_suffix T_U32_U16 = ''u32_u16''"
| "ir_suffix T_I32_I16 = ''i32_i16''"
| "ir_suffix T_U16_U32 = ''u16_u32''"

text \<open>\<open>bits\<close>: the digits after the first letter of the part before the first underscore.\<close>

definition ir_bits :: "ir_type \<Rightarrow> nat" where
  "ir_bits t =
     (if t = T_NONE \<or> t = T_PRED then 0
      else read_nat 0 (tl (takeWhile (\<lambda>c. c \<noteq> CHR ''_'') (ir_suffix t))))"

definition ir_is_float :: "ir_type \<Rightarrow> bool" where
  "ir_is_float t = startswith (ir_suffix t) ''f''"

definition ir_is_bit_type :: "ir_type \<Rightarrow> bool" where
  "ir_is_bit_type t = startswith (ir_suffix t) ''b''"

definition ir_is_compound :: "ir_type \<Rightarrow> bool" where
  "ir_is_compound t = (CHR ''_'' \<in> set (ir_suffix t))"

definition bit_types :: "ir_type list" where
  "bit_types = [T_B8, T_B16, T_B32, T_B64, T_B128]"

definition integer_types :: "ir_type list" where
  "integer_types = [T_I8, T_I16, T_I32, T_I64, T_U8, T_U16, T_U32, T_U64]"

definition memory_value_types :: "ir_type list" where
  "memory_value_types = bit_types @ integer_types @ [T_F16, T_F32, T_F64]"

definition bit_type_for_bits :: "nat \<Rightarrow> ir_type res" where
  "bit_type_for_bits n =
     (case map_of [(8, T_B8), (16, T_B16), (32, T_B32), (64, T_B64), (128, T_B128)] n of
        Some t \<Rightarrow> Inr t | None \<Rightarrow> Inl ValueError)"

definition memory_suffix_for_bits :: "nat \<Rightarrow> string res" where
  "memory_suffix_for_bits n =
     (case map_of [(8, ''byte''), (16, ''short''), (32, ''dword''), (64, ''dwordx2''), (128, ''dwordx4'')] n of
        Some s \<Rightarrow> Inr s | None \<Rightarrow> Inl ValueError)"

definition ir_memory_suffix :: "ir_type \<Rightarrow> string res" where
  "ir_memory_suffix t = memory_suffix_for_bits (ir_bits t)"

section \<open>Registers\<close>

datatype operand =
    Reg32 string
  | Composite string "operand list"
  | Reg64 string
  | PredReg string
  | Val string

definition reserved_chars :: string where
  "reserved_chars = ''|#''"

definition valid_register_name :: "string \<Rightarrow> bool" where
  "valid_register_name s = list_all (\<lambda>c. c \<notin> set reserved_chars) s"

text \<open>The constructors of the classes: the name is validated unless the register is internal.\<close>

definition mk_reg32 :: "string \<Rightarrow> operand res" where
  "mk_reg32 s = (if valid_register_name s then Inr (Reg32 s) else Inl InvalidRegisterNameError)"

definition mk_reg64 :: "string \<Rightarrow> operand res" where
  "mk_reg64 s = (if valid_register_name s then Inr (Reg64 s) else Inl InvalidRegisterNameError)"

definition mk_pred :: "string \<Rightarrow> operand res" where
  "mk_pred s = (if valid_register_name s then Inr (PredReg s) else Inl InvalidRegisterNameError)"

definition mk_composite :: "string \<Rightarrow> operand list \<Rightarrow> operand res" where
  "mk_composite s rs = (if valid_register_name s then Inr (Composite s rs) else Inl InvalidRegisterNameError)"

fun op_name :: "operand \<Rightarrow> string" where
  "op_name (Reg32 s) = s"
| "op_name (Composite s rs) = s"
| "op_name (Reg64 s) = s"
| "op_name (PredReg s) = s"
| "op_name (Val s) = s"

definition halves :: "string \<Rightarrow> string list" where
  "halves s = [s @ ''|lo'', s @ ''|hi'']"

text \<open>\<open>get_reg_rang\<close>: the registers of a composite (the PTX reader also puts 64-bit registers and values
  into one), the halves of a 64-bit register, and anything else itself.\<close>

definition get_reg_rang :: "operand \<Rightarrow> operand list" where
  "get_reg_rang r =
     (case r of
        Reg32 s \<Rightarrow> [Reg32 s]
      | Composite s rs \<Rightarrow> rs
      | Reg64 s \<Rightarrow> map Reg32 (halves s)
      | PredReg s \<Rightarrow> map Reg32 (halves s)
      | Val s \<Rightarrow> [Val s])"

definition expand_register_names :: "operand \<Rightarrow> string list" where
  "expand_register_names r = map op_name (get_reg_rang r)"

lemma expand_register_names_simps [simp]:
  "expand_register_names (Reg32 s) = [s]"
  "expand_register_names (Composite s rs) = map op_name rs"
  "expand_register_names (Reg64 s) = halves s"
  "expand_register_names (PredReg s) = halves s"
  "expand_register_names (Val s) = [s]"
  by (simp_all add: expand_register_names_def get_reg_rang_def halves_def)

definition is_base_reg :: "operand \<Rightarrow> bool" where
  "is_base_reg r = (case r of Val s \<Rightarrow> False | _ \<Rightarrow> True)"

definition is_range :: "operand \<Rightarrow> bool" where
  "is_range r = (case r of Reg32 s \<Rightarrow> False | Val s \<Rightarrow> False | _ \<Rightarrow> True)"

definition is_reg64 :: "operand \<Rightarrow> bool" where
  "is_reg64 r = (case r of Reg64 s \<Rightarrow> True | PredReg s \<Rightarrow> True | _ \<Rightarrow> False)"

definition is_predicate :: "operand \<Rightarrow> bool" where
  "is_predicate r = (case r of PredReg s \<Rightarrow> True | _ \<Rightarrow> False)"

text \<open>\<open>bit_width\<close>; a \<open>Val\<close> has no such attribute.\<close>

definition bit_width :: "operand \<Rightarrow> nat res" where
  "bit_width r =
     (case r of
        Reg32 s \<Rightarrow> Inr 32
      | Composite s rs \<Rightarrow> Inr (32 * length rs)
      | Reg64 s \<Rightarrow> Inr 64
      | PredReg s \<Rightarrow> Inr 64
      | Val s \<Rightarrow> Inl AttributeError)"

definition type_suffix :: "operand \<Rightarrow> string res" where
  "type_suffix r =
     (case r of
        Reg32 s \<Rightarrow> Inr ''b32''
      | Composite s rs \<Rightarrow> Inr (''b'' @ show_nat (32 * length rs))
      | Reg64 s \<Rightarrow> Inr ''b64''
      | PredReg s \<Rightarrow> Inr ''pred''
      | Val s \<Rightarrow> Inl AttributeError)"

fun op_to_text :: "operand \<Rightarrow> string" where
  "op_to_text (Reg32 s) = s"
| "op_to_text (Val s) = s"
| "op_to_text (Composite s rs) = s @ ''['' @ join '', '' (map op_to_text rs) @ '']''"
| "op_to_text (Reg64 s) = s @ ''['' @ join '', '' (halves s) @ '']''"
| "op_to_text (PredReg s) = s @ ''['' @ join '', '' (halves s) @ '']''"

text \<open>\<open>get_element\<close>: only ranges have it; the index is not negative in the sources.\<close>

definition get_element :: "operand \<Rightarrow> nat \<Rightarrow> operand res" where
  "get_element r i =
     (if is_range r then py_nth (get_reg_rang r) i else Inl AttributeError)"

text \<open>\<open>a, b = get_reg_rang(r)\<close>.\<close>

definition reg_pair :: "operand \<Rightarrow> (operand \<times> operand) res" where
  "reg_pair r = (case get_reg_rang r of [a, b] \<Rightarrow> Inr (a, b) | _ \<Rightarrow> Inl ValueError)"

section \<open>Registers do not overlap by accident\<close>

definition valid_operand :: "operand \<Rightarrow> bool" where
  "valid_operand r = (case r of Composite s rs \<Rightarrow> list_all (\<lambda>q. valid_register_name (op_name q)) rs | _ \<Rightarrow> valid_register_name (op_name r))"

lemma valid_not_half: "valid_register_name s \<Longrightarrow> s \<noteq> t @ ''|lo'' \<and> s \<noteq> t @ ''|hi''"
  by (auto simp: valid_register_name_def reserved_chars_def)

lemma half_inject: "set (halves s) \<inter> set (halves t) \<noteq> {} \<Longrightarrow> s = t"
  by (auto simp: halves_def)



section \<open>Temporary names\<close>

text \<open>The counters, one per prefix.\<close>

type_synonym alloc = "string \<Rightarrow> nat option"

definition counter :: "alloc \<Rightarrow> string \<Rightarrow> nat" where
  "counter c p = (case c p of Some n \<Rightarrow> n | None \<Rightarrow> 0)"

definition temp_name :: "string \<Rightarrow> nat \<Rightarrow> string" where
  "temp_name p n = ''__'' @ p @ ''_'' @ show_nat n"

definition generate :: "string \<Rightarrow> (alloc, string) action" where
  "generate p = (\<lambda>c. Inr (temp_name p (counter c p), c(p \<mapsto> Suc (counter c p))))"

definition reset_alloc :: "alloc \<Rightarrow> alloc" where
  "reset_alloc c = Map.empty"

text \<open>The contract of a supply of fresh names: a draw returns a name that was not handed out before and
  records it.\<close>

locale fresh_supply =
  fixes issued :: "'s \<Rightarrow> 'n set"
    and draw :: "'k \<Rightarrow> 's \<Rightarrow> 'n \<times> 's"
  assumes draw_fresh: "fst (draw k s) \<notin> issued s"
    and draw_issued: "issued (snd (draw k s)) = insert (fst (draw k s)) (issued s)"
begin

primrec draws :: "'k list \<Rightarrow> 's \<Rightarrow> 'n list \<times> 's" where
  "draws [] s = ([], s)"
| "draws (k # ks) s = (let (n, s') = draw k s; (ns, s'') = draws ks s' in (n # ns, s''))"

lemma draws_Cons:
  "fst (draws (k # ks) s) = fst (draw k s) # fst (draws ks (snd (draw k s)))"
  "snd (draws (k # ks) s) = snd (draws ks (snd (draw k s)))"
  by (simp_all add: Let_def split: prod.splits)

lemma draws_issued: "issued (snd (draws ks s)) = set (fst (draws ks s)) \<union> issued s"
proof (induction ks arbitrary: s)
  case (Cons k ks)
  show ?case unfolding draws_Cons by (simp add: Cons.IH draw_issued)
qed simp

lemma draws_fresh: "set (fst (draws ks s)) \<inter> issued s = {}"
proof (induction ks arbitrary: s)
  case (Cons k ks)
  show ?case
    unfolding draws_Cons using Cons.IH [of "snd (draw k s)"] draw_fresh [of k s] draw_issued [of k s] by auto
qed simp

lemma draws_distinct: "distinct (fst (draws ks s))"
proof (induction ks arbitrary: s)
  case (Cons k ks)
  show ?case
    unfolding draws_Cons
    using Cons.IH [of "snd (draw k s)"] draws_fresh [of ks "snd (draw k s)"] draw_issued [of k s] by auto
qed simp

end

lemma show_nat_no_underscore: "CHR ''_'' \<notin> set (show_nat n)"
  using show_nat_decimal [of "CHR ''_''" n] by (auto simp: is_decimal_def)

lemma last_field:
  "CHR ''_'' \<notin> set d \<Longrightarrow> takeWhile (\<lambda>c. c \<noteq> CHR ''_'') (rev (p @ CHR ''_'' # d)) = rev d"
  using takeWhile_append2 [of "rev d" "\<lambda>c. c \<noteq> CHR ''_''" "CHR ''_'' # rev p"] by auto

lemma append_underscore_eq:
  assumes "p @ CHR ''_'' # d = q @ CHR ''_'' # e" "CHR ''_'' \<notin> set d" "CHR ''_'' \<notin> set e"
  shows "p = q \<and> d = e"
proof -
  have "rev d = rev e" using assms last_field [of d p] last_field [of e q] by simp
  with assms(1) show ?thesis by simp
qed

lemma temp_name_inject: "temp_name p m = temp_name q n \<longleftrightarrow> p = q \<and> m = n"
  using append_underscore_eq [of p "show_nat m" q "show_nat n"] show_nat_no_underscore
  by (auto simp: temp_name_def)

definition issued_names :: "alloc \<Rightarrow> string set" where
  "issued_names c = {temp_name p n | p n. n < counter c p}"

definition draw_name :: "string \<Rightarrow> alloc \<Rightarrow> string \<times> alloc" where
  "draw_name p c = (temp_name p (counter c p), c(p \<mapsto> Suc (counter c p)))"

interpretation temps: fresh_supply issued_names draw_name
proof unfold_locales
  fix p c
  show "fst (draw_name p c) \<notin> issued_names c"
    by (auto simp: draw_name_def issued_names_def temp_name_inject)
  have "n < counter (c(p \<mapsto> Suc (counter c p))) q \<longleftrightarrow> n < counter c q \<or> q = p \<and> n = counter c p" for q n
    by (auto simp: counter_def split: if_splits option.splits)
  then show "issued_names (snd (draw_name p c)) = insert (fst (draw_name p c)) (issued_names c)"
    by (auto simp: draw_name_def issued_names_def)
qed

lemma generate_draw: "generate p c = Inr (draw_name p c)"
  by (simp add: generate_def draw_name_def)

lemma length_draws: "length (fst (temps.draws ps c)) = length ps"
  by (induction ps arbitrary: c) (simp_all only: temps.draws_Cons temps.draws.simps(1) list.size fst_conv)

lemma mapS_generate: "mapS generate ps c = Inr (temps.draws ps c)"
proof (induction ps arbitrary: c)
  case (Cons p ps)
  then show ?case by (cases "draw_name p c") (simp add: method_simps generate_draw split: prod.split)
qed (simp add: method_simps)

text \<open>
  Temporary names never repeat: whatever prefixes are asked for, in whatever order, the allocator
  never fails and the names generated since the last reset are pairwise different, also across prefixes
  (the counter is separated from the prefix by the last underscore).
\<close>

lemma temporaries_distinct: "\<exists>ns c'. mapS generate ps c = Inr (ns, c') \<and> length ns = length ps \<and> distinct ns"
  using length_draws [of ps c] temps.draws_distinct [of ps c] by (cases "temps.draws ps c") (simp add: mapS_generate)

end
