(* ===== verification/IR_Instr.thy ===== *)
theory IR_Instr
  imports IR_Types
begin

text \<open>
  The instructions of the intermediate representation (\<open>src/src/ir/instructions\<close>): one
  \<open>class_model\<close> per instruction class of the source, with what its constructor does (operand order,
  temporaries, permitted operation types) and the sequence of backend instructions its
  \<open>to_fill_node\<close> emits.  What a backend instruction does to the decompiler state is another component;
  here it is the quadruple handed to \<open>emit_backend\<close>: backend class, opcode, operands and suffix.
\<close>

section \<open>Data\<close>

text \<open>\<open>MemoryAccessType\<close>.\<close>

record access_type =
  address_space :: string
  base_type_name :: string
  vector_width :: nat

text \<open>The classes; \<open>LoadBits\<close>/\<open>StoreBits\<close> are the wrappers with a fixed type (\<open>Load32\<close>, \<open>FStore8\<close>, ...),
  and the boolean says whether the class is the \<open>F\<close> variant.\<close>

datatype comparison = CEq | CNe | CLt | CLe | CGt | CGe

datatype ir_class =
    C_Add | C_AddC | C_Sub | C_SubRev
  | C_Mul24 | C_MulF | C_MacF32 | C_MulLo | C_MulHi | C_MulWide | C_Mad
  | C_Mov | C_And | C_Or | C_Xor | C_Not | C_Compare comparison | C_CSelect | C_IRMin
  | C_LShlRev | C_LShrRev | C_AShrRev | C_LShl | C_LShr | C_AShr
  | C_Cvt32To64 | C_Cvt16To32 | C_Cvt64To32 | C_CvtF32ToI32 | C_CvtF64ToI32 | C_CvtI32ToF32
  | C_CvtU32ToF64 | C_CvtI32ToF64
  | C_Bfe | C_Permute32 | C_Barrier | C_EndPgm | C_Ignore
  | C_Label | C_Branch | C_BranchNot | C_Jump
  | C_ChangeMask | C_Unmask | C_InitReg | C_InitGlobal | C_InitPredicate
  | C_LocalMemory | C_LocalStore | C_LocalLoad | C_LocalAdd | C_MemAlloc | C_MemStore
  | C_Load bool | C_LoadBits bool ir_type | C_Store bool | C_StoreBits bool ir_type
  | C_TypedLoad bool | C_TypedStore bool

record instr =
  i_class :: ir_class
  i_opcode :: string
  i_type :: ir_type
  i_ops :: "operand list"
  i_pred :: "operand option"
  i_neg :: bool
  i_access :: "access_type option"
  i_tmps :: "operand list"

record backend =
  b_class :: string
  b_opcode :: string
  b_ops :: "operand list"
  b_suffix :: string

definition be :: "string \<Rightarrow> string \<Rightarrow> operand list \<Rightarrow> string \<Rightarrow> backend" where
  "be c x ops s = \<lparr>b_class = c, b_opcode = x, b_ops = ops, b_suffix = s\<rparr>"

text \<open>What a class defines: opcode text, number of operands its constructor takes, permitted types (for
  the classes without an \<open>op_type\<close> parameter, \<open>cm_typed\<close> is false and the type is \<open>NONE\<close>), the
  rearrangement of operands and the temporaries its constructor makes, whether it writes its first
  operand, whether it is control flow, and its lowering.\<close>

record class_model =
  cm_text :: string
  cm_arity :: "nat \<times> nat"
  cm_types :: "ir_type list"
  cm_typed :: bool
  cm_init :: "operand list \<Rightarrow> access_type option \<Rightarrow> (alloc, operand list \<times> operand list) action"
  cm_writes :: bool
  cm_control :: bool
  cm_lower :: "instr \<Rightarrow> backend list res"

definition keep_ops :: "operand list \<Rightarrow> access_type option \<Rightarrow> (alloc, operand list \<times> operand list) action" where
  "keep_ops ops acc = returnS (ops, [])"

definition typed_class :: "string \<Rightarrow> nat \<Rightarrow> ir_type list \<Rightarrow> (instr \<Rightarrow> backend list res) \<Rightarrow> class_model" where
  "typed_class text n types low =
     \<lparr>cm_text = text, cm_arity = (n, n), cm_types = types, cm_typed = True, cm_init = keep_ops,
      cm_writes = True, cm_control = False, cm_lower = low\<rparr>"

definition plain_class :: "string \<Rightarrow> nat \<Rightarrow> (instr \<Rightarrow> backend list res) \<Rightarrow> class_model" where
  "plain_class text n low =
     \<lparr>cm_text = text, cm_arity = (n, n), cm_types = [T_NONE], cm_typed = False, cm_init = keep_ops,
      cm_writes = n > 0, cm_control = False, cm_lower = low\<rparr>"

text \<open>A lowering to one backend instruction on the same operands.\<close>

definition one :: "string \<Rightarrow> (instr \<Rightarrow> string) \<Rightarrow> (instr \<Rightarrow> string) \<Rightarrow> instr \<Rightarrow> backend list res" where
  "one c x s i = Inr [be c (x i) (i_ops i) (s i)]"

abbreviation fixed :: "string \<Rightarrow> instr \<Rightarrow> string" where
  "fixed s \<equiv> (\<lambda>i. s)"

definition opn :: "instr \<Rightarrow> nat \<Rightarrow> operand" where
  "opn i k = i_ops i ! k"

text \<open>\<open>self.destination.bit_width == 64\<close>.\<close>

definition dest_is_64 :: "instr \<Rightarrow> bool res" where
  "dest_is_64 i = bind_res (bit_width (opn i 0)) (\<lambda>w. Inr (w = 64))"

definition by_width :: "string \<Rightarrow> string \<Rightarrow> string \<Rightarrow> string \<Rightarrow> string \<Rightarrow> instr \<Rightarrow> backend list res" where
  "by_width c x64 s64 x32 s32 i =
     bind_res (dest_is_64 i) (\<lambda>b. Inr [be c (if b then x64 else x32) (i_ops i) (if b then s64 else s32)])"

definition is_wide :: "instr \<Rightarrow> bool" where
  "is_wide i = (i_type i = T_U64 \<or> i_type i = T_I64)"

section \<open>Arithmetic\<close>

definition add_class :: class_model where
  "add_class = typed_class ''add'' 3 [T_U16, T_I16, T_U32, T_I32, T_U64, T_I64, T_F64]
     (one ''VAdd'' (\<lambda>i. if i_type i = T_F64 then ''v_add_f64'' else ''v_add_u32'')
        (\<lambda>i. if i_type i = T_F64 then ''f64'' else if is_wide i then ''u64'' else ''u32''))"

definition addc_class :: class_model where
  "addc_class = typed_class ''addc'' 3 [T_U32] (one ''VAddc'' (fixed ''v_addc_u32'') (fixed ''u32''))"

definition lower_sub :: "instr \<Rightarrow> backend list res" where
  "lower_sub i =
     (if i_type i = T_F32 then Inr [be ''VSub'' ''v_sub_f32'' (i_ops i) ''f32'']
      else if \<not> is_wide i then Inr [be ''VSub'' ''v_sub_u32'' (i_ops i) ''u32'']
      else bind_res (reg_pair (opn i 0)) (\<lambda>(dest_lo, dest_hi).
           bind_res (reg_pair (opn i 1)) (\<lambda>(op1_lo, op1_hi).
           bind_res (reg_pair (opn i 2)) (\<lambda>(op2_lo, op2_hi).
             Inr [be ''VSub'' ''v_sub_u32'' [dest_lo, op1_lo, op2_lo] ''u32'',
                  be ''VSub'' ''v_subb_u32'' [dest_hi, op1_hi, op2_hi] ''u32'']))))"

definition sub_class :: class_model where
  "sub_class = typed_class ''sub'' 3 [T_U16, T_I16, T_U32, T_I32, T_U64, T_I64, T_F32] lower_sub"

text \<open>The constructors that exchange their last two operands.\<close>

definition swap_ops :: "operand list \<Rightarrow> access_type option \<Rightarrow> (alloc, operand list \<times> operand list) action" where
  "swap_ops ops acc = (case ops of [d, a, b] \<Rightarrow> returnS ([d, b, a], []) | _ \<Rightarrow> raiseS TypeError)"

definition subrev_class :: class_model where
  "subrev_class = sub_class\<lparr>cm_init := swap_ops\<rparr>"

definition mul24_class :: class_model where
  "mul24_class = typed_class ''mul'' 3 [T_U32, T_I32] (one ''VMulF32'' (fixed ''v_mul_i32_i24'') (fixed ''i32_i24''))"

definition mulf_class :: class_model where
  "mulf_class = typed_class ''mul'' 3 [T_F32] (one ''VMulF32'' (fixed ''v_mul_f32'') (fixed ''f32''))"

definition macf32_class :: class_model where
  "macf32_class = typed_class ''mac_f'' 4 [T_F32] (one ''VMac'' (fixed ''v_mac_f32'') (fixed ''f32''))"

definition lower_mul_lo :: "instr \<Rightarrow> backend list res" where
  "lower_mul_lo i =
     (if \<not> is_wide i then Inr [be ''VMulLo'' ''v_mul_lo_i32'' (i_ops i) ''u32'']
      else bind_res (reg_pair (opn i 0)) (\<lambda>(dest_lo, dest_hi).
           bind_res (reg_pair (opn i 1)) (\<lambda>(op1_lo, op1_hi).
           bind_res (reg_pair (opn i 2)) (\<lambda>(op2_lo, op2_hi).
             Inr [be ''VMulHi'' ''v_mul_hi_u32'' [dest_lo, op1_lo, op2_lo] ''u32'',
                  be ''VMulLo'' ''v_mul_lo_u32'' [dest_hi, op1_lo, op2_hi] ''u32'',
                  be ''VAdd'' ''v_add_u32'' [dest_hi, dest_hi, dest_lo] ''u32'',
                  be ''VMulLo'' ''v_mul_lo_u32'' [dest_lo, op1_hi, op2_lo] ''u32'',
                  be ''VAdd'' ''v_add_u32'' [dest_hi, dest_hi, dest_lo] ''u32'',
                  be ''VMulLo'' ''v_mul_lo_u32'' [dest_lo, op1_lo, op2_lo] ''u32'']))))"

definition mullo_class :: class_model where
  "mullo_class = typed_class ''mul'' 3 [T_U16, T_I16, T_U32, T_I32, T_U64, T_I64] lower_mul_lo"

definition mulhi_class :: class_model where
  "mulhi_class = typed_class ''mul_hi'' 3 [T_U32, T_I32]
     (one ''VMulHi'' (\<lambda>i. if i_type i = T_I32 then ''v_mul_hi_i32'' else ''s_mul_hi_u32'')
        (\<lambda>i. if i_type i = T_I32 then ''i32'' else ''u32''))"

definition mad_opcode :: "instr \<Rightarrow> string" where
  "mad_opcode i = (if i_type i = T_I64_I32 then ''v_mad_i64_i32'' else ''v_mad_u64_u32'')"

definition mad_suffix :: "instr \<Rightarrow> string" where
  "mad_suffix i = (if i_type i = T_I64_I32 then ''i64_i32'' else ''u64_u32'')"

definition mulwide_class :: class_model where
  "mulwide_class = typed_class ''mul'' 3 [T_U64_U32, T_I64_I32]
     (\<lambda>i. Inr [be ''VMad'' (mad_opcode i) [opn i 0, Val ''0'', opn i 1, opn i 2, Val ''0''] (mad_suffix i)])"

text \<open>\<open>Mad\<close>: a constant addend is moved to a temporary pair; a 32-bit destination is the low half of a
  temporary pair.\<close>

definition is_val :: "operand \<Rightarrow> bool" where
  "is_val r = (case r of Val s \<Rightarrow> True | _ \<Rightarrow> False)"

definition init_mad :: "operand list \<Rightarrow> access_type option \<Rightarrow> (alloc, operand list \<times> operand list) action" where
  "init_mad ops acc =
     (case ops of
        [d, a, b, c] \<Rightarrow>
          bindS (if is_val c
                 then bindS (generate ''mad'') (\<lambda>s. bindS (liftS (mk_reg64 s)) (\<lambda>r. returnS [r]))
                 else returnS []) (\<lambda>tmps.
          bindS (liftS (bit_width d)) (\<lambda>w.
            if w = 32
            then bindS (generate ''maddest'') (\<lambda>s. bindS (generate ''desthi'') (\<lambda>h.
                 bindS (liftS (mk_reg32 h)) (\<lambda>h'. bindS (liftS (mk_composite s [d, h'])) (\<lambda>r.
                   returnS ([r, a, b, c], tmps)))))
            else returnS ([d, a, b, c], tmps)))
      | _ \<Rightarrow> raiseS TypeError)"

definition lower_mad :: "instr \<Rightarrow> backend list res" where
  "lower_mad i =
     (case i_tmps i of
        t # _ \<Rightarrow>
          bind_res (reg_pair t) (\<lambda>(tmp_lo, tmp_hi).
            Inr [be ''SMov'' ''s_mov_b32'' [tmp_lo, opn i 3] ''b32'',
                 be ''SMov'' ''s_mov_b32'' [tmp_hi, Val ''0''] ''b32'',
                 be ''VMad'' (mad_opcode i) [opn i 0, Val ''0'', opn i 1, opn i 2, t] (mad_suffix i)])
      | [] \<Rightarrow> Inr [be ''VMad'' (mad_opcode i) [opn i 0, Val ''0'', opn i 1, opn i 2, opn i 3] (mad_suffix i)])"

definition mad_class :: class_model where
  "mad_class = (typed_class ''mad'' 4 [T_I64_I32, T_U64_U32] lower_mad)\<lparr>cm_init := init_mad\<rparr>"

section \<open>Moves, logic and comparisons\<close>

definition mov_class :: class_model where
  "mov_class = typed_class ''mov'' 2
     [T_B16, T_B32, T_B64, T_U16, T_U32, T_U64, T_I32, T_I64, T_F32, T_F64, T_PRED]
     (by_width ''SMov'' ''s_mov_b64'' ''b64'' ''s_mov_b32'' ''b32'')"

definition logical_class :: "string \<Rightarrow> string \<Rightarrow> class_model" where
  "logical_class operation c = typed_class operation 3 [T_B32, T_B64, T_PRED]
     (by_width c (''s_'' @ operation @ ''_b64'') ''b64'' (''s_'' @ operation @ ''_b32'') ''b32'')"

definition not_class :: class_model where
  "not_class = typed_class ''not'' 2 [T_PRED, T_I32, T_B32, T_B64] (one ''SNot'' (fixed ''s_not_b64'') (fixed ''b64''))"

fun comparison_name :: "comparison \<Rightarrow> string" where
  "comparison_name CEq = ''eq''"
| "comparison_name CNe = ''ne''"
| "comparison_name CLt = ''lt''"
| "comparison_name CLe = ''le''"
| "comparison_name CGt = ''gt''"
| "comparison_name CGe = ''ge''"

fun comparison_backend :: "comparison \<Rightarrow> string" where
  "comparison_backend CEq = ''VCmpEq''"
| "comparison_backend CNe = ''VCmpNe''"
| "comparison_backend CLt = ''VCmpLt''"
| "comparison_backend CLe = ''VCmpLe''"
| "comparison_backend CGt = ''VCmpGt''"
| "comparison_backend CGe = ''VCmpGe''"

definition compare_class :: "comparison \<Rightarrow> class_model" where
  "compare_class c = typed_class (''cmp.'' @ comparison_name c) 3 [T_U32, T_I32, T_U64, T_I64, T_F32, T_F64]
     (one (comparison_backend c) (fixed (''v_cmp_'' @ comparison_name c @ ''_i32'')) (fixed ''i32''))"

definition get_compare_class :: "string \<Rightarrow> ir_class res" where
  "get_compare_class s =
     (case map_of [(''eq'', CEq), (''ne'', CNe), (''lg'', CNe), (''lt'', CLt), (''le'', CLe), (''gt'', CGt),
                   (''ge'', CGe)] s of
        Some c \<Rightarrow> Inr (C_Compare c) | None \<Rightarrow> Inl KeyError)"

definition cselect_class :: class_model where
  "cselect_class = typed_class ''cselect'' 4 [T_B32, T_B64, T_PRED] (one ''VCndmask'' (fixed ''v_cndmask_b32'') (fixed ''b32''))"

definition irmin_class :: class_model where
  "irmin_class = typed_class ''min'' 3 [T_I32] (one ''SMin'' (fixed ''s_min_i32'') (fixed ''i32''))"

section \<open>Shifts\<close>

definition shift_types :: "ir_type list" where
  "shift_types = [T_B16, T_B32, T_B64, T_I32, T_I64]"

definition lshlrev_class :: class_model where
  "lshlrev_class = typed_class ''lshl'' 3 shift_types (by_width ''VLshlrev'' ''v_lshlrev_b64'' ''b64'' ''v_lshlrev_b32'' ''b32'')"

definition lshrrev_class :: class_model where
  "lshrrev_class = typed_class ''rshl'' 3 shift_types (by_width ''VLshrrev'' ''v_lshrrev_b64'' ''b64'' ''v_lshrrev_b32'' ''b32'')"

definition ashrrev_class :: class_model where
  "ashrrev_class = typed_class ''rshl'' 3 [T_I32, T_I64] (by_width ''VAshrrev'' ''v_ashrrev_i64'' ''i64'' ''v_ashrrev_i32'' ''i32'')"

section \<open>Conversions and bit fields\<close>

definition lower_cvt32to64 :: "instr \<Rightarrow> backend list res" where
  "lower_cvt32to64 i =
     bind_res (reg_pair (opn i 0)) (\<lambda>(dest_lo, dest_hi).
       Inr [be ''SMov'' ''s_mov_b32'' [dest_lo, opn i 1] ''b32'',
            (if i_type i = T_I64_I32
             then be ''VAshrrev'' ''v_ashrrev_i32'' [dest_hi, Val ''31'', opn i 1] ''i32''
             else be ''SMov'' ''s_mov_b32'' [dest_hi, Val ''0''] ''b32'')])"

definition cvt32to64_class :: class_model where
  "cvt32to64_class = typed_class ''cvt32to64'' 2 [T_U64_U32, T_I64_I32] lower_cvt32to64"

definition cvt16to32_class :: class_model where
  "cvt16to32_class = typed_class ''cvt16to32'' 2 [T_U32_U16, T_I32_I16, T_U16_U32]
     (\<lambda>i. Inr [be ''SAnd'' ''s_and_b32'' [opn i 0, Val ''0xffff'', opn i 1] ''b32''])"

definition cvt64to32_class :: class_model where
  "cvt64to32_class = typed_class ''cvt64to32'' 2 [T_U32_U64]
     (\<lambda>i. bind_res (get_element (opn i 1) 0) (\<lambda>r. Inr [be ''SMov'' ''s_mov_b32'' [opn i 0, r] ''b32'']))"

definition cvt_float_class :: "string \<Rightarrow> ir_type \<Rightarrow> string \<Rightarrow> class_model" where
  "cvt_float_class text t x = typed_class text 2 [t] (one ''VCvt'' (fixed x) (fixed (ir_suffix t)))"

definition cvt_f32_i32_class :: class_model where
  "cvt_f32_i32_class = cvt_float_class ''cvt_f32_to_i32'' T_I32_F32 ''v_cvt_i32_f32''"

definition cvt_f64_i32_class :: class_model where
  "cvt_f64_i32_class = cvt_float_class ''cvt_f64_to_i32'' T_I32_F64 ''v_cvt_i32_f64''"

definition cvt_i32_f32_class :: class_model where
  "cvt_i32_f32_class = cvt_float_class ''cvt_i32_to_f32'' T_F32_I32 ''v_cvt_f32_i32''"

definition cvt_u32_f64_class :: class_model where
  "cvt_u32_f64_class = cvt_float_class ''cvt_u32_to_f64'' T_F64_U32 ''v_cvt_f64_u32''"

definition cvt_i32_f64_class :: class_model where
  "cvt_i32_f64_class = cvt_float_class ''cvt_i32_to_f64'' T_F64_I32 ''v_cvt_f64_i32''"

definition bfe_class :: class_model where
  "bfe_class = typed_class ''bfe'' 3 [T_U32, T_I32]
     (one ''SBfe'' (\<lambda>i. if i_type i = T_I32 then ''s_bfe_i32'' else ''s_bfe_u32'')
        (\<lambda>i. if i_type i = T_I32 then ''i32'' else ''u32''))"

definition permute32_class :: class_model where
  "permute32_class = typed_class ''permute'' 4 [T_B32] (one ''VPerm'' (fixed ''v_perm_b32'') (fixed ''b32''))"

section \<open>Control flow, masks and initialisation\<close>

definition barrier_class :: class_model where
  "barrier_class = plain_class ''barrier'' 0 (one ''SWaitcnt'' (fixed ''s_waitcnt'') (fixed []))"

definition endpgm_class :: class_model where
  "endpgm_class = plain_class ''endpgm'' 0 (one ''SEndpgm'' (fixed ''s_endpgm'') (fixed []))"

text \<open>\<open>Ignore\<close> accepts and drops any operands.\<close>

definition ignore_class :: class_model where
  "ignore_class = (plain_class ''s_nop'' 0 (one ''SNop'' (fixed ''s_nop'') (fixed [])))
     \<lparr>cm_arity := (0, 100), cm_init := (\<lambda>ops acc. returnS ([], []))\<rparr>"

definition control :: "class_model \<Rightarrow> class_model" where
  "control c = c\<lparr>cm_writes := False, cm_control := True\<rparr>"

definition label_class :: class_model where
  "label_class = control (plain_class ''label'' 1 (\<lambda>i. Inr [be ''Label'' (op_name (opn i 0)) [] []]))"

definition branch_class :: class_model where
  "branch_class = control (plain_class ''bra'' 2 (one ''SCbranchVccnz'' (fixed ''s_br'') (fixed [])))"

definition branchnot_class :: class_model where
  "branchnot_class = control (plain_class ''bra_n'' 2 (one ''SCbranchVccz'' (fixed ''s_nbr'') (fixed [])))"

definition jump_class :: class_model where
  "jump_class = control (plain_class ''jump'' 1 (one ''SBranch'' (fixed ''s_branch'') (fixed [])))"

definition changemask_class :: class_model where
  "changemask_class = (plain_class ''change_mask'' 1 (one ''UseMask'' (fixed ''change_mask'') (fixed [])))\<lparr>cm_writes := False\<rparr>"

definition unmask_class :: class_model where
  "unmask_class = (plain_class ''unmask'' 0 (\<lambda>i. Inr [be ''Unmask'' ''unmask'' [] []]))\<lparr>cm_writes := False\<rparr>"

definition initreg_class :: class_model where
  "initreg_class = plain_class ''init'' 2 (one ''InitReg'' (fixed ''s_init'') (fixed []))"

text \<open>\<open>InitGlobalMemory(destination, values)\<close>: the values are operands after the destination.\<close>

definition initglobal_class :: class_model where
  "initglobal_class = (plain_class ''init_global'' 1 (one ''GlobalMemory'' (fixed ''s_init_global'') (fixed [])))
     \<lparr>cm_arity := (1, 1000000)\<rparr>"

definition initpredicate_class :: class_model where
  "initpredicate_class = (plain_class ''init_pred'' 1 (one ''InitPred'' (fixed ''s_ipred'') (fixed [])))\<lparr>cm_writes := False\<rparr>"

definition localmemory_class :: class_model where
  "localmemory_class = plain_class ''local'' 2 (one ''LocalMemory'' (fixed ''s_local'') (fixed []))"

definition localstore_class :: class_model where
  "localstore_class = typed_class ''local_store'' 2 [T_B32] (one ''DsWrite'' (fixed ''ds_write_b32'') (fixed ''b32''))"

definition localload_class :: class_model where
  "localload_class = typed_class ''local_load'' 2 [T_B32] (one ''DsRead'' (fixed ''ds_read_b32'') (fixed ''b32''))"

definition init_localadd :: "operand list \<Rightarrow> access_type option \<Rightarrow> (alloc, operand list \<times> operand list) action" where
  "init_localadd ops acc =
     (case ops of
        [d, v] \<Rightarrow>
          if is_val v
          then bindS (generate ''ladd'') (\<lambda>s. bindS (liftS (mk_reg32 s)) (\<lambda>r. returnS ([d, v], [r])))
          else returnS ([d, v], [])
      | _ \<Rightarrow> raiseS TypeError)"

definition lower_localadd :: "instr \<Rightarrow> backend list res" where
  "lower_localadd i =
     (case i_tmps i of
        t # _ \<Rightarrow> Inr [be ''SMov'' ''s_mov_b32'' [t, opn i 1] ''b32'', be ''DsAdd'' ''ds_add_u32'' [opn i 0, t] ''u32'']
      | [] \<Rightarrow> Inr [be ''DsAdd'' ''ds_add_u32'' [opn i 0, opn i 1] ''u32''])"

definition localadd_class :: class_model where
  "localadd_class = (typed_class ''local_add'' 2 [T_U32, T_I32] lower_localadd)\<lparr>cm_init := init_localadd\<rparr>"

definition memalloc_class :: class_model where
  "memalloc_class = plain_class ''alloc'' 1 (one ''MemoryAllocation'' (fixed ''s_alloc'') (fixed []))"

text \<open>\<open>Store(destination, arg_name, arg_type, offset)\<close> keeps its operands in the order destination, type,
  name, offset.\<close>

definition memstore_class :: class_model where
  "memstore_class = (plain_class ''store'' 4 (one ''StoreInMem'' (fixed ''s_store'') (fixed [])))
     \<lparr>cm_init := (\<lambda>ops acc. case ops of [d, n, t, f] \<Rightarrow> returnS ([d, t, n, f], []) | _ \<Rightarrow> raiseS TypeError)\<rparr>"

end
