(* ===== verification/IR_Memory.thy ===== *)
theory IR_Memory
  imports IR_Instr
begin

text \<open>
  Loads and stores (\<open>load.py\<close>, \<open>store.py\<close> and \<open>typed_memory.py\<close> under
  \<open>src/src/ir/instructions/common\<close>), the table of all instruction classes, their common constructor
  and the queries of \<open>GenericInstruction\<close> (\<open>src/src/ir/instructions/generic.py\<close>).
\<close>

section \<open>Access types\<close>

definition element_bits :: "access_type \<Rightarrow> nat res" where
  "element_bits a = (case int_base10 (drop 1 (base_type_name a)) of Some n \<Rightarrow> Inr (nat n) | None \<Rightarrow> Inl ValueError)"

definition total_bits :: "access_type \<Rightarrow> nat res" where
  "total_bits a = bind_res (element_bits a) (\<lambda>n. Inr (n * vector_width a))"

definition memory_base_types :: "(string \<times> ir_type) list" where
  "memory_base_types =
     [(''b8'', T_B8), (''b16'', T_B16), (''b32'', T_B32), (''b64'', T_B64),
      (''u8'', T_U8), (''u16'', T_U16), (''u32'', T_U32), (''u64'', T_U64),
      (''s8'', T_I8), (''s16'', T_I16), (''s32'', T_I32), (''s64'', T_I64),
      (''f16'', T_F16), (''f32'', T_F32), (''f64'', T_F64)]"

definition to_ir_type :: "access_type \<Rightarrow> ir_type res" where
  "to_ir_type a = (case map_of memory_base_types (base_type_name a) of Some t \<Rightarrow> Inr t | None \<Rightarrow> Inl KeyError)"

definition value_type_names :: "(string \<times> string) list" where
  "value_type_names =
     [(''b8'', ''char''), (''u8'', ''char''), (''s8'', ''char''),
      (''b16'', ''short''), (''u16'', ''short''), (''s16'', ''short''),
      (''b32'', ''uint''), (''u32'', ''uint''), (''s32'', ''int''),
      (''b64'', ''ulong''), (''u64'', ''ulong''), (''s64'', ''long''),
      (''f16'', ''half''), (''f32'', ''float''), (''f64'', ''double'')]"

definition to_value_type :: "access_type \<Rightarrow> string" where
  "to_value_type a =
     (let base = (case map_of value_type_names (base_type_name a) of Some s \<Rightarrow> s | None \<Rightarrow> base_type_name a)
      in if vector_width a > 1 then base @ show_nat (vector_width a) else base)"

definition to_opencl_type :: "access_type \<Rightarrow> string" where
  "to_opencl_type a = ''__'' @ address_space a @ '' '' @ to_value_type a"

definition to_element_type :: "access_type \<Rightarrow> string" where
  "to_element_type a = to_value_type (a\<lparr>vector_width := 1\<rparr>)"

section \<open>Loads\<close>

definition load_name :: "bool \<Rightarrow> string" where
  "load_name flat = (if flat then ''flat_load'' else ''s_load'')"

definition load_backend :: "bool \<Rightarrow> string" where
  "load_backend flat = (if flat then ''FlatLoad'' else ''SLoad'')"

text \<open>\<open>GenericLoad.to_fill_node\<close> for an access of \<open>bits\<close> bits on the given operands.\<close>

definition emit_load :: "bool \<Rightarrow> nat \<Rightarrow> operand list \<Rightarrow> backend res" where
  "emit_load flat bits ops =
     bind_res (memory_suffix_for_bits bits) (\<lambda>s.
       Inr (be (load_backend flat) (load_name flat @ ''_'' @ s) ops s))"

definition init_load :: "operand list \<Rightarrow> access_type option \<Rightarrow> (alloc, operand list \<times> operand list) action" where
  "init_load ops acc = returnS (if length ops = 2 then ops @ [Val ''0''] else ops, [])"

definition lower_load :: "bool \<Rightarrow> instr \<Rightarrow> backend list res" where
  "lower_load flat i = bind_res (emit_load flat (ir_bits (i_type i)) (i_ops i)) (\<lambda>b. Inr [b])"

definition load_class :: "bool \<Rightarrow> class_model" where
  "load_class flat = (typed_class ''load'' 3 [T_B32, T_B64, T_B128] (lower_load flat))
     \<lparr>cm_arity := (2, 3), cm_init := init_load\<rparr>"

text \<open>A wrapper with a fixed operation type: \<open>Load32\<close>, \<open>FLoad128\<close>, \<open>Store8\<close>, ...\<close>

definition with_type :: "ir_type \<Rightarrow> class_model \<Rightarrow> class_model" where
  "with_type t c = c\<lparr>cm_typed := False, cm_types := [t]\<rparr>"

section \<open>Stores\<close>

definition emit_store :: "ir_type \<Rightarrow> operand list \<Rightarrow> backend res" where
  "emit_store t ops =
     bind_res (memory_suffix_for_bits (ir_bits t)) (\<lambda>s. Inr (be ''FlatStore'' (''flat_store_'' @ s) ops s))"

definition lower_store :: "instr \<Rightarrow> backend list res" where
  "lower_store i = bind_res (emit_store (i_type i) (i_ops i)) (\<lambda>b. Inr [b])"

definition store_class :: class_model where
  "store_class = (typed_class ''store'' 2 bit_types lower_store)\<lparr>cm_writes := False\<rparr>"

section \<open>Typed loads\<close>

definition is_composite :: "operand \<Rightarrow> bool" where
  "is_composite r = is_range r"

definition needs_small_vector_unpack :: "operand \<Rightarrow> access_type \<Rightarrow> bool res" where
  "needs_small_vector_unpack dest a =
     (if is_composite dest \<and> vector_width a > 1
      then bind_res (element_bits a) (\<lambda>n. Inr (n < 32 \<and> n * vector_width a \<le> 32))
      else Inr False)"

definition init_typed_load :: "operand list \<Rightarrow> access_type option \<Rightarrow> (alloc, operand list \<times> operand list) action" where
  "init_typed_load ops acc =
     (case (ops, acc) of
        (dest # rest, Some a) \<Rightarrow>
          bindS (liftS (needs_small_vector_unpack dest a)) (\<lambda>b.
            if b then bindS (generate ''typed_ld'') (\<lambda>s. bindS (liftS (mk_reg32 s)) (\<lambda>r. returnS (ops, [r])))
            else returnS (ops, []))
      | _ \<Rightarrow> raiseS TypeError)"

text \<open>\<open>hex(n)\<close>.\<close>

function hex_digits_of :: "nat \<Rightarrow> string" where
  "hex_digits_of n = (if n < 16 then [hex_digits ! n] else hex_digits_of (n div 16) @ [hex_digits ! (n mod 16)])"
  by auto
termination by (relation "measure id") auto

declare hex_digits_of.simps [simp del]

definition show_hex :: "nat \<Rightarrow> string" where
  "show_hex n = ''0x'' @ hex_digits_of n"

definition low_mask :: "nat \<Rightarrow> operand" where
  "low_mask w = Val (show_hex (2 ^ w - 1))"

definition bfe_selector :: "nat \<Rightarrow> nat \<Rightarrow> operand" where
  "bfe_selector w index = Val (show_hex (w * 2 ^ 16 + index * w))"

text \<open>The unpacking of element \<open>index\<close>: a mask for the first, a bit-field extraction for the others.  The
  source writes the selector as \<open>(width << 16) | offset\<close>; the offset is below \<open>2 ^ 16\<close>, so the two
  parts do not overlap and the disjunction is a sum.\<close>

definition unpack_one :: "nat \<Rightarrow> operand \<Rightarrow> nat \<Rightarrow> operand \<Rightarrow> backend" where
  "unpack_one w packed index dest =
     (if index = 0 then be ''SAnd'' ''s_and_b32'' [dest, packed, low_mask w] ''b32''
      else be ''SBfe'' ''s_bfe_u32'' [dest, packed, bfe_selector w index] ''u32'')"

fun unpack_from :: "nat \<Rightarrow> operand \<Rightarrow> nat \<Rightarrow> operand list \<Rightarrow> backend list" where
  "unpack_from w packed k [] = []"
| "unpack_from w packed k (d # ds) = unpack_one w packed k d # unpack_from w packed (Suc k) ds"

definition lower_typed_load :: "bool \<Rightarrow> instr \<Rightarrow> backend list res" where
  "lower_typed_load flat i =
     (case i_access i of
        None \<Rightarrow> Inl AttributeError
      | Some a \<Rightarrow>
          bind_res (total_bits a) (\<lambda>total.
          let bits = max 32 total
          in case i_tmps i of
               [] \<Rightarrow> bind_res (emit_load flat bits (i_ops i)) (\<lambda>b. Inr [b])
             | packed # _ \<Rightarrow>
                 bind_res (emit_load flat bits [packed, opn i 1, opn i 2]) (\<lambda>b.
                 bind_res (assert_res (is_composite (opn i 0))) (\<lambda>_.
                 bind_res (element_bits a) (\<lambda>w.
                   Inr (b # unpack_from w packed 0 (get_reg_rang (opn i 0))))))))"

definition typed_load_class :: "bool \<Rightarrow> class_model" where
  "typed_load_class flat = (typed_class ''load'' 3 memory_value_types (lower_typed_load flat))
     \<lparr>cm_typed := False, cm_init := init_typed_load\<rparr>"

section \<open>Typed stores\<close>

definition needs_small_vector_pack :: "operand \<Rightarrow> access_type \<Rightarrow> bool res" where
  "needs_small_vector_pack v a =
     (if is_composite v \<and> (vector_width a = 2 \<or> vector_width a = 4)
      then bind_res (element_bits a) (\<lambda>n. Inr (n < 32 \<and> n * vector_width a \<le> 32))
      else Inr False)"

definition needs_dword_vector :: "operand \<Rightarrow> access_type \<Rightarrow> bool res" where
  "needs_dword_vector v a =
     (if is_composite v \<and> vector_width a > 1
      then bind_res (element_bits a) (\<lambda>n. Inr (n = 32 \<and> (n * vector_width a = 64 \<or> n * vector_width a = 128)))
      else Inr False)"

fun gen_regs :: "string \<Rightarrow> nat \<Rightarrow> (alloc, operand list) action" where
  "gen_regs p 0 = returnS []"
| "gen_regs p (Suc n) =
     bindS (generate p) (\<lambda>s. bindS (liftS (mk_reg32 s)) (\<lambda>r. bindS (gen_regs p n) (\<lambda>rs. returnS (r # rs))))"

text \<open>The temporaries of a typed store: selector and packed value for a small vector, or the composite
  for a vector of dwords.\<close>

definition init_typed_store :: "operand list \<Rightarrow> access_type option \<Rightarrow> (alloc, operand list \<times> operand list) action" where
  "init_typed_store ops acc =
     (case (ops, acc) of
        ([addr, v], Some a) \<Rightarrow>
          bindS (liftS (needs_small_vector_pack v a)) (\<lambda>small.
          bindS (if small
                 then bindS (generate ''perm_selector'') (\<lambda>s. bindS (liftS (mk_reg32 s)) (\<lambda>r.
                      bindS (generate ''typed_st'') (\<lambda>t. bindS (liftS (mk_reg32 t)) (\<lambda>q. returnS [r, q]))))
                 else returnS []) (\<lambda>small_tmps.
          bindS (liftS (needs_dword_vector v a)) (\<lambda>dword.
            if dword
            then (if length (get_reg_rang v) \<noteq> vector_width a then raiseS ValueError
                  else bindS (generate ''typed_st_vec'') (\<lambda>s.
                       bindS (gen_regs ''typed_st_vec_part'' (vector_width a)) (\<lambda>rs.
                       bindS (liftS (mk_composite s rs)) (\<lambda>c. returnS (ops, [c])))))
            else returnS (ops, small_tmps))))
      | _ \<Rightarrow> raiseS TypeError)"

definition pack_selector :: operand where
  "pack_selector = Val ''0x2010004''"

fun copy_parts :: "operand list \<Rightarrow> operand list \<Rightarrow> backend list" where
  "copy_parts (d # ds) (s # ss) = be ''SMov'' ''s_mov_b32'' [d, s] ''b32'' # copy_parts ds ss"
| "copy_parts _ _ = []"

definition lower_typed_store :: "instr \<Rightarrow> backend list res" where
  "lower_typed_store i =
     (case (i_access i, i_tmps i) of
        (Some a, [selector, packed]) \<Rightarrow>
          bind_res (get_element (opn i 1) 0) (\<lambda>first.
          bind_res (get_element (opn i 1) 1) (\<lambda>second.
          let m = be ''SMov'' ''s_mov_b32'' [selector, pack_selector] ''b32''
          in if vector_width a = 2
             then bind_res (emit_store (i_type i) [opn i 0, packed]) (\<lambda>b.
                    Inr [m, be ''VPerm'' ''v_perm_b32'' [packed, first, second, selector] ''b32'', b])
             else bind_res (emit_store (i_type i) (i_ops i)) (\<lambda>b. Inr [m, b])))
      | (Some a, [c]) \<Rightarrow>
          bind_res (emit_store (i_type i) [opn i 0, c]) (\<lambda>b.
            Inr (copy_parts (get_reg_rang c) (get_reg_rang (opn i 1)) @ [b]))
      | _ \<Rightarrow> lower_store i)"

definition typed_store_class :: class_model where
  "typed_store_class = (typed_class ''store'' 2 memory_value_types lower_typed_store)
     \<lparr>cm_typed := False, cm_init := init_typed_store, cm_writes := False\<rparr>"

section \<open>The table of classes\<close>

definition class_of :: "ir_class \<Rightarrow> class_model" where
  "class_of c = (case c of
     C_Add \<Rightarrow> add_class | C_AddC \<Rightarrow> addc_class | C_Sub \<Rightarrow> sub_class | C_SubRev \<Rightarrow> subrev_class
   | C_Mul24 \<Rightarrow> mul24_class | C_MulF \<Rightarrow> mulf_class | C_MacF32 \<Rightarrow> macf32_class | C_MulLo \<Rightarrow> mullo_class
   | C_MulHi \<Rightarrow> mulhi_class | C_MulWide \<Rightarrow> mulwide_class | C_Mad \<Rightarrow> mad_class
   | C_Mov \<Rightarrow> mov_class | C_And \<Rightarrow> logical_class ''and'' ''SAnd'' | C_Or \<Rightarrow> logical_class ''or'' ''SOr''
   | C_Xor \<Rightarrow> logical_class ''xor'' ''SXor'' | C_Not \<Rightarrow> not_class | C_Compare k \<Rightarrow> compare_class k
   | C_CSelect \<Rightarrow> cselect_class | C_IRMin \<Rightarrow> irmin_class
   | C_LShlRev \<Rightarrow> lshlrev_class | C_LShrRev \<Rightarrow> lshrrev_class | C_AShrRev \<Rightarrow> ashrrev_class
   | C_LShl \<Rightarrow> lshlrev_class\<lparr>cm_init := swap_ops\<rparr> | C_LShr \<Rightarrow> lshrrev_class\<lparr>cm_init := swap_ops\<rparr>
   | C_AShr \<Rightarrow> ashrrev_class\<lparr>cm_init := swap_ops\<rparr>
   | C_Cvt32To64 \<Rightarrow> cvt32to64_class | C_Cvt16To32 \<Rightarrow> cvt16to32_class | C_Cvt64To32 \<Rightarrow> cvt64to32_class
   | C_CvtF32ToI32 \<Rightarrow> cvt_f32_i32_class | C_CvtF64ToI32 \<Rightarrow> cvt_f64_i32_class | C_CvtI32ToF32 \<Rightarrow> cvt_i32_f32_class
   | C_CvtU32ToF64 \<Rightarrow> cvt_u32_f64_class | C_CvtI32ToF64 \<Rightarrow> cvt_i32_f64_class
   | C_Bfe \<Rightarrow> bfe_class | C_Permute32 \<Rightarrow> permute32_class | C_Barrier \<Rightarrow> barrier_class | C_EndPgm \<Rightarrow> endpgm_class
   | C_Ignore \<Rightarrow> ignore_class | C_Label \<Rightarrow> label_class | C_Branch \<Rightarrow> branch_class | C_BranchNot \<Rightarrow> branchnot_class
   | C_Jump \<Rightarrow> jump_class | C_ChangeMask \<Rightarrow> changemask_class | C_Unmask \<Rightarrow> unmask_class
   | C_InitReg \<Rightarrow> initreg_class | C_InitGlobal \<Rightarrow> initglobal_class | C_InitPredicate \<Rightarrow> initpredicate_class
   | C_LocalMemory \<Rightarrow> localmemory_class | C_LocalStore \<Rightarrow> localstore_class | C_LocalLoad \<Rightarrow> localload_class
   | C_LocalAdd \<Rightarrow> localadd_class | C_MemAlloc \<Rightarrow> memalloc_class | C_MemStore \<Rightarrow> memstore_class
   | C_Load flat \<Rightarrow> load_class flat | C_LoadBits flat t \<Rightarrow> with_type t (load_class flat)
   | C_Store flat \<Rightarrow> store_class | C_StoreBits flat t \<Rightarrow> with_type t store_class
   | C_TypedLoad flat \<Rightarrow> typed_load_class flat | C_TypedStore flat \<Rightarrow> typed_store_class)"

section \<open>GenericInstruction\<close>

text \<open>\<open>_resolve_op_type\<close>, after the rules of the call: a class without the parameter does not accept it,
  and a class with it requires it.  Typed accesses take their type from the access.\<close>

definition requested_type :: "ir_class \<Rightarrow> ir_type option \<Rightarrow> access_type option \<Rightarrow> ir_type res" where
  "requested_type c t acc =
     (if cm_typed (class_of c) then (case t of Some x \<Rightarrow> Inr x | None \<Rightarrow> Inl TypeError)
      else if t \<noteq> None then Inl TypeError
      else case c of
             C_TypedLoad flat \<Rightarrow> (case acc of Some a \<Rightarrow> to_ir_type a | None \<Rightarrow> Inl TypeError)
           | C_TypedStore flat \<Rightarrow> (case acc of Some a \<Rightarrow> to_ir_type a | None \<Rightarrow> Inl TypeError)
           | C_LoadBits flat x \<Rightarrow> Inr x
           | C_StoreBits flat x \<Rightarrow> Inr x
           | _ \<Rightarrow> Inr T_NONE)"

definition resolve_op_type :: "ir_class \<Rightarrow> ir_type \<Rightarrow> ir_type res" where
  "resolve_op_type c t = (if t \<in> set (cm_types (class_of c)) then Inr t else Inl ValueError)"

text \<open>The call of a constructor with positional operands, an optional \<open>op_type\<close> and, for the typed
  accesses, the access type.\<close>

definition new_instr ::
    "ir_class \<Rightarrow> operand list \<Rightarrow> ir_type option \<Rightarrow> access_type option \<Rightarrow> (alloc, instr) action" where
  "new_instr c ops t acc =
     (let m = class_of c; (lo, hi) = cm_arity m
      in if \<not> (lo \<le> length ops \<and> length ops \<le> hi) then raiseS TypeError
         else bindS (liftS (requested_type c t acc)) (\<lambda>ty.
              bindS (cm_init m ops acc) (\<lambda>(ops', tmps).
              bindS (liftS (resolve_op_type c ty)) (\<lambda>ty'.
                returnS \<lparr>i_class = c, i_opcode = cm_text m, i_type = ty', i_ops = ops', i_pred = None,
                         i_neg = False, i_access = acc, i_tmps = tmps\<rparr>))))"

definition lower_instr :: "instr \<Rightarrow> backend list res" where
  "lower_instr i = cm_lower (class_of (i_class i)) i"

definition set_predicate :: "operand option \<Rightarrow> bool \<Rightarrow> instr \<Rightarrow> instr" where
  "set_predicate p negated i = i\<lparr>i_pred := p, i_neg := (p \<noteq> None \<and> negated)\<rparr>"

definition is_control_flow :: "instr \<Rightarrow> bool" where
  "is_control_flow i = cm_control (class_of (i_class i))"

definition writes_first_operand :: "instr \<Rightarrow> bool" where
  "writes_first_operand i = (cm_writes (class_of (i_class i)) \<and> i_ops i \<noteq> [])"

definition get_written_registers :: "instr \<Rightarrow> operand list" where
  "get_written_registers i =
     (if \<not> writes_first_operand i then []
      else let d = hd (i_ops i)
           in if is_base_reg d
              then (if is_range d \<and> \<not> is_reg64 d then get_reg_rang d else [d])
              else [])"

definition get_read_registers :: "instr \<Rightarrow> operand list" where
  "get_read_registers i = filter is_base_reg (if writes_first_operand i then tl (i_ops i) else i_ops i)"

definition get_written_register_names :: "instr \<Rightarrow> string list" where
  "get_written_register_names i = concat (map expand_register_names (get_written_registers i))"

definition get_read_register_names :: "instr \<Rightarrow> string list" where
  "get_read_register_names i = concat (map expand_register_names (get_read_registers i))"

definition get_written_predicate_names :: "instr \<Rightarrow> string list" where
  "get_written_predicate_names i = map op_name (filter is_predicate (get_written_registers i))"

definition instr_to_text :: "instr \<Rightarrow> string" where
  "instr_to_text i =
     (case i_class i of
        C_Ignore \<Rightarrow> []
      | C_InitGlobal \<Rightarrow>
          i_opcode i @ '' '' @ op_to_text (hd (i_ops i))
          @ (if tl (i_ops i) = [] then [] else '', ['' @ join '', '' (map op_name (tl (i_ops i))) @ '']'')
      | _ \<Rightarrow>
          (let x = (if i_type i \<noteq> T_NONE then i_opcode i @ '':'' @ ir_suffix (i_type i) else i_opcode i)
           in if i_ops i \<noteq> [] then x @ '' '' @ join '', '' (map op_to_text (i_ops i)) else x))"

end
