(* ===== verification/IR_Machine.thy ===== *)
theory IR_Machine
  imports IR_Memory "HOL-Library.Word"
begin

unbundle bit_operations_syntax

text \<open>
  What the lowered instructions compute.  The lowerings of \<open>src/src/ir/instructions/common\<close> spell a
  64-bit operation as a sequence of 32-bit opcodes; this theory gives those opcodes their documented
  meaning on 32-bit registers (the names of \<open>IR_Types\<close>) and proves that the sequences compute the
  64-bit operation they are named after: \<open>mul.lo\<close>, \<open>sub\<close>, the widening conversions, the unpacking of
  small vectors.  The opcode meanings are the specification; the sequences are the code's.
\<close>

section \<open>Words in two halves\<close>

definition hi_part :: "32 word \<Rightarrow> 64 word" where "hi_part h = ucast h * 2 ^ 32"

definition join64 :: "32 word \<Rightarrow> 32 word \<Rightarrow> 64 word" where "join64 lo hi = ucast lo + hi_part hi"

definition mul_hi :: "32 word \<Rightarrow> 32 word \<Rightarrow> 32 word" where
  "mul_hi a b = ucast (drop_bit 32 (ucast a * ucast b :: 64 word))"

lemma uint_hi_part: "uint (hi_part h) = uint h * 2 ^ 32"
proof -
  have "uint h < 2 ^ 32" using uint_lt2p [of h] by simp
  then show ?thesis by (simp add: hi_part_def uint_word_ariths uint_up_ucast is_up)
qed

lemma shift_mod: "(k :: int) mod 2 ^ 32 * 2 ^ 32 = k * 2 ^ 32 mod 2 ^ 64"
  using mod_mult_mult2 [of k "2 ^ 32" "2 ^ 32"] by simp

lemma neg_mod: "- (m :: int) \<le> k \<Longrightarrow> k < 0 \<Longrightarrow> k mod m = k + m"
  using mod_add_self2 [of k m] mod_pos_pos_trivial [of "k + m" m] by simp

lemma diff_mod: "0 \<le> a \<Longrightarrow> a < m \<Longrightarrow> 0 \<le> b \<Longrightarrow> b < m \<Longrightarrow> (a - b) mod m = a - b + (if a < b then m else (0 :: int))"
  using neg_mod [of m "a - b"] mod_pos_pos_trivial [of "a - b" m] by simp

lemma diff_mod_idem: "0 \<le> a \<Longrightarrow> a < m \<Longrightarrow> 0 \<le> b \<Longrightarrow> b < m \<Longrightarrow> m \<le> n \<Longrightarrow>
    (a - b + (if a < b then m else 0)) mod n = a - b + (if a < b then m else (0 :: int))"
  by (rule mod_pos_pos_trivial) auto

lemma hi_part_add: "hi_part (x + y) = hi_part x + hi_part y"
proof (rule word_uint_eqI)
  have "(uint x + uint y) mod 2 ^ 32 * 2 ^ 32 = ((uint x + uint y) * 2 ^ 32) mod (2 ^ 64 :: int)"
    by (rule shift_mod)
  then show "uint (hi_part (x + y)) = uint (hi_part x + hi_part y)"
    by (simp add: uint_hi_part uint_word_ariths algebra_simps)
qed

lemma hi_part_mult: "hi_part (x * y) = ucast x * ucast y * 2 ^ 32"
proof (rule word_uint_eqI)
  have "(uint x * uint y) mod 2 ^ 32 * 2 ^ 32 = ((uint x * uint y) * 2 ^ 32) mod (2 ^ 64 :: int)"
    by (rule shift_mod)
  then show "uint (hi_part (x * y)) = uint (ucast x * ucast y * 2 ^ 32 :: 64 word)"
    by (simp add: uint_hi_part uint_word_ariths uint_up_ucast is_up mod_mult_left_eq)
qed

lemma hi_part_sub: "hi_part (x - y) = hi_part x - hi_part y"
  using hi_part_add [of "x - y" y] by simp

lemma hi_part_1: "hi_part 1 = 2 ^ 32"
  by (simp add: hi_part_def)

lemma hi_part_0: "hi_part 0 = 0"
  by (simp add: hi_part_def)

lemma uint_mul64: "uint (ucast (a :: 32 word) * ucast (b :: 32 word) :: 64 word) = uint a * uint b"
proof -
  have "uint a \<le> 2 ^ 32 - 1" "uint b \<le> 2 ^ 32 - 1" using uint_lt2p [of a] uint_lt2p [of b] by simp_all
  then have "uint a * uint b \<le> (2 ^ 32 - 1) * (2 ^ 32 - 1)" by (intro mult_mono) auto
  then have "uint a * uint b < 2 ^ 64" by simp
  then show ?thesis by (simp add: uint_word_ariths uint_up_ucast is_up)
qed

lemma uint_mul_hi: "uint (mul_hi a b) = uint a * uint b div 2 ^ 32"
proof -
  have "uint a \<le> 2 ^ 32 - 1" "uint b \<le> 2 ^ 32 - 1" using uint_lt2p [of a] uint_lt2p [of b] by simp_all
  then have "uint a * uint b \<le> (2 ^ 32 - 1) * (2 ^ 32 - 1)" by (intro mult_mono) auto
  then have "uint a * uint b div 2 ^ 32 < 2 ^ 32" by simp
  then show ?thesis
    by (simp add: mul_hi_def uint_mul64 drop_bit_eq_div uint_div_distrib unsigned_ucast_eq take_bit_eq_mod unsigned_drop_bit_eq mod_pos_pos_trivial pos_imp_zdiv_nonneg_iff)
qed

lemma mul_lo_hi: "join64 (a * b) (mul_hi a b) = ucast a * ucast b"
proof (rule word_uint_eqI)
  have "uint a \<le> 2 ^ 32 - 1" "uint b \<le> 2 ^ 32 - 1" using uint_lt2p [of a] uint_lt2p [of b] by simp_all
  then have "uint a * uint b \<le> (2 ^ 32 - 1) * (2 ^ 32 - 1)" by (intro mult_mono) auto
  then have b: "uint a * uint b < 2 ^ 64" by simp
  have "uint (join64 (a * b) (mul_hi a b)) = ((uint a * uint b) mod 2 ^ 32 + uint a * uint b div 2 ^ 32 * 2 ^ 32) mod 2 ^ 64"
    by (simp add: join64_def uint_word_ariths uint_hi_part uint_mul_hi uint_up_ucast is_up)
  also have "\<dots> = uint a * uint b" using b by simp
  finally show "uint (join64 (a * b) (mul_hi a b)) = uint (ucast a * ucast b :: 64 word)" by (simp add: uint_mul64)
qed

lemma join64_mult:
  "join64 (a0 * b0) (a0 * b1 + mul_hi a0 b0 + a1 * b0) = join64 a0 a1 * join64 b0 b1"
proof -
  have z: "(2::64 word) ^ 32 * 2 ^ 32 = 0" by simp
  have "join64 a0 a1 * join64 b0 b1 =
     ucast a0 * ucast b0 + hi_part (a0 * b1) + hi_part (a1 * b0) + ucast a1 * ucast b1 * (2 ^ 32 * 2 ^ 32)"
    unfolding join64_def hi_part_mult unfolding hi_part_def by (simp only: algebra_simps)
  then show ?thesis unfolding z by (simp add: mul_lo_hi [symmetric] join64_def hi_part_add)
qed

lemma ucast_sub_borrow:
  "(ucast (x - y :: 32 word) :: 64 word) = ucast x - ucast y + (if x < y then 2 ^ 32 else 0)"
proof (rule word_uint_eqI)
  have b: "uint x < 2 ^ 32" "uint y < 2 ^ 32" "0 \<le> uint x" "0 \<le> uint y"
    using uint_lt2p [of x] uint_lt2p [of y] by simp_all
  then have m: "(uint x - uint y) mod 2 ^ 32 = uint x - uint y + (if uint x < uint y then 2 ^ 32 else 0)"
    by (intro diff_mod) simp_all
  moreover have "(uint x - uint y + (if uint x < uint y then 2 ^ 32 else 0)) mod 2 ^ 64
      = uint x - uint y + (if uint x < uint y then 2 ^ 32 else 0)"
    using b by (intro diff_mod_idem) simp_all
  ultimately show "uint (ucast (x - y) :: 64 word) = uint (ucast x - ucast y + (if x < y then 2 ^ 32 else 0) :: 64 word)"
    by (simp add: uint_word_ariths uint_up_ucast is_up word_less_def mod_add_left_eq split: if_splits)
qed

lemma join64_sub: "join64 (a0 - b0) (a1 - b1 - (if a0 < b0 then 1 else 0)) = join64 a0 a1 - join64 b0 b1"
  by (simp add: join64_def hi_part_sub ucast_sub_borrow hi_part_1 hi_part_0)

section \<open>The opcodes\<close>

record machine =
  reg_val :: "string \<Rightarrow> 32 word"
  borrow :: bool

definition literal :: "string \<Rightarrow> int" where
  "literal s =
     (if startswith s ''0x'' then int (read_hex 0 (drop 2 s))
      else case int_base10 s of Some i \<Rightarrow> i | None \<Rightarrow> 0)"

definition src32 :: "machine \<Rightarrow> operand \<Rightarrow> 32 word option" where
  "src32 m r = (case r of Reg32 s \<Rightarrow> Some (reg_val m s) | Val s \<Rightarrow> Some (word_of_int (literal s)) | _ \<Rightarrow> None)"

definition set32 :: "operand \<Rightarrow> 32 word \<Rightarrow> machine \<Rightarrow> machine option" where
  "set32 r x m = (case r of Reg32 s \<Rightarrow> Some (m\<lparr>reg_val := (reg_val m)(s := x)\<rparr>) | _ \<Rightarrow> None)"

definition pair_at :: "machine \<Rightarrow> string \<Rightarrow> string \<Rightarrow> 64 word" where
  "pair_at m lo hi = join64 (reg_val m lo) (reg_val m hi)"

definition src64 :: "machine \<Rightarrow> operand \<Rightarrow> 64 word option" where
  "src64 m r =
     (case r of
        Val s \<Rightarrow> Some (word_of_int (literal s))
      | Reg32 s \<Rightarrow> None
      | _ \<Rightarrow> (case expand_register_names r of [lo, hi] \<Rightarrow> Some (pair_at m lo hi) | _ \<Rightarrow> None))"

definition set64 :: "operand \<Rightarrow> 64 word \<Rightarrow> machine \<Rightarrow> machine option" where
  "set64 r x m =
     (case expand_register_names r of
        [lo, hi] \<Rightarrow> Some (m\<lparr>reg_val := (reg_val m)(lo := ucast x, hi := ucast (drop_bit 32 x))\<rparr>) | _ \<Rightarrow> None)"

text \<open>A bit-field extraction reads its offset from bits 4 to 0 and its width from bits 22 to 16 of the
  selector.\<close>

definition bfe_u32 :: "32 word \<Rightarrow> 32 word \<Rightarrow> 32 word" where
  "bfe_u32 x sel =
     take_bit (nat (uint (take_bit 7 (drop_bit 16 sel)))) (drop_bit (nat (uint (take_bit 5 sel))) x)"

definition alu :: "(string \<times> (32 word \<Rightarrow> 32 word \<Rightarrow> 32 word)) list" where
  "alu =
     [(''v_add_u32'', (+)), (''v_mul_lo_u32'', (*)), (''v_mul_lo_i32'', (*)), (''v_mul_hi_u32'', mul_hi),
      (''s_and_b32'', and), (''s_or_b32'', or), (''s_xor_b32'', xor), (''s_bfe_u32'', bfe_u32),
      (''v_lshlrev_b32'', \<lambda>n x. push_bit (unat n mod 32) x),
      (''v_lshrrev_b32'', \<lambda>n x. drop_bit (unat n mod 32) x),
      (''v_ashrrev_i32'', \<lambda>n x. signed_drop_bit (unat n mod 32) x)]"

definition exec :: "backend \<Rightarrow> machine \<Rightarrow> machine option" where
  "exec b m =
     (case b_ops b of
        [d, a] \<Rightarrow>
          if b_opcode b = ''s_mov_b32'' then Option.bind (src32 m a) (\<lambda>x. set32 d x m) else None
      | [d, a, c] \<Rightarrow>
          Option.bind (src32 m a) (\<lambda>x. Option.bind (src32 m c) (\<lambda>y.
            case map_of alu (b_opcode b) of
              Some f \<Rightarrow> set32 d (f x y) m
            | None \<Rightarrow>
                if b_opcode b = ''v_sub_u32'' then set32 d (x - y) (m\<lparr>borrow := x < y\<rparr>)
                else if b_opcode b = ''v_subb_u32''
                then set32 d (x - y - (if borrow m then 1 else 0))
                       (m\<lparr>borrow := uint x < uint y + (if borrow m then 1 else 0)\<rparr>)
                else None))
      | [d, z, a, c, e] \<Rightarrow>
          Option.bind (src32 m a) (\<lambda>x. Option.bind (src32 m c) (\<lambda>y. Option.bind (src64 m e) (\<lambda>w.
            if b_opcode b = ''v_mad_u64_u32'' then set64 d (ucast x * ucast y + w) m
            else if b_opcode b = ''v_mad_i64_i32'' then set64 d (scast x * scast y + w) m
            else None)))
      | _ \<Rightarrow> None)"

fun run :: "backend list \<Rightarrow> machine \<Rightarrow> machine option" where
  "run [] m = Some m"
| "run (b # bs) m = Option.bind (exec b m) (run bs)"

lemma run_append: "run (bs @ cs) m = Option.bind (run bs m) (run cs)"
  by (induction bs arbitrary: m) (auto split: Option.bind_split)

named_theorems exec_simps \<open>the opcodes on scalar registers\<close>

lemma src32_simps [exec_simps]:
  "src32 m (Reg32 s) = Some (reg_val m s)"
  "src32 m (Val s) = Some (word_of_int (literal s))"
  by (simp_all add: src32_def)

lemma exec_mov [exec_simps]:
  "exec (be c ''s_mov_b32'' [Reg32 d, a] s) m =
     map_option (\<lambda>x. m\<lparr>reg_val := (reg_val m)(d := x)\<rparr>) (src32 m a)"
  by (cases "src32 m a") (simp_all add: exec_def be_def set32_def)

lemma exec_alu:
  assumes "map_of alu x = Some f"
  shows "exec (be c x [Reg32 d, a, b] s) m =
     Option.bind (src32 m a) (\<lambda>u. map_option (\<lambda>v. m\<lparr>reg_val := (reg_val m)(d := f u v)\<rparr>) (src32 m b))"
  using assms by (cases "src32 m a"; cases "src32 m b") (simp_all add: exec_def be_def set32_def)


lemma alu_lookup:
  "map_of alu ''v_add_u32'' = Some (+)"
  "map_of alu ''v_mul_lo_u32'' = Some (*)"
  "map_of alu ''v_mul_hi_u32'' = Some mul_hi"
  "map_of alu ''s_and_b32'' = Some and"
  "map_of alu ''s_bfe_u32'' = Some bfe_u32"
  "map_of alu ''v_ashrrev_i32'' = Some (\<lambda>n x. signed_drop_bit (unat n mod 32) x)"
  by (simp_all add: alu_def)

lemmas exec_ops [exec_simps] = alu_lookup [THEN exec_alu]

lemma exec_sub [exec_simps]:
  "exec (be c ''v_sub_u32'' [Reg32 d, Reg32 a, Reg32 b] s) m =
     Some (m\<lparr>reg_val := (reg_val m)(d := reg_val m a - reg_val m b), borrow := reg_val m a < reg_val m b\<rparr>)"
  "exec (be c ''v_subb_u32'' [Reg32 d, Reg32 a, Reg32 b] s) m =
     Some (m\<lparr>reg_val := (reg_val m)(d := reg_val m a - reg_val m b - (if borrow m then 1 else 0)),
             borrow := uint (reg_val m a) < uint (reg_val m b) + (if borrow m then 1 else 0)\<rparr>)"
  by (simp_all add: exec_def be_def alu_def src32_def set32_def)

section \<open>64-bit multiplication and subtraction\<close>

lemma lower_mul_wide:
  "\<lbrakk>i_class i = C_MulLo; is_wide i; reg_pair (opn i 0) = Inr (dl, dh); reg_pair (opn i 1) = Inr (al, ah);
    reg_pair (opn i 2) = Inr (bl, bh)\<rbrakk> \<Longrightarrow>
   lower_instr i =
     Inr [be ''VMulHi'' ''v_mul_hi_u32'' [dl, al, bl] ''u32'', be ''VMulLo'' ''v_mul_lo_u32'' [dh, al, bh] ''u32'',
          be ''VAdd'' ''v_add_u32'' [dh, dh, dl] ''u32'', be ''VMulLo'' ''v_mul_lo_u32'' [dl, ah, bl] ''u32'',
          be ''VAdd'' ''v_add_u32'' [dh, dh, dl] ''u32'', be ''VMulLo'' ''v_mul_lo_u32'' [dl, al, bl] ''u32'']"
  by (simp add: lower_instr_def class_of_def mullo_class_def typed_class_def lower_mul_lo_def)

lemma lower_sub_wide:
  "\<lbrakk>i_class i = C_Sub; is_wide i; reg_pair (opn i 0) = Inr (dl, dh); reg_pair (opn i 1) = Inr (al, ah);
    reg_pair (opn i 2) = Inr (bl, bh)\<rbrakk> \<Longrightarrow>
   lower_instr i =
     Inr [be ''VSub'' ''v_sub_u32'' [dl, al, bl] ''u32'', be ''VSub'' ''v_subb_u32'' [dh, ah, bh] ''u32'']"
  by (simp add: lower_instr_def class_of_def sub_class_def typed_class_def lower_sub_def is_wide_def) auto


text \<open>A machine and instructions for the concrete instances: the pairs are \<open>a\<close>, \<open>b\<close> and \<open>d\<close>.\<close>

definition sample_machine :: machine where
  "sample_machine =
     \<lparr>reg_val = (\<lambda>_. 0)(''a|lo'' := 3, ''a|hi'' := 1, ''b|lo'' := 5, ''b|hi'' := 2), borrow = False\<rparr>"

definition sample_instr :: "ir_class \<Rightarrow> ir_type \<Rightarrow> operand list \<Rightarrow> instr" where
  "sample_instr c t ops =
     \<lparr>i_class = c, i_opcode = cm_text (class_of c), i_type = t, i_ops = ops, i_pred = None, i_neg = False,
      i_access = None, i_tmps = []\<rparr>"

lemma reg_pair_64: "reg_pair (Reg64 s) = Inr (Reg32 (s @ ''|lo''), Reg32 (s @ ''|hi''))"
  by (simp add: reg_pair_def get_reg_rang_def halves_def)

lemma sample_simps [simp]:
  "i_class (sample_instr c t ops) = c" "i_type (sample_instr c t ops) = t"
  "opn (sample_instr c t ops) k = ops ! k" "is_wide (sample_instr c t ops) \<longleftrightarrow> t = T_U64 \<or> t = T_I64"
  "i_tmps (sample_instr c t ops) = []"
  by (simp_all add: sample_instr_def opn_def is_wide_def)


text \<open>
  The condition on the registers is needed: for \<open>mul.lo.u64 a, a, b\<close> the first opcode already
  overwrites the low half of \<open>a\<close>, which the later ones read, and the result is wrong.
\<close>

lemma mul_lo_64_in_place:
  "\<exists>code m'. lower_instr (sample_instr C_MulLo T_U64 [Reg64 ''a'', Reg64 ''a'', Reg64 ''b'']) = Inr code
     \<and> run code sample_machine = Some m'
     \<and> pair_at m' ''a|lo'' ''a|hi'' \<noteq> pair_at sample_machine ''a|lo'' ''a|hi'' * pair_at sample_machine ''b|lo'' ''b|hi''"
  by (simp add: lower_mul_wide reg_pair_64 exec_simps pair_at_def join64_def hi_part_def mul_hi_def sample_machine_def)



section \<open>Conversions\<close>

lemma literal_simps [exec_simps]:
  "literal ''0'' = 0" "literal ''31'' = 31" "literal ''0xffff'' = 65535"
  by (simp_all add: literal_def startswith_def int_base10_def is_decimal_def decimal_value_def
        hex_value_def to_lower_hex_def hex_digits_def)

lemma lower_cvt:
  "\<lbrakk>i_class i = C_Cvt32To64; reg_pair (opn i 0) = Inr (dl, dh)\<rbrakk> \<Longrightarrow>
   lower_instr i =
     Inr [be ''SMov'' ''s_mov_b32'' [dl, opn i 1] ''b32'',
          (if i_type i = T_I64_I32 then be ''VAshrrev'' ''v_ashrrev_i32'' [dh, Val ''31'', opn i 1] ''i32''
           else be ''SMov'' ''s_mov_b32'' [dh, Val ''0''] ''b32'')]"
  by (simp add: lower_instr_def class_of_def cvt32to64_class_def typed_class_def lower_cvt32to64_def)

lemma zero_extension: "join64 x 0 = ucast x"
  by (simp add: join64_def hi_part_0)

lemma sign_mod: "2147483648 \<le> (k :: int) \<Longrightarrow> k < 4294967296 \<Longrightarrow> (k + 2147483648) mod 4294967296 = k - 2147483648"
  using mod_add_self2 [of "k - 2147483648" 4294967296] mod_pos_pos_trivial [of "k - 2147483648" 4294967296] by (simp add: add.commute)

lemma sint_uint_32: "sint (x :: 32 word) = uint x - (if uint x < 2 ^ 31 then 0 else 2 ^ 32)"
proof -
  have "0 \<le> uint x" "uint x < 2 ^ 32" using uint_lt2p [of x] by simp_all
  then show ?thesis
    by (auto simp: sint_uint signed_take_bit_eq_take_bit_shift take_bit_eq_mod mod_pos_pos_trivial neg_mod sign_mod
          intro: mod_pos_pos_trivial)
qed

lemma signed_drop_bit_31: "signed_drop_bit 31 (x :: 32 word) = (if uint x < 2 ^ 31 then 0 else - 1)"
proof -
  have b: "0 \<le> uint x" "uint x < 2 ^ 32" using uint_lt2p [of x] by simp_all
  have "sint (signed_drop_bit 31 x) = sint x div 2 ^ 31"
    by (simp add: sint_signed_drop_bit_eq drop_bit_eq_div)
  also have "\<dots> = (if uint x < 2 ^ 31 then 0 else - 1)"
    using b by (auto simp: sint_uint_32 div_pos_pos_trivial div_eq_minus1)
  finally show ?thesis by (intro signed_word_eqI) auto
qed

lemma sign_extension: "join64 x (signed_drop_bit 31 x) = scast x"
proof -
  have "(scast x :: 64 word) = word_of_int (sint x)" by (simp)
  also have "\<dots> = ucast x - (if uint x < 2 ^ 31 then 0 else 2 ^ 32)" by (simp add: sint_uint_32)
  moreover have "hi_part (- 1) = - (2 ^ 32)"
    using hi_part_sub [of 0 1] by (simp add: hi_part_0 hi_part_1)
  ultimately show ?thesis by (simp add: signed_drop_bit_31 join64_def hi_part_0)
qed



lemma mask_16: "65535 AND x = (ucast (ucast (x :: 32 word) :: 16 word) :: 32 word)"
proof -
  have "65535 AND x = take_bit 16 x" by (simp add: take_bit_eq_mask mask_eq_exp_minus_1 and.commute)
  also have "\<dots> = ucast (ucast x :: 16 word)" by (simp add: unsigned_ucast_eq)
  finally show ?thesis .
qed
lemma no_bit_16: "16 \<le> n \<Longrightarrow> \<not> bit (y :: 16 word) n"
  using bit_imp_le_length [of y n] by auto

lemma sext16: "(scast (y :: 16 word) :: 32 word) = ucast y \<longleftrightarrow> \<not> bit y 15"
proof
  assume "(scast y :: 32 word) = ucast y"
  then have "bit (scast y :: 32 word) 16 = bit (ucast y :: 32 word) 16" by simp
  then show "\<not> bit y 15" by (simp add: bit_simps no_bit_16)
next
  assume b: "\<not> bit y 15"
  show "(scast y :: 32 word) = ucast y"
  proof (rule bit_word_eqI)
    fix n assume "n < LENGTH(32)"
    consider "n < 15" | "n = 15" | "16 \<le> n" by linarith
    then show "bit (scast y :: 32 word) n = bit (ucast y :: 32 word) n"
      using b by cases (auto simp: bit_simps no_bit_16 min_def)
  qed
qed

text \<open>
  \<open>cvt16to32\<close> masks with \<open>0xffff\<close> for every type, so the signed conversion \<open>I32_I16\<close> is right
  exactly for the values whose bit 15 is clear: negative 16-bit values are not sign-extended.
\<close>

lemma cvt_16_to_32_unsigned_only:
  assumes "i_class i = C_Cvt16To32" "opn i 0 = Reg32 d" "opn i 1 = Reg32 a"
  shows "\<exists>code m'. lower_instr i = Inr code \<and> run code m = Some m'
           \<and> reg_val m' d = ucast (ucast (reg_val m a) :: 16 word)
           \<and> (reg_val m' d = scast (ucast (reg_val m a) :: 16 word) \<longleftrightarrow> \<not> bit (reg_val m a) 15)"
proof -
  have "lower_instr i = Inr [be ''SAnd'' ''s_and_b32'' [Reg32 d, Val ''0xffff'', Reg32 a] ''b32'']"
    using assms by (simp add: lower_instr_def class_of_def cvt16to32_class_def typed_class_def)
  moreover have "(ucast (ucast (reg_val m a) :: 16 word) :: 32 word) = scast (ucast (reg_val m a) :: 16 word)
      \<longleftrightarrow> \<not> bit (reg_val m a) 15"
    using sext16 [of "ucast (reg_val m a)"] by (auto simp: bit_simps)
  ultimately show ?thesis by (simp add: exec_simps mask_16)
qed

theorem cvt_16_to_32_unsigned_only_witness:
  "\<exists>code m'. lower_instr (sample_instr C_Cvt16To32 T_I32_I16 [Reg32 ''d'', Reg32 ''x'']) = Inr code
     \<and> run code (sample_machine\<lparr>reg_val := \<lambda>_. 65535\<rparr>) = Some m' \<and> reg_val m' ''d'' \<noteq> - 1"
  using cvt_16_to_32_unsigned_only [of "sample_instr C_Cvt16To32 T_I32_I16 [Reg32 ''d'', Reg32 ''x'']" "''d''" "''x''"
      "sample_machine\<lparr>reg_val := \<lambda>_. 65535\<rparr>"]
  by auto

section \<open>Unpacking a packed vector\<close>

lemma read_hex_append: "read_hex acc (xs @ ys) = read_hex (read_hex acc xs) ys"
  by (induction xs arbitrary: acc) auto

lemma hex_value_digits: "list_all (\<lambda>n. hex_value (hex_digits ! n) = n) [0..<16]"
  by code_simp

lemma hex_value_digit: "n < 16 \<Longrightarrow> hex_value (hex_digits ! n) = n"
  using hex_value_digits by (simp add: list_all_iff del: upt_Suc)

lemma read_hex_digits: "read_hex 0 (hex_digits_of n) = n"
proof (induction n rule: hex_digits_of.induct)
  case (1 n)
  then show ?case by (cases "n < 16") (simp_all add: hex_digits_of.simps [of n] read_hex_append hex_value_digit)
qed

lemma literal_show_hex [exec_simps]: "literal (show_hex n) = int n"
  by (simp add: literal_def show_hex_def startswith_def read_hex_digits)

lemma uint_of_nat_small: "n < 2 ^ 32 \<Longrightarrow> uint (word_of_int (int n) :: 32 word) = int n"
  by (simp add: unsigned_of_nat take_bit_nat_eq_self)

lemma sel_fields:
  assumes "w < 32" "j < 32" "n = w * 2 ^ 16 + j"
  shows "nat (uint (take_bit 7 (drop_bit 16 (word_of_int (int n) :: 32 word)))) = w"
    "nat (uint (take_bit 5 (word_of_int (int n) :: 32 word))) = j"
proof -
  have n: "n < 2 ^ 32" using assms by simp
  have e: "int n = (int w * 2048) * 32 + int j" "int n = int w * 65536 + int j" using assms(3) by simp_all
  have "int n mod 32 = int j" unfolding e(1) mod_mult_self3 using assms(2) by simp
  moreover have "int n div 65536 = int w" unfolding e(2) using assms(2) by simp
  ultimately have "int n div 2 ^ 16 mod 2 ^ 7 = int w" "int n mod 2 ^ 5 = int j" using assms(1) by simp_all
  moreover have "int n mod 2 ^ LENGTH(32) = int n" using n by simp
  ultimately show "nat (uint (take_bit 7 (drop_bit 16 (word_of_int (int n) :: 32 word)))) = w"
    "nat (uint (take_bit 5 (word_of_int (int n) :: 32 word))) = j"
    unfolding unsigned_take_bit_eq unsigned_drop_bit_eq uint_of_nat_small [OF n]
    by (simp_all only: take_bit_eq_mod drop_bit_eq_div nat_int)
qed

lemma bfe_select:
  "w < 32 \<Longrightarrow> j < 32 \<Longrightarrow> bfe_u32 x (word_of_int (int (w * 2 ^ 16 + j))) = take_bit w (drop_bit j x)"
  by (simp only: bfe_u32_def sel_fields)

lemma mask_low: "x AND (2 ^ w - 1) = take_bit w (x :: 32 word)"
  by (simp add: take_bit_eq_mask mask_eq_exp_minus_1)


lemma exec_unpack_one:
  assumes "w < 32" "k * w < 32"
  shows "exec (unpack_one w (Reg32 p) k (Reg32 d)) m =
    Some (m\<lparr>reg_val := (reg_val m)(d := take_bit w (drop_bit (k * w) (reg_val m p)))\<rparr>)"
  using bfe_select [OF assms]
  by (simp add: unpack_one_def exec_simps low_mask_def bfe_selector_def mask_low del: of_nat_add of_nat_mult)

lemma run_unpack:
  assumes "w < 32" "(k + length ds) * w \<le> 32" "0 < w" "distinct ds" "p \<notin> set ds"
  shows "\<exists>m'. run (unpack_from w (Reg32 p) k (map Reg32 ds)) m = Some m'
           \<and> (\<forall>j < length ds. reg_val m' (ds ! j) = take_bit w (drop_bit ((k + j) * w) (reg_val m p)))
           \<and> (\<forall>r. r \<notin> set ds \<longrightarrow> reg_val m' r = reg_val m r)"
  using assms(2,4,5)
proof (induction ds arbitrary: k m)
  case Nil
  then show ?case by simp
next
  case (Cons d ds)
  let ?m = "m\<lparr>reg_val := (reg_val m)(d := take_bit w (drop_bit (k * w) (reg_val m p)))\<rparr>"
  have "k * w + w \<le> 32" using Cons.prems(1) by (simp add: algebra_simps)
  with assms(3) have kw: "k * w < 32" by linarith
  have "(Suc k + length ds) * w \<le> 32" using Cons.prems(1) by simp
  with Cons.IH [of "Suc k" ?m] Cons.prems obtain m' where m': "run (unpack_from w (Reg32 p) (Suc k) (map Reg32 ds)) ?m = Some m'"
      "\<forall>j < length ds. reg_val m' (ds ! j) = take_bit w (drop_bit ((Suc k + j) * w) (reg_val ?m p))"
      "\<forall>r. r \<notin> set ds \<longrightarrow> reg_val m' r = reg_val ?m r"
    by auto
  have "reg_val m' ((d # ds) ! j) = take_bit w (drop_bit ((k + j) * w) (reg_val m p))" if "j < Suc (length ds)" for j
    using that m'(2,3) Cons.prems(2,3) by (cases j) auto
  with m' Cons.prems show ?case by (auto simp: exec_unpack_one [OF assms(1) kw])
qed

lemma lower_typed_load_parts:
  assumes "i_class i = C_TypedLoad flat" "lower_instr i = Inr (load # code)" "i_access i = Some a" "i_tmps i = [Reg32 p]"
    and "element_bits a = Inr w"
  shows "code = unpack_from w (Reg32 p) 0 (get_reg_rang (opn i 0))"
  using assms
  by (auto simp: lower_instr_def class_of_def typed_load_class_def typed_class_def lower_typed_load_def Let_def)


definition sample_typed_load :: instr where
  "sample_typed_load =
     (sample_instr (C_TypedLoad True) T_U8 [Composite ''v'' [Reg32 ''r0'', Reg32 ''r1'', Reg32 ''r2'', Reg32 ''r3''], Reg64 ''p'', Val ''0''])
       \<lparr>i_access := Some \<lparr>address_space = ''global'', base_type_name = ''u8'', vector_width = 4\<rparr>,
        i_tmps := [Reg32 ''__typed_ld_0'']\<rparr>"

lemma sample_typed_load_code:
  "\<exists>load code. lower_instr sample_typed_load = Inr (load # code)"
  by (simp add: lower_instr_def class_of_def typed_load_class_def typed_class_def lower_typed_load_def
        sample_typed_load_def sample_instr_def opn_def total_bits_def element_bits_def int_base10_def startswith_def
        is_decimal_def decimal_value_def emit_load_def memory_suffix_for_bits_def is_composite_def is_range_def)


text \<open>Of a 32-bit element only one fits in the packed word, so the small-vector path is for bytes and
  16-bit elements: the temporary exists exactly then.\<close>

lemma small_vector_elements:
  assumes "needs_small_vector_unpack dest a = Inr True" "element_bits a = Inr w"
  shows "w < 32 \<and> w * vector_width a \<le> 32 \<and> 1 < vector_width a"
  using assms by (auto simp: needs_small_vector_unpack_def split: if_splits)

end
