(* ===== verification/IR_Kernel.thy ===== *)
theory IR_Kernel
  imports IR_Memory Expr_Vars
begin

text \<open>
  A kernel of the intermediate representation (\<open>src/src/ir/kernel.py\<close>, \<open>src/src/ir/kernel_components.py\<close>)
  and the passes that complete it before decompilation (\<open>src/src/ir/passes/kernel\<close>).

  The argument list and the two dictionaries of \<open>KernelArguments\<close> share their objects, and
  \<open>update_type\<close> changes one in place; here the dictionaries hold positions in the list, so the change
  is seen through every one of them as in the source.  The dictionaries of memories are association
  lists in insertion order.  The process-wide allocator of temporary names is a field of the kernel.
\<close>

section \<open>Arguments\<close>

record kernel_arguments =
  arg_ptr :: "operand option"
  arg_list :: "kernel_argument list"
  arg_materialized :: bool
  by_name :: "string \<Rightarrow> nat option"
  by_offset :: "int \<Rightarrow> nat option"

definition argument_size :: "string \<Rightarrow> string \<Rightarrow> int res" where
  "argument_size name t =
     (if startswith name ''*'' then Inr 8
      else bind_res (evaluate_size (make_asm_type t) False) (\<lambda>(n, _). Inr n))"

definition add_argument ::
    "string \<Rightarrow> string \<Rightarrow> bool \<Rightarrow> int \<Rightarrow> bool \<Rightarrow> int option \<Rightarrow> kernel_arguments \<Rightarrow> kernel_arguments res" where
  "add_argument name t const offset hidden declared a =
     bind_res (argument_size name t) (\<lambda>n.
       Inr (a\<lparr>arg_list := arg_list a @ [\<lparr>type_name = t, arg_name = name, arg_offset = offset, arg_size = n,
                                     arg_hidden = hidden, arg_const = const, declared_size = declared\<rparr>],
              by_name := (by_name a)(name \<mapsto> length (arg_list a)),
              by_offset := (by_offset a)(offset \<mapsto> length (arg_list a))\<rparr>))"

definition get_by_offset :: "kernel_arguments \<Rightarrow> int \<Rightarrow> kernel_argument option" where
  "get_by_offset a offset = map_option (\<lambda>k. arg_list a ! k) (by_offset a offset)"

definition get_by_name :: "kernel_arguments \<Rightarrow> string \<Rightarrow> kernel_argument option" where
  "get_by_name a name = map_option (\<lambda>k. arg_list a ! k) (by_name a name)"

definition update_type :: "string \<Rightarrow> string \<Rightarrow> kernel_arguments \<Rightarrow> (bool \<times> kernel_arguments) res" where
  "update_type name t a =
     (case by_name a name of
        None \<Rightarrow> Inr (False, a)
      | Some k \<Rightarrow>
          bind_res (argument_size (arg_name (arg_list a ! k)) t) (\<lambda>n.
            Inr (True, a\<lparr>arg_list := (arg_list a)[k := (arg_list a ! k)\<lparr>type_name := t, arg_size := n\<rparr>]\<rparr>)))"

definition update_type_by_offset :: "int \<Rightarrow> string \<Rightarrow> kernel_arguments \<Rightarrow> (bool \<times> kernel_arguments) res" where
  "update_type_by_offset offset t a =
     (case get_by_offset a offset of None \<Rightarrow> Inr (False, a) | Some arg \<Rightarrow> update_type (arg_name arg) t a)"

definition set_arg_ptr :: "operand \<Rightarrow> kernel_arguments \<Rightarrow> kernel_arguments" where
  "set_arg_ptr r a = a\<lparr>arg_ptr := Some r, arg_materialized := False\<rparr>"

text \<open>The dictionaries point into the list; every argument has the size of its type; an argument with a
  unique name is the one its name leads to.\<close>

definition arguments_ok :: "kernel_arguments \<Rightarrow> bool" where
  "arguments_ok a \<longleftrightarrow>
     (\<forall>n k. by_name a n = Some k \<longrightarrow> k < length (arg_list a) \<and> arg_name (arg_list a ! k) = n)
   \<and> (\<forall>p k. by_offset a p = Some k \<longrightarrow> k < length (arg_list a) \<and> arg_offset (arg_list a ! k) = p)
   \<and> (\<forall>j < length (arg_list a).
        argument_size (arg_name (arg_list a ! j)) (type_name (arg_list a ! j)) = Inr (arg_size (arg_list a ! j))
        \<and> by_name a (arg_name (arg_list a ! j)) \<noteq> None \<and> by_offset a (arg_offset (arg_list a ! j)) \<noteq> None)"

definition no_arguments :: kernel_arguments where
  "no_arguments = \<lparr>arg_ptr = None, arg_list = [], arg_materialized = False, by_name = Map.empty, by_offset = Map.empty\<rparr>"

lemma no_arguments_ok: "arguments_ok no_arguments"
  by (simp add: arguments_ok_def no_arguments_def)

lemma add_argument_ok:
  assumes ok: "arguments_ok a" and r: "add_argument name t c p h d a = Inr a'"
  shows "arguments_ok a'"
proof -
  obtain n where n: "argument_size name t = Inr n"
    and a': "a' = a\<lparr>arg_list := arg_list a @ [\<lparr>type_name = t, arg_name = name, arg_offset = p, arg_size = n,
                     arg_hidden = h, arg_const = c, declared_size = d\<rparr>],
              by_name := (by_name a)(name \<mapsto> length (arg_list a)),
              by_offset := (by_offset a)(p \<mapsto> length (arg_list a))\<rparr>"
    using r by (auto simp: add_argument_def)
  show ?thesis
    using ok n unfolding arguments_ok_def a' by (auto simp: nth_append less_Suc_eq)
qed

lemma update_type_ok:
  assumes ok: "arguments_ok a" and r: "update_type name t a = Inr (b, a')"
  shows "arguments_ok a'"
proof (cases "by_name a name")
  case None
  with ok r show ?thesis by (simp add: update_type_def)
next
  case (Some k)
  with ok have k: "k < length (arg_list a)" by (auto simp: arguments_ok_def)
  from Some r obtain n where n: "argument_size (arg_name (arg_list a ! k)) t = Inr n"
    and a': "a' = a\<lparr>arg_list := (arg_list a)[k := (arg_list a ! k)\<lparr>type_name := t, arg_size := n\<rparr>]\<rparr>"
    by (auto simp: update_type_def)
  show ?thesis
    using ok n k unfolding arguments_ok_def a' by (auto simp: nth_list_update)
qed

lemma update_type_by_offset_ok:
  "arguments_ok a \<Longrightarrow> update_type_by_offset p t a = Inr (b, a') \<Longrightarrow> arguments_ok a'"
  by (auto simp: update_type_by_offset_def update_type_ok split: option.splits)

text \<open>
  C18: the dictionaries of the argument table stay in step with its list: adding an argument and changing
  a type by name or by offset (through the shared object) keep every entry pointing at an argument of
  that name and offset, and every argument at the size of its type.
\<close>

theorem argument_table_invariant:
  assumes "arguments_ok a"
    and "add_argument name t c p h d a = Inr a1" "update_type n u a1 = Inr (b, a2)"
      "update_type_by_offset q v a2 = Inr (b', a3)"
  shows "arguments_ok a1 \<and> arguments_ok a2 \<and> arguments_ok a3"
  using assms by (blast intro: add_argument_ok update_type_ok update_type_by_offset_ok)

theorem argument_table_invariant_witness:
  "\<exists>a1 a2 b a3. add_argument ''arg0'' ''int'' False 0 False None no_arguments = Inr a1
     \<and> update_type ''arg0'' ''long'' a1 = Inr (True, a2) \<and> update_type_by_offset 0 ''int'' a2 = Inr (b, a3)
     \<and> arguments_ok a3"
proof -
  obtain x y where s: "argument_size ''arg0'' ''int'' = Inr x" "argument_size ''arg0'' ''long'' = Inr y"
    using evaluate_size_total by (fastforce simp: argument_size_def startswith_def)
  obtain a1 where a1: "add_argument ''arg0'' ''int'' False 0 False None no_arguments = Inr a1"
    using s by (auto simp: add_argument_def)
  moreover obtain a2 where a2: "update_type ''arg0'' ''long'' a1 = Inr (True, a2)"
    using a1 s by (auto simp: add_argument_def update_type_def no_arguments_def)
  moreover obtain b a3 where "update_type_by_offset 0 ''int'' a2 = Inr (b, a3)"
    using a1 a2 s
    by (auto simp: add_argument_def update_type_def no_arguments_def update_type_by_offset_def get_by_offset_def)
  ultimately show ?thesis using argument_table_invariant [OF no_arguments_ok] by blast
qed

section \<open>The kernel\<close>

text \<open>A dictionary that keeps insertion order.\<close>

fun dict_set :: "'k \<Rightarrow> 'v \<Rightarrow> ('k \<times> 'v) list \<Rightarrow> ('k \<times> 'v) list" where
  "dict_set k v [] = [(k, v)]"
| "dict_set k v ((k', v') # d) = (if k' = k then (k, v) # d else (k', v') # dict_set k v d)"

lemma dict_set_lookup: "map_of (dict_set k v d) = (map_of d)(k \<mapsto> v)"
  by (induction k v d rule: dict_set.induct) auto

record kernel =
  k_name :: string
  k_work_group_size :: "int list option"
  k_instrs :: "instr list"
  k_args :: kernel_arguments
  k_local :: "(string \<times> int) list"
  k_local_done :: bool
  k_global :: "(string \<times> string list) list"
  k_global_done :: bool
  k_preds :: "operand list"
  k_preds_done :: bool
  k_temps :: alloc

definition new_kernel :: "string \<Rightarrow> int list option \<Rightarrow> alloc \<Rightarrow> kernel" where
  "new_kernel name wgs c =
     \<lparr>k_name = name, k_work_group_size = wgs, k_instrs = [], k_args = no_arguments, k_local = [], k_local_done = False,
      k_global = [], k_global_done = False, k_preds = [], k_preds_done = False, k_temps = c\<rparr>"

definition set_local_memory :: "string \<Rightarrow> int \<Rightarrow> kernel \<Rightarrow> kernel" where
  "set_local_memory name n k = k\<lparr>k_local := dict_set name n (k_local k)\<rparr>"

definition set_global_memory :: "string \<Rightarrow> string list \<Rightarrow> kernel \<Rightarrow> kernel" where
  "set_global_memory name vs k = k\<lparr>k_global := dict_set name vs (k_global k)\<rparr>"

definition add_predicate :: "operand \<Rightarrow> kernel \<Rightarrow> kernel" where
  "add_predicate r k = (if op_name r \<in> op_name ` set (k_preds k) then k else k\<lparr>k_preds := k_preds k @ [r]\<rparr>)"

definition append_instr :: "instr \<Rightarrow> kernel \<Rightarrow> kernel" where
  "append_instr i k = k\<lparr>k_instrs := k_instrs k @ [i]\<rparr>"

text \<open>\<open>prepend\<close> appends.\<close>

definition prepend_instr :: "instr \<Rightarrow> kernel \<Rightarrow> kernel" where
  "prepend_instr i k = k\<lparr>k_instrs := k_instrs k @ [i]\<rparr>"

definition append_instrs :: "instr list \<Rightarrow> kernel \<Rightarrow> kernel" where
  "append_instrs is k = k\<lparr>k_instrs := k_instrs k @ is\<rparr>"

definition prepend_instrs :: "instr list \<Rightarrow> kernel \<Rightarrow> kernel" where
  "prepend_instrs is k = k\<lparr>k_instrs := is @ k_instrs k\<rparr>"

definition replace_instrs :: "instr list \<Rightarrow> kernel \<Rightarrow> kernel" where
  "replace_instrs is k = k\<lparr>k_instrs := is\<rparr>"

text \<open>A method of the allocator run by the kernel.\<close>

definition with_temps :: "(alloc, 'a) action \<Rightarrow> (kernel, 'a) action" where
  "with_temps m = (\<lambda>k. bind_res (m (k_temps k)) (\<lambda>(x, c). Inr (x, k\<lparr>k_temps := c\<rparr>)))"

text \<open>The predicate of a call: none, a register, or a name that becomes one.  A register of another class is
  taken for a name, which raises.\<close>

datatype pred_arg = NoPredicate | PredicateName string | PredicateReg operand

definition coerce_predicate :: "pred_arg \<Rightarrow> operand option res" where
  "coerce_predicate p =
     (case p of
        NoPredicate \<Rightarrow> Inr None
      | PredicateReg r \<Rightarrow> if is_predicate r then Inr (Some r) else Inl TypeError
      | PredicateName s \<Rightarrow> bind_res (mk_pred s) (\<lambda>r. Inr (Some r)))"

definition create_instruction ::
    "ir_class \<Rightarrow> operand list \<Rightarrow> access_type option \<Rightarrow> pred_arg \<Rightarrow> bool \<Rightarrow> ir_type option \<Rightarrow> (kernel, unit) action" where
  "create_instruction c ops acc p negated t =
     bindS (with_temps (new_instr c ops t acc)) (\<lambda>i.
     bindS (liftS (coerce_predicate p)) (\<lambda>r.
       modifyS (append_instr (if r \<noteq> None then set_predicate r negated i else i))))"

definition show_work_group_size :: "int list option \<Rightarrow> string" where
  "show_work_group_size w =
     (case w of None \<Rightarrow> ''None'' | Some xs \<Rightarrow> ''['' @ join '', '' (map show_int xs) @ '']'')"

definition argument_str :: "kernel_argument \<Rightarrow> string" where
  "argument_str a = type_name a @ '' '' @ arg_name a"

fun argument_lines :: "kernel_argument list \<Rightarrow> string list" where
  "argument_lines [] = []"
| "argument_lines [a] = [''    '' @ argument_str a]"
| "argument_lines (a # b # as) = (''    '' @ argument_str a @ '','') # argument_lines (b # as)"

definition newline :: string where
  "newline = [CHR 10, CHR 10]"

definition kernel_to_text :: "kernel \<Rightarrow> string" where
  "kernel_to_text k =
     join newline
       ([''.WGS '' @ show_work_group_size (k_work_group_size k), ''define kernel '' @ k_name k @ '' ('']
        @ argument_lines (filter (\<lambda>a. \<not> arg_hidden a) (arg_list (k_args k)))
        @ ['')'', ''{'']
        @ map (\<lambda>t. ''    '' @ t) (filter (\<lambda>t. t \<noteq> []) (map instr_to_text (k_instrs k)))
        @ [''}''])"

section \<open>The passes that complete a kernel\<close>

definition build :: "ir_class \<Rightarrow> operand list \<Rightarrow> (kernel, instr) action" where
  "build c ops = with_temps (new_instr c ops None None)"

definition materialize_arguments :: "(kernel, unit) action" where
  "materialize_arguments k =
     (if arg_materialized (k_args k) then Inr ((), k)
      else case arg_ptr (k_args k) of
        None \<Rightarrow> Inr ((), k)
      | Some p \<Rightarrow>
          bindS (mapS (\<lambda>a. build C_MemStore [p, Val (arg_name a), Val (type_name a), Val (show_int (arg_offset a))])
                   (arg_list (k_args k))) (\<lambda>stores.
          bindS (build C_MemAlloc [p]) (\<lambda>alloc.
            modifyS (\<lambda>k. prepend_instrs (alloc # stores) k\<lparr>k_args := (k_args k)\<lparr>arg_materialized := True\<rparr>\<rparr>))) k)"

definition materialize_globals :: "(kernel, instr list) action" where
  "materialize_globals k =
     (if k_global_done k then Inr ([], k)
      else bindS (mapS (\<lambda>(name, vs). bindS (liftS (mk_reg64 name)) (\<lambda>r. build C_InitGlobal (r # map Val vs))) (k_global k))
             (\<lambda>is. bindS (modifyS (\<lambda>k. k\<lparr>k_global_done := True\<rparr>)) (\<lambda>_. returnS is)) k)"

definition materialize_locals :: "(kernel, instr list) action" where
  "materialize_locals k =
     (if k_local_done k then Inr ([], k)
      else bindS (mapS (\<lambda>(name, n). bindS (liftS (mk_reg64 name)) (\<lambda>r. build C_LocalMemory [r, Val (show_int n)])) (k_local k))
             (\<lambda>is. bindS (modifyS (\<lambda>k. k\<lparr>k_local_done := True\<rparr>)) (\<lambda>_. returnS is)) k)"

definition materialize_memory :: "(kernel, unit) action" where
  "materialize_memory =
     bindS materialize_globals (\<lambda>gs. bindS materialize_locals (\<lambda>ls. modifyS (prepend_instrs (gs @ ls))))"

definition materialize_predicates :: "(kernel, unit) action" where
  "materialize_predicates k =
     (if k_preds_done k then Inr ((), k)
      else bindS (mapS (\<lambda>r. build C_InitPredicate [r]) (k_preds k)) (\<lambda>is.
             modifyS (\<lambda>k. (prepend_instrs is k)\<lparr>k_preds_done := True\<rparr>)) k)"

definition common_lowering :: "(kernel, unit) action" where
  "common_lowering = bindS materialize_arguments (\<lambda>_. bindS materialize_memory (\<lambda>_. materialize_predicates))"

section \<open>What the passes do to the program\<close>

definition plain_instr :: "ir_class \<Rightarrow> operand list \<Rightarrow> instr" where
  "plain_instr c ops =
     \<lparr>i_class = c, i_opcode = cm_text (class_of c), i_type = T_NONE, i_ops = ops, i_pred = None, i_neg = False,
      i_access = None, i_tmps = []\<rparr>"

lemma with_temps_return: "with_temps (returnS x) = returnS x"
  by (simp add: with_temps_def returnS_def)

lemma build_plain:
  assumes "cm_arity (class_of c) = (lo, hi)" "lo \<le> length ops" "length ops \<le> hi" "\<not> cm_typed (class_of c)"
    and "requested_type c None None = Inr T_NONE" "T_NONE \<in> set (cm_types (class_of c))"
    and "cm_init (class_of c) ops None = returnS (ops', [])"
  shows "build c ops = returnS (plain_instr c ops')"
proof -
  have "new_instr c ops None None = returnS (plain_instr c ops')"
    using assms by (simp add: new_instr_def Let_def resolve_op_type_def plain_instr_def fun_eq_iff method_simps)
  then show ?thesis by (simp add: build_def with_temps_return)
qed

lemma build_simps:
  "build C_MemStore [r, n, t, f] = returnS (plain_instr C_MemStore [r, t, n, f])"
  "build C_MemAlloc [r] = returnS (plain_instr C_MemAlloc [r])"
  "build C_LocalMemory [r, n] = returnS (plain_instr C_LocalMemory [r, n])"
  "build C_InitPredicate [r] = returnS (plain_instr C_InitPredicate [r])"
  "build C_Unmask [] = returnS (plain_instr C_Unmask [])"
  "build C_ChangeMask [r] = returnS (plain_instr C_ChangeMask [r])"
  by (subst build_plain; force simp: class_of_def requested_type_def memstore_class_def memalloc_class_def
        localmemory_class_def initpredicate_class_def unmask_class_def changemask_class_def plain_class_def
        keep_ops_def)+

lemma build_global:
  "length vs < 1000000 \<Longrightarrow> build C_InitGlobal (r # vs) = returnS (plain_instr C_InitGlobal (r # vs))"
  by (rule build_plain) (auto simp: class_of_def requested_type_def initglobal_class_def plain_class_def keep_ops_def)

text \<open>The instructions each pass puts in front of the program.\<close>

definition argument_prefix :: "kernel \<Rightarrow> instr list" where
  "argument_prefix k =
     (if arg_materialized (k_args k) then []
      else case arg_ptr (k_args k) of
        None \<Rightarrow> []
      | Some p \<Rightarrow>
          plain_instr C_MemAlloc [p]
          # map (\<lambda>a. plain_instr C_MemStore [p, Val (type_name a), Val (arg_name a), Val (show_int (arg_offset a))])
              (arg_list (k_args k)))"

definition memory_prefix :: "kernel \<Rightarrow> instr list" where
  "memory_prefix k =
     (if k_global_done k then []
      else map (\<lambda>(n, vs). plain_instr C_InitGlobal (Reg64 n # map Val vs)) (k_global k))
     @ (if k_local_done k then [] else map (\<lambda>(n, z). plain_instr C_LocalMemory [Reg64 n, Val (show_int z)]) (k_local k))"

definition predicate_prefix :: "kernel \<Rightarrow> instr list" where
  "predicate_prefix k = (if k_preds_done k then [] else map (\<lambda>r. plain_instr C_InitPredicate [r]) (k_preds k))"

definition memories_ok :: "kernel \<Rightarrow> bool" where
  "memories_ok k \<longleftrightarrow>
     (\<forall>(n, vs) \<in> set (k_global k). valid_register_name n \<and> length vs < 1000000)
   \<and> (\<forall>(n, z) \<in> set (k_local k). valid_register_name n)"

lemma materialize_arguments_eq:
  "materialize_arguments k =
     Inr ((), if arg_materialized (k_args k) \<or> arg_ptr (k_args k) = None then k
              else k\<lparr>k_instrs := argument_prefix k @ k_instrs k, k_args := (k_args k)\<lparr>arg_materialized := True\<rparr>\<rparr>)"
  by (auto simp: materialize_arguments_def argument_prefix_def build_simps mapS_return method_simps prepend_instrs_def
        split: option.splits)

lemma globals_eq:
  assumes "memories_ok k" "\<not> k_global_done k"
  shows "materialize_globals k =
     Inr (map (\<lambda>(n, vs). plain_instr C_InitGlobal (Reg64 n # map Val vs)) (k_global k), k\<lparr>k_global_done := True\<rparr>)"
proof -
  have "mapS (\<lambda>(n, vs). bindS (liftS (mk_reg64 n)) (\<lambda>r. build C_InitGlobal (r # map Val vs))) (k_global k)
      = returnS (map (\<lambda>(n, vs). plain_instr C_InitGlobal (Reg64 n # map Val vs)) (k_global k))"
    using assms(1)
    by (intro mapS_return) (auto simp: memories_ok_def mk_reg64_def fun_eq_iff method_simps build_global)
  then show ?thesis using assms(2) by (simp add: materialize_globals_def method_simps)
qed

lemma locals_eq:
  assumes "memories_ok k" "\<not> k_local_done k"
  shows "materialize_locals k =
     Inr (map (\<lambda>(n, z). plain_instr C_LocalMemory [Reg64 n, Val (show_int z)]) (k_local k), k\<lparr>k_local_done := True\<rparr>)"
proof -
  have "mapS (\<lambda>(n, z). bindS (liftS (mk_reg64 n)) (\<lambda>r. build C_LocalMemory [r, Val (show_int z)])) (k_local k)
      = returnS (map (\<lambda>(n, z). plain_instr C_LocalMemory [Reg64 n, Val (show_int z)]) (k_local k))"
    using assms(1)
    by (intro mapS_return) (auto simp: memories_ok_def mk_reg64_def fun_eq_iff method_simps build_simps)
  then show ?thesis using assms(2) by (simp add: materialize_locals_def method_simps)
qed

lemma materialize_memory_eq:
  assumes "memories_ok k"
  shows "materialize_memory k =
     Inr ((), k\<lparr>k_instrs := memory_prefix k @ k_instrs k, k_global_done := True, k_local_done := True\<rparr>)"
proof -
  have l: "materialize_locals (k\<lparr>k_global_done := True\<rparr>) =
      Inr (if k_local_done k then [] else map (\<lambda>(n, z). plain_instr C_LocalMemory [Reg64 n, Val (show_int z)]) (k_local k),
           k\<lparr>k_global_done := True, k_local_done := True\<rparr>)"
    using locals_eq [of "k\<lparr>k_global_done := True\<rparr>"] assms
    by (cases "k_local_done k") (auto simp: memories_ok_def materialize_locals_def)
  show ?thesis
  proof (cases "k_global_done k")
    case True
    then have "k\<lparr>k_global_done := True\<rparr> = k" by simp
    with True l show ?thesis
      by (simp add: materialize_memory_def method_simps materialize_globals_def memory_prefix_def prepend_instrs_def)
  next
    case False
    with globals_eq [OF assms False] l show ?thesis
      by (simp add: materialize_memory_def method_simps memory_prefix_def prepend_instrs_def)
  qed
qed

lemma materialize_predicates_eq:
  "materialize_predicates k =
     Inr ((), k\<lparr>k_instrs := predicate_prefix k @ k_instrs k, k_preds_done := True\<rparr>)"
  by (auto simp: materialize_predicates_def predicate_prefix_def build_simps mapS_return method_simps prepend_instrs_def)

lemma common_lowering_eq:
  assumes "memories_ok k"
  shows "\<exists>k'. common_lowering k = Inr ((), k')
           \<and> k_instrs k' = predicate_prefix k @ memory_prefix k @ argument_prefix k @ k_instrs k
           \<and> k_global_done k' \<and> k_local_done k' \<and> k_preds_done k'
           \<and> (arg_materialized (k_args k') \<or> arg_ptr (k_args k') = None)
           \<and> arg_list (k_args k') = arg_list (k_args k) \<and> k_temps k' = k_temps k"
  using assms
  by (auto simp: common_lowering_def method_simps materialize_arguments_eq materialize_memory_eq memories_ok_def
        materialize_predicates_eq predicate_prefix_def memory_prefix_def argument_prefix_def split: option.splits)

text \<open>
  C17: the lowering shared by both assemblers, run on a kernel whose memories have valid names, succeeds
  and puts in front of the unchanged program, in this order: an initialisation of every predicate, of
  every global and every local memory, the allocation of the argument block and a store of each
  argument (type, name, offset) into it; memories keep the order in which they were declared.
\<close>

theorem common_lowering_layout:
  assumes "memories_ok k"
  shows "\<exists>k'. common_lowering k = Inr ((), k')
           \<and> k_instrs k' = predicate_prefix k @ memory_prefix k @ argument_prefix k @ k_instrs k"
  using common_lowering_eq [OF assms] by blast

definition sample_kernel :: kernel where
  "sample_kernel =
     set_local_memory ''lc0'' 64 ((new_kernel ''f'' (Some [64, 1, 1]) Map.empty)
       \<lparr>k_args := set_arg_ptr (Reg64 ''argptr'') no_arguments, k_preds := [PredReg ''vcc'']\<rparr>)"

lemma sample_memories_ok: "memories_ok sample_kernel"
  by (simp add: memories_ok_def sample_kernel_def new_kernel_def set_local_memory_def valid_register_name_def
        reserved_chars_def)

theorem common_lowering_layout_witness:
  "\<exists>k'. common_lowering sample_kernel = Inr ((), k')
     \<and> map i_opcode (k_instrs k') = [''init_pred'', ''local'', ''alloc'']"
proof -
  have "map i_opcode (predicate_prefix sample_kernel @ memory_prefix sample_kernel @ argument_prefix sample_kernel
      @ k_instrs sample_kernel) = [''init_pred'', ''local'', ''alloc'']"
    by (simp add: sample_kernel_def new_kernel_def set_local_memory_def predicate_prefix_def memory_prefix_def
          argument_prefix_def set_arg_ptr_def no_arguments_def plain_instr_def class_of_def initpredicate_class_def
          localmemory_class_def memalloc_class_def plain_class_def)
  with common_lowering_layout [OF sample_memories_ok] show ?thesis by metis
qed

section \<open>Running a pass again\<close>

text \<open>The contract of a pass that does its work once: afterwards it is settled, and a settled kernel is
  left alone.\<close>

locale materialize_once =
  fixes run :: "('s, unit) action"
    and settled :: "'s \<Rightarrow> bool"
  assumes run_settles: "run s = Inr ((), s') \<Longrightarrow> settled s'"
    and settled_noop: "settled s \<Longrightarrow> run s = Inr ((), s)"
begin

lemma run_again: "run s = Inr ((), s') \<Longrightarrow> run s' = Inr ((), s')"
  using run_settles settled_noop by blast

fun repeat_run :: "nat \<Rightarrow> ('s, unit) action" where
  "repeat_run 0 = returnS ()"
| "repeat_run (Suc n) = bindS run (\<lambda>_. repeat_run n)"

lemma repeat_settled: "settled s \<Longrightarrow> repeat_run n s = Inr ((), s)"
  by (induction n) (simp_all add: method_simps settled_noop)

lemma repeat_once: "run s = Inr ((), s') \<Longrightarrow> repeat_run (Suc n) s = Inr ((), s')"
  using run_settles repeat_settled by (simp add: method_simps)

end

interpretation args_pass: materialize_once materialize_arguments
  "\<lambda>k. arg_materialized (k_args k) \<or> arg_ptr (k_args k) = None"
  by unfold_locales (auto simp: materialize_arguments_eq split: if_splits)

interpretation preds_pass: materialize_once materialize_predicates k_preds_done
  by unfold_locales (auto simp: materialize_predicates_eq predicate_prefix_def)

lemma materialize_globals_done: "materialize_globals k = Inr (is, k') \<Longrightarrow> k_global_done k'"
  by (auto simp: materialize_globals_def method_simps split: if_splits)

lemma build_keeps: "keeps (\<lambda>k. k_global_done k = b) (build c ops)"
  by (auto intro!: yieldsI simp: build_def with_temps_def)

lemma materialize_locals_done:
  assumes r: "materialize_locals k = Inr (is, k')" and g: "k_global_done k"
  shows "k_global_done k' \<and> k_local_done k'"
proof (cases "k_local_done k")
  case True
  with r g show ?thesis by (simp add: materialize_locals_def)
next
  case False
  let ?m = "mapS (\<lambda>(name, n). bindS (liftS (mk_reg64 name)) (\<lambda>r. build C_LocalMemory [r, Val (show_int n)])) (k_local k)"
  have "keeps (\<lambda>k. k_global_done k = True) ?m"
    by (rule mapS_keeps) (auto intro!: yields_intros build_keeps [where b = True, simplified] split: prod.splits)
  moreover from False r obtain b where "?m k = Inr (is, b)" "k' = b\<lparr>k_local_done := True\<rparr>"
    by (auto simp: materialize_locals_def method_simps)
  ultimately show ?thesis using g by (auto dest: yieldsD)
qed

interpretation memory_pass: materialize_once materialize_memory "\<lambda>k. k_global_done k \<and> k_local_done k"
proof unfold_locales
  fix k k' :: kernel
  show "materialize_memory k = Inr ((), k') \<Longrightarrow> k_global_done k' \<and> k_local_done k'"
    by (auto simp: materialize_memory_def method_simps prepend_instrs_def
          dest!: materialize_globals_done materialize_locals_done)
  show "k_global_done k \<and> k_local_done k \<Longrightarrow> materialize_memory k = Inr ((), k)"
    by (auto simp: materialize_memory_def method_simps prepend_instrs_def materialize_globals_def materialize_locals_def)
qed

text \<open>
  Each materialising pass does its work once: run any further number of times after a successful
  run, it leaves the kernel exactly as the first run left it, so nothing is initialised twice.
\<close>

lemma materialize_passes_once:
  "(materialize_arguments k = Inr ((), k1) \<longrightarrow> args_pass.repeat_run (Suc n) k = Inr ((), k1))
   \<and> (materialize_memory k = Inr ((), k2) \<longrightarrow> memory_pass.repeat_run (Suc n) k = Inr ((), k2))
   \<and> (materialize_predicates k = Inr ((), k3) \<longrightarrow> preds_pass.repeat_run (Suc n) k = Inr ((), k3))"
  using args_pass.repeat_once memory_pass.repeat_once preds_pass.repeat_once by blast

theorem materialize_passes_once_witness:
  "\<exists>k'. materialize_memory sample_kernel = Inr ((), k')
     \<and> memory_pass.repeat_run 3 sample_kernel = Inr ((), k') \<and> length (k_instrs k') = 1"
proof -
  obtain k' where k: "materialize_memory sample_kernel = Inr ((), k')" "k_instrs k' = memory_prefix sample_kernel"
    using materialize_memory_eq [OF sample_memories_ok]
    by (auto simp: sample_kernel_def new_kernel_def set_local_memory_def)
  have "length (memory_prefix sample_kernel) = 1"
    by (simp add: memory_prefix_def sample_kernel_def new_kernel_def set_local_memory_def)
  with k show ?thesis
    using materialize_passes_once [of sample_kernel _ 2 k'] by (auto simp: numeral_3_eq_3 numeral_2_eq_2)
qed

end
