(* ===== verification/PTX_Masks.thy ===== *)
theory PTX_Masks
  imports IR_Kernel
begin

text \<open>
  The pass that turns predicates into masks (\<open>src/src/ir/passes/ptx/predicates.py\<close>): runs of
  instructions under one predicate are bracketed by \<open>change_mask\<close> and \<open>unmask\<close>.
\<close>

section \<open>The pass\<close>

definition takes_no_mask :: "instr \<Rightarrow> bool" where
  "takes_no_mask i \<longleftrightarrow> i_pred i = None \<or> is_control_flow i"

definition mask_register :: "operand \<Rightarrow> bool \<Rightarrow> (kernel, operand) action" where
  "mask_register p negated =
     (if negated
      then bindS (liftS (mk_pred (op_name p @ ''Not''))) (\<lambda>m. bindS (modifyS (add_predicate m)) (\<lambda>_. returnS m))
      else returnS p)"

definition open_mask :: "operand \<Rightarrow> operand \<Rightarrow> bool \<Rightarrow> (kernel, instr list) action" where
  "open_mask mr p negated =
     bindS (if negated then bindS (build C_Not [mr, p]) (\<lambda>n. returnS [n]) else returnS []) (\<lambda>nots.
     bindS (build C_ChangeMask [mr]) (\<lambda>c. returnS (nots @ [c])))"

definition close_mask :: "operand option \<Rightarrow> (kernel, instr list) action" where
  "close_mask cur = (if cur \<noteq> None then bindS (build C_Unmask []) (\<lambda>u. returnS [u]) else returnS [])"

fun masks_from :: "operand option \<Rightarrow> instr list \<Rightarrow> (kernel, instr list) action" where
  "masks_from cur [] = close_mask cur"
| "masks_from cur (i # is) =
     (if takes_no_mask i
      then bindS (close_mask cur) (\<lambda>us. bindS (masks_from None is) (\<lambda>rest. returnS (us @ i # rest)))
      else
        let p = the (i_pred i)
        in bindS (mask_register p (i_neg i)) (\<lambda>mr.
           bindS (case cur of
                    None \<Rightarrow> open_mask mr p (i_neg i)
                  | Some m \<Rightarrow>
                      if op_name m \<noteq> op_name mr
                      then bindS (close_mask cur) (\<lambda>us. bindS (open_mask mr p (i_neg i)) (\<lambda>os. returnS (us @ os)))
                      else returnS []) (\<lambda>pre.
           bindS (masks_from (if cur \<noteq> None \<and> op_name (the cur) = op_name mr then cur else Some mr) is) (\<lambda>rest.
             returnS (pre @ set_predicate None False i # rest)))))"

definition ptx_predicates :: "(kernel, unit) action" where
  "ptx_predicates k = bindS (masks_from None (k_instrs k)) (\<lambda>is. modifyS (replace_instrs is)) k"

section \<open>What masks mean\<close>

text \<open>Running a list of instructions with masks: every other instruction comes with the mask it runs under;
  \<open>None\<close> if the brackets do not match.\<close>

fun under_masks :: "operand option \<Rightarrow> instr list \<Rightarrow> (operand option \<times> instr) list option" where
  "under_masks cur [] = (if cur = None then Some [] else None)"
| "under_masks cur (i # is) =
     (if i_class i = C_ChangeMask
      then if cur = None then under_masks (Some (hd (i_ops i))) is else None
      else if i_class i = C_Unmask
      then if cur \<noteq> None then under_masks None is else None
      else map_option (\<lambda>xs. (cur, i) # xs) (under_masks cur is))"

text \<open>What the program before the pass means: each instruction under its own predicate.\<close>

definition own_mask :: "instr \<Rightarrow> operand option \<times> instr" where
  "own_mask i = (if takes_no_mask i then (None, i) else (i_pred i, set_predicate None False i))"

definition maskless :: "instr \<Rightarrow> bool" where
  "maskless i \<longleftrightarrow> i_class i \<noteq> C_ChangeMask \<and> i_class i \<noteq> C_Unmask"

definition positive :: "instr \<Rightarrow> bool" where
  "positive i \<longleftrightarrow> takes_no_mask i \<or> (\<not> i_neg i \<and> is_predicate (the (i_pred i)))"

lemma close_mask_eq:
  "close_mask cur = returnS (if cur = None then [] else [plain_instr C_Unmask []])"
  by (simp add: close_mask_def build_simps)

lemma open_mask_eq: "open_mask mr p False = returnS [plain_instr C_ChangeMask [mr]]"
  by (simp add: open_mask_def build_simps)

lemma under_unmask:
  "under_masks (Some m) (plain_instr C_Unmask [] # is) = under_masks None is"
  by (simp add: plain_instr_def)

lemma under_change:
  "under_masks None (plain_instr C_ChangeMask [m] # is) = under_masks (Some m) is"
  by (simp add: plain_instr_def)

lemma under_other: "maskless i \<Longrightarrow> under_masks cur (i # is) = map_option (\<lambda>xs. (cur, i) # xs) (under_masks cur is)"
  by (simp add: maskless_def)

declare under_masks.simps(2) [simp del]

lemmas mask_eqs = close_mask_eq open_mask_eq under_unmask under_change under_other own_mask_def mask_register_def

lemma maskless_set_predicate [simp]: "maskless (set_predicate p b i) = maskless i"
  by (simp add: maskless_def set_predicate_def)

lemma same_predicate: "is_predicate p \<Longrightarrow> is_predicate q \<Longrightarrow> op_name p = op_name q \<Longrightarrow> p = q"
  by (auto simp: is_predicate_def split: operand.splits)

lemma masks_from_pure:
  assumes "\<forall>i \<in> set is. positive i \<and> maskless i" "\<forall>m. cur = Some m \<longrightarrow> is_predicate m"
  shows "\<exists>out. masks_from cur is = returnS out \<and> under_masks cur out = Some (map own_mask is)"
  using assms
proof (induction "is" arbitrary: cur)
  case Nil
  then show ?case by (cases cur) (simp_all add: mask_eqs)
next
  case (Cons i "is")
  have i: "positive i" "maskless i" and rest: "\<forall>i \<in> set is. positive i \<and> maskless i" using Cons.prems(1) by auto
  show ?case
  proof (cases "takes_no_mask i")
    case True
    from Cons.IH [OF rest, of None] obtain out where
      o: "masks_from None is = returnS out" "under_masks None out = Some (map own_mask is)" by auto
    with True i show ?thesis
      by (cases cur) (simp_all add: mask_eqs)
  next
    case False
    with i obtain p where p: "i_pred i = Some p" "is_predicate p" "\<not> i_neg i"
      by (auto simp: positive_def takes_no_mask_def)
    from Cons.IH [OF rest, of "Some p"] p obtain out where
      o: "masks_from (Some p) is = returnS out" "under_masks (Some p) out = Some (map own_mask is)" by auto
    have om: "own_mask i = (Some p, set_predicate None False i)" using False p by (simp add: own_mask_def)
    show ?thesis
    proof (cases cur)
      case None
      with False p o om i show ?thesis
        by (simp add: mask_eqs)
    next
      case (Some m)
      with Cons.prems(2) have "op_name m = op_name p \<longleftrightarrow> m = p" using same_predicate p by blast
      with Some False p o om i show ?thesis
        by (auto simp: mask_eqs)
    qed
  qed
qed


definition sample_setp :: "instr \<Rightarrow> instr" where
  "sample_setp i = set_predicate (Some (PredReg ''%p1'')) False i"

definition sample_masked :: kernel where
  "sample_masked =
     (new_kernel ''f'' None Map.empty)
       \<lparr>k_instrs := [plain_instr C_Barrier [], sample_setp (plain_instr C_Barrier []), plain_instr C_EndPgm []]\<rparr>"


section \<open>Negated predicates\<close>

lemma build_not: "build C_Not ops = raiseS TypeError"
  by (auto simp: build_def new_instr_def class_of_def not_class_def typed_class_def requested_type_def with_temps_def
        fun_eq_iff method_simps Let_def keep_ops_def)

text \<open>
  The pass fails with \<open>TypeError\<close> as soon as it has to open a mask for a negated predicate: it calls
  \<open>Not\<close> without the operation type that constructor requires.
\<close>

lemma negated_predicate_raises:
  assumes "k_instrs k = i # js" "i_pred i = Some p" "i_neg i" "\<not> is_control_flow i"
    and "valid_register_name (op_name p @ ''Not'')"
  shows "ptx_predicates k = Inl TypeError"
  using assms
  by (simp add: ptx_predicates_def method_simps takes_no_mask_def mask_register_def open_mask_def build_not mk_pred_def)

theorem negated_predicate_raises_witness:
  "ptx_predicates ((new_kernel ''f'' None Map.empty)
     \<lparr>k_instrs := [set_predicate (Some (PredReg ''%p1'')) True (plain_instr C_Barrier [])]\<rparr>) = Inl TypeError"
  by (rule negated_predicate_raises [where p = "PredReg ''%p1''" and js = "[]"
        and i = "set_predicate (Some (PredReg ''%p1'')) True (plain_instr C_Barrier [])"])
    (simp_all add: new_kernel_def set_predicate_def plain_instr_def is_control_flow_def class_of_def barrier_class_def
      plain_class_def valid_register_name_def reserved_chars_def)

end
