(* ===== verification/PTX_Flow.thy ===== *)
theory PTX_Flow
  imports IR_Kernel
begin

text \<open>
  The data-flow passes over a PTX kernel: the register-flow graph
  (\<open>src/src/ir/passes/ptx/register_flow.py\<close>), the inference of vector argument types
  (\<open>argument_types.py\<close>) and of pointer argument types along the flow (\<open>pointer_types.py\<close>).

  The recursion of the pointer inference follows a writer of a register to the registers it reads.  Its
  model takes fuel; \<open>None\<close> is running out of it.  In a graph built by the flow pass a writer precedes its
  reader, so the position of the use plus one is enough fuel.
\<close>

section \<open>The register-flow graph\<close>

record flow_edge =
  e_register :: string
  e_writer :: nat
  e_reader :: nat

record flow_graph =
  f_edges :: "flow_edge list"
  writer_by_use :: "nat \<times> string \<Rightarrow> nat option"
  uses_by_writer :: "nat \<Rightarrow> flow_edge list option"

definition empty_flow :: flow_graph where
  "empty_flow = \<lparr>f_edges = [], writer_by_use = Map.empty, uses_by_writer = Map.empty\<rparr>"

definition get_writer :: "flow_graph \<Rightarrow> nat \<Rightarrow> string \<Rightarrow> nat option" where
  "get_writer g u r = writer_by_use g (u, r)"

definition add_edge :: "string \<Rightarrow> nat \<Rightarrow> nat \<Rightarrow> flow_graph \<Rightarrow> flow_graph" where
  "add_edge r w u g =
     (let e = \<lparr>e_register = r, e_writer = w, e_reader = u\<rparr>
      in g\<lparr>f_edges := f_edges g @ [e],
           writer_by_use := (writer_by_use g)((u, r) \<mapsto> w),
           uses_by_writer := (uses_by_writer g)(w \<mapsto> (case uses_by_writer g w of Some es \<Rightarrow> es @ [e] | None \<Rightarrow> [e]))\<rparr>)"

text \<open>The names come from a set; their order among the edges of one instruction is not specified, and
  is that of the operands here.\<close>

fun add_reads :: "nat \<Rightarrow> (string \<Rightarrow> nat option) \<Rightarrow> string list \<Rightarrow> flow_graph \<Rightarrow> flow_graph" where
  "add_reads u lw [] g = g"
| "add_reads u lw (r # rs) g = add_reads u lw rs (case lw r of None \<Rightarrow> g | Some w \<Rightarrow> add_edge r w u g)"

definition set_writers :: "nat \<Rightarrow> string list \<Rightarrow> (string \<Rightarrow> nat option) \<Rightarrow> string \<Rightarrow> nat option" where
  "set_writers u rs lw = (\<lambda>r. if r \<in> set rs then Some u else lw r)"

fun flow_from :: "nat \<Rightarrow> (string \<Rightarrow> nat option) \<Rightarrow> instr list \<Rightarrow> flow_graph \<Rightarrow> flow_graph" where
  "flow_from u lw [] g = g"
| "flow_from u lw (i # is) g =
     flow_from (Suc u) (set_writers u (get_written_register_names i) lw) is
       (add_reads u lw (remdups (get_read_register_names i)) g)"

definition build_flow :: "instr list \<Rightarrow> flow_graph" where
  "build_flow is = flow_from 0 Map.empty is empty_flow"

section \<open>Reaching definitions\<close>

text \<open>The last instruction before position \<open>u\<close> that writes \<open>r\<close>.\<close>

definition last_write :: "instr list \<Rightarrow> nat \<Rightarrow> string \<Rightarrow> nat option" where
  "last_write is u r = find (\<lambda>j. r \<in> set (get_written_register_names (is ! j))) (rev [0..<u])"

lemma last_write_Suc:
  "last_write is (Suc u) r =
     (if r \<in> set (get_written_register_names (is ! u)) then Some u else last_write is u r)"
  by (simp add: last_write_def)

lemma last_write_less: "last_write is u r = Some w \<Longrightarrow> w < u"
  by (auto simp: last_write_def find_Some_iff rev_nth)

lemma get_writer_add_reads:
  "get_writer (add_reads u lw rs g) v r =
     (if v = u \<and> r \<in> set rs \<and> lw r \<noteq> None then lw r else get_writer g v r)"
proof (induction rs arbitrary: g)
  case (Cons x rs)
  then show ?case by (auto simp: get_writer_def add_edge_def Let_def split: option.splits)
qed simp

lemma get_writer_flow_from:
  assumes "lw = last_write is (length pre)" "is = pre @ post"
    and "\<And>v r. length pre \<le> v \<Longrightarrow> get_writer g v r = None"
  shows "get_writer (flow_from (length pre) lw post g) v r =
     (if v < length pre then get_writer g v r
      else if v < length is \<and> r \<in> set (get_read_register_names (is ! v)) then last_write is v r else None)"
  using assms
proof (induction post arbitrary: pre lw g)
  case Nil
  then show ?case by simp
next
  case (Cons i post)
  let ?g = "add_reads (length pre) lw (remdups (get_read_register_names i)) g"
  let ?lw = "set_writers (length pre) (get_written_register_names i) lw"
  have i: "is ! length pre = i" using Cons.prems(2) by simp
  have "get_writer (flow_from (length (pre @ [i])) ?lw post ?g) v r =
     (if v < length (pre @ [i]) then get_writer ?g v r
      else if v < length is \<and> r \<in> set (get_read_register_names (is ! v)) then last_write is v r else None)"
  proof (rule Cons.IH)
    show "?lw = last_write is (length (pre @ [i]))"
      using Cons.prems(1) i by (simp add: fun_eq_iff set_writers_def last_write_Suc)
    show "is = (pre @ [i]) @ post" using Cons.prems(2) by simp
    show "length (pre @ [i]) \<le> v \<Longrightarrow> get_writer ?g v r = None" for v r
      using Cons.prems(3) by (simp add: get_writer_add_reads)
  qed
  moreover have "length pre < length is" using Cons.prems(2) by simp
  moreover have "get_writer ?g v r = (if v = length pre then
      if r \<in> set (get_read_register_names i) then last_write is v r else None else get_writer g v r)"
    using Cons.prems(1,3) by (auto simp: get_writer_add_reads)
  ultimately show ?case using i by (auto simp: less_Suc_eq)
qed

lemma get_writer_build:
  "get_writer (build_flow is) u r =
     (if u < length is \<and> r \<in> set (get_read_register_names (is ! u)) then last_write is u r else None)"
  using get_writer_flow_from [of Map.empty "is" "[]" "is" empty_flow u r]
  by (simp add: build_flow_def last_write_def get_writer_def empty_flow_def fun_eq_iff)

lemma last_write_Some:
  "last_write is u r = Some w \<longleftrightarrow>
     w < u \<and> r \<in> set (get_written_register_names (is ! w))
   \<and> (\<forall>j. w < j \<and> j < u \<longrightarrow> r \<notin> set (get_written_register_names (is ! j)))"
proof (induction u)
  case (Suc u)
  then show ?case by (auto simp: last_write_Suc less_Suc_eq)
qed (simp add: last_write_def)

lemma get_writer_less: "get_writer (build_flow is) u r = Some w \<Longrightarrow> w < u"
  by (auto simp: get_writer_build last_write_Some split: if_splits)

text \<open>
  C20: the register-flow graph answers reaching definitions of straight-line code: the writer of a
  register at a use is the last earlier instruction that writes it, and there is none exactly when the
  instruction does not read the register or no earlier one writes it.
\<close>

theorem register_flow_reaching:
  "(get_writer (build_flow is) u r = Some w \<longleftrightarrow>
      u < length is \<and> r \<in> set (get_read_register_names (is ! u))
    \<and> w < u \<and> r \<in> set (get_written_register_names (is ! w))
    \<and> (\<forall>j. w < j \<and> j < u \<longrightarrow> r \<notin> set (get_written_register_names (is ! j))))"
  by (auto simp: get_writer_build last_write_Some)

definition sample_flow :: "instr list" where
  "sample_flow = [plain_instr C_InitReg [Reg32 ''%r1'', Val ''0''], plain_instr C_LocalMemory [Reg32 ''%r2'', Reg32 ''%r1'']]"

theorem register_flow_reaching_witness: "get_writer (build_flow sample_flow) 1 ''%r1'' = Some 0"
  unfolding register_flow_reaching
  by (auto simp: sample_flow_def plain_instr_def get_read_register_names_def get_read_registers_def
        writes_first_operand_def class_of_def initreg_class_def localmemory_class_def plain_class_def is_base_reg_def
        get_written_register_names_def get_written_registers_def is_range_def)

end
