(* ===== verification/Py_Text.thy ===== *)
theory Py_Text
  imports Expr_Vars
begin

text \<open>
  The text operations of Python that the two assembler readers use: stripping and splitting at
  blanks, splitting at a character, the character classes of their regular expressions, and integer
  literals in any base.  Text is ASCII, as assembler listings are.
\<close>

section \<open>Blanks\<close>

definition is_blank :: "char \<Rightarrow> bool" where
  "is_blank c = (c \<in> {CHR 0x09, CHR 0x0A, CHR 0x0B, CHR 0x0C, CHR 0x0D, CHR 0x1C, CHR 0x1D, CHR 0x1E, CHR 0x1F, CHR '' ''})"

definition lstrip :: "string \<Rightarrow> string" where
  "lstrip = dropWhile is_blank"

definition strip :: "string \<Rightarrow> string" where
  "strip s = rev (lstrip (rev (lstrip s)))"

lemma length_lstrip: "length (lstrip s) \<le> length s"
  by (simp add: lstrip_def length_dropWhile_le)

lemma length_strip: "length (strip s) \<le> length s"
  using length_lstrip [of "rev (lstrip s)"] length_lstrip [of s] by (simp add: strip_def)

definition trimmed :: "string \<Rightarrow> bool" where
  "trimmed s \<longleftrightarrow> s \<noteq> [] \<and> \<not> is_blank (hd s) \<and> \<not> is_blank (last s)"

lemma lstrip_trimmed: "s \<noteq> [] \<Longrightarrow> \<not> is_blank (hd s) \<Longrightarrow> lstrip s = s"
  by (cases s) (auto simp: lstrip_def)

lemma strip_trimmed: "trimmed s \<Longrightarrow> strip s = s"
  by (simp add: strip_def trimmed_def lstrip_trimmed hd_rev)

lemma strip_blank [simp]: "is_blank c \<Longrightarrow> strip (c # s) = strip s"
  by (simp add: strip_def lstrip_def)

lemma is_blank_space [simp]: "is_blank CHR '' ''"
  by (simp add: is_blank_def)

text \<open>\<open>s.split()\<close> and \<open>s.split(None, 1)\<close>.\<close>

function split_blanks :: "string \<Rightarrow> string list" where
  "split_blanks s =
     (let t = lstrip s
      in if t = [] then [] else takeWhile (\<lambda>c. \<not> is_blank c) t # split_blanks (dropWhile (\<lambda>c. \<not> is_blank c) t))"
  by auto
termination
proof (relation "measure length", simp)
  fix s t :: string
  assume t: "t = lstrip s" "t \<noteq> []"
  have "\<not> is_blank (hd t)" using t hd_dropWhile [of is_blank s] by (simp add: lstrip_def)
  then have "length (dropWhile (\<lambda>c. \<not> is_blank c) t) < length t"
    using t(2) by (cases t) (auto simp: le_imp_less_Suc length_dropWhile_le)
  also have "\<dots> \<le> length s" using t(1) by (simp add: length_lstrip)
  finally show "(dropWhile (\<lambda>c. \<not> is_blank c) t, s) \<in> measure length" by simp
qed

declare split_blanks.simps [simp del]

definition split_first_blank :: "string \<Rightarrow> string list" where
  "split_first_blank s =
     (let t = lstrip s; rest = lstrip (dropWhile (\<lambda>c. \<not> is_blank c) t)
      in if t = [] then [] else takeWhile (\<lambda>c. \<not> is_blank c) t # (if rest = [] then [] else [rest]))"

text \<open>\<open>s.split(c)\<close> for a single character.\<close>

fun split_char :: "char \<Rightarrow> string \<Rightarrow> string list" where
  "split_char d [] = [[]]"
| "split_char d (c # cs) =
     (if c = d then [] # split_char d cs
      else case split_char d cs of w # ws \<Rightarrow> (c # w) # ws | [] \<Rightarrow> [[c]])"

lemma split_char_not_Nil [simp]: "split_char d s \<noteq> []"
  by (induction s) (auto split: list.splits)

lemma split_char_length: "w \<in> set (split_char d s) \<Longrightarrow> length w \<le> length s"
proof (induction s arbitrary: w)
  case (Cons c cs)
  then show ?case by (cases "split_char d cs") (fastforce simp: le_SucI split: if_splits)+
qed simp

definition rstrip_char :: "char \<Rightarrow> string \<Rightarrow> string" where
  "rstrip_char d s = rev (dropWhile (\<lambda>c. c = d) (rev s))"

definition removesuffix :: "string \<Rightarrow> string \<Rightarrow> string" where
  "removesuffix s p = (if endswith s p \<and> p \<noteq> [] then take (length s - length p) s else s)"

section \<open>Character classes\<close>

text \<open>\<open>\w\<close>.\<close>

definition is_word_char :: "char \<Rightarrow> bool" where
  "is_word_char c =
     (is_decimal c \<or> (let n = (of_char c :: nat) in 65 \<le> n \<and> n \<le> 90 \<or> 97 \<le> n \<and> n \<le> 122) \<or> c = CHR ''_'')"

definition all_decimal :: "string \<Rightarrow> bool" where
  "all_decimal s = (s \<noteq> [] \<and> list_all is_decimal s)"

text \<open>\<open>s[0]\<close> and \<open>s[-1]\<close>.\<close>

definition first_char :: "string \<Rightarrow> char res" where
  "first_char s = (case s of [] \<Rightarrow> Inl IndexError | c # _ \<Rightarrow> Inr c)"

text \<open>\<open>s[0] == a and s[-1] == b\<close>.\<close>

definition enclosed :: "char \<Rightarrow> char \<Rightarrow> string \<Rightarrow> bool res" where
  "enclosed a b s = bind_res (first_char s) (\<lambda>c. Inr (c = a \<and> last s = b))"

text \<open>\<open>s[1:-1]\<close>.\<close>

definition inner :: "string \<Rightarrow> string" where
  "inner s = butlast (drop 1 s)"

lemma length_inner: "s \<noteq> [] \<Longrightarrow> length (inner s) < length s"
  by (cases s) (auto simp: inner_def)

section \<open>Integer literals\<close>

definition digits_of_base :: "nat \<Rightarrow> string" where
  "digits_of_base b = take b hex_digits"

text \<open>\<open>int(s, 0)\<close>, without the underscores Python allows between digits.\<close>

definition int_base0 :: "string \<Rightarrow> int option" where
  "int_base0 s =
     (let neg = startswith s ''-'';
          body = (if neg \<or> startswith s ''+'' then drop 1 s else s);
          sg = (if neg then - 1 else 1 :: int);
          pre = map to_lower_hex (take 2 body);
          power = (\<lambda>b. let d = drop 2 body
                      in if d \<noteq> [] \<and> list_all (\<lambda>c. to_lower_hex c \<in> set (digits_of_base b)) d
                         then Some (sg * int (foldl (\<lambda>acc c. b * acc + hex_value c) 0 d)) else None)
      in if pre = ''0x'' \<or> pre = ''0X'' then power 16
         else if pre = ''0o'' \<or> pre = ''0O'' then power 8
         else if pre = ''0b'' then power 2
         else if all_decimal body \<and> (hd body = CHR ''0'' \<longrightarrow> list_all (\<lambda>c. c = CHR ''0'') body)
         then Some (sg * int (read_nat 0 body)) else None)"

end
