(* ===== verification/PTX_Infer.thy ===== *)
theory PTX_Infer
  imports PTX_Flow Py_Text
begin

text \<open>
  Inference of argument types for PTX kernels: pointer arguments get the type of the accesses their
  value reaches (\<open>src/src/ir/passes/ptx/pointer_types.py\<close>), vector arguments the type of the loads that
  read them (\<open>argument_types.py\<close>).  Both record what they inferred, by offset, and never revise it.
\<close>

section \<open>Operands as offsets\<close>

text \<open>\<open>operand.value\<close>: only a value has it.\<close>

definition value_of :: "operand \<Rightarrow> string res" where
  "value_of r = (case r of Val s \<Rightarrow> Inr s | _ \<Rightarrow> Inl AttributeError)"

section \<open>The state of the inference\<close>

record infer_state =
  inf_args :: kernel_arguments
  inf_types :: "int \<Rightarrow> string option"
  inf_visited :: "(nat \<times> string) list"

definition generic_load_size :: "instr \<Rightarrow> nat res option" where
  "generic_load_size i =
     (case i_class i of
        C_Load flat \<Rightarrow> Some (Inr (ir_bits (i_type i)))
      | C_LoadBits flat t \<Rightarrow> Some (Inr (ir_bits (i_type i)))
      | C_TypedLoad flat \<Rightarrow>
          Some (case i_access i of
                  None \<Rightarrow> Inl AttributeError | Some a \<Rightarrow> bind_res (total_bits a) (\<lambda>n. Inr (max 32 n)))
      | _ \<Rightarrow> None)"

text \<open>The last part of both inferences: the argument at an offset takes the type unless one was inferred.\<close>

definition record_type :: "int \<Rightarrow> string \<Rightarrow> infer_state \<Rightarrow> (bool \<times> infer_state) res" where
  "record_type p t s =
     bind_res (update_type_by_offset p t (inf_args s)) (\<lambda>(ok, a).
       Inr (if ok then (True, s\<lparr>inf_args := a, inf_types := (inf_types s)(p \<mapsto> t)\<rparr>) else (False, s\<lparr>inf_args := a\<rparr>)))"

definition try_update_argument_from_load :: "instr \<Rightarrow> string \<Rightarrow> infer_state \<Rightarrow> (bool \<times> infer_state) res" where
  "try_update_argument_from_load i t s =
     (case generic_load_size i of
        None \<Rightarrow> Inr (False, s)
      | Some sz \<Rightarrow>
          (case arg_ptr (inf_args s) of
             None \<Rightarrow> Inl AttributeError
           | Some ptr \<Rightarrow>
               if op_name (opn i 1) \<noteq> op_name ptr then Inr (False, s)
               else bind_res sz (\<lambda>n.
                 if n \<noteq> 64 then Inr (False, s)
                 else bind_res (value_of (opn i 2)) (\<lambda>v.
                   case int_base0 v of
                     None \<Rightarrow> Inr (False, s)
                   | Some p \<Rightarrow>
                       (case get_by_offset (inf_args s) p of
                          None \<Rightarrow> Inr (False, s)
                        | Some a \<Rightarrow>
                            if \<not> startswith (arg_name a) ''*'' then Inr (False, s)
                            else (case inf_types s p of
                                    Some t' \<Rightarrow> Inr (t' = t, s)
                                  | None \<Rightarrow> record_type p t s))))))"

fun propagate :: "nat \<Rightarrow> instr list \<Rightarrow> flow_graph \<Rightarrow> string \<Rightarrow> string \<Rightarrow> nat \<Rightarrow> infer_state \<Rightarrow> (bool \<times> infer_state) res option"
and propagate_all :: "nat \<Rightarrow> instr list \<Rightarrow> flow_graph \<Rightarrow> operand list \<Rightarrow> string \<Rightarrow> nat \<Rightarrow> bool \<Rightarrow> infer_state \<Rightarrow> (bool \<times> infer_state) res option"
where
  "propagate 0 prog g r t u s = None"
| "propagate (Suc n) prog g r t u s =
     (if (u, r) \<in> set (inf_visited s) then Some (Inr (False, s))
      else let s1 = s\<lparr>inf_visited := (u, r) # inf_visited s\<rparr>
           in case get_writer g u r of
                None \<Rightarrow> Some (Inr (False, s1))
              | Some w \<Rightarrow>
                  (case try_update_argument_from_load (prog ! w) t s1 of
                     Inl e \<Rightarrow> Some (Inl e)
                   | Inr (True, s2) \<Rightarrow> Some (Inr (True, s2))
                   | Inr (False, s2) \<Rightarrow> propagate_all n prog g (get_read_registers (prog ! w)) t w False s2))"
| "propagate_all n prog g [] t w updated s = Some (Inr (updated, s))"
| "propagate_all n prog g (q # qs) t w updated s =
     (case get_reg_rang q of
        [] \<Rightarrow> Some (Inl IndexError)
      | r # _ \<Rightarrow>
          (case propagate n prog g (op_name r) t w s of
             None \<Rightarrow> None
           | Some (Inl e) \<Rightarrow> Some (Inl e)
           | Some (Inr (b, s')) \<Rightarrow> propagate_all n prog g qs t w (b \<or> updated) s'))"

text \<open>The operand a typed access addresses, and its type.\<close>

definition typed_access :: "instr \<Rightarrow> operand option" where
  "typed_access i =
     (case i_class i of
        C_TypedLoad flat \<Rightarrow> Some (opn i 1) | C_TypedStore flat \<Rightarrow> Some (opn i 0) | _ \<Rightarrow> None)"

text \<open>The loop of the pass from position \<open>u\<close> on, counting the accesses that inferred something.\<close>

fun infer_pointers_from :: "nat \<Rightarrow> instr list \<Rightarrow> flow_graph \<Rightarrow> instr list \<Rightarrow> nat \<Rightarrow> infer_state \<Rightarrow> (nat \<times> infer_state) res option" where
  "infer_pointers_from u prog g [] c s = Some (Inr (c, s))"
| "infer_pointers_from u prog g (i # is) c s =
     (case typed_access i of
        None \<Rightarrow> infer_pointers_from (Suc u) prog g is c s
      | Some addr \<Rightarrow>
          (case (i_access i, get_element addr 0) of
             (Some a, Inr r) \<Rightarrow>
               (case propagate (Suc u) prog g (op_name r) (to_opencl_type a) u (s\<lparr>inf_visited := []\<rparr>) of
                  None \<Rightarrow> None
                | Some (Inl e) \<Rightarrow> Some (Inl e)
                | Some (Inr (b, s')) \<Rightarrow> infer_pointers_from (Suc u) prog g is (if b then Suc c else c) s')
           | (Some a, Inl e) \<Rightarrow> Some (Inl e)
           | (None, _) \<Rightarrow> Some (Inl AttributeError)))"

definition infer_pointer_types ::
    "kernel \<Rightarrow> (int \<Rightarrow> string option) \<Rightarrow> (nat \<times> kernel \<times> (int \<Rightarrow> string option)) res option" where
  "infer_pointer_types k types =
     (case infer_pointers_from 0 (k_instrs k) (build_flow (k_instrs k)) (k_instrs k) 0
             \<lparr>inf_args = k_args k, inf_types = types, inf_visited = []\<rparr> of
        None \<Rightarrow> None
      | Some (Inl e) \<Rightarrow> Some (Inl e)
      | Some (Inr (c, s)) \<Rightarrow> Some (Inr (c, k\<lparr>k_args := inf_args s\<rparr>, inf_types s)))"

section \<open>The inference ends\<close>

definition backward :: "flow_graph \<Rightarrow> bool" where
  "backward g \<longleftrightarrow> (\<forall>u r w. get_writer g u r = Some w \<longrightarrow> w < u)"

lemma backward_build: "backward (build_flow is)"
  by (auto simp: backward_def get_writer_less)

lemma propagate_ends:
  assumes "backward g"
  shows "u < n \<Longrightarrow> propagate n prog g r t u s \<noteq> None"
    and "w < n \<Longrightarrow> propagate_all n prog g qs t w updated s \<noteq> None"
  using assms
proof (induction n prog g r t u s and n prog g qs t w updated s rule: propagate_propagate_all.induct)
  case (2 n prog g r t u s)
  then show ?case
    by (fastforce simp: Let_def backward_def split: option.splits sum.splits bool.splits)
qed (auto split: list.splits option.splits sum.splits)

declare propagate.simps(2) [simp del]

lemma propagate_some: "backward g \<Longrightarrow> propagate (Suc u) prog g r t u s \<noteq> None"
  by (rule propagate_ends(1)) simp_all

lemma infer_pointers_ends: "backward g \<Longrightarrow> infer_pointers_from u prog g is c s \<noteq> None"
proof (induction u prog g "is" c s rule: infer_pointers_from.induct)
  case (2 u prog g i "is" c s)
  then show ?case
    using propagate_some [OF "2.prems", of u prog _ _ "s\<lparr>inf_visited := []\<rparr>"]
    by (auto split: option.splits sum.splits simp del: not_None_eq)
qed simp

text \<open>
  C21: pointer inference ends on every kernel, whatever loops the chain of writers may suggest: the fuel,
  one more than the position of the access, is always enough, because a writer precedes its reader.
\<close>

theorem pointer_inference_ends: "infer_pointer_types k types \<noteq> None"
  using infer_pointers_ends [OF backward_build]
  by (auto simp: infer_pointer_types_def split: option.splits sum.splits)

section \<open>What is inferred holds\<close>

definition distinct_names :: "kernel_arguments \<Rightarrow> bool" where
  "distinct_names a \<longleftrightarrow> distinct (map arg_name (arg_list a))"

definition types_agree :: "kernel_arguments \<Rightarrow> (int \<Rightarrow> string option) \<Rightarrow> bool" where
  "types_agree a m \<longleftrightarrow> (\<forall>p t. m p = Some t \<longrightarrow> (\<exists>x. get_by_offset a p = Some x \<and> type_name x = t))"

definition infer_ok :: "infer_state \<Rightarrow> bool" where
  "infer_ok s \<longleftrightarrow> arguments_ok (inf_args s) \<and> distinct_names (inf_args s) \<and> types_agree (inf_args s) (inf_types s)"

definition extends :: "infer_state \<Rightarrow> infer_state \<Rightarrow> bool" where
  "extends s s' \<longleftrightarrow> (infer_ok s \<longrightarrow> infer_ok s') \<and> inf_types s \<subseteq>\<^sub>m inf_types s'"

lemma extends_refl [simp, intro]: "extends s s"
  by (simp add: extends_def)

lemma extends_trans [trans]: "extends s s' \<Longrightarrow> extends s' s'' \<Longrightarrow> extends s s''"
  unfolding extends_def using map_le_trans by blast

lemma extends_visited [simp]:
  "extends (s\<lparr>inf_visited := vs\<rparr>) s' = extends s s'" "extends s (s'\<lparr>inf_visited := vs\<rparr>) = extends s s'"
  by (simp_all add: extends_def infer_ok_def)

lemma update_by_offset_target:
  assumes ok: "arguments_ok a" "distinct_names a" and k: "by_offset a p = Some k"
    and r: "update_type_by_offset p t a = Inr (b, a')"
  shows "b \<and> by_name a' = by_name a \<and> by_offset a' = by_offset a
       \<and> (\<exists>n. arg_list a' = (arg_list a)[k := (arg_list a ! k)\<lparr>type_name := t, arg_size := n\<rparr>]) \<and> distinct_names a'"
proof -
  have kl: "k < length (arg_list a)" using ok(1) k by (simp add: arguments_ok_def)
  with ok(1) obtain j where j: "by_name a (arg_name (arg_list a ! k)) = Some j" by (auto simp: arguments_ok_def)
  with ok(1) have "j < length (arg_list a)" "arg_name (arg_list a ! j) = arg_name (arg_list a ! k)"
    by (auto simp: arguments_ok_def)
  with ok(2) kl have "j = k" by (simp add: distinct_names_def nth_eq_iff_index_eq [symmetric])
  with j k r obtain n where n: "b" "a' = a\<lparr>arg_list := (arg_list a)[k := (arg_list a ! k)\<lparr>type_name := t, arg_size := n\<rparr>]\<rparr>"
    by (auto simp: update_type_by_offset_def get_by_offset_def update_type_def)
  have "map arg_name (arg_list a') = map arg_name (arg_list a)"
    using kl unfolding n by (simp add: map_update list_update_same_conv)
  with ok(2) n show ?thesis by (auto simp: distinct_names_def)
qed

lemma record_type_extends:
  assumes r: "record_type p t s = Inr (b, s')" and fresh: "inf_types s p = None"
    and arg: "get_by_offset (inf_args s) p = Some a"
  shows "extends s s'"
proof -
  obtain ok a' where u: "update_type_by_offset p t (inf_args s) = Inr (ok, a')"
    and s': "s' = (if ok then s\<lparr>inf_args := a', inf_types := (inf_types s)(p \<mapsto> t)\<rparr> else s\<lparr>inf_args := a'\<rparr>)"
    using r by (auto simp: record_type_def split: if_splits)
  have le: "inf_types s \<subseteq>\<^sub>m inf_types s'" using fresh by (auto simp: s' map_le_def)
  have "infer_ok s'" if ok: "infer_ok s"
  proof -
    obtain k where k: "by_offset (inf_args s) p = Some k" using arg by (auto simp: get_by_offset_def)
    obtain n where n: "ok" "by_name a' = by_name (inf_args s)" "by_offset a' = by_offset (inf_args s)"
      "arg_list a' = (arg_list (inf_args s))[k := (arg_list (inf_args s) ! k)\<lparr>type_name := t, arg_size := n\<rparr>]"
      "distinct_names a'"
      using update_by_offset_target [OF _ _ k u] ok by (auto simp: infer_ok_def)
    have args: "arguments_ok a'" using update_type_by_offset_ok [OF _ u] ok by (simp add: infer_ok_def)
    have other: "j \<noteq> k" if "by_offset (inf_args s) q = Some j" "q \<noteq> p" for q j
    proof -
      have "arg_offset (arg_list (inf_args s) ! k) = p" "arg_offset (arg_list (inf_args s) ! j) = q"
        using ok k that(1) by (auto simp: infer_ok_def arguments_ok_def)
      with that(2) show ?thesis by auto
    qed
    have kl: "k < length (arg_list (inf_args s))" using ok k by (auto simp: infer_ok_def arguments_ok_def)
    have "types_agree a' ((inf_types s)(p \<mapsto> t))"
      unfolding types_agree_def
    proof (intro allI impI)
      fix q t' assume q: "((inf_types s)(p \<mapsto> t)) q = Some t'"
      show "\<exists>x. get_by_offset a' q = Some x \<and> type_name x = t'"
      proof (cases "q = p")
        case True
        with q k kl n show ?thesis by (simp add: get_by_offset_def)
      next
        case False
        with q ok obtain j where "by_offset (inf_args s) q = Some j" "type_name (arg_list (inf_args s) ! j) = t'"
          by (auto simp: infer_ok_def types_agree_def get_by_offset_def)
        with other [OF _ False] n show ?thesis by (simp add: get_by_offset_def)
      qed
    qed
    with n args show ?thesis by (simp add: s' infer_ok_def)
  qed
  with le show ?thesis by (simp add: extends_def)
qed

lemma try_update_extends: "try_update_argument_from_load i t s = Inr (b, s') \<Longrightarrow> extends s s'"
  unfolding try_update_argument_from_load_def
  by (cases "generic_load_size i"; cases "arg_ptr (inf_args s)"; cases "the (generic_load_size i)"; cases "value_of (opn i 2)";
      cases "int_base0 (projr (value_of (opn i 2)))";
      cases "get_by_offset (inf_args s) (the (int_base0 (projr (value_of (opn i 2)))))";
      cases "inf_types s (the (int_base0 (projr (value_of (opn i 2)))))")
    (auto intro: record_type_extends split: if_splits)

lemma propagate_extends:
  "propagate n prog g r t u s = Some (Inr (b, s')) \<Longrightarrow> extends s s'"
  "propagate_all n prog g qs t w updated s = Some (Inr (b', s'')) \<Longrightarrow> extends s s''"
proof (induction n prog g r t u s and n prog g qs t w updated s arbitrary: b s' and b' s'' rule: propagate_propagate_all.induct)
  case (2 n prog g r t u s)
  let ?s1 = "s\<lparr>inf_visited := (u, r) # inf_visited s\<rparr>"
  show ?case
  proof (cases "(u, r) \<in> set (inf_visited s) \<or> get_writer g u r = None")
    case True
    with "2.prems" show ?thesis by (auto simp: propagate.simps(2) Let_def split: if_splits)
  next
    case False
    then obtain w where w: "(u, r) \<notin> set (inf_visited s)" "get_writer g u r = Some w" by auto
    with "2.prems" obtain upd s2 where s2: "try_update_argument_from_load (prog ! w) t ?s1 = Inr (upd, s2)"
      and rest: "if upd then s' = s2 else propagate_all n prog g (get_read_registers (prog ! w)) t w False s2 = Some (Inr (b, s'))"
      by (auto simp: propagate.simps(2) Let_def split: sum.splits bool.splits)
    have "extends s s2" using try_update_extends [OF s2] by simp
    moreover have "extends s2 s'" using rest "2.IH" [OF w(1) refl w(2) s2 refl] by (cases upd) auto
    ultimately show ?thesis by (rule extends_trans)
  qed
next
  case (4 n prog g q qs t w updated s)
  from "4.prems" obtain r rs b1 s1 where q: "get_reg_rang q = r # rs"
    and p: "propagate n prog g (op_name r) t w s = Some (Inr (b1, s1))"
    and rest: "propagate_all n prog g qs t w (b1 \<or> updated) s1 = Some (Inr (b', s''))"
    by (auto split: list.splits option.splits sum.splits)
  have "extends s s1" by (rule "4.IH"(1) [OF q p])
  also have "extends s1 s''" by (rule "4.IH"(2) [OF q p refl refl rest])
  finally show ?case .
qed auto

lemma infer_pointers_extends: "infer_pointers_from u prog g is c s = Some (Inr (c', s')) \<Longrightarrow> extends s s' \<and> c \<le> c'"
proof (induction u prog g "is" c s rule: infer_pointers_from.induct)
  case (2 u prog g i "is" c s)
  show ?case
  proof (cases "typed_access i")
    case None
    with 2 show ?thesis by simp
  next
    case (Some addr)
    with "2.prems" obtain a r b s1 where a: "i_access i = Some a" "get_element addr 0 = Inr r"
      and p: "propagate (Suc u) prog g (op_name r) (to_opencl_type a) u (s\<lparr>inf_visited := []\<rparr>) = Some (Inr (b, s1))"
      and rest: "infer_pointers_from (Suc u) prog g is (if b then Suc c else c) s1 = Some (Inr (c', s'))"
      by (auto split: option.splits sum.splits)
    have "extends s s1" using propagate_extends(1) [OF p] by simp
    moreover have "extends s1 s'" "(if b then Suc c else c) \<le> c'"
      using "2.IH"(2) [OF Some refl a(1) a(2) p refl refl rest] by auto
    ultimately show ?thesis using extends_trans by (auto split: if_splits)
  qed
qed simp

text \<open>
  C22: pointer inference only refines the kernel: the program and every other field stay as they are, a
  type recorded for an offset is never revised, and the argument table keeps its invariant with the
  argument at every recorded offset having exactly the recorded type.
\<close>

theorem pointer_inference_refines:
  assumes "infer_pointer_types k types = Some (Inr (n, k', types'))"
    and "arguments_ok (k_args k)" "distinct_names (k_args k)" "types_agree (k_args k) types"
  shows "k' = k\<lparr>k_args := k_args k'\<rparr> \<and> types \<subseteq>\<^sub>m types'
       \<and> arguments_ok (k_args k') \<and> types_agree (k_args k') types'"
proof -
  obtain s where s: "infer_pointers_from 0 (k_instrs k) (build_flow (k_instrs k)) (k_instrs k) 0
      \<lparr>inf_args = k_args k, inf_types = types, inf_visited = []\<rparr> = Some (Inr (n, s))"
    and k': "k' = k\<lparr>k_args := inf_args s\<rparr>" "types' = inf_types s"
    using assms(1) by (auto simp: infer_pointer_types_def split: option.splits sum.splits)
  have "infer_ok \<lparr>inf_args = k_args k, inf_types = types, inf_visited = []\<rparr>"
    using assms by (simp add: infer_ok_def)
  with infer_pointers_extends [OF s] show ?thesis by (simp add: extends_def infer_ok_def k')
qed

section \<open>Types of vector arguments\<close>

definition infer_type_name :: "access_type \<Rightarrow> kernel_argument \<Rightarrow> string res" where
  "infer_type_name a arg =
     (let t = to_value_type a;
          declared = (case declared_size arg of Some d \<Rightarrow> if d \<noteq> 0 then d else arg_size arg | None \<Rightarrow> arg_size arg)
      in bind_res (element_bits a) (\<lambda>bits.
           let element = int (bits div 8); width = declared div element;
               wide = to_value_type (a\<lparr>vector_width := nat width\<rparr>)
           in if declared \<le> 0 \<or> element \<le> 0 then Inr t
              else if declared mod element \<noteq> 0 then Inr t
              else if width \<le> int (vector_width a) then Inr t
              else bind_res (evaluate_size (make_asm_type wide) False) (\<lambda>(n, _).
                     Inr (if n \<noteq> declared then t else wide))))"

definition vector_parameter :: "kernel_arguments \<Rightarrow> instr \<Rightarrow> (int \<times> access_type \<times> kernel_argument) option res" where
  "vector_parameter args i =
     (if i_class i \<noteq> C_TypedLoad False then Inr None
      else if op_name (opn i 1) \<noteq> ''argptr'' then Inr None
      else case i_access i of
        None \<Rightarrow> Inl AttributeError
      | Some a \<Rightarrow>
          if vector_width a \<le> 1 then Inr None
          else bind_res (value_of (opn i 2)) (\<lambda>v.
            case int_base0 v of
              None \<Rightarrow> Inr None
            | Some p \<Rightarrow>
                (case get_by_offset args p of
                   None \<Rightarrow> Inr None
                 | Some arg \<Rightarrow> Inr (if startswith (arg_name arg) ''*'' then None else Some (p, a, arg)))))"

definition infer_argument_step :: "instr \<Rightarrow> nat \<times> infer_state \<Rightarrow> (nat \<times> infer_state) res" where
  "infer_argument_step i = (\<lambda>(c, s).
     bind_res (vector_parameter (inf_args s) i) (\<lambda>found.
       case found of
         None \<Rightarrow> Inr (c, s)
       | Some (p, a, arg) \<Rightarrow>
           bind_res (infer_type_name a arg) (\<lambda>t.
             if inf_types s p \<noteq> None then Inr (c, s)
             else bind_res (record_type p t s) (\<lambda>(ok, s'). Inr (if ok then Suc c else c, s')))))"

fun infer_arguments_from :: "instr list \<Rightarrow> nat \<times> infer_state \<Rightarrow> (nat \<times> infer_state) res" where
  "infer_arguments_from [] cs = Inr cs"
| "infer_arguments_from (i # is) cs = bind_res (infer_argument_step i cs) (infer_arguments_from is)"

definition infer_argument_types ::
    "kernel \<Rightarrow> (int \<Rightarrow> string option) \<Rightarrow> (nat \<times> kernel \<times> (int \<Rightarrow> string option)) res" where
  "infer_argument_types k types =
     bind_res (infer_arguments_from (k_instrs k) (0, \<lparr>inf_args = k_args k, inf_types = types, inf_visited = []\<rparr>))
       (\<lambda>(c, s). Inr (c, k\<lparr>k_args := inf_args s\<rparr>, inf_types s))"

lemma infer_argument_step_extends:
  assumes r: "infer_argument_step i (c, s) = Inr (c', s')"
  shows "extends s s'"
proof -
  obtain found where v: "vector_parameter (inf_args s) i = Inr found" using r by (auto simp: infer_argument_step_def)
  show ?thesis
  proof (cases found)
    case None
    with r v show ?thesis by (simp add: infer_argument_step_def)
  next
    case (Some f)
    obtain p a arg where f: "f = (p, a, arg)" by (cases f)
    have arg: "get_by_offset (inf_args s) p = Some arg"
      using v unfolding Some f by (auto simp: vector_parameter_def split: if_splits option.splits)
    show ?thesis
      using r v Some f record_type_extends [OF _ _ arg]
      by (auto simp: infer_argument_step_def split: if_splits)
  qed
qed

lemma infer_arguments_extends: "infer_arguments_from is cs = Inr cs' \<Longrightarrow> extends (snd cs) (snd cs')"
proof (induction "is" arbitrary: cs)
  case (Cons i "is")
  then obtain cs1 where c: "infer_argument_step i cs = Inr cs1" "infer_arguments_from is cs1 = Inr cs'" by auto
  have "extends (snd cs) (snd cs1)"
    using infer_argument_step_extends c(1) by (cases cs; cases cs1) auto
  with Cons.IH [OF c(2)] show ?case by (rule extends_trans [rotated])
qed simp

text \<open>
  The same for the inference of vector arguments: only the argument table changes, nothing recorded is
  revised, and every recorded offset belongs to an argument of the recorded type.
\<close>

lemma argument_inference_refines:
  assumes "infer_argument_types k types = Inr (n, k', types')"
    and "arguments_ok (k_args k)" "distinct_names (k_args k)" "types_agree (k_args k) types"
  shows "k' = k\<lparr>k_args := k_args k'\<rparr> \<and> types \<subseteq>\<^sub>m types'
       \<and> arguments_ok (k_args k') \<and> types_agree (k_args k') types'"
proof -
  obtain s where s: "infer_arguments_from (k_instrs k) (0, \<lparr>inf_args = k_args k, inf_types = types, inf_visited = []\<rparr>)
       = Inr (n, s)" and k': "k' = k\<lparr>k_args := inf_args s\<rparr>" "types' = inf_types s"
    using assms(1) by (auto simp: infer_argument_types_def)
  have "infer_ok \<lparr>inf_args = k_args k, inf_types = types, inf_visited = []\<rparr>"
    using assms by (simp add: infer_ok_def)
  with infer_arguments_extends [OF s] show ?thesis by (simp add: extends_def infer_ok_def k')
qed

section \<open>A kernel with a pointer and a vector argument\<close>

definition global_uint :: access_type where
  "global_uint = \<lparr>address_space = ''global'', base_type_name = ''u32'', vector_width = 1\<rparr>"

text \<open>
  The pointer at offset 0 is loaded into a register pair that a typed load then addresses; the vector
  argument at offset 8 is read by a load of two words.
\<close>

definition typed_program :: "instr list" where
  "typed_program =
     [(plain_instr (C_TypedLoad False) [Reg64 ''%rd1'', Reg64 ''argptr'', Val ''0x0''])
        \<lparr>i_type := T_U64, i_access := Some (global_uint\<lparr>base_type_name := ''u64''\<rparr>)\<rparr>,
      (plain_instr (C_TypedLoad False) [Reg64 ''%rd2'', Reg64 ''argptr'', Val ''0x8''])
        \<lparr>i_type := T_U32, i_access := Some (global_uint\<lparr>vector_width := 2\<rparr>)\<rparr>,
      (plain_instr (C_TypedLoad True) [Reg32 ''%r1'', Reg64 ''%rd1'', Val ''0''])
        \<lparr>i_type := T_U32, i_access := Some global_uint\<rparr>]"

definition typed_kernel :: kernel where
  "typed_kernel =
     (new_kernel ''k'' None Map.empty)
       \<lparr>k_instrs := typed_program,
        k_args :=
          \<lparr>arg_ptr = Some (Reg64 ''argptr''),
           arg_list =
             [\<lparr>type_name = ''__global long'', arg_name = ''*arg0'', arg_offset = 0, arg_size = 8, arg_hidden = False,
               arg_const = False, declared_size = Some 8\<rparr>,
              \<lparr>type_name = ''int'', arg_name = ''arg1'', arg_offset = 8, arg_size = 4, arg_hidden = False,
               arg_const = False, declared_size = Some 8\<rparr>],
           arg_materialized = False, by_name = [''*arg0'' \<mapsto> 0, ''arg1'' \<mapsto> 1], by_offset = [0 \<mapsto> 0, 8 \<mapsto> 1]\<rparr>\<rparr>"

lemma typed_kernel_ok:
  "arguments_ok (k_args typed_kernel)" "distinct_names (k_args typed_kernel)" "types_agree (k_args typed_kernel) Map.empty"
proof -
  have s: "argument_size ''*arg0'' ''__global long'' = Inr 8" "argument_size ''arg1'' ''int'' = Inr 4" by code_simp+
  show "arguments_ok (k_args typed_kernel)"
    using s by (auto simp: arguments_ok_def typed_kernel_def less_Suc_eq split: if_splits)
qed (simp_all add: distinct_names_def typed_kernel_def types_agree_def)

lemma typed_kernel_pointers:
  "case infer_pointer_types typed_kernel Map.empty of
     Some (Inr (n, k', t)) \<Rightarrow> t 0 = Some ''__global uint'' | _ \<Rightarrow> False"
  by code_simp

lemma typed_kernel_arguments:
  "case infer_argument_types typed_kernel Map.empty of
     Inr (n, k', t) \<Rightarrow> t 8 = Some ''uint2'' | _ \<Rightarrow> False"
  by code_simp

theorem pointer_inference_refines_witness:
  "\<exists>n k' t. infer_pointer_types typed_kernel Map.empty = Some (Inr (n, k', t)) \<and> t 0 = Some ''__global uint''
     \<and> types_agree (k_args k') t"
proof -
  obtain n k' t where r: "infer_pointer_types typed_kernel Map.empty = Some (Inr (n, k', t))" "t 0 = Some ''__global uint''"
    using typed_kernel_pointers by (auto split: option.splits sum.splits)
  with pointer_inference_refines [OF r(1) typed_kernel_ok] show ?thesis by blast
qed

theorem argument_inference_refines_witness:
  "\<exists>n k' t. infer_argument_types typed_kernel Map.empty = Inr (n, k', t) \<and> t 8 = Some ''uint2''
     \<and> types_agree (k_args k') t"
proof -
  obtain n k' t where r: "infer_argument_types typed_kernel Map.empty = Inr (n, k', t)" "t 8 = Some ''uint2''"
    using typed_kernel_arguments by (auto split: sum.splits)
  with argument_inference_refines [OF r(1) typed_kernel_ok] show ?thesis by blast
qed

end
