(* ===== verification/IR_Lower.thy ===== *)
theory IR_Lower
  imports IR_Kernel Py_Text
begin

text \<open>
  The language in which both assembler readers state how an opcode becomes instructions of the
  intermediate representation (\<open>src/src/ir/asm_to_ir/lowering.py\<close>): arguments that are resolved
  against the operands of the line, temporaries shared within a line, and rules that are either a list of
  emissions or a function.  The context of a line holds the kernel it appends to.
\<close>

section \<open>Register kinds\<close>

datatype reg_kind = Kind32 | Kind64 | KindPred

definition normalize_register_kind :: "string \<Rightarrow> reg_kind res" where
  "normalize_register_kind k =
     (if k = ''32'' \<or> k = ''b32'' then Inr Kind32
      else if k = ''64'' \<or> k = ''b64'' then Inr Kind64
      else if k = ''pred'' \<or> k = ''predicate'' then Inr KindPred
      else Inl ValueError)"

definition mk_register :: "reg_kind \<Rightarrow> string \<Rightarrow> operand res" where
  "mk_register k = (case k of Kind32 \<Rightarrow> mk_reg32 | Kind64 \<Rightarrow> mk_reg64 | KindPred \<Rightarrow> mk_pred)"

definition create_register :: "string \<Rightarrow> string \<Rightarrow> operand res" where
  "create_register name k = bind_res (normalize_register_kind k) (\<lambda>k'. mk_register k' name)"

text \<open>\<open>isinstance(r, register_class(k))\<close>; predicates are 64-bit registers.\<close>

definition is_of_kind :: "reg_kind \<Rightarrow> operand \<Rightarrow> bool" where
  "is_of_kind k r =
     (case r of
        Reg32 s \<Rightarrow> k = Kind32 | Reg64 s \<Rightarrow> k = Kind64 | PredReg s \<Rightarrow> k = Kind64 \<or> k = KindPred | _ \<Rightarrow> False)"

section \<open>The context of a line\<close>

record line_context =
  x_kernel :: kernel
  x_operands :: "operand list"
  x_pred :: pred_arg
  x_neg :: bool
  x_args_offset :: "(string \<Rightarrow> operand option) option"
  x_tokens :: "string list"
  x_temps :: "string \<Rightarrow> operand option"

type_synonym 'a lowering = "(line_context, 'a) action"

definition in_kernel :: "(kernel, 'a) action \<Rightarrow> 'a lowering" where
  "in_kernel m = (\<lambda>x. bind_res (m (x_kernel x)) (\<lambda>(y, k). Inr (y, x\<lparr>x_kernel := k\<rparr>)))"

definition ctx_operand :: "nat \<Rightarrow> operand lowering" where
  "ctx_operand n = (\<lambda>x. bind_res (py_nth (x_operands x) n) (\<lambda>r. Inr (r, x)))"

definition ctx_tmp :: "string \<Rightarrow> string \<Rightarrow> operand lowering" where
  "ctx_tmp name kind =
     bindS (liftS (normalize_register_kind kind)) (\<lambda>k.
     bindS (getS (\<lambda>x. x_temps x name)) (\<lambda>old.
       case old of
         Some r \<Rightarrow> if is_of_kind k r then returnS r else raiseS TypeError
       | None \<Rightarrow>
           bindS (in_kernel (with_temps (generate (''tmp_'' @ name)))) (\<lambda>n.
           bindS (liftS (mk_register k n)) (\<lambda>r.
           bindS (modifyS (\<lambda>x. x\<lparr>x_temps := (x_temps x)(name \<mapsto> r)\<rparr>)) (\<lambda>_. returnS r)))))"

section \<open>Arguments\<close>

datatype lowering_arg =
    OperandRef nat
  | TmpRegRef string string
  | NamedRegRef string string
  | ValueRef string
  | ArgOffsetRef nat
  | Given operand

fun resolve_arg :: "lowering_arg \<Rightarrow> operand lowering" where
  "resolve_arg (OperandRef n) = ctx_operand n"
| "resolve_arg (TmpRegRef name kind) = ctx_tmp name kind"
| "resolve_arg (NamedRegRef name kind) = liftS (create_register name kind)"
| "resolve_arg (ValueRef v) = returnS (Val v)"
| "resolve_arg (ArgOffsetRef n) =
     bindS (getS x_args_offset) (\<lambda>offsets.
       case offsets of
         None \<Rightarrow> raiseS KeyError
       | Some f \<Rightarrow> bindS (ctx_operand n) (\<lambda>r. liftS (case f (op_name r) of Some v \<Rightarrow> Inr v | None \<Rightarrow> Inl KeyError)))"
| "resolve_arg (Given r) = returnS r"

definition tmp64 :: "string \<Rightarrow> lowering_arg" where
  "tmp64 name = TmpRegRef name ''64''"

definition named64 :: "string \<Rightarrow> lowering_arg" where
  "named64 name = NamedRegRef name ''64''"

section \<open>Emission\<close>

record emission =
  e_class :: ir_class
  e_args :: "lowering_arg list"
  e_access :: "access_type option"
  e_pred :: pred_arg
  e_neg :: "bool option"
  e_type :: "ir_type option"

definition emit :: "emission \<Rightarrow> unit lowering" where
  "emit e =
     bindS (mapS resolve_arg (e_args e)) (\<lambda>ops.
     bindS (getS (\<lambda>x. if e_pred e = NoPredicate then (x_pred x, x_neg x) else (e_pred e, False))) (\<lambda>(p, neg).
       let neg' = (case e_neg e of None \<Rightarrow> neg | Some b \<Rightarrow> b)
       in in_kernel (create_instruction (e_class e) ops (e_access e) p (p \<noteq> NoPredicate \<and> neg') (e_type e))))"

definition Emit :: "ir_class \<Rightarrow> lowering_arg list \<Rightarrow> ir_type option \<Rightarrow> emission" where
  "Emit c args t = \<lparr>e_class = c, e_args = args, e_access = None, e_pred = NoPredicate, e_neg = None, e_type = t\<rparr>"

datatype rule = Emits "emission list" | Dynamic "unit lowering"

fun emit_all :: "emission list \<Rightarrow> unit lowering" where
  "emit_all [] = returnS ()"
| "emit_all (e # es) = bindS (emit e) (\<lambda>_. emit_all es)"

definition emit_rule :: "rule \<Rightarrow> unit lowering" where
  "emit_rule r = (case r of Dynamic f \<Rightarrow> f | Emits es \<Rightarrow> emit_all es)"

text \<open>\<open>ctx.emit(c, *operands, op_type=t)\<close> on resolved operands.\<close>

definition emit_on :: "ir_class \<Rightarrow> operand list \<Rightarrow> ir_type option \<Rightarrow> unit lowering" where
  "emit_on c ops t = emit (Emit c (map Given ops) t)"

definition emit_same :: "ir_class \<Rightarrow> ir_type option \<Rightarrow> unit lowering" where
  "emit_same c t = bindS (getS x_operands) (\<lambda>ops. emit_on c ops t)"

definition same :: "ir_class \<Rightarrow> ir_type option \<Rightarrow> rule" where
  "same c t = Dynamic (emit_same c t)"

section \<open>What emission does\<close>

lemma mapS_Given: "mapS resolve_arg (map Given ops) = returnS ops"
  by (induction ops) auto

lemma emit_on_eq:
  "emit_on c ops t =
     bindS (getS (\<lambda>x. (x_pred x, x_neg x))) (\<lambda>(p, neg).
       in_kernel (create_instruction c ops None p (p \<noteq> NoPredicate \<and> neg) t))"
  by (simp add: emit_on_def emit_def Emit_def mapS_Given)

text \<open>Everything that is emitted is an instruction its class permits: the operation type is one of the
  class's, and only an instruction with a predicate has it negated.\<close>

definition instr_ok :: "instr \<Rightarrow> bool" where
  "instr_ok i \<longleftrightarrow> i_type i \<in> set (cm_types (class_of (i_class i))) \<and> (i_neg i \<longrightarrow> i_pred i \<noteq> None)
     \<and> i_opcode i = cm_text (class_of (i_class i))"

definition kernel_ok :: "kernel \<Rightarrow> bool" where
  "kernel_ok k \<longleftrightarrow> list_all instr_ok (k_instrs k)"

lemma kernel_ok_new [simp]: "kernel_ok (new_kernel n w t)"
  by (simp add: kernel_ok_def new_kernel_def)

lemma kernel_ok_append [simp]: "kernel_ok (append_instr i k) \<longleftrightarrow> kernel_ok k \<and> instr_ok i"
  by (auto simp: kernel_ok_def append_instr_def)

lemma kernel_ok_other [simp]:
  "kernel_ok (k\<lparr>k_args := a\<rparr>) = kernel_ok k"
  "kernel_ok (k\<lparr>k_temps := t\<rparr>) = kernel_ok k"
  "kernel_ok (add_predicate p k) = kernel_ok k"
  "kernel_ok (set_local_memory s n k) = kernel_ok k"
  "kernel_ok (set_global_memory s vs k) = kernel_ok k"
  by (simp_all add: kernel_ok_def add_predicate_def set_local_memory_def set_global_memory_def)

lemma new_instr_ok: "new_instr c ops t acc a = Inr (i, a') \<Longrightarrow> instr_ok i \<and> i_pred i = None \<and> i_class i = c"
  by (auto simp: new_instr_def Let_def method_simps resolve_op_type_def instr_ok_def split: if_splits prod.splits)

lemma create_instruction_keeps: "keeps kernel_ok (create_instruction c ops acc p negated t)"
proof (rule yieldsI)
  fix k x k'
  assume ok: "kernel_ok k" and r: "create_instruction c ops acc p negated t k = Inr (x, k')"
  obtain i a' q where i: "new_instr c ops t acc (k_temps k) = Inr (i, a')"
    and k': "k' = append_instr (if q \<noteq> None then set_predicate q negated i else i) (k\<lparr>k_temps := a'\<rparr>)"
    using r by (auto simp: create_instruction_def method_simps with_temps_def)
  have "instr_ok (if q \<noteq> None then set_predicate q negated i else i)"
    using new_instr_ok [OF i] by (auto simp: instr_ok_def set_predicate_def)
  then show "kernel_ok k' \<and> True" using ok unfolding k' by (simp only: kernel_ok_append kernel_ok_other simp_thms)
qed

abbreviation line_ok :: "line_context \<Rightarrow> bool" where
  "line_ok x \<equiv> kernel_ok (x_kernel x)"

lemma in_kernel_keeps: "keeps kernel_ok m \<Longrightarrow> keeps line_ok (in_kernel m)"
  by (fastforce simp: yields_def in_kernel_def)

lemma with_temps_keeps: "keeps kernel_ok (with_temps m)"
  by (fastforce simp: yields_def with_temps_def)

lemma ctx_operand_keeps: "keeps line_ok (ctx_operand n)"
  by (auto simp: yields_def ctx_operand_def)

lemma ctx_tmp_keeps: "keeps line_ok (ctx_tmp name kind)"
  unfolding ctx_tmp_def
  by (intro yields_intros yields_bind_keep in_kernel_keeps with_temps_keeps) (auto intro!: yields_intros
        yields_bind_keep in_kernel_keeps with_temps_keeps split: option.splits)

lemma resolve_arg_keeps: "keeps line_ok (resolve_arg a)"
  by (cases a) (auto intro!: yields_intros yields_bind_keep ctx_operand_keeps ctx_tmp_keeps split: option.splits)

lemma emit_keeps: "keeps line_ok (emit e)"
  unfolding emit_def
  by (intro yields_bind_keep mapS_keeps resolve_arg_keeps yields_intros)
    (auto simp: Let_def intro!: in_kernel_keeps create_instruction_keeps)

lemma emit_on_keeps: "keeps line_ok (emit_on c ops t)"
  by (simp add: emit_on_def emit_keeps)

lemma emit_same_keeps: "keeps line_ok (emit_same c t)"
  unfolding emit_same_def by (intro yields_bind_keep emit_on_keeps yields_intros) auto

lemma emit_all_keeps: "keeps line_ok (emit_all es)"
  by (induction es) (auto intro!: yields_intros yields_bind_keep emit_keeps)

lemmas emission_keeps =
  yields_intros yields_bind_keep in_kernel_keeps create_instruction_keeps ctx_operand_keeps ctx_tmp_keeps
  emit_keeps emit_on_keeps emit_same_keeps emit_all_keeps

section \<open>Tables of rules\<close>

text \<open>What both readers do with an opcode: look its rule up and emit.\<close>

definition emit_opcode :: "(string \<Rightarrow> rule option res) \<Rightarrow> string \<Rightarrow> unit lowering" where
  "emit_opcode get_rule opcode =
     bindS (liftS (get_rule opcode)) (\<lambda>r. case r of None \<Rightarrow> raiseS NotImplementedError | Some r \<Rightarrow> emit_rule r)"

definition new_line :: "kernel \<Rightarrow> operand list \<Rightarrow> line_context" where
  "new_line k ops =
     \<lparr>x_kernel = k, x_operands = ops, x_pred = NoPredicate, x_neg = False, x_args_offset = None, x_tokens = [],
      x_temps = Map.empty\<rparr>"

text \<open>A method of the kernel that runs an emission in a context made from it.\<close>

definition run_line :: "(kernel \<Rightarrow> line_context) \<Rightarrow> unit lowering \<Rightarrow> (kernel, unit) action" where
  "run_line ctx m = (\<lambda>k. bind_res (m (ctx k)) (\<lambda>(_, x). Inr ((), x_kernel x)))"

text \<open>The contract of a table: its rules only emit instructions their classes permit.\<close>

locale rule_table =
  fixes get_rule :: "string \<Rightarrow> rule option res"
  assumes rule_keeps: "get_rule opcode = Inr (Some r) \<Longrightarrow> keeps line_ok (emit_rule r)"
begin

lemma emit_opcode_keeps: "keeps line_ok (emit_opcode get_rule opcode)"
  unfolding emit_opcode_def
  by (intro yields_intros) (auto split: option.splits intro: yields_raise rule_keeps)

lemma run_line_keeps:
  assumes "\<And>k. x_kernel (ctx k) = k"
  shows "keeps kernel_ok (run_line ctx (emit_opcode get_rule opcode))"
  using yieldsD [OF emit_opcode_keeps [of opcode]] by (auto simp: assms run_line_def intro!: yieldsI)

end

text \<open>A row of a table of plain rules: the class takes an operation type exactly when the row gives one, and
  permits it.\<close>

definition row_typed :: "string \<times> ir_class \<times> ir_type option \<Rightarrow> bool" where
  "row_typed = (\<lambda>(opcode, c, t).
     case requested_type c t None of Inl e \<Rightarrow> False | Inr ty \<Rightarrow> ty \<in> set (cm_types (class_of c)))"

text \<open>A plain rule on operands that the constructor of its class accepts appends exactly one instruction.\<close>

lemma emit_same_typed:
  assumes row: "row_typed (opcode, c, t)" and p: "x_pred x = NoPredicate"
    and n: "fst (cm_arity (class_of c)) \<le> length (x_operands x)" "length (x_operands x) \<le> snd (cm_arity (class_of c))"
    and init: "cm_init (class_of c) (x_operands x) None (k_temps (x_kernel x)) = Inr ((ops, tmps), temps)"
  shows "\<exists>i. emit_rule (same c t) x = Inr ((), x\<lparr>x_kernel := append_instr i ((x_kernel x)\<lparr>k_temps := temps\<rparr>)\<rparr>)
      \<and> i_class i = c \<and> i_ops i = ops \<and> i_pred i = None \<and> requested_type c t None = Inr (i_type i) \<and> instr_ok i"
proof -
  obtain ty where ty: "requested_type c t None = Inr ty" "ty \<in> set (cm_types (class_of c))"
    using row by (auto simp: row_typed_def split: sum.splits)
  obtain lo hi where a: "cm_arity (class_of c) = (lo, hi)" by force
  let ?i = "\<lparr>i_class = c, i_opcode = cm_text (class_of c), i_type = ty, i_ops = ops, i_pred = None,
              i_neg = False, i_access = None, i_tmps = tmps\<rparr>"
  have "new_instr c (x_operands x) t None (k_temps (x_kernel x)) = Inr (?i, temps)"
    using n ty init by (simp add: new_instr_def Let_def a method_simps resolve_op_type_def)
  then have "emit_rule (same c t) x = Inr ((), x\<lparr>x_kernel := append_instr ?i ((x_kernel x)\<lparr>k_temps := temps\<rparr>)\<rparr>)"
    using p by (simp add: emit_rule_def same_def emit_same_def emit_on_eq method_simps in_kernel_def create_instruction_def
        with_temps_def coerce_predicate_def)
  with ty show ?thesis by (intro exI [of _ ?i]) (simp add: instr_ok_def)
qed

end
