(* ===== verification/AMD_Rules.thy ===== *)
theory AMD_Rules
  imports IR_Lower
begin

text \<open>
  The rules of the AMD reader (\<open>src/src/ir/asm_to_ir/amd/instruction_rules.py\<close>): labels and comparisons by
  the form of the opcode, the rest by table.  Instructions that write \<open>exec\<close> are followed by a change of
  the mask.
\<close>

section \<open>Wrappers\<close>

definition emit_ignoring_vcc :: "ir_class \<Rightarrow> ir_type option \<Rightarrow> unit lowering" where
  "emit_ignoring_vcc c t =
     bindS (getS x_operands) (\<lambda>ops.
       if 4 \<le> length ops \<and> op_name (ops ! 1) = ''vcc'' then emit_on c [ops ! 0, ops ! 2, ops ! 3] t
       else emit_on c ops t)"

definition exec_reg :: operand where
  "exec_reg = PredReg ''exec''"

definition writes_exec :: "line_context \<Rightarrow> bool" where
  "writes_exec x = (x_operands x \<noteq> [] \<and> op_name (hd (x_operands x)) = ''exec'')"

definition emit_with_exec_mask :: "ir_class \<Rightarrow> ir_type option \<Rightarrow> unit lowering" where
  "emit_with_exec_mask c t =
     bindS (emit_same c t) (\<lambda>_.
     bindS (getS writes_exec) (\<lambda>w. if w then emit_on C_ChangeMask [exec_reg] None else returnS ()))"

section \<open>Labels, comparisons and branches\<close>

definition amd_type_by_suffix :: "(string \<times> ir_type) list" where
  "amd_type_by_suffix =
     [(''b32'', T_B32), (''b64'', T_B64), (''u32'', T_U32), (''u64'', T_U64), (''i32'', T_I32), (''i64'', T_I64),
      (''f32'', T_F32), (''f64'', T_F64)]"

definition parse_compare_opcode :: "string \<Rightarrow> string res" where
  "parse_compare_opcode opcode =
     bind_res (py_nth (split_char CHR ''_'' opcode) 2) (\<lambda>c. if c = [] then Inl NotImplementedError else Inr c)"

definition parse_compare_type :: "string \<Rightarrow> ir_type" where
  "parse_compare_type opcode =
     (case map_of amd_type_by_suffix (last (split_char CHR ''_'' opcode)) of Some t \<Rightarrow> t | None \<Rightarrow> T_I32)"

definition label_rule :: "string \<Rightarrow> rule" where
  "label_rule opcode = Dynamic (emit_on C_Label [Val (butlast opcode)] None)"

definition compare_rule :: "string \<Rightarrow> operand \<Rightarrow> rule res" where
  "compare_rule opcode destination =
     bind_res (parse_compare_opcode opcode) (\<lambda>comparison.
     bind_res (get_compare_class comparison) (\<lambda>c.
       Inr (Dynamic (
         bindS (ctx_operand 0) (\<lambda>a. bindS (ctx_operand 1) (\<lambda>b.
         bindS (emit_on c [destination, a, b] (Some (parse_compare_type opcode))) (\<lambda>_.
           if op_name destination = ''exec'' then emit_on C_ChangeMask [exec_reg] None else returnS ())))))))"

definition vector_compare_rule :: "string \<Rightarrow> rule res" where
  "vector_compare_rule opcode =
     bind_res (parse_compare_opcode opcode) (\<lambda>comparison.
     bind_res (get_compare_class comparison) (\<lambda>c.
       Inr (Dynamic (
         bindS (ctx_operand 0) (\<lambda>a. bindS (ctx_operand 1) (\<lambda>b. bindS (ctx_operand 2) (\<lambda>d.
           emit_on c [a, b, d] (Some (parse_compare_type opcode)))))))))"

definition branch_rule :: "ir_class \<Rightarrow> operand \<Rightarrow> rule" where
  "branch_rule c predicate = Dynamic (bindS (ctx_operand 0) (\<lambda>r. emit_on c [predicate, Val (op_name r)] None))"

definition saveexec_rule :: "ir_class \<Rightarrow> rule" where
  "saveexec_rule c =
     Emits [Emit C_Mov [OperandRef 0, Given exec_reg] (Some T_PRED),
            Emit c [Given exec_reg, Given exec_reg, OperandRef 1] (Some T_B64),
            Emit C_ChangeMask [Given exec_reg] None]"

definition replace_exec :: "operand \<Rightarrow> operand" where
  "replace_exec r = (if op_name r = ''exec'' then Val ''1'' else r)"

definition scalar_cselect_rule :: rule where
  "scalar_cselect_rule =
     Dynamic (bindS (ctx_operand 0) (\<lambda>d. bindS (ctx_operand 2) (\<lambda>b. bindS (ctx_operand 1) (\<lambda>a.
       emit_on C_CSelect [d, replace_exec b, replace_exec a, PredReg ''scc''] (Some T_B64)))))"

section \<open>Local memory\<close>

definition local_address :: "nat \<Rightarrow> emission list" where
  "local_address n =
     [Emit C_Mov [tmp64 ''base'', OperandRef 2] (Some T_B64),
      Emit C_Cvt32To64 [tmp64 ''index'', OperandRef n] (Some T_U64_U32),
      Emit C_Add [tmp64 ''address'', tmp64 ''base'', tmp64 ''index''] (Some T_U64)]"

definition local_store_like :: rule where
  "local_store_like = Emits (local_address 0 @ [Emit C_LocalStore [tmp64 ''address'', OperandRef 1] (Some T_B32)])"

definition local_add_like :: rule where
  "local_add_like = Emits (local_address 0 @ [Emit C_LocalAdd [tmp64 ''address'', OperandRef 1] (Some T_U32)])"

definition local_load :: rule where
  "local_load = Emits (local_address 1 @ [Emit C_LocalLoad [OperandRef 0, tmp64 ''address''] (Some T_B32)])"

section \<open>The table\<close>

definition amd_same :: "(string \<times> ir_class \<times> ir_type option) list" where
  "amd_same =
     [(''s_branch'', C_Jump, None), (''v_add_f64'', C_Add, Some T_F64),
      (''v_sub_f32'', C_Sub, Some T_F32), (''v_mul_u32'', C_MulLo, Some T_U32),
      (''s_mul_u32'', C_MulLo, Some T_U32), (''v_mul_hi_u32'', C_MulHi, Some T_U32),
      (''s_mul_hi_u32'', C_MulHi, Some T_U32), (''v_mul_lo_u32'', C_MulLo, Some T_U32),
      (''s_mul_lo_u32'', C_MulLo, Some T_U32), (''v_mul_i32'', C_MulLo, Some T_I32),
      (''s_mul_i32'', C_MulLo, Some T_I32), (''v_mul_hi_i32'', C_MulHi, Some T_I32),
      (''s_mul_hi_i32'', C_MulHi, Some T_I32), (''v_mul_i32_i24'', C_Mul24, Some T_I32),
      (''v_mul_f32'', C_MulF, Some T_F32), (''v_mad_u32'', C_Mad, Some T_U64_U32),
      (''s_mad_u32'', C_Mad, Some T_U64_U32), (''v_lshl_b32'', C_LShl, Some T_B32),
      (''s_lshl_b32'', C_LShl, Some T_B32), (''s_lshl_b64'', C_LShl, Some T_B64),
      (''v_lshlrev_b32'', C_LShlRev, Some T_B32), (''s_lshlrev_b32'', C_LShlRev, Some T_B32),
      (''v_lshlrev_b64'', C_LShlRev, Some T_B64), (''v_lshr_b32'', C_LShr, Some T_B32),
      (''s_lshr_b32'', C_LShr, Some T_B32), (''v_lshrrev_b32'', C_LShrRev, Some T_B32),
      (''s_lshrrev_b32'', C_LShrRev, Some T_B32), (''v_lshrrev_b64'', C_LShrRev, Some T_B64),
      (''s_ashr_i32'', C_AShr, Some T_I32), (''v_ashrrev_i64'', C_AShrRev, Some T_I64),
      (''v_ashrrev_i32'', C_AShrRev, Some T_I32), (''s_load_dword'', C_Load False, Some T_B32),
      (''s_load_dwordx2'', C_Load False, Some T_B64), (''s_load_dwordx4'', C_Load False, Some T_B128),
      (''flat_load_dword'', C_Load True, Some T_B32), (''flat_load_dwordx2'', C_Load True, Some T_B64),
      (''flat_load_dwordx4'', C_Load True, Some T_B128), (''flat_store_byte'', C_Store True, Some T_B8),
      (''flat_store_short'', C_Store True, Some T_B16), (''flat_store_dword'', C_Store True, Some T_B32),
      (''flat_store_dwordx2'', C_Store True, Some T_B64), (''flat_store_dwordx4'', C_Store True, Some T_B128),
      (''s_store_dword'', C_Store False, Some T_B32), (''s_store_dwordx2'', C_Store False, Some T_B64),
      (''s_bfe_u32'', C_Bfe, Some T_U32), (''v_bfe_u32'', C_Bfe, Some T_U32),
      (''s_bfe_i32'', C_Bfe, Some T_I32), (''v_bfe_i32'', C_Bfe, Some T_I32),
      (''v_perm_b32'', C_Permute32, Some T_B32), (''v_cvt_i32_f32'', C_CvtF32ToI32, Some T_I32_F32),
      (''v_cvt_f64_u32'', C_CvtU32ToF64, Some T_F64_U32), (''v_cvt_f32_i32'', C_CvtI32ToF32, Some T_F32_I32),
      (''v_cvt_f64_i32'', C_CvtI32ToF64, Some T_F64_I32), (''v_cvt_i32_f64'', C_CvtF64ToI32, Some T_I32_F64),
      (''s_endpgm'', C_EndPgm, None), (''s_min_i32'', C_IRMin, Some T_I32)]"

definition amd_ignoring_vcc :: "(string \<times> ir_class \<times> ir_type option) list" where
  "amd_ignoring_vcc =
     [(''v_add_u32'', C_Add, Some T_U32), (''s_add_u32'', C_Add, Some T_U32),
      (''v_addc_u32'', C_AddC, Some T_U32), (''s_addc_u32'', C_AddC, Some T_U32),
      (''s_sub_u32'', C_Sub, Some T_U32), (''v_subrev_u32'', C_SubRev, Some T_U32),
      (''v_sub_u32'', C_Sub, Some T_U32), (''s_subb_u32'', C_Sub, Some T_U32),
      (''v_subb_u32'', C_Sub, Some T_U32)]"

definition amd_with_exec_mask :: "(string \<times> ir_class \<times> ir_type option) list" where
  "amd_with_exec_mask =
     [(''s_and_b32'', C_And, Some T_B32), (''s_and_b64'', C_And, Some T_B64),
      (''v_and_b32'', C_And, Some T_B32), (''s_xor_b32'', C_Xor, Some T_B32),
      (''s_xor_b64'', C_Xor, Some T_B64), (''v_xor_b32'', C_Xor, Some T_B32),
      (''s_or_b32'', C_Or, Some T_B32), (''s_or_b64'', C_Or, Some T_B64),
      (''v_or_b32'', C_Or, Some T_B32), (''s_andn2_b64'', C_Xor, Some T_B64),
      (''v_mov_b32'', C_Mov, Some T_B32), (''s_mov_b32'', C_Mov, Some T_B32),
      (''s_mov_b64'', C_Mov, Some T_B64), (''s_movk_i32'', C_Mov, Some T_I32)]"

definition scc_reg :: operand where
  "scc_reg = PredReg ''scc''"

definition vcc_reg :: operand where
  "vcc_reg = PredReg ''vcc''"

definition amd_other :: "(string \<times> rule) list" where
  "amd_other =
     [(''s_cbranch_scc0'', branch_rule C_BranchNot scc_reg), (''s_cbranch_scc1'', branch_rule C_Branch scc_reg),
      (''s_cbranch_execz'', Emits [Emit C_Ignore [] None]), (''s_cbranch_execnz'', Emits [Emit C_Ignore [] None]),
      (''s_cbranch_vccz'', branch_rule C_BranchNot vcc_reg), (''s_cbranch_vccnz'', branch_rule C_Branch vcc_reg),
      (''s_and_saveexec_b64'', saveexec_rule C_And), (''s_or_saveexec_b64'', saveexec_rule C_Or),
      (''s_xor_saveexec_b64'', saveexec_rule C_Xor), (''s_andn2_saveexec_b64'', saveexec_rule C_Xor),
      (''v_mac_f32'', Emits [Emit C_MacF32 [OperandRef 0, OperandRef 1, OperandRef 2, OperandRef 0] (Some T_F32)]),
      (''ds_write_b32'', local_store_like), (''ds_read_b32'', local_load), (''ds_add_u32'', local_add_like),
      (''s_waitcnt'', Emits [Emit C_Barrier [] None]), (''s_nop'', Emits [Emit C_Ignore [] None]),
      (''v_cndmask_b32'', Emits [Emit C_CSelect [OperandRef 0, OperandRef 2, OperandRef 1, OperandRef 3] (Some T_B32)]),
      (''s_cselect_b64'', scalar_cselect_rule)]"

definition amd_instruction_rules :: "(string \<times> rule) list" where
  "amd_instruction_rules =
     map (\<lambda>(opcode, c, t). (opcode, same c t)) amd_same
     @ map (\<lambda>(opcode, c, t). (opcode, Dynamic (emit_ignoring_vcc c t))) amd_ignoring_vcc
     @ map (\<lambda>(opcode, c, t). (opcode, Dynamic (emit_with_exec_mask c t))) amd_with_exec_mask
     @ amd_other"

definition amd_instruction_rule :: "string \<Rightarrow> rule option res" where
  "amd_instruction_rule opcode =
     (if startswith opcode ''.'' then Inr (Some (label_rule opcode))
      else if startswith opcode ''s_cmp_'' then bind_res (compare_rule opcode scc_reg) (\<lambda>r. Inr (Some r))
      else if startswith opcode ''v_cmpx_'' then bind_res (compare_rule opcode exec_reg) (\<lambda>r. Inr (Some r))
      else if startswith opcode ''v_cmp_'' then bind_res (vector_compare_rule opcode) (\<lambda>r. Inr (Some r))
      else Inr (map_of amd_instruction_rules opcode))"

section \<open>The rules respect their classes\<close>

lemma emit_ignoring_vcc_keeps: "keeps line_ok (emit_ignoring_vcc c t)"
  unfolding emit_ignoring_vcc_def by (auto intro!: emission_keeps)

lemma emit_with_exec_mask_keeps: "keeps line_ok (emit_with_exec_mask c t)"
  unfolding emit_with_exec_mask_def by (auto intro!: emission_keeps)

lemma amd_other_keeps: "(opcode, r) \<in> set amd_other \<Longrightarrow> keeps line_ok (emit_rule r)"
  unfolding amd_other_def branch_rule_def saveexec_rule_def local_store_like_def local_load_def local_add_like_def
    scalar_cselect_rule_def
  by (auto simp: emit_rule_def intro!: emission_keeps)

lemma amd_table_keeps: "map_of amd_instruction_rules opcode = Some r \<Longrightarrow> keeps line_ok (emit_rule r)"
proof -
  assume "map_of amd_instruction_rules opcode = Some r"
  then have "(opcode, r) \<in> set amd_instruction_rules" by (rule map_of_SomeD)
  then have "(\<exists>c t. r = same c t \<or> r = Dynamic (emit_ignoring_vcc c t) \<or> r = Dynamic (emit_with_exec_mask c t))
      \<or> (opcode, r) \<in> set amd_other"
    by (auto simp: amd_instruction_rules_def)
  then show ?thesis
    using amd_other_keeps
    by (auto simp: emit_rule_def same_def emit_same_keeps emit_ignoring_vcc_keeps emit_with_exec_mask_keeps)
qed

interpretation amd: rule_table amd_instruction_rule
proof unfold_locales
  fix opcode r
  assume "amd_instruction_rule opcode = Inr (Some r)"
  then show "keeps line_ok (emit_rule r)"
    unfolding amd_instruction_rule_def
    by (auto simp: emit_rule_def label_rule_def compare_rule_def vector_compare_rule_def split: if_splits
          intro!: emission_keeps intro: amd_table_keeps [unfolded emit_rule_def])
qed

lemma amd_rows_typed:
  "list_all row_typed amd_same" "list_all row_typed amd_ignoring_vcc" "list_all row_typed amd_with_exec_mask"
  by code_simp+

end
