(* ===== verification/PTX_Rules.thy ===== *)
theory PTX_Rules
  imports IR_Lower
begin

text \<open>
  The rules of the PTX reader (\<open>src/src/ir/asm_to_ir/ptx/instruction_rules.py\<close>): what each opcode becomes.
  Branches, comparisons and memory accesses are functions of the opcode's parts; the rest is a table.
\<close>

section \<open>Parsing opcodes\<close>

definition ptx_type_by_suffix :: "(string \<times> ir_type) list" where
  "ptx_type_by_suffix =
     [(''b16'', T_B16), (''b32'', T_B32), (''b64'', T_B64), (''u16'', T_U16), (''u32'', T_U32), (''u64'', T_U64),
      (''s16'', T_I16), (''s32'', T_I32), (''s64'', T_I64), (''f32'', T_F32), (''f64'', T_F64), (''pred'', T_PRED)]"

definition key_res :: "'a option \<Rightarrow> 'a res" where
  "key_res x = (case x of Some y \<Rightarrow> Inr y | None \<Rightarrow> Inl KeyError)"

definition parse_setp_opcode :: "string \<Rightarrow> string res" where
  "parse_setp_opcode opcode =
     (case split_char CHR ''.'' opcode of
        [_, comparison, _] \<Rightarrow>
          Inr (case map_of [(''lo'', ''lt''), (''ls'', ''le''), (''leu'', ''le''), (''hi'', ''gt''), (''hs'', ''ge''),
                            (''geu'', ''ge''), (''equ'', ''eq''), (''neu'', ''ne'')] comparison of
                 Some c \<Rightarrow> c | None \<Rightarrow> comparison)
      | _ \<Rightarrow> Inl NotImplementedError)"

definition parse_ptx_opcode_type :: "string \<Rightarrow> ir_type res" where
  "parse_ptx_opcode_type opcode = key_res (map_of ptx_type_by_suffix (last (split_char CHR ''.'' opcode)))"

definition memory_types :: "string list" where
  "memory_types = [b # w. b \<leftarrow> ''busf'', w \<leftarrow> [''8'', ''16'', ''32'', ''64'']]"

text \<open>One part of a memory opcode: a vector width, a type, or neither.\<close>

definition memory_part :: "string \<Rightarrow> nat \<times> string option \<Rightarrow> nat \<times> string option" where
  "memory_part part = (\<lambda>(width, base).
     if startswith part ''v'' \<and> all_decimal (drop 1 part) then (read_nat 0 (drop 1 part), base)
     else if part \<in> set memory_types then (width, Some part) else (width, base))"

definition parse_memory_access_type :: "string \<Rightarrow> access_type res" where
  "parse_memory_access_type opcode =
     (case fold memory_part (drop 2 (split_char CHR ''.'' opcode)) (1, None) of
        (width, Some base) \<Rightarrow> Inr \<lparr>address_space = ''global'', base_type_name = base, vector_width = width\<rparr>
      | (_, None) \<Rightarrow> Inl NotImplementedError)"

section \<open>Branches and comparisons\<close>

text \<open>The reader passes a register as predicate, never a name.\<close>

definition emit_branch :: "unit lowering" where
  "emit_branch =
     bindS (ctx_operand 0) (\<lambda>r.
     bindS (getS (\<lambda>x. (x_pred x, x_neg x))) (\<lambda>(p, neg).
       let target = Val (''.'' @ op_name r)
       in case p of
            NoPredicate \<Rightarrow> in_kernel (create_instruction C_Jump [target] None NoPredicate False None)
          | PredicateReg q \<Rightarrow>
              in_kernel (create_instruction (if neg then C_BranchNot else C_Branch) [q, target] None NoPredicate False None)
          | PredicateName s \<Rightarrow> raiseS TypeError))"

definition emit_compare :: "ir_class \<Rightarrow> ir_type \<Rightarrow> unit lowering" where
  "emit_compare c t =
     bindS (ctx_operand 0) (\<lambda>a. bindS (ctx_operand 1) (\<lambda>b. bindS (ctx_operand 2) (\<lambda>d. emit_on c [a, b, d] (Some t))))"

definition setp_rule :: "string \<Rightarrow> rule res" where
  "setp_rule opcode =
     bind_res (parse_setp_opcode opcode) (\<lambda>comparison.
     bind_res (parse_ptx_opcode_type opcode) (\<lambda>t.
     bind_res (get_compare_class comparison) (\<lambda>c. Inr (Dynamic (emit_compare c t)))))"

section \<open>Memory accesses\<close>

text \<open>\<open>ctx.emit(c, *args, access_type)\<close>.\<close>

definition emit_access :: "ir_class \<Rightarrow> lowering_arg list \<Rightarrow> access_type \<Rightarrow> unit lowering" where
  "emit_access c args a = emit ((Emit c args None)\<lparr>e_access := Some a\<rparr>)"

definition param_load_rule :: "string \<Rightarrow> (string \<Rightarrow> operand option) \<Rightarrow> rule res" where
  "param_load_rule opcode args_offset =
     bind_res (parse_memory_access_type opcode) (\<lambda>a.
       Inr (Dynamic (
         bindS (ctx_operand 0) (\<lambda>d. bindS (ctx_operand 1) (\<lambda>p.
         bindS (liftS (key_res (args_offset (op_name p)))) (\<lambda>offset.
           emit_access (C_TypedLoad False) [Given d, named64 ''argptr'', Given offset] a))))))"

definition operand_token :: "nat \<Rightarrow> string lowering" where
  "operand_token n =
     bindS (getS x_tokens) (\<lambda>ts.
       if n < length ts then returnS (ts ! n) else bindS (ctx_operand n) (\<lambda>r. returnS (op_name r)))"

text \<open>
  The pattern \<open>[ %base +- offset ]\<close>: the register, the sign and the text of the offset.  Every piece of the
  pattern is a longest match of characters that cannot start the next piece, so it is matched from left
  to right; the hexadecimal and decimal forms of the offset exclude each other.
\<close>

definition is_sign :: "char \<Rightarrow> bool" where
  "is_sign c = (c = CHR ''+'' \<or> c = CHR ''-'')"

definition is_name_char :: "char \<Rightarrow> bool" where
  "is_name_char c = (is_word_char c \<or> c = CHR ''.'' \<or> c = CHR ''$'')"

definition offset_digits :: "string \<Rightarrow> string \<times> string" where
  "offset_digits s =
     (let hex = takeWhile is_hex_char (drop 2 s)
      in if startswith s ''0x'' \<and> hex \<noteq> [] then (''0x'' @ hex, dropWhile is_hex_char (drop 2 s))
         else (takeWhile is_decimal s, dropWhile is_decimal s))"

definition match_address_offset :: "string \<Rightarrow> (string \<times> char \<times> string) option" where
  "match_address_offset token =
     (case token of
        c0 # s1 \<Rightarrow>
          (case lstrip s1 of
             pct # s2 \<Rightarrow>
               (let name = takeWhile is_name_char s2
                in case lstrip (dropWhile is_name_char s2) of
                     sg # s3 \<Rightarrow>
                       (let s4 = lstrip s3;
                            osgn = (case s4 of c # _ \<Rightarrow> if is_sign c then [c] else [] | [] \<Rightarrow> []);
                            (digits, s5) = offset_digits (drop (length osgn) s4)
                        in if c0 = CHR ''['' \<and> pct = CHR ''%'' \<and> name \<noteq> [] \<and> is_sign sg \<and> digits \<noteq> []
                              \<and> lstrip s5 = '']''
                           then Some (pct # name, sg, osgn @ digits) else None)
                   | [] \<Rightarrow> None)
           | [] \<Rightarrow> None)
      | [] \<Rightarrow> None)"

definition parse_memory_address_offset :: "string \<Rightarrow> operand option res" where
  "parse_memory_address_offset token =
     (case match_address_offset token of
        None \<Rightarrow> Inr None
      | Some (_, sg, offset) \<Rightarrow>
          (case int_base0 offset of
             None \<Rightarrow> Inl ValueError
           | Some n \<Rightarrow> Inr (Some (Val (show_int (if sg = CHR ''-'' then - n else n))))))"

definition emit_address_operand :: "nat \<Rightarrow> operand lowering" where
  "emit_address_operand n =
     bindS (operand_token n) (\<lambda>token.
     bindS (liftS (parse_memory_address_offset token)) (\<lambda>found.
       case found of
         None \<Rightarrow> ctx_operand n
       | Some offset \<Rightarrow>
           bindS (ctx_tmp ''offset'' ''32'') (\<lambda>offset32.
           bindS (ctx_tmp ''offset64'' ''64'') (\<lambda>offset64.
           bindS (ctx_tmp ''address'' ''64'') (\<lambda>address.
           bindS (emit_on C_Mov [offset32, offset] (Some T_I32)) (\<lambda>_.
           bindS (emit_on C_Cvt32To64 [offset64, offset32] (Some T_I64_I32)) (\<lambda>_.
           bindS (ctx_operand n) (\<lambda>base.
           bindS (emit_on C_Add [address, base, offset64] (Some T_U64)) (\<lambda>_. returnS address)))))))))"

definition global_load_rule :: "string \<Rightarrow> rule res" where
  "global_load_rule opcode =
     bind_res (parse_memory_access_type opcode) (\<lambda>a.
       Inr (Dynamic (
         bindS (emit_address_operand 1) (\<lambda>address. bindS (ctx_operand 0) (\<lambda>d.
           emit_access (C_TypedLoad True) [Given d, Given address, ValueRef ''0''] a)))))"

definition global_store_rule :: "string \<Rightarrow> rule res" where
  "global_store_rule opcode =
     bind_res (parse_memory_access_type opcode) (\<lambda>a.
       Inr (Dynamic (
         bindS (emit_address_operand 0) (\<lambda>address. bindS (ctx_operand 1) (\<lambda>v.
           emit_access (C_TypedStore True) [Given address, Given v] a)))))"

section \<open>The table\<close>

definition ptx_same :: "(string \<times> ir_class \<times> ir_type option) list" where
  "ptx_same =
     [(''add.s32'', C_Add, Some T_I32), (''add.s64'', C_Add, Some T_I64),
      (''add.s16'', C_Add, Some T_I16), (''add.f64'', C_Add, Some T_F64),
      (''sub.s32'', C_Sub, Some T_I32), (''sub.s64'', C_Sub, Some T_I64),
      (''sub.s16'', C_Sub, Some T_I16), (''sub.f32'', C_Sub, Some T_F32),
      (''mul.lo.s16'', C_MulLo, Some T_I16), (''mul.lo.s32'', C_MulLo, Some T_I32),
      (''mul.hi.s32'', C_MulHi, Some T_I32), (''mul.lo.u32'', C_MulLo, Some T_U32),
      (''mul.hi.u32'', C_MulHi, Some T_U32), (''mul.wide.s32'', C_MulWide, Some T_I64_I32),
      (''mul.wide.u32'', C_MulWide, Some T_U64_U32), (''mul.lo.s64'', C_MulLo, Some T_I64),
      (''mul.f32'', C_MulF, Some T_F32), (''mad.lo.s32'', C_Mad, Some T_I64_I32),
      (''mov.u16'', C_Mov, Some T_U16), (''mov.b32'', C_Mov, Some T_B32),
      (''mov.u32'', C_Mov, Some T_U32), (''mov.b64'', C_Mov, Some T_B64),
      (''mov.u64'', C_Mov, Some T_U64), (''mov.f32'', C_Mov, Some T_F32),
      (''cvt.s64.s32'', C_Cvt32To64, Some T_I64_I32), (''cvt.u64.u32'', C_Cvt32To64, Some T_U64_U32),
      (''cvt.u32.u64'', C_Cvt64To32, Some T_U32_U64), (''cvt.u16.u32'', C_Cvt16To32, Some T_U16_U32),
      (''cvt.rzi.s32.f32'', C_CvtF32ToI32, Some T_I32_F32), (''cvt.rn.f64.u32'', C_CvtU32ToF64, Some T_F64_U32),
      (''cvt.s32.s16'', C_Cvt16To32, Some T_I32_I16), (''shl.b16'', C_LShl, Some T_B16),
      (''shl.b32'', C_LShl, Some T_B32), (''shl.b64'', C_LShl, Some T_B64),
      (''shr.s64'', C_LShr, Some T_I64), (''and.b64'', C_And, Some T_B64),
      (''st.shared.u32'', C_LocalStore, Some T_B32), (''ld.shared.u32'', C_LocalLoad, Some T_B32),
      (''s_bfe_u32'', C_Bfe, Some T_U32), (''v_bfe_u32'', C_Bfe, Some T_U32),
      (''s_bfe_i32'', C_Bfe, Some T_I32), (''v_bfe_i32'', C_Bfe, Some T_I32),
      (''selp.b32'', C_CSelect, Some T_B32), (''selp.b64'', C_CSelect, Some T_B64),
      (''min.s32'', C_IRMin, Some T_I32), (''ret'', C_EndPgm, None),
      (''or.pred'', C_Or, Some T_PRED), (''and.b32'', C_And, Some T_B32),
      (''neg.s32'', C_Not, Some T_I32), (''fma.rn.f32'', C_MacF32, Some T_F32)]"

definition ptx_instruction_rules :: "(string \<times> rule) list" where
  "ptx_instruction_rules =
     map (\<lambda>(opcode, c, t). (opcode, same c t)) ptx_same
     @ [(''atom.shared.add.u32'', Emits [Emit C_LocalAdd [OperandRef 1, OperandRef 2] (Some T_U32)]),
        (''bar.sync'', Emits [Emit C_Barrier [] None])]"

definition ptx_instruction_rule :: "(string \<Rightarrow> operand option) \<Rightarrow> string \<Rightarrow> rule option res" where
  "ptx_instruction_rule args_offset opcode =
     (if opcode = ''bra'' \<or> opcode = ''bra.uni'' then Inr (Some (Dynamic emit_branch))
      else if startswith opcode ''setp.'' then bind_res (setp_rule opcode) (\<lambda>r. Inr (Some r))
      else if startswith opcode ''ld.param.'' then bind_res (param_load_rule opcode args_offset) (\<lambda>r. Inr (Some r))
      else if startswith opcode ''ld.global.'' then bind_res (global_load_rule opcode) (\<lambda>r. Inr (Some r))
      else if startswith opcode ''st.global.'' then bind_res (global_store_rule opcode) (\<lambda>r. Inr (Some r))
      else Inr (map_of ptx_instruction_rules opcode))"

section \<open>The rules respect their classes\<close>

lemma emit_branch_keeps: "keeps line_ok emit_branch"
  unfolding emit_branch_def by (intro emission_keeps) (auto intro!: emission_keeps simp: Let_def split: pred_arg.splits)

lemma emit_compare_keeps: "keeps line_ok (emit_compare c t)"
  unfolding emit_compare_def by (intro emission_keeps)

lemma emit_access_keeps: "keeps line_ok (emit_access c args a)"
  by (simp add: emit_access_def emit_keeps)

lemma operand_token_keeps: "keeps line_ok (operand_token n)"
  unfolding operand_token_def by (auto intro!: emission_keeps)

lemma emit_address_operand_keeps: "keeps line_ok (emit_address_operand n)"
  unfolding emit_address_operand_def
  by (auto intro!: emission_keeps operand_token_keeps split: option.splits)

lemma ptx_table_keeps: "map_of ptx_instruction_rules opcode = Some r \<Longrightarrow> keeps line_ok (emit_rule r)"
proof -
  assume "map_of ptx_instruction_rules opcode = Some r"
  then have "(opcode, r) \<in> set ptx_instruction_rules" by (rule map_of_SomeD)
  then have "(\<exists>c t. r = same c t) \<or> (\<exists>es. r = Emits es)"
    by (auto simp: ptx_instruction_rules_def)
  then show ?thesis by (auto simp: emit_rule_def same_def emit_same_keeps emit_all_keeps)
qed

interpretation ptx: rule_table "ptx_instruction_rule args_offset"
proof unfold_locales
  fix opcode r
  assume "ptx_instruction_rule args_offset opcode = Inr (Some r)"
  then show "keeps line_ok (emit_rule r)"
    unfolding ptx_instruction_rule_def
    by (auto simp: emit_rule_def setp_rule_def param_load_rule_def global_load_rule_def global_store_rule_def ptx_table_keeps
          split: if_splits
          intro!: emit_branch_keeps emit_compare_keeps emission_keeps emit_access_keeps emit_address_operand_keeps
          intro: ptx_table_keeps [unfolded emit_rule_def])
qed

lemma ptx_same_typed: "list_all row_typed ptx_same"
  by code_simp

end
