(* ===== verification/PTX_Read.thy ===== *)
theory PTX_Read
  imports PTX_Rules
begin

text \<open>
  The PTX reader (\<open>src/src/ir/asm_to_ir/ptx\<close>: \<open>ptx_kernel.py\<close>, \<open>register_factory.py\<close>, \<open>asm_to_ir.py\<close>): from a parsed
  PTX kernel to a kernel of the intermediate representation.  How Python prints the number of a 32-bit
  pattern is the parameter \<open>f32_text\<close>.
\<close>

section \<open>The parsed kernel\<close>

record ptx_argument =
  pa_name :: string
  pa_size :: int
  pa_type :: string
  pa_const :: bool
  pa_pointer :: bool
  pa_space :: "string option"
  pa_alignment :: "int option"

record ptx_instruction =
  pi_text :: string
  pi_predicate :: "string option"
  pi_negated :: bool

record ptx_kernel =
  pk_name :: string
  pk_locals :: "(string \<times> int) list"
  pk_work_group_size :: "int list option"
  pk_arguments :: "ptx_argument list"
  pk_registers :: "(string \<times> string) list"
  pk_special_registers :: "string list"
  pk_instructions :: "ptx_instruction list"

section \<open>The register factory\<close>

type_synonym registry = "string \<Rightarrow> operand option"

definition register_prefixes :: "string list" where
  "register_prefixes = [''%r'', ''%rs'', ''%f'', ''%tid'', ''%ctaid'', ''%ntid'', ''%envreg'']"

text \<open>\<open>_create_register\<close>: the parts of a vector, and any other name.\<close>

definition vector_parts :: "string \<Rightarrow> string list" where
  "vector_parts name = filter (\<lambda>p. p \<noteq> []) (map strip (split_char CHR '','' (inner name)))"

definition vector_name :: "string \<Rightarrow> string" where
  "vector_name name = ''{'' @ join '', '' (map strip (split_char CHR '','' (inner name))) @ ''}''"

definition create_scalar :: "string \<Rightarrow> operand res" where
  "create_scalar name =
     bind_res (enclosed CHR ''['' CHR '']'' name) (\<lambda>b.
       let n = (if b then inner name else name)
       in if startswith n ''%rd'' \<or> startswith n ''%fd'' then mk_reg64 n
          else if startswith n ''%p'' then mk_pred n
          else if list_ex (startswith n) register_prefixes then mk_reg32 n
          else Inr (Val n))"

lemma mapS_cong [fundef_cong]:
  "xs = ys \<Longrightarrow> s = t \<Longrightarrow> (\<And>x u. x \<in> set ys \<Longrightarrow> f x u = g x u) \<Longrightarrow> mapS f xs s = mapS g ys t"
proof (induction xs arbitrary: s t ys)
  case (Cons x xs)
  then show ?case by (cases "g x t") (auto simp: method_simps bindS_def)
qed (simp add: method_simps)

lemma vector_parts_length:
  assumes "p \<in> set (vector_parts name)" "name \<noteq> []"
  shows "length p < length name"
proof -
  obtain w where w: "w \<in> set (split_char CHR '','' (inner name))" "p = strip w"
    using assms(1) by (auto simp: vector_parts_def)
  have "length p \<le> length w" using w(2) length_strip by simp
  also have "\<dots> \<le> length (inner name)" using w(1) by (rule split_char_length)
  also have "\<dots> < length name" by (rule length_inner [OF assms(2)])
  finally show ?thesis .
qed

function get_or_create_auto :: "string \<Rightarrow> registry \<Rightarrow> (operand \<times> registry) res" where
  "get_or_create_auto name regs =
     (case regs name of
        Some r \<Rightarrow> Inr (r, regs)
      | None \<Rightarrow>
          bind_res (enclosed CHR ''{'' CHR ''}'' name) (\<lambda>vector.
          bind_res (if vector
                    then bind_res (mapS (\<lambda>p. get_or_create_auto p) (vector_parts name) regs) (\<lambda>(rs, regs1).
                         bind_res (mk_composite (vector_name name) rs) (\<lambda>r. Inr (r, regs1)))
                    else bind_res (create_scalar name) (\<lambda>r. Inr (r, regs))) (\<lambda>(r, regs').
            Inr (r, regs'(name \<mapsto> r)))))"
  by auto
termination
proof (relation "measure (\<lambda>(name, regs). length name)", simp, goal_cases)
  case (1 name regs vector p u)
  then show ?case using vector_parts_length [of p name] by (cases name) (auto simp: enclosed_def first_char_def)
qed

declare get_or_create_auto.simps [simp del]

definition get_or_create :: "string \<Rightarrow> string \<Rightarrow> (registry, operand) action" where
  "get_or_create name t = (\<lambda>regs.
     case regs name of
       Some r \<Rightarrow> Inr (r, regs)
     | None \<Rightarrow>
         bind_res (if t = ''32'' then mk_reg32 name
                   else if t = ''64'' then mk_reg64 name
                   else if t = ''pred'' \<or> t = ''predicate'' then mk_pred name
                   else Inl ValueError) (\<lambda>r. Inr (r, regs(name \<mapsto> r))))"

section \<open>Arguments\<close>

definition strip_array_suffix :: "string \<Rightarrow> string" where
  "strip_array_suffix name = takeWhile (\<lambda>c. c \<noteq> CHR ''['') name"

definition extract_array_size :: "string \<Rightarrow> int option" where
  "extract_array_size name =
     (let text = butlast (drop 1 (dropWhile (\<lambda>c. c \<noteq> CHR ''['') name))
      in if CHR ''['' \<notin> set name \<or> \<not> endswith name '']'' then None
         else if \<not> all_decimal text then None else Some (int (read_nat 0 text)))"

definition align_to_eight :: "int \<Rightarrow> int" where
  "align_to_eight n = ((n + 7) div 8) * 8"

definition argument_declared_size :: "ptx_argument \<Rightarrow> int" where
  "argument_declared_size a =
     (if pa_pointer a then 8
      else let count = (case extract_array_size (pa_name a) of Some n \<Rightarrow> if n \<noteq> 0 then n else 1 | None \<Rightarrow> 1)
           in max 1 (pa_size a div 8) * count)"

definition vector_type_map :: "((string \<times> int) \<times> string) list" where
  "vector_type_map =
     [((''b8'', 2), ''char2''), ((''u8'', 2), ''char2''), ((''s8'', 2), ''char2''),
      ((''b8'', 4), ''char4''), ((''u8'', 4), ''char4''), ((''s8'', 4), ''char4''), ((''b8'', 32), ''uint8'')]"

definition scalar_type_map :: "(string \<times> string) list" where
  "scalar_type_map =
     [(''b8'', ''char''), (''u8'', ''char''), (''s8'', ''char''), (''b16'', ''short''), (''u16'', ''short''),
      (''s16'', ''short''), (''b32'', ''uint''), (''u32'', ''uint''), (''s32'', ''int''), (''b64'', ''ulong''),
      (''u64'', ''ulong''), (''s64'', ''long''), (''f32'', ''float''), (''f64'', ''double'')]"

definition alignment_type_map :: "(int \<times> string) list" where
  "alignment_type_map = [(1, ''char''), (2, ''short''), (4, ''int''), (8, ''long''), (16, ''int4'')]"

definition get_default :: "'v \<Rightarrow> 'v option \<Rightarrow> 'v" where
  "get_default d x = (case x of Some v \<Rightarrow> v | None \<Rightarrow> d)"

definition normalize_arg_type :: "ptx_argument \<Rightarrow> string" where
  "normalize_arg_type a =
     (case Option.bind (extract_array_size (pa_name a)) (\<lambda>n. map_of vector_type_map (pa_type a, n)) of
        Some t \<Rightarrow> t
      | None \<Rightarrow>
          if pa_pointer a
          then let space = (case pa_space a of Some s \<Rightarrow> if s \<noteq> [] then s else ''global'' | None \<Rightarrow> ''global'');
                   t = get_default ''long'' (Option.bind (pa_alignment a) (map_of alignment_type_map))
               in ''__'' @ space @ '' '' @ t
          else get_default (pa_type a) (map_of scalar_type_map (pa_type a)))"

definition normalize_arg_name :: "ptx_argument \<Rightarrow> nat \<Rightarrow> string" where
  "normalize_arg_name a idx = (if pa_pointer a then ''*arg'' else ''arg'') @ show_nat idx"

text \<open>The loop over the arguments from position \<open>idx\<close> and offset on; offsets are kept by the name in the
  PTX text.\<close>

fun read_arguments ::
    "nat \<Rightarrow> int \<Rightarrow> ptx_argument list \<Rightarrow> kernel_arguments \<times> (string \<Rightarrow> operand option)
     \<Rightarrow> (kernel_arguments \<times> (string \<Rightarrow> operand option)) res" where
  "read_arguments idx offset [] st = Inr st"
| "read_arguments idx offset (a # as) (args, offsets) =
     bind_res (add_argument (normalize_arg_name a idx) (normalize_arg_type a) (pa_const a) offset False
                 (Some (argument_declared_size a)) args) (\<lambda>args'.
       read_arguments (Suc idx) (offset + align_to_eight (argument_declared_size a)) as
         (args', offsets(strip_array_suffix (pa_name a) \<mapsto> Val (show_hex (nat offset)))))"

section \<open>Operands\<close>

fun split_operands_from :: "int \<Rightarrow> int \<Rightarrow> string \<Rightarrow> string \<Rightarrow> string list" where
  "split_operands_from brace bracket cur [] = (let w = strip (rev cur) in if w \<noteq> [] then [w] else [])"
| "split_operands_from brace bracket cur (c # cs) =
     (let brace' = (if c = CHR ''{'' then brace + 1 else if c = CHR ''}'' then brace - 1 else brace);
          bracket' = (if c = CHR ''['' then bracket + 1 else if c = CHR '']'' then bracket - 1 else bracket)
      in if c = CHR '','' \<and> brace' = 0 \<and> bracket' = 0
         then (let w = strip (rev cur) in if w \<noteq> [] then [w] else []) @ split_operands_from brace' bracket' [] cs
         else split_operands_from brace' bracket' (c # cur) cs)"

definition split_operands :: "string \<Rightarrow> string list" where
  "split_operands = split_operands_from 0 0 []"

definition normalize_memory_operand :: "string \<Rightarrow> string" where
  "normalize_memory_operand operand =
     (case match_address_offset operand of None \<Rightarrow> operand | Some (name, _, _) \<Rightarrow> ''['' @ name @ '']'')"

text \<open>A literal \<open>0f\<close> and eight digits is the number with that bit pattern; a minus sign flips its sign bit.\<close>

definition normalize_f32_literal :: "(nat \<Rightarrow> string) \<Rightarrow> string \<Rightarrow> string" where
  "normalize_f32_literal f32_text operand =
     (let sgned = (case operand of c # _ \<Rightarrow> is_sign c | [] \<Rightarrow> False);
          body = (if sgned then drop 1 operand else operand);
          digits = drop 2 body
      in if (take 2 body = ''0f'' \<or> take 2 body = ''0F'') \<and> length digits = 8 \<and> list_all is_hex_char digits
         then let bits = read_hex 0 digits
              in f32_text (if sgned \<and> hd operand = CHR ''-'' then (bits + 2 ^ 31) mod 2 ^ 32 else bits)
         else operand)"

section \<open>Special registers\<close>

definition xyz_value :: "string \<Rightarrow> string \<Rightarrow> string \<Rightarrow> string option" where
  "xyz_value base f name =
     (if name = base @ ''.x'' then Some (f @ ''(0)'')
      else if name = base @ ''.y'' then Some (f @ ''(1)'')
      else if name = base @ ''.z'' then Some (f @ ''(2)'') else None)"

definition special_register_value :: "string \<Rightarrow> string option" where
  "special_register_value name =
     (if name \<in> {''%envreg0'', ''%envreg1'', ''%envreg2''} then Some ''0''
      else if name \<in> {''%envreg3'', ''%envreg4'', ''%envreg5''}
        then Some (''get_global_offset('' @ show_nat (read_nat 0 [last name] - 3) @ '')'')
      else if name \<in> {''%envreg6'', ''%envreg7'', ''%envreg8''}
        then Some (''get_num_groups('' @ show_nat (read_nat 0 [last name] - 6) @ '')'')
      else if name = ''%envreg9'' then Some ''get_work_dim()''
      else case xyz_value ''%tid'' ''get_local_id'' name of
        Some v \<Rightarrow> Some v
      | None \<Rightarrow>
          (case xyz_value ''%ctaid'' ''get_group_id'' name of
             Some v \<Rightarrow> Some v
           | None \<Rightarrow> xyz_value ''%ntid'' ''get_local_size'' name))"

section \<open>The reader\<close>

record ptx_reader =
  r_kernel :: kernel
  r_regs :: registry

definition on_kernel :: "(kernel, 'a) action \<Rightarrow> (ptx_reader, 'a) action" where
  "on_kernel m = (\<lambda>s. bind_res (m (r_kernel s)) (\<lambda>(x, k). Inr (x, s\<lparr>r_kernel := k\<rparr>)))"

definition on_regs :: "(registry, 'a) action \<Rightarrow> (ptx_reader, 'a) action" where
  "on_regs m = (\<lambda>s. bind_res (m (r_regs s)) (\<lambda>(x, k). Inr (x, s\<lparr>r_regs := k\<rparr>)))"

text \<open>A method applied to each element, for its effect.\<close>

fun iterS :: "('a \<Rightarrow> ('s, unit) action) \<Rightarrow> 'a list \<Rightarrow> ('s, unit) action" where
  "iterS f [] = returnS ()"
| "iterS f (x # xs) = bindS (f x) (\<lambda>_. iterS f xs)"

definition init_special_register :: "string \<Rightarrow> (ptx_reader, unit) action" where
  "init_special_register raw =
     bindS (liftS (enclosed CHR ''['' CHR '']'' raw)) (\<lambda>b.
       let name = (if b then inner raw else raw)
       in case special_register_value name of
            None \<Rightarrow> returnS ()
          | Some v \<Rightarrow>
              bindS (on_regs (get_or_create_auto name)) (\<lambda>r.
                on_kernel (create_instruction C_InitReg [r, Val v] None NoPredicate False None)))"

definition ensure_predicate :: "string \<Rightarrow> (ptx_reader, operand) action" where
  "ensure_predicate name =
     bindS (on_regs (get_or_create name ''pred'')) (\<lambda>r.
     bindS (on_kernel (modifyS (add_predicate r))) (\<lambda>_. returnS r))"

definition declare_local :: "string \<times> int \<Rightarrow> (ptx_reader, unit) action" where
  "declare_local = (\<lambda>(name, n).
     bindS (on_kernel (modifyS (set_local_memory name n))) (\<lambda>_.
     bindS (on_regs (get_or_create name ''64'')) (\<lambda>_. returnS ())))"

definition declare_register :: "string \<times> string \<Rightarrow> (ptx_reader, unit) action" where
  "declare_register = (\<lambda>(name, t).
     if t = ''pred'' then bindS (ensure_predicate name) (\<lambda>_. returnS ()) else returnS ())"

definition line_of ::
    "operand list \<Rightarrow> pred_arg \<Rightarrow> bool \<Rightarrow> (string \<Rightarrow> operand option) \<Rightarrow> string list \<Rightarrow> kernel \<Rightarrow> line_context" where
  "line_of ops p neg offsets tokens k =
     (new_line k ops)\<lparr>x_pred := p, x_neg := neg, x_args_offset := Some offsets, x_tokens := tokens\<rparr>"

definition read_instruction ::
    "(nat \<Rightarrow> string) \<Rightarrow> (string \<Rightarrow> operand option) \<Rightarrow> ptx_instruction \<Rightarrow> (ptx_reader, unit) action" where
  "read_instruction f32_text offsets ins =
     (let line = strip (pi_text ins)
      in if line = [] then returnS ()
         else if endswith line '':''
           then on_kernel (create_instruction C_Label [Val (''.'' @ butlast line)] None NoPredicate False None)
         else case split_first_blank line of
           [] \<Rightarrow> returnS ()
         | opcode # rest \<Rightarrow>
             let tokens = (case rest of [] \<Rightarrow> [] | r # _ \<Rightarrow> map (normalize_f32_literal f32_text) (split_operands r))
             in bindS (mapS (\<lambda>t. on_regs (get_or_create_auto (normalize_memory_operand t))) tokens) (\<lambda>ops.
                bindS (case pi_predicate ins of
                         None \<Rightarrow> returnS NoPredicate
                       | Some p \<Rightarrow> bindS (ensure_predicate p) (\<lambda>r. returnS (PredicateReg r))) (\<lambda>p.
                  on_kernel (run_line (line_of ops p (pi_negated ins) offsets tokens)
                               (emit_opcode (ptx_instruction_rule offsets) opcode)))))"

definition ptx_start :: "ptx_kernel \<Rightarrow> alloc \<Rightarrow> ptx_reader" where
  "ptx_start src temps =
     \<lparr>r_kernel = new_kernel (pk_name src) (pk_work_group_size src) temps, r_regs = Map.empty\<rparr>"

definition read_kernel :: "(nat \<Rightarrow> string) \<Rightarrow> ptx_kernel \<Rightarrow> (ptx_reader, unit) action" where
  "read_kernel f32_text src =
     bindS (iterS declare_local (pk_locals src)) (\<lambda>_.
     bindS (iterS declare_register (pk_registers src)) (\<lambda>_.
     bindS (getS (\<lambda>s. k_args (r_kernel s))) (\<lambda>args.
     bindS (liftS (read_arguments 0 0 (pk_arguments src) (args, Map.empty))) (\<lambda>(args', offsets).
     bindS (liftS (mk_reg64 ''argptr'')) (\<lambda>ptr.
     bindS (on_kernel (modifyS (\<lambda>k. k\<lparr>k_args := set_arg_ptr ptr args'\<rparr>))) (\<lambda>_.
     bindS (iterS init_special_register (pk_special_registers src)) (\<lambda>_.
       iterS (read_instruction f32_text offsets) (pk_instructions src))))))))"

definition ptx_text_to_ir :: "(nat \<Rightarrow> string) \<Rightarrow> ptx_kernel \<Rightarrow> alloc \<Rightarrow> kernel res" where
  "ptx_text_to_ir f32_text src temps =
     bind_res (read_kernel f32_text src (ptx_start src temps)) (\<lambda>(_, s). Inr (r_kernel s))"

section \<open>The program that is read respects the instruction classes\<close>

abbreviation reader_ok :: "ptx_reader \<Rightarrow> bool" where
  "reader_ok s \<equiv> kernel_ok (r_kernel s)"

lemma iterS_keeps: "(\<And>x. keeps P (f x)) \<Longrightarrow> keeps P (iterS f xs)"
  by (induction xs) (auto intro!: yields_intros yields_bind_keep)

lemma on_kernel_keeps: "keeps kernel_ok m \<Longrightarrow> keeps reader_ok (on_kernel m)"
  by (fastforce simp: yields_def on_kernel_def)

lemma on_regs_keeps: "keeps reader_ok (on_regs m)"
  by (fastforce simp: yields_def on_regs_def)

lemma line_of_kernel [simp]: "x_kernel (line_of ops p neg offsets tokens k) = k"
  by (simp add: line_of_def new_line_def)

lemmas reader_keeps =
  yields_intros yields_bind_keep iterS_keeps mapS_keeps on_kernel_keeps on_regs_keeps create_instruction_keeps

lemma ensure_predicate_keeps: "keeps reader_ok (ensure_predicate name)"
  unfolding ensure_predicate_def by (intro reader_keeps) auto

lemma read_instruction_keeps: "keeps reader_ok (read_instruction f32_text offsets ins)"
  unfolding read_instruction_def
  by (auto simp: Let_def intro!: reader_keeps ensure_predicate_keeps ptx.run_line_keeps split: list.split option.split)

lemma init_special_register_keeps: "keeps reader_ok (init_special_register raw)"
  unfolding init_special_register_def by (auto simp: Let_def intro!: reader_keeps split: option.split)

lemma read_kernel_keeps: "keeps reader_ok (read_kernel f32_text src)"
  unfolding read_kernel_def declare_local_def declare_register_def
  by (auto intro!: reader_keeps ensure_predicate_keeps read_instruction_keeps init_special_register_keeps split: prod.split)

text \<open>
  C24: a kernel read from PTX is well typed: each of its instructions, also those that the rules build from
  several emissions or on temporaries, carries an operation type that its class permits, the opcode of
  its class, and a negation only together with a predicate.
\<close>

theorem ptx_kernel_well_typed:
  assumes "ptx_text_to_ir f32_text src temps = Inr k"
  shows "list_all instr_ok (k_instrs k)"
  using yieldsD [OF read_kernel_keeps [of f32_text src], of "ptx_start src temps"] assms
  by (auto simp: ptx_text_to_ir_def ptx_start_def kernel_ok_def [symmetric])


section \<open>The layout of the arguments\<close>

lemma argument_declared_size_pos: "0 < argument_declared_size a"
proof -
  have "0 < ((case extract_array_size (pa_name a) of Some n \<Rightarrow> if n \<noteq> 0 then n else 1 | None \<Rightarrow> 1) :: int)"
    by (auto simp: extract_array_size_def Let_def split: option.splits if_splits)
  then show ?thesis by (auto simp: argument_declared_size_def Let_def intro!: mult_pos_pos)
qed

lemma align_to_eight: "n \<le> align_to_eight n" "8 dvd align_to_eight n"
  unfolding align_to_eight_def by presburger+

definition laid_out :: "kernel_argument list \<Rightarrow> int \<Rightarrow> bool" where
  "laid_out xs offset \<longleftrightarrow>
     sorted_wrt (\<lambda>x y. arg_offset x + get_default 0 (declared_size x) \<le> arg_offset y) xs
   \<and> list_all (\<lambda>x. 8 dvd arg_offset x \<and> 0 < get_default 0 (declared_size x)
                \<and> arg_offset x + get_default 0 (declared_size x) \<le> offset) xs"

text \<open>The layout of the arguments read so far, their table, and the offsets recorded for their names.\<close>

definition layout_inv :: "ptx_argument list \<Rightarrow> int \<Rightarrow> kernel_arguments \<Rightarrow> (string \<Rightarrow> operand option) \<Rightarrow> bool" where
  "layout_inv done_args offset args offsets \<longleftrightarrow>
     arguments_ok args \<and> laid_out (arg_list args) offset \<and> length (arg_list args) = length done_args
   \<and> list_all (\<lambda>a. \<exists>x \<in> set (arg_list args).
        offsets (strip_array_suffix (pa_name a)) = Some (Val (show_hex (nat (arg_offset x))))) done_args"

lemma add_argument_total: "\<exists>args'. add_argument n t c p h d args = Inr args'"
proof -
  obtain s where "argument_size n t = Inr s" using evaluate_size_total [of "make_asm_type t"]
    by (cases "startswith n ''*''") (auto simp: argument_size_def)
  then show ?thesis by (simp add: add_argument_def)
qed

lemma laid_out_snoc:
  assumes "laid_out xs offset" "8 dvd offset" "arg_offset x = offset" "declared_size x = Some n" "0 < n"
  shows "laid_out (xs @ [x]) (offset + align_to_eight n)"
  using assms align_to_eight [of n]
  by (fastforce simp: laid_out_def sorted_wrt_append list_all_iff get_default_def)

lemma read_arguments_layout:
  assumes "layout_inv ds offset args offsets" "8 dvd offset"
  shows "\<exists>args' offsets' end. read_arguments idx offset as (args, offsets) = Inr (args', offsets')
           \<and> layout_inv (ds @ as) end args' offsets'"
  using assms
proof (induction as arbitrary: ds idx offset args offsets)
  case Nil
  then show ?case by auto
next
  case (Cons a as)
  let ?n = "argument_declared_size a"
  obtain args1 where add: "add_argument (normalize_arg_name a idx) (normalize_arg_type a) (pa_const a) offset False
      (Some ?n) args = Inr args1"
    using add_argument_total by blast
  then obtain z where list1: "arg_list args1 = arg_list args @ [z]" "arg_offset z = offset" "declared_size z = Some ?n"
    by (auto simp: add_argument_def)
  let ?offsets = "offsets(strip_array_suffix (pa_name a) \<mapsto> Val (show_hex (nat offset)))"
  have "laid_out (arg_list args1) (offset + align_to_eight ?n)"
    unfolding list1(1) using Cons.prems list1 argument_declared_size_pos
    by (intro laid_out_snoc) (auto simp: layout_inv_def)
  then have "layout_inv (ds @ [a]) (offset + align_to_eight ?n) args1 ?offsets"
    using Cons.prems add_argument_ok [OF _ add] list1 by (auto simp: layout_inv_def list_all_iff)
  moreover have "8 dvd offset + align_to_eight ?n" using Cons.prems align_to_eight by simp
  ultimately show ?case using Cons.IH [of "ds @ [a]"] add by simp
qed

text \<open>
  C27: the arguments of a PTX kernel are laid out as the driver passes them: reading them always succeeds,
  their table keeps its invariant, every argument starts at a multiple of 8 and ends before the next one
  starts, and every name of the PTX text leads to the offset of an argument.
\<close>

theorem ptx_argument_layout:
  "\<exists>args offsets end. read_arguments 0 0 as (no_arguments, Map.empty) = Inr (args, offsets)
     \<and> layout_inv as end args offsets"
  using read_arguments_layout [of "[]" 0 no_arguments Map.empty 0 as] no_arguments_ok
  by (simp add: layout_inv_def laid_out_def no_arguments_def)

section \<open>Operands that are joined are split again\<close>

fun depth_after :: "int \<times> int \<Rightarrow> string \<Rightarrow> (int \<times> int) option" where
  "depth_after bk [] = Some bk"
| "depth_after (b, k) (c # cs) =
     (let b' = (if c = CHR ''{'' then b + 1 else if c = CHR ''}'' then b - 1 else b);
          k' = (if c = CHR ''['' then k + 1 else if c = CHR '']'' then k - 1 else k)
      in if c = CHR '','' \<and> b' = 0 \<and> k' = 0 then None else depth_after (b', k') cs)"

text \<open>An operand: no surrounding blanks, brackets balanced, commas only within brackets.\<close>

definition plain_operand :: "string \<Rightarrow> bool" where
  "plain_operand w \<longleftrightarrow> trimmed w \<and> depth_after (0, 0) w = Some (0, 0)"

lemma split_operands_scan:
  "depth_after (b, k) w = Some (b', k') \<Longrightarrow>
     split_operands_from b k cur (w @ rest) = split_operands_from b' k' (rev w @ cur) rest"
  by (induction "(b, k)" w arbitrary: b k cur rule: depth_after.induct) (auto simp: Let_def split: if_splits)

lemma split_operands_one:
  assumes "plain_operand w"
  shows "split_operands_from 0 0 cur (w @ rest) = split_operands_from 0 0 (rev w @ cur) rest"
  using assms split_operands_scan [of 0 0 w 0 0] by (simp add: plain_operand_def)

lemma split_operands_join:
  "list_all plain_operand ws \<Longrightarrow> ws \<noteq> [] \<Longrightarrow> strip (rev cur @ hd ws) = hd ws \<Longrightarrow>
     split_operands_from 0 0 cur (join '', '' ws) = ws"
proof (induction ws arbitrary: cur)
  case (Cons w ws)
  have w: "plain_operand w" "w \<noteq> []" using Cons.prems by (auto simp: plain_operand_def trimmed_def)
  show ?case
  proof (cases ws)
    case Nil
    then show ?thesis using split_operands_one [OF w(1), of cur "[]"] w Cons.prems by (simp add: Let_def)
  next
    case (Cons v vs)
    have "strip ('' '' @ v) = v" using Cons.prems Cons by (simp add: strip_trimmed plain_operand_def)
    then have "split_operands_from 0 0 '' '' (join '', '' ws) = ws"
      using Cons.IH [of "'' ''"] Cons.prems Cons by simp
    then show ?thesis
      using split_operands_one [OF w(1), of cur "'', '' @ join '', '' ws"] w Cons.prems Cons by (simp add: Let_def)
  qed
qed simp

text \<open>
  C28: splitting the operands of an instruction inverts joining them with a comma and a blank, vectors in
  braces and addresses in brackets included.
\<close>

theorem split_operands_roundtrip:
  assumes "list_all plain_operand ws"
  shows "split_operands (join '', '' ws) = ws"
proof (cases "ws = []")
  case False
  with assms have "strip (hd ws) = hd ws" by (cases ws) (auto simp: strip_trimmed plain_operand_def)
  with False split_operands_join [OF assms False, of "[]"] show ?thesis by (simp add: split_operands_def)
qed (simp add: split_operands_def strip_def lstrip_def)

theorem split_operands_roundtrip_witness:
  "split_operands (join '', '' [''{%r1, %r2}'', ''[%rd1+4]'', ''0'']) = [''{%r1, %r2}'', ''[%rd1+4]'', ''0'']"
  by (rule split_operands_roundtrip) (simp add: plain_operand_def trimmed_def is_blank_def)

section \<open>A small kernel\<close>

definition ptx_line :: "string \<Rightarrow> ptx_instruction" where
  "ptx_line s = \<lparr>pi_text = s, pi_predicate = None, pi_negated = False\<rparr>"

definition sample_ptx :: ptx_kernel where
  "sample_ptx =
     \<lparr>pk_name = ''k'', pk_locals = [], pk_work_group_size = None,
      pk_arguments =
        [\<lparr>pa_name = ''k_param_0'', pa_size = 64, pa_type = ''u64'', pa_const = False, pa_pointer = True, pa_space = None,
          pa_alignment = Some 4\<rparr>],
      pk_registers = [(''%p1'', ''pred'')], pk_special_registers = [''%tid.x''],
      pk_instructions =
        [ptx_line ''ld.param.u64 %rd1, [k_param_0]'', ptx_line ''setp.lt.s32 %p1, %r1, 0'',
         \<lparr>pi_text = ''bra BB0_1'', pi_predicate = Some ''%p1'', pi_negated = True\<rparr>,
         ptx_line ''st.global.u32 [%rd1+4], %r1'', ptx_line ''BB0_1:'', ptx_line ''ret'']\<rparr>"

lemma sample_ptx_reads:
  "case ptx_text_to_ir show_nat sample_ptx Map.empty of
     Inr k \<Rightarrow> map i_class (k_instrs k) =
       [C_InitReg, C_TypedLoad False, C_Compare CLt, C_BranchNot, C_Mov, C_Cvt32To64, C_Add, C_TypedStore True, C_Label,
        C_EndPgm]
   | Inl e \<Rightarrow> False"
  by code_simp

theorem ptx_kernel_well_typed_witness:
  "\<exists>k. ptx_text_to_ir show_nat sample_ptx Map.empty = Inr k \<and> length (k_instrs k) = 10 \<and> list_all instr_ok (k_instrs k)"
proof -
  obtain k where k: "ptx_text_to_ir show_nat sample_ptx Map.empty = Inr k"
    "map i_class (k_instrs k) =
       [C_InitReg, C_TypedLoad False, C_Compare CLt, C_BranchNot, C_Mov, C_Cvt32To64, C_Add, C_TypedStore True, C_Label,
        C_EndPgm]"
    using sample_ptx_reads by (auto split: sum.splits)
  from k(2) have "length (map i_class (k_instrs k)) = 10" by simp
  with k(1) ptx_kernel_well_typed [OF k(1)] show ?thesis by simp
qed

end
