(* ===== verification/AMD_Read.thy ===== *)
theory AMD_Read
  imports AMD_Rules PTX_Read
begin

text \<open>
  The AMD reader (\<open>src/src/ir/asm_to_ir/amd\<close>: \<open>register_factory.py\<close>, \<open>asm_to_ir.py\<close>): from the lines of a listing
  and the configuration of a kernel (\<open>src/src/model/config_data.py\<close>) to a kernel of the intermediate
  representation.
\<close>

section \<open>The register factory\<close>

definition reg_class_matches :: "string \<Rightarrow> operand \<Rightarrow> bool res" where
  "reg_class_matches t r =
     (if t = ''32'' then Inr (case r of Reg32 s \<Rightarrow> True | _ \<Rightarrow> False)
      else if t = ''64'' then Inr (is_reg64 r)
      else if t = ''pred'' then Inr (is_predicate r)
      else if t = ''composite'' then Inr (is_range r)
      else Inl UnknownRegisterTypeError)"

text \<open>\<open>get_or_create(name, t, sub_regs)\<close>; what is registered is checked against the requested class.\<close>

definition checked :: "string \<Rightarrow> operand \<Rightarrow> registry \<Rightarrow> (operand \<times> registry) res" where
  "checked t r regs =
     bind_res (reg_class_matches t r) (\<lambda>ok. if ok then Inr (r, regs) else Inl RegisterTypeConflictError)"

definition amd_get32 :: "string \<Rightarrow> (registry, operand) action" where
  "amd_get32 name = (\<lambda>regs.
     case regs name of
       Some r \<Rightarrow> checked ''32'' r regs
     | None \<Rightarrow> bind_res (mk_reg32 name) (\<lambda>r. Inr (r, regs(name \<mapsto> r))))"

definition amd_get_or_create :: "string \<Rightarrow> string \<Rightarrow> string list \<Rightarrow> (registry, operand) action" where
  "amd_get_or_create name t sub_regs = (\<lambda>regs.
     case regs name of
       Some r \<Rightarrow> checked t r regs
     | None \<Rightarrow>
         bind_res (if t = ''32'' then bind_res (mk_reg32 name) (\<lambda>r. Inr (r, regs))
                   else if t = ''64'' then bind_res (mk_reg64 name) (\<lambda>r. Inr (r, regs))
                   else if t = ''pred'' then bind_res (mk_pred name) (\<lambda>r. Inr (r, regs))
                   else if t = ''composite''
                   then bind_res (mapS amd_get32 sub_regs regs) (\<lambda>(rs, regs1).
                        bind_res (mk_composite name rs) (\<lambda>r. Inr (r, regs1)))
                   else Inl UnknownRegisterTypeError) (\<lambda>(r, regs'). Inr (r, regs'(name \<mapsto> r))))"

text \<open>\<open>v[0:1]\<close>, \<open>s[10:12]\<close>: the pattern is matched at the start of the token.\<close>

definition matches_range :: "char \<Rightarrow> string \<Rightarrow> bool" where
  "matches_range p token =
     (let s1 = drop 2 token; s2 = dropWhile is_decimal s1; s3 = dropWhile is_decimal (drop 1 s2)
      in take 2 token = [p, CHR ''[''] \<and> takeWhile is_decimal s1 \<noteq> [] \<and> take 1 s2 = '':''
         \<and> takeWhile is_decimal (drop 1 s2) \<noteq> [] \<and> take 1 s3 = '']'')"

definition is_range_token :: "string \<Rightarrow> bool" where
  "is_range_token token = (matches_range CHR ''v'' token \<or> matches_range CHR ''s'' token)"

definition is_sgpr :: "string \<Rightarrow> bool" where
  "is_sgpr token = (take 1 token = ''s'' \<and> takeWhile is_decimal (drop 1 token) \<noteq> [])"

definition is_vgpr :: "string \<Rightarrow> bool" where
  "is_vgpr token = (take 1 token = ''v'' \<and> takeWhile is_decimal (drop 1 token) \<noteq> [] \<or> token = ''vcc'')"

definition is_reg_token :: "string \<Rightarrow> bool" where
  "is_reg_token token = (is_sgpr token \<or> is_vgpr token)"

definition split_range :: "string \<Rightarrow> (string \<times> string) res" where
  "split_range reg =
     (case split_char CHR '':'' reg of
        [a, b] \<Rightarrow> Inr (hd reg # drop 2 a, hd reg # butlast b)
      | _ \<Rightarrow> Inl ValueError)"

definition value_res :: "'a option \<Rightarrow> 'a res" where
  "value_res x = (case x of Some y \<Rightarrow> Inr y | None \<Rightarrow> Inl ValueError)"

definition range_names :: "char \<Rightarrow> int \<Rightarrow> int \<Rightarrow> string list" where
  "range_names p first_idx last_idx = map (\<lambda>n. p # show_int n) [first_idx .. last_idx]"

definition parse_operand :: "string \<Rightarrow> (registry, operand) action" where
  "parse_operand token =
     (if is_range_token token
      then bindS (liftS (split_range token)) (\<lambda>(a, b).
           bindS (liftS (value_res (int_base10 (drop 1 a)))) (\<lambda>m.
           bindS (liftS (value_res (int_base10 (drop 1 b)))) (\<lambda>n.
           bindS (mapS (\<lambda>s. amd_get32 s) (range_names (hd token) m n)) (\<lambda>rs.
             amd_get_or_create token ''composite'' (map op_name rs)))))
      else if token \<in> {''exec'', ''vcc'', ''scc''} then amd_get_or_create token ''pred'' []
      else if is_reg_token token then amd_get_or_create token ''32'' []
      else returnS (Val token))"

section \<open>Global data\<close>

fun after_first :: "string \<Rightarrow> string \<Rightarrow> string option" where
  "after_first p [] = (if p = [] then Some [] else None)"
| "after_first p (c # cs) = (if startswith (c # cs) p then Some (drop (length p) (c # cs)) else after_first p cs)"

definition get_gdata_offset :: "string \<Rightarrow> nat" where
  "get_gdata_offset instruction =
     (case after_first ''.gdata'' instruction of
        Some (c # cs) \<Rightarrow> if c = CHR ''+'' then read_nat 0 (takeWhile is_decimal cs) else 0
      | _ \<Rightarrow> 0)"

definition get_gdata_name :: "nat \<Rightarrow> string" where
  "get_gdata_name offset = ''arr'' @ show_nat offset @ ''__gdata''"

definition gdata_offsets :: "string list \<Rightarrow> nat list" where
  "gdata_offsets instructions = sort (remdups (map get_gdata_offset (filter (\<lambda>i. contains i ''.gdata'') instructions)))"

fun set_global_slices :: "string list \<Rightarrow> nat list \<Rightarrow> kernel \<Rightarrow> kernel" where
  "set_global_slices bytes (a # b # bs) k =
     set_global_slices bytes (b # bs) (set_global_memory (get_gdata_name a) (drop a (take b bytes)) k)"
| "set_global_slices bytes bs k = k"

definition process_global_data :: "string list \<Rightarrow> string list \<Rightarrow> kernel \<Rightarrow> (nat \<Rightarrow> string option) \<times> kernel" where
  "process_global_data instructions bytes k =
     (let offsets = gdata_offsets instructions
      in if offsets = [] then (Map.empty, k)
         else (map_of (map (\<lambda>n. (n, get_gdata_name n)) offsets),
               set_global_slices bytes (offsets @ [length bytes]) k))"

section \<open>Lines\<close>

record config_data =
  cf_kernel_name :: string
  cf_dimensions :: string
  cf_usesetup :: bool
  cf_work_groups :: "int list option"
  cf_arguments :: "kernel_argument list"
  cf_local_size :: int

record amd_reader =
  a_kernel :: kernel
  a_regs :: registry
  a_offsets :: "(int \<times> string) list"

definition amd_on_kernel :: "(kernel, 'a) action \<Rightarrow> (amd_reader, 'a) action" where
  "amd_on_kernel m = (\<lambda>s. bind_res (m (a_kernel s)) (\<lambda>(x, k). Inr (x, s\<lparr>a_kernel := k\<rparr>)))"

definition amd_on_regs :: "(registry, 'a) action \<Rightarrow> (amd_reader, 'a) action" where
  "amd_on_regs m = (\<lambda>s. bind_res (m (a_regs s)) (\<lambda>(x, k). Inr (x, s\<lparr>a_regs := k\<rparr>)))"

definition normalize_opcode :: "string \<Rightarrow> string" where
  "normalize_opcode opcode = removesuffix (removesuffix opcode ''_e32'') ''_e64''"

definition parse_amd_operand :: "(nat \<Rightarrow> string option) \<Rightarrow> string \<Rightarrow> (amd_reader, operand) action" where
  "parse_amd_operand globals raw =
     (let operand = rstrip_char CHR '','' raw
      in if contains operand ''.gdata''
         then let n = get_gdata_offset operand
              in amd_on_regs (amd_get_or_create (get_default (get_gdata_name n) (globals n)) ''64'' [])
         else if contains operand ''offset''
         then bindS (liftS (value_res (int_base10 (drop 7 operand)))) (\<lambda>n.
              bindS (modifyS (\<lambda>s. s\<lparr>a_offsets := dict_set n (''lc'' @ show_int n) (a_offsets s)\<rparr>)) (\<lambda>_.
                amd_on_regs (amd_get_or_create (''lc'' @ show_int n) ''64'' [])))
         else amd_on_regs (parse_operand operand))"

definition parse_amd_line ::
    "(nat \<Rightarrow> string option) \<Rightarrow> string \<Rightarrow> (amd_reader, (string \<times> operand list) option) action" where
  "parse_amd_line globals raw =
     (case split_blanks raw of
        [] \<Rightarrow> returnS None
      | opcode # rest \<Rightarrow>
          let parts = opcode # rest;
              parts' = (if contains opcode ''ds'' \<and> \<not> contains (last parts) ''offset'' then parts @ [''offset:0''] else parts)
          in if 1 < length parts' \<and> parts' ! 1 = ''m0,'' then returnS None
             else bindS (mapS (parse_amd_operand globals) (tl parts')) (\<lambda>ops. returnS (Some (opcode, ops))))"

definition read_amd_line :: "(nat \<Rightarrow> string option) \<Rightarrow> string \<Rightarrow> (amd_reader, unit) action" where
  "read_amd_line globals raw =
     bindS (parse_amd_line globals raw) (\<lambda>parsed.
       case parsed of
         None \<Rightarrow> returnS ()
       | Some (opcode, ops) \<Rightarrow>
           amd_on_kernel (run_line (\<lambda>k. new_line k ops) (emit_opcode amd_instruction_rule (normalize_opcode opcode))))"

section \<open>The reader\<close>

definition create_plain :: "ir_class \<Rightarrow> operand list \<Rightarrow> (amd_reader, unit) action" where
  "create_plain c ops = amd_on_kernel (create_instruction c ops None NoPredicate False None)"

definition dispatch_stores :: "(string \<times> string) list" where
  "dispatch_stores =
     [(''general_setup'', ''0''), (''get_local_size(0)'', ''4''), (''get_local_size(2)'', ''8''),
      (''get_global_size(0)'', ''12''), (''get_global_size(1)'', ''16''), (''get_global_size(2)'', ''20''),
      (''UNKNOWN'', ''24'')]"

definition init_dispatch_reg :: "operand \<Rightarrow> (amd_reader, unit) action" where
  "init_dispatch_reg r =
     bindS (create_plain C_MemAlloc [r]) (\<lambda>_.
       iterS (\<lambda>(v, n). create_plain C_MemStore [r, Val v, Val ''uint'', Val n]) dispatch_stores)"

definition declare_predicate :: "string \<Rightarrow> (amd_reader, unit) action" where
  "declare_predicate name =
     bindS (amd_on_regs (parse_operand name)) (\<lambda>r. amd_on_kernel (modifyS (add_predicate r)))"

definition declare_argument :: "kernel_argument \<Rightarrow> (amd_reader, unit) action" where
  "declare_argument a =
     (if startswith (removeprefix (arg_name a) ''*'') ''_'' then returnS ()
      else bindS (getS (\<lambda>s. k_args (a_kernel s))) (\<lambda>args.
           bindS (liftS (add_argument (arg_name a) (type_name a) (arg_const a) (arg_offset a) (arg_hidden a) None args)) (\<lambda>args'.
             amd_on_kernel (modifyS (\<lambda>k. k\<lparr>k_args := args'\<rparr>)))))"

text \<open>\<open>max(cf.dimensions.split(","), key=len)\<close>.\<close>

definition longest_dimension :: "string \<Rightarrow> string" where
  "longest_dimension text =
     (case split_char CHR '','' text of
        [] \<Rightarrow> []
      | p # ps \<Rightarrow> foldl (\<lambda>(best :: string) p. if length best < length p then p else best) p ps)"

definition init_dimension :: "nat \<Rightarrow> nat \<Rightarrow> (amd_reader, unit) action" where
  "init_dimension g_id_shift d =
     bindS (amd_on_regs (parse_operand (''s'' @ show_nat (g_id_shift + d)))) (\<lambda>g.
     bindS (create_plain C_InitReg [g, Val (''get_group_id('' @ show_nat d @ '')'')]) (\<lambda>_.
     bindS (amd_on_regs (parse_operand (''v'' @ show_nat d))) (\<lambda>l.
       create_plain C_InitReg [l, Val (''get_local_id('' @ show_nat d @ '')'')])))"

text \<open>The local arrays: each offset seen begins an array that ends at the next one, or at the size of local
  memory.\<close>

fun set_local_blocks :: "(int \<Rightarrow> string option) \<Rightarrow> int list \<Rightarrow> kernel \<Rightarrow> kernel res" where
  "set_local_blocks names (a # b # bs) k =
     bind_res (key_res (names a)) (\<lambda>n. set_local_blocks names (b # bs) (set_local_memory n (b - a) k))"
| "set_local_blocks names bs k = Inr k"

definition declare_locals :: "int \<Rightarrow> (amd_reader, unit) action" where
  "declare_locals local_size = (\<lambda>s.
     bind_res (set_local_blocks (map_of (a_offsets s)) (sort (map fst (a_offsets s) @ [local_size])) (a_kernel s))
       (\<lambda>k. Inr ((), s\<lparr>a_kernel := k\<rparr>)))"

definition read_listing :: "string list \<Rightarrow> config_data \<Rightarrow> string list \<Rightarrow> string list \<Rightarrow> (amd_reader, unit) action" where
  "read_listing text cf bytes gdata =
     bindS (iterS declare_predicate [''exec'', ''vcc'', ''scc'']) (\<lambda>_.
     bindS (amd_on_kernel (\<lambda>k. Inr (process_global_data gdata bytes k))) (\<lambda>globals.
     bindS (iterS declare_argument (cf_arguments cf)) (\<lambda>_.
     bindS (amd_on_regs (parse_operand (if cf_usesetup cf then ''s[6:7]'' else ''s[4:5]''))) (\<lambda>ptr.
     bindS (amd_on_kernel (modifyS (\<lambda>k. k\<lparr>k_args := set_arg_ptr ptr (k_args k)\<rparr>))) (\<lambda>_.
     bindS (if cf_usesetup cf then bindS (amd_on_regs (parse_operand ''s[4:5]'')) init_dispatch_reg else returnS ()) (\<lambda>_.
     bindS (iterS (init_dimension (if cf_usesetup cf then 8 else 6)) [0 ..< length (longest_dimension (cf_dimensions cf))]) (\<lambda>_.
     bindS (iterS (read_amd_line globals) text) (\<lambda>_. declare_locals (cf_local_size cf)))))))))"

definition amd_start :: "config_data \<Rightarrow> alloc \<Rightarrow> amd_reader" where
  "amd_start cf temps =
     \<lparr>a_kernel = new_kernel (cf_kernel_name cf) (cf_work_groups cf) temps, a_regs = Map.empty, a_offsets = []\<rparr>"

definition amd_text_to_ir :: "string list \<Rightarrow> config_data \<Rightarrow> string list \<Rightarrow> string list \<Rightarrow> alloc \<Rightarrow> kernel res" where
  "amd_text_to_ir text cf bytes gdata temps =
     bind_res (read_listing text cf bytes gdata (amd_start cf temps)) (\<lambda>(_, s). Inr (a_kernel s))"

section \<open>The program that is read respects the instruction classes\<close>

abbreviation amd_ok :: "amd_reader \<Rightarrow> bool" where
  "amd_ok s \<equiv> kernel_ok (a_kernel s)"

lemma amd_on_kernel_keeps: "keeps kernel_ok m \<Longrightarrow> keeps amd_ok (amd_on_kernel m)"
  by (fastforce simp: yields_def amd_on_kernel_def)

lemma amd_on_regs_keeps: "keeps amd_ok (amd_on_regs m)"
  by (fastforce simp: yields_def amd_on_regs_def)

lemmas listing_keeps =
  yields_intros yields_bind_keep iterS_keeps mapS_keeps amd_on_kernel_keeps amd_on_regs_keeps create_instruction_keeps

lemma create_plain_keeps: "keeps amd_ok (create_plain c ops)"
  unfolding create_plain_def by (intro listing_keeps)

lemma parse_amd_operand_keeps: "keeps amd_ok (parse_amd_operand globals raw)"
  unfolding parse_amd_operand_def by (auto simp: Let_def intro!: listing_keeps)

lemma read_amd_line_keeps: "keeps amd_ok (read_amd_line globals raw)"
proof -
  have "keeps amd_ok (parse_amd_line globals raw)"
    unfolding parse_amd_line_def
    by (auto simp: Let_def intro!: listing_keeps parse_amd_operand_keeps split: list.split)
  moreover have "keeps kernel_ok (run_line (\<lambda>k. new_line k ops) (emit_opcode amd_instruction_rule opcode))" for ops opcode
    by (rule amd.run_line_keeps) (simp add: new_line_def)
  ultimately show ?thesis
    unfolding read_amd_line_def by (auto intro!: listing_keeps split: option.split)
qed

lemma init_dispatch_reg_keeps: "keeps amd_ok (init_dispatch_reg r)"
  unfolding init_dispatch_reg_def by (auto intro!: listing_keeps create_plain_keeps split: prod.split)

lemma set_global_slices_ok: "kernel_ok (set_global_slices bytes bs k) = kernel_ok k"
  by (induction bytes bs k rule: set_global_slices.induct) auto

lemma set_local_blocks_ok: "set_local_blocks names bs k = Inr k' \<Longrightarrow> kernel_ok k' = kernel_ok k"
  by (induction names bs k rule: set_local_blocks.induct) auto

lemma process_global_data_keeps: "keeps kernel_ok (\<lambda>k. Inr (process_global_data gdata bytes k))"
  by (auto simp: yields_def process_global_data_def Let_def set_global_slices_ok split: if_splits)

lemma declare_locals_keeps: "keeps amd_ok (declare_locals n)"
  by (auto simp: yields_def declare_locals_def set_local_blocks_ok)

lemma read_listing_keeps: "keeps amd_ok (read_listing text cf bytes gdata)"
  unfolding read_listing_def declare_predicate_def declare_argument_def init_dimension_def
  by (auto intro!: listing_keeps create_plain_keeps init_dispatch_reg_keeps read_amd_line_keeps process_global_data_keeps
        declare_locals_keeps)

text \<open>
  C25: a kernel read from an AMD listing is well typed, like one read from PTX: every instruction, also those
  of the dispatch packet, of local memory accesses and of mask changes, has an operation type that its
  class permits.
\<close>

theorem amd_kernel_well_typed:
  assumes "amd_text_to_ir lines cf bytes gdata temps = Inr k"
  shows "list_all instr_ok (k_instrs k)"
  using yieldsD [OF read_listing_keeps [of lines cf bytes gdata], of "amd_start cf temps"] assms
  by (auto simp: amd_text_to_ir_def amd_start_def kernel_ok_def [symmetric])

definition sample_config :: config_data where
  "sample_config =
     \<lparr>cf_kernel_name = ''k'', cf_dimensions = ''x'', cf_usesetup = False, cf_work_groups = Some [64, 1, 1],
      cf_arguments = [], cf_local_size = 256\<rparr>"

definition sample_listing :: "string list" where
  "sample_listing = [''s_and_saveexec_b64 s[2:3], vcc'', ''ds_add_u32 v1, v2 offset:64'']"

lemma sample_listing_reads:
  "case amd_text_to_ir sample_listing sample_config [] [] Map.empty of
     Inr k \<Rightarrow> length (k_instrs k) = 9 \<and> k_local k = [(''lc64'', 192)] | Inl e \<Rightarrow> False"
  by code_simp

theorem amd_kernel_well_typed_witness:
  "\<exists>k. amd_text_to_ir sample_listing sample_config [] [] Map.empty = Inr k \<and> length (k_instrs k) = 9
     \<and> list_all instr_ok (k_instrs k)"
proof -
  obtain k where k: "amd_text_to_ir sample_listing sample_config [] [] Map.empty = Inr k" "length (k_instrs k) = 9"
    using sample_listing_reads by (auto split: sum.splits)
  with amd_kernel_well_typed [OF k(1)] show ?thesis by blast
qed

end
