(* ===== verification/IR_Registers.thy ===== *)
theory IR_Registers
  imports AMD_Read
begin

text \<open>
  What the two register factories promise the readers: a name stands for one register throughout a
  kernel.  The contract is a locale; the factory of either reader, with all its ways to ask for a
  register, is an interpretation.
\<close>

locale register_factory =
  fixes get :: "'k \<Rightarrow> string \<Rightarrow> (registry, operand) action"
  assumes get_keeps: "get k n regs = Inr (r, regs') \<Longrightarrow> regs \<subseteq>\<^sub>m regs'"
    and get_registers: "get k n regs = Inr (r, regs') \<Longrightarrow> regs' n = Some r"
    and get_known: "regs n = Some r \<Longrightarrow> get k n regs = Inr (r', regs') \<Longrightarrow> r' = r"
begin

lemma requests:
  "mapS (\<lambda>(k, n). get k n) reqs regs = Inr (rs, regs') \<Longrightarrow>
     regs \<subseteq>\<^sub>m regs' \<and> map (\<lambda>(k, n). regs' n) reqs = map Some rs"
proof (induction reqs arbitrary: regs rs)
  case (Cons q reqs)
  obtain k n where q: "q = (k, n)" by (cases q)
  with Cons.prems obtain r regs1 rs1 where g: "get k n regs = Inr (r, regs1)"
    and m: "mapS (\<lambda>(k, n). get k n) reqs regs1 = Inr (rs1, regs')" and rs: "rs = r # rs1"
    by (auto simp: method_simps)
  from Cons.IH [OF m] have IH: "regs1 \<subseteq>\<^sub>m regs'" "map (\<lambda>(k, n). regs' n) reqs = map Some rs1" by auto
  moreover have "regs' n = Some r" using get_registers [OF g] IH(1) by (metis domI map_le_def)
  ultimately show ?case using get_keeps [OF g] map_le_trans by (auto simp: q rs)
qed (simp add: method_simps)

lemma same_name_same_register:
  assumes "mapS (\<lambda>(k, n). get k n) reqs regs = Inr (rs, regs')"
    and "((k1, n), r1) \<in> set (zip reqs rs)" "((k2, n), r2) \<in> set (zip reqs rs)"
  shows "r1 = r2"
proof -
  have all: "map (\<lambda>(k, n). regs' n) reqs = map Some rs" using requests [OF assms(1)] by blast
  have reg: "regs' n = Some r" if z: "((k, n), r) \<in> set (zip reqs rs)" for k r
  proof -
    obtain i where i: "i < length reqs" "i < length rs" "reqs ! i = (k, n)" "rs ! i = r"
      using z by (auto simp: in_set_zip)
    then have "map (\<lambda>(k, n). regs' n) reqs ! i = Some (rs ! i)" unfolding all by simp
    with i show ?thesis by simp
  qed
  show ?thesis using reg [OF assms(2)] reg [OF assms(3)] by simp
qed

end

section \<open>The factory of the PTX reader\<close>

lemma mapS_grows:
  "(\<And>x regs r regs'. x \<in> set xs \<Longrightarrow> f x regs = Inr (r, regs') \<Longrightarrow> regs \<subseteq>\<^sub>m regs') \<Longrightarrow>
     mapS f xs regs = Inr (rs, regs') \<Longrightarrow> (regs :: registry) \<subseteq>\<^sub>m regs'"
proof (induction xs arbitrary: regs rs)
  case (Cons x xs)
  obtain r regs1 rs1 where f: "f x regs = Inr (r, regs1)" and m: "mapS f xs regs1 = Inr (rs1, regs')"
    using Cons.prems(2) by (auto simp: method_simps)
  have "regs \<subseteq>\<^sub>m regs1" by (rule Cons.prems(1) [OF _ f]) simp
  moreover have "regs1 \<subseteq>\<^sub>m regs'" by (rule Cons.IH [OF Cons.prems(1) m]) simp_all
  ultimately show ?case by (rule map_le_trans)
qed (simp add: method_simps)

lemma map_le_upd_fresh: "m \<subseteq>\<^sub>m m' \<Longrightarrow> m n = None \<Longrightarrow> m \<subseteq>\<^sub>m m'(n \<mapsto> r)"
  by (auto simp: map_le_def)

lemma get_or_create_auto_grows: "get_or_create_auto name regs = Inr (r, regs') \<Longrightarrow> regs \<subseteq>\<^sub>m regs'"
proof (induction name regs arbitrary: r regs' rule: get_or_create_auto.induct)
  case (1 name regs)
  show ?case
  proof (cases "regs name")
    case (Some q)
    with "1.prems" show ?thesis by (simp add: get_or_create_auto.simps)
  next
    case None
    with "1.prems" obtain vector where v: "enclosed CHR ''{'' CHR ''}'' name = Inr vector"
      by (auto simp: get_or_create_auto.simps)
    show ?thesis
    proof (cases vector)
      case True
      with None v "1.prems" obtain rs regs1 where m: "mapS (\<lambda>p. get_or_create_auto p) (vector_parts name) regs = Inr (rs, regs1)"
        and r': "regs' = regs1(name \<mapsto> r)"
        by (auto simp: get_or_create_auto.simps [of name])
      have "regs \<subseteq>\<^sub>m regs1" using mapS_grows [OF _ m] "1.IH" [OF None v True] by blast
      with None show ?thesis unfolding r' by (intro map_le_upd_fresh)
    next
      case False
      with None v "1.prems" have "regs' = regs(name \<mapsto> r)" by (auto simp: get_or_create_auto.simps [of name])
      then show ?thesis using None by (auto simp: map_le_def)
    qed
  qed
qed

lemma get_or_create_auto_registers: "get_or_create_auto name regs = Inr (r, regs') \<Longrightarrow> regs' name = Some r"
  by (subst (asm) get_or_create_auto.simps) (auto split: option.splits)

text \<open>A request for a name of a given type, or of the type its name says.\<close>

definition ptx_get :: "string option \<Rightarrow> string \<Rightarrow> (registry, operand) action" where
  "ptx_get k name = (case k of None \<Rightarrow> get_or_create_auto name | Some t \<Rightarrow> get_or_create name t)"

interpretation ptx_registers: register_factory ptx_get
proof unfold_locales
  fix k n regs r regs'
  assume g: "ptx_get k n regs = Inr (r, regs')"
  then show "regs \<subseteq>\<^sub>m regs'"
    by (cases k) (auto simp: ptx_get_def get_or_create_auto_grows get_or_create_def intro: map_le_upd_fresh
        split: option.splits)
  from g show "regs' n = Some r"
    by (cases k) (auto simp: ptx_get_def get_or_create_auto_registers get_or_create_def split: option.splits)
next
  fix k n regs r r' regs'
  assume "regs n = Some r" "ptx_get k n regs = Inr (r', regs')"
  then show "r' = r"
    by (cases k) (auto simp: ptx_get_def get_or_create_auto.simps [of n] get_or_create_def)
qed

section \<open>The factory of the AMD reader\<close>

definition amd_get :: "string \<times> string list \<Rightarrow> string \<Rightarrow> (registry, operand) action" where
  "amd_get k name = amd_get_or_create name (fst k) (snd k)"

lemma checked_Inr: "checked t r regs = Inr (r', regs') \<Longrightarrow> r' = r \<and> regs' = regs"
  by (auto simp: checked_def split: if_splits)

lemma amd_get32_grows: "amd_get32 name regs = Inr (r, regs') \<Longrightarrow> regs \<subseteq>\<^sub>m regs'"
  by (auto simp: amd_get32_def dest: checked_Inr intro: map_le_upd_fresh split: option.splits)

lemma amd_get_fresh:
  assumes "regs n = None" "amd_get_or_create n t subs regs = Inr (r, regs')"
  shows "\<exists>regs1. regs \<subseteq>\<^sub>m regs1 \<and> regs' = regs1(n \<mapsto> r)"
proof (cases "t = ''composite''")
  case True
  with assms obtain rs regs1 where "mapS amd_get32 subs regs = Inr (rs, regs1)" "regs' = regs1(n \<mapsto> r)"
    by (auto simp: amd_get_or_create_def)
  moreover have "regs \<subseteq>\<^sub>m regs1" by (rule mapS_grows [OF amd_get32_grows calculation(1)])
  ultimately show ?thesis by blast
next
  case False
  with assms have "regs' = regs(n \<mapsto> r)" by (auto simp: amd_get_or_create_def split: if_splits)
  then show ?thesis by (intro exI [of _ regs]) simp
qed

interpretation amd_registers: register_factory amd_get
proof unfold_locales
  fix k n regs r regs'
  assume "amd_get k n regs = Inr (r, regs')"
  then have g: "amd_get_or_create n (fst k) (snd k) regs = Inr (r, regs')" by (simp add: amd_get_def)
  have known: "r = q \<and> regs' = regs" if "regs n = Some q" for q
    using that g by (auto simp: amd_get_or_create_def dest: checked_Inr)
  show "regs \<subseteq>\<^sub>m regs'"
    using known amd_get_fresh [OF _ g] by (cases "regs n") (auto intro: map_le_upd_fresh)
  show "regs' n = Some r"
    using known amd_get_fresh [OF _ g] by (cases "regs n") auto
next
  fix k n regs r r' regs'
  assume "regs n = Some r" "amd_get k n regs = Inr (r', regs')"
  then show "r' = r" by (auto simp: amd_get_def amd_get_or_create_def dest: checked_Inr)
qed

text \<open>
  C26: within a kernel a name stands for one register: whatever names are asked for, of whatever types and
  in whatever order, as long as no request fails, two requests for the same name return the same
  register.  This holds for the factory of the AMD reader, which rejects a request for another class,
  and for the factory of the PTX reader, which returns what is registered.
\<close>

theorem one_register_per_name:
  assumes "mapS (\<lambda>(k, n). amd_get k n) reqs Map.empty = Inr (rs, regs)"
    and "mapS (\<lambda>(k, n). ptx_get k n) reqs' Map.empty = Inr (rs', regs')"
  shows "(((k1, n), r1) \<in> set (zip reqs rs) \<and> ((k2, n), r2) \<in> set (zip reqs rs) \<longrightarrow> r1 = r2)
       \<and> (((k1', n'), r1') \<in> set (zip reqs' rs') \<and> ((k2', n'), r2') \<in> set (zip reqs' rs') \<longrightarrow> r1' = r2')"
  using amd_registers.same_name_same_register [OF assms(1)] ptx_registers.same_name_same_register [OF assms(2)]
  by blast

theorem one_register_per_name_witness:
  "\<exists>rs regs. mapS (\<lambda>(k, n). amd_get k n)
       [((''composite'', [''s0'', ''s1'']), ''s[0:1]''), ((''composite'', []), ''s[0:1]'')] Map.empty
     = Inr (rs, regs) \<and> rs ! 0 = rs ! 1"
proof -
  let ?reqs = "[((''composite'', [''s0'', ''s1'']), ''s[0:1]''), ((''composite'', []), ''s[0:1]'')]"
  obtain rs regs where a: "mapS (\<lambda>(k, n). amd_get k n) ?reqs Map.empty = Inr (rs, regs)"
    by (simp add: method_simps amd_get_def amd_get_or_create_def amd_get32_def checked_def reg_class_matches_def
        mk_reg32_def mk_composite_def valid_register_name_def reserved_chars_def is_range_def)
  have p: "mapS (\<lambda>(k, n). ptx_get k n) [] Map.empty = Inr ([], Map.empty)" by (simp add: method_simps)
  have "length rs = 2" using arg_cong [OF conjunct2 [OF amd_registers.requests [OF a]], of length] by simp
  then obtain r1 r2 where rs: "rs = [r1, r2]" by (auto simp: numeral_2_eq_2 length_Suc_conv)
  have "r1 = r2"
    using one_register_per_name [OF a p, where n = "''s[0:1]''" and ?r1.0 = r1 and ?r2.0 = r2
        and ?k1.0 = "(''composite'', [''s0'', ''s1''])" and ?k2.0 = "(''composite'', [])"] by (simp add: rs)
  with a show ?thesis by (simp add: rs)
qed

section \<open>The tables are well typed\<close>

definition plain_rows :: "(string \<times> ir_class \<times> ir_type option) list" where
  "plain_rows = ptx_same @ amd_same @ amd_ignoring_vcc @ amd_with_exec_mask"

lemma plain_rows_typed: "row \<in> set plain_rows \<Longrightarrow> row_typed row"
  using ptx_same_typed amd_rows_typed by (auto simp: plain_rows_def list_all_iff)



end
