(* ===== verification/Exec_Condition.thy ===== *)
theory Exec_Condition
  imports Prelude "HOL-Library.List_Lexorder" "HOL-Library.Char_ord"
begin

text \<open>
  Execution conditions (\<open>src/src/logical_variable.py\<close>): the conjunction of conditions, kept as a sorted
  chain of their texts, under which a masked instruction runs.  A condition is its text; negation is a
  textual wrapper \<open>!(...)\<close>.  The meaning of a chain is relative to a valuation of texts that respects
  the wrapper.
\<close>

section \<open>The class\<close>

type_synonym exec_cond = "string list"

definition DEFAULT :: string where
  "DEFAULT = []"

definition normalize_and_chain :: "string list \<Rightarrow> exec_cond" where
  "normalize_and_chain cs = (let n = sort (filter (\<lambda>c. c \<noteq> DEFAULT) cs) in if n = [] then [DEFAULT] else n)"

definition mk_exec :: "string list \<Rightarrow> exec_cond" where
  "mk_exec = normalize_and_chain"

definition from_conditions :: "string list \<Rightarrow> exec_cond" where
  "from_conditions cs =
     (let n = sort (filter (\<lambda>c. c \<noteq> DEFAULT) cs) in mk_exec (if n = [] then [DEFAULT] else n))"

definition exec_default :: exec_cond where
  "exec_default = mk_exec [DEFAULT]"

definition exec_top :: "exec_cond \<Rightarrow> string res" where
  "exec_top a = (if a = [] then Inl IndexError else Inr (last a))"

definition exec_and :: "exec_cond \<Rightarrow> string \<Rightarrow> exec_cond" where
  "exec_and a c = mk_exec (a @ [c])"

definition significant_conditions :: "exec_cond \<Rightarrow> string list" where
  "significant_conditions a = filter (\<lambda>c. c \<noteq> DEFAULT) a"

definition condition_set :: "exec_cond \<Rightarrow> string set" where
  "condition_set a = set (significant_conditions a)"

definition exec_eq :: "exec_cond \<Rightarrow> exec_cond \<Rightarrow> bool" where
  "exec_eq a b \<longleftrightarrow> condition_set a = condition_set b"

definition is_subset_of :: "exec_cond \<Rightarrow> exec_cond \<Rightarrow> bool" where
  "is_subset_of a b \<longleftrightarrow> condition_set a \<subseteq> condition_set b"

definition is_strict_subset_of :: "exec_cond \<Rightarrow> exec_cond \<Rightarrow> bool" where
  "is_strict_subset_of a b \<longleftrightarrow> is_subset_of a b \<and> \<not> exec_eq a b"

definition is_superset_of :: "exec_cond \<Rightarrow> exec_cond \<Rightarrow> bool" where
  "is_superset_of a b \<longleftrightarrow> condition_set b \<subseteq> condition_set a"

definition is_strict_superset_of :: "exec_cond \<Rightarrow> exec_cond \<Rightarrow> bool" where
  "is_strict_superset_of a b \<longleftrightarrow> is_superset_of a b \<and> \<not> exec_eq a b"

definition make_not :: "string \<Rightarrow> string" where
  "make_not c =
     (if 3 \<le> length c \<and> take 2 c = ''!('' \<and> last c = CHR '')'' then butlast (drop 2 c)
      else ''!('' @ c @ '')'')"

definition are_negations :: "string \<Rightarrow> string \<Rightarrow> bool" where
  "are_negations l r \<longleftrightarrow> l = make_not r \<or> r = make_not l"

text \<open>The difference of two frozen sets, as the list of its elements.\<close>

definition conditions_minus :: "exec_cond \<Rightarrow> exec_cond \<Rightarrow> string list" where
  "conditions_minus a b = filter (\<lambda>c. c \<notin> condition_set b) (remdups (significant_conditions a))"

definition conditions_inter :: "exec_cond \<Rightarrow> exec_cond \<Rightarrow> string list" where
  "conditions_inter a b = filter (\<lambda>c. c \<in> condition_set b) (remdups (significant_conditions a))"

definition negated_sibling_parent :: "exec_cond \<Rightarrow> exec_cond \<Rightarrow> exec_cond option" where
  "negated_sibling_parent a b =
     (case (conditions_minus a b, conditions_minus b a) of
        ([x], [y]) \<Rightarrow> if are_negations x y then Some (from_conditions (conditions_inter a b)) else None
      | _ \<Rightarrow> None)"

definition exec_str :: "exec_cond \<Rightarrow> string" where
  "exec_str a = join '' && '' (map (\<lambda>x. ''('' @ x @ '')'') a)"

text \<open>The last case hands a string to \<open>from_conditions\<close>, which iterates over its characters.\<close>

definition exec_or :: "exec_cond \<Rightarrow> exec_cond \<Rightarrow> exec_cond" where
  "exec_or a b =
     (case negated_sibling_parent a b of
        Some p \<Rightarrow> p
      | None \<Rightarrow>
          if is_superset_of a b then from_conditions (remdups (significant_conditions b))
          else if is_superset_of b a then from_conditions (remdups (significant_conditions a))
          else from_conditions (map (\<lambda>ch. [ch]) (exec_str a @ ''||'' @ exec_str b)))"

definition exec_xor_added :: "exec_cond \<Rightarrow> exec_cond \<Rightarrow> exec_cond res" where
  "exec_xor_added a b =
     bind_res (assert_res (condition_set b \<subseteq> condition_set a)) (\<lambda>_.
       case conditions_minus a b of
         [x] \<Rightarrow> Inr (from_conditions (remdups (significant_conditions b) @ [make_not x]))
       | _ \<Rightarrow> Inl AssertionError)"

definition exec_xor :: "exec_cond \<Rightarrow> exec_cond \<Rightarrow> exec_cond res" where
  "exec_xor a b =
     (if is_strict_subset_of b a then exec_xor_added a b
      else bind_res (assert_res (is_strict_subset_of a b)) (\<lambda>_. exec_xor_added b a))"

section \<open>Meaning\<close>

definition respects_not :: "(string \<Rightarrow> bool) \<Rightarrow> bool" where
  "respects_not v \<longleftrightarrow> v DEFAULT \<and> (\<forall>c. v (make_not c) \<longleftrightarrow> \<not> v c)"

definition exec_sat :: "(string \<Rightarrow> bool) \<Rightarrow> exec_cond \<Rightarrow> bool" where
  "exec_sat v a \<longleftrightarrow> (\<forall>c \<in> condition_set a. v c)"

lemma sort_Nil_iff [simp]: "sort xs = [] \<longleftrightarrow> xs = []"
  by (metis length_0_conv length_sort)

lemma condition_set_alt: "condition_set a = set a - {DEFAULT}"
  by (auto simp: condition_set_def significant_conditions_def)

lemma condition_set_mk [simp]: "condition_set (mk_exec cs) = set cs - {DEFAULT}"
proof (cases "filter (\<lambda>c. c \<noteq> DEFAULT) cs = []")
  case True
  then show ?thesis
    by (auto simp: mk_exec_def normalize_and_chain_def condition_set_alt filter_empty_conv)
next
  case False
  then show ?thesis by (auto simp: mk_exec_def normalize_and_chain_def condition_set_alt)
qed

lemma condition_set_from [simp]: "condition_set (from_conditions cs) = set cs - {DEFAULT}"
  by (auto simp: from_conditions_def Let_def filter_empty_conv)

lemma set_conditions:
  "set (conditions_minus a b) = condition_set a - condition_set b"
  "set (conditions_inter a b) = condition_set a \<inter> condition_set b"
  "set (significant_conditions a) = condition_set a"
  by (auto simp: conditions_minus_def conditions_inter_def condition_set_def)

lemma exec_default_set [simp]: "condition_set exec_default = {}"
  by (simp add: exec_default_def)

lemma exec_and_set: "condition_set (exec_and a c) = condition_set a \<union> ({c} - {DEFAULT})"
  by (auto simp: exec_and_def condition_set_alt [of a])

lemma exec_sat_subset: "condition_set a \<subseteq> condition_set b \<Longrightarrow> exec_sat v b \<Longrightarrow> exec_sat v a"
  by (auto simp: exec_sat_def)

lemma respects_negations: "respects_not v \<Longrightarrow> are_negations x y \<Longrightarrow> v y \<longleftrightarrow> \<not> v x"
  by (auto simp: respects_not_def are_negations_def)

lemma sibling_parent_sets:
  assumes "negated_sibling_parent a b = Some p"
  obtains x y where "condition_set a = insert x (condition_set p)" "condition_set b = insert y (condition_set p)"
    "are_negations x y"
proof -
  obtain x y where xy: "conditions_minus a b = [x]" "conditions_minus b a = [y]" "are_negations x y"
    and p: "p = from_conditions (conditions_inter a b)"
    using assms by (auto simp: negated_sibling_parent_def split: list.splits if_splits)
  have "condition_set a - condition_set b = {x}" "condition_set b - condition_set a = {y}"
    using set_conditions(1) [of a b] set_conditions(1) [of b a] xy by auto
  moreover have "condition_set p = condition_set a \<inter> condition_set b"
    unfolding p condition_set_from set_conditions by (auto simp: condition_set_alt)
  ultimately show ?thesis using xy(3) by (intro that [of x y]) auto
qed

lemma exec_xor_sets:
  assumes "exec_xor a b = Inr d" "is_strict_subset_of b a"
  obtains x where "condition_set a = insert x (condition_set b)" "x \<notin> condition_set b" "x \<noteq> DEFAULT"
    "condition_set d = condition_set b \<union> ({make_not x} - {DEFAULT})"
proof -
  obtain x where x: "conditions_minus a b = [x]" "condition_set b \<subseteq> condition_set a"
    and d: "d = from_conditions (remdups (significant_conditions b) @ [make_not x])"
    using assms by (auto simp: exec_xor_def exec_xor_added_def split: list.splits)
  have "condition_set a - condition_set b = {x}" using set_conditions(1) [of a b] x(1) by auto
  moreover have "condition_set d = condition_set b \<union> ({make_not x} - {DEFAULT})"
    unfolding d condition_set_from set_append set_remdups set_conditions by (auto simp: condition_set_alt)
  ultimately show ?thesis using x(2) by (intro that [of x]) (auto simp: condition_set_alt)
qed

lemma exec_or_sat:
  assumes "respects_not v" "negated_sibling_parent a b \<noteq> None \<or> is_superset_of a b \<or> is_superset_of b a"
  shows "exec_sat v (exec_or a b) \<longleftrightarrow> exec_sat v a \<or> exec_sat v b"
proof (cases "negated_sibling_parent a b")
  case None
  have "condition_set (from_conditions (remdups (significant_conditions c))) = condition_set c" for c
    unfolding condition_set_from set_remdups set_conditions by (auto simp: condition_set_alt)
  then have "exec_sat v (from_conditions (remdups (significant_conditions c))) = exec_sat v c" for c
    by (simp only: exec_sat_def)
  with None assms(2) show ?thesis
    using exec_sat_subset [of a b v] exec_sat_subset [of b a v] by (auto simp: exec_or_def is_superset_of_def)
next
  case (Some p)
  then obtain x y where "condition_set a = insert x (condition_set p)" "condition_set b = insert y (condition_set p)"
    "are_negations x y" by (rule sibling_parent_sets)
  with respects_negations [OF assms(1)] have "exec_sat v p \<longleftrightarrow> exec_sat v a \<or> exec_sat v b"
    by (auto simp: exec_sat_def)
  with Some show ?thesis by (simp add: exec_or_def)
qed

lemma exec_xor_sat:
  assumes "respects_not v" "exec_xor a b = Inr d" "is_strict_subset_of b a"
  shows "exec_sat v d \<longleftrightarrow> exec_sat v b \<and> \<not> exec_sat v a"
proof -
  obtain x where x: "condition_set a = insert x (condition_set b)"
    "condition_set d = condition_set b \<union> ({make_not x} - {DEFAULT})"
    using exec_xor_sets [OF assms(2,3)] by metis
  have "v (make_not x) \<longleftrightarrow> \<not> v x" using assms(1) by (simp add: respects_not_def)
  moreover have "v DEFAULT" using assms(1) by (simp add: respects_not_def)
  ultimately show ?thesis unfolding exec_sat_def x by (auto simp: ball_Un)
qed

lemma exec_and_sat: "respects_not v \<Longrightarrow> exec_sat v (exec_and a c) \<longleftrightarrow> exec_sat v a \<and> v c"
  by (auto simp: exec_sat_def exec_and_set respects_not_def)


text \<open>Valuations that respect negation exist: any reading of the unwrapped texts extends to one.\<close>

function wrapped_reading :: "(string \<Rightarrow> bool) \<Rightarrow> string \<Rightarrow> bool" where
  "wrapped_reading u c =
     (if 3 \<le> length c \<and> take 2 c = ''!('' \<and> last c = CHR '')'' then \<not> wrapped_reading u (butlast (drop 2 c)) else u c)"
  by auto
termination by (relation "measure (\<lambda>(u, c). length c)") auto

declare wrapped_reading.simps [simp del]

lemma wrapped_reading_respects: "u [] \<Longrightarrow> respects_not (wrapped_reading u)"
proof -
  assume u: "u []"
  have "wrapped_reading u (make_not c) \<longleftrightarrow> \<not> wrapped_reading u c" for c
  proof (cases "3 \<le> length c \<and> take 2 c = ''!('' \<and> last c = CHR '')''")
    case True
    then show ?thesis by (simp add: make_not_def wrapped_reading.simps [of u c])
  next
    case False
    then have "make_not c = ''!('' @ c @ '')''" by (auto simp: make_not_def)
    then show ?thesis by (simp add: wrapped_reading.simps [of u "CHR ''!'' # CHR ''('' # c @ '')''"])
  qed
  moreover have "wrapped_reading u DEFAULT" using u by (simp add: wrapped_reading.simps DEFAULT_def)
  ultimately show ?thesis by (simp add: respects_not_def)
qed


text \<open>
  When two conditions are neither siblings nor comparable, \<open>|\<close> takes the text of the disjunction apart:
  the result is the conjunction of its single characters, here of a bracket, a bar, \<open>a\<close> and \<open>b\<close>.
\<close>

lemma exec_or_splits_text:
  "set (exec_or [''a''] [''b'']) = {''('', '')'', ''|'', ''a'', ''b''}"
  by (simp add: exec_or_def negated_sibling_parent_def conditions_minus_def condition_set_def significant_conditions_def
        DEFAULT_def are_negations_def make_not_def is_superset_of_def exec_str_def from_conditions_def mk_exec_def
        normalize_and_chain_def) auto

lemma sorted_le_last: "sorted (xs :: string list) \<Longrightarrow> x \<in> set xs \<Longrightarrow> x \<le> last xs"
  by (induction xs) (auto split: if_splits)

text \<open>
  The chain is sorted, so \<open>top\<close> is its greatest condition, not the one pushed last: after pushing
  \<open>c\<close> on a chain of greater conditions, \<open>top\<close> still answers an older one.
\<close>

lemma exec_top_is_greatest:
  assumes "c \<noteq> DEFAULT" "x \<in> condition_set a" "c < x"
  shows "\<exists>t. exec_top (exec_and a c) = Inr t \<and> t \<noteq> c"
proof -
  let ?xs = "sort (filter (\<lambda>c. c \<noteq> DEFAULT) (a @ [c]))"
  have x: "x \<in> set ?xs" using assms(2) by (simp add: condition_set_alt)
  then have ne: "?xs \<noteq> []" by (metis empty_iff list.set(1))
  then have "exec_and a c = ?xs"
    unfolding exec_and_def mk_exec_def normalize_and_chain_def Let_def by (rule if_not_P)
  moreover note ne
  moreover have "x \<le> last ?xs" using x by (intro sorted_le_last) simp_all
  ultimately show ?thesis using assms(3) by (auto simp: exec_top_def)
qed

theorem exec_top_is_greatest_witness: "\<exists>t. exec_top (exec_and [''b''] ''a'') = Inr t \<and> t \<noteq> ''a''"
  by (rule exec_top_is_greatest [of _ "''b''"]) (simp_all add: DEFAULT_def condition_set_alt)

end
