(* ===== verification/CFG_Nodes.thy ===== *)
theory CFG_Nodes
  imports IR_Memory Exec_Condition State_Res
begin

text \<open>
  The graph of decompiled instructions: nodes (\<open>src/src/node.py\<close>), their creation and linking while an
  instruction is lowered (\<open>src/src/ir/instructions/lowering.py\<close>), and the backend instructions that shape
  the graph or the mask: labels, branches, masks and the end of the program
  (\<open>src/src/instructions\<close>: \<open>label.py\<close>, \<open>sopp\<close>, \<open>ir_special/change_mask.py\<close>).

  Nodes are shared objects; here they live in a list and a reference is a position in it.  Of the
  state of a node the model keeps the execution condition of \<open>$MASK\<close>; the other registers are of type
  \<open>'s\<close> and the rest of the decompiler's data of type \<open>'g\<close>.  The effect of a backend instruction on
  these two, and on the conditions held by predicate registers, is the argument \<open>reg_step\<close>: it is
  the business of the classes of single opcodes, which touch neither the graph nor \<open>$MASK\<close>.
\<close>

section \<open>Nodes and the decompiler's data\<close>

record 's cfg_node =
  nd_instruction :: string
  nd_operands :: "operand list"
  nd_parents :: "nat list"
  nd_children :: "nat list"
  nd_exec :: exec_cond
  nd_state :: 's

record ('s, 'g) world =
  w_nodes :: "'s cfg_node list"
  w_exec_registers :: "string \<Rightarrow> exec_cond option"
  w_to_node :: "string \<Rightarrow> nat option"
  w_from_node :: "string \<Rightarrow> nat list option"
  w_loops :: "nat list"
  w_back_edges :: "nat list"
  w_rest :: 'g

type_synonym ('s, 'g) reg_step =
  "backend \<Rightarrow> 's \<Rightarrow> (string \<Rightarrow> exec_cond option) \<times> 'g \<Rightarrow> ('s \<times> (string \<Rightarrow> exec_cond option) \<times> 'g) res"

definition node_at :: "('s, 'g) world \<Rightarrow> nat \<Rightarrow> 's cfg_node" where
  "node_at w n = w_nodes w ! n"

definition upd_node :: "nat \<Rightarrow> ('s cfg_node \<Rightarrow> 's cfg_node) \<Rightarrow> ('s, 'g) world \<Rightarrow> ('s, 'g) world" where
  "upd_node n f w = w\<lparr>w_nodes := (w_nodes w)[n := f (w_nodes w ! n)]\<rparr>"

definition add_child :: "nat \<Rightarrow> nat \<Rightarrow> ('s, 'g) world \<Rightarrow> ('s, 'g) world" where
  "add_child p c = upd_node p (\<lambda>n. n\<lparr>nd_children := nd_children n @ [c]\<rparr>)"

definition add_parent :: "nat \<Rightarrow> nat \<Rightarrow> ('s, 'g) world \<Rightarrow> ('s, 'g) world" where
  "add_parent c p = upd_node c (\<lambda>n. n\<lparr>nd_parents := nd_parents n @ [p]\<rparr>)"

text \<open>The two calls that always come together.\<close>

definition link :: "nat \<Rightarrow> nat \<Rightarrow> ('s, 'g) world \<Rightarrow> ('s, 'g) world" where
  "link p c w = add_child p c (add_parent c p w)"

text \<open>\<open>Node(opcode, operands, deepcopy(state))\<close>.\<close>

definition new_node :: "backend \<Rightarrow> exec_cond \<times> 's \<Rightarrow> ('s, 'g) world \<Rightarrow> nat \<times> ('s, 'g) world" where
  "new_node b st w =
     (length (w_nodes w),
      w\<lparr>w_nodes := w_nodes w @ [\<lparr>nd_instruction = b_opcode b, nd_operands = b_ops b, nd_parents = [], nd_children = [],
                                 nd_exec = fst st, nd_state = snd st\<rparr>]\<rparr>)"

definition attach :: "nat \<Rightarrow> nat list \<Rightarrow> ('s, 'g) world \<Rightarrow> ('s, 'g) world" where
  "attach n parents w = foldl (\<lambda>w p. link p n w) w parents"

section \<open>The backend instructions that shape the graph\<close>

definition set_exec :: "nat \<Rightarrow> exec_cond \<Rightarrow> ('s, 'g) world \<Rightarrow> ('s, 'g) world" where
  "set_exec n c = upd_node n (\<lambda>x. x\<lparr>nd_exec := c\<rparr>)"

text \<open>A label joins the branches that wait for it, and takes the state of the last one.\<close>

definition join_waiting :: "nat \<Rightarrow> nat \<Rightarrow> ('s, 'g) world \<Rightarrow> ('s, 'g) world" where
  "join_waiting n p w =
     (let w1 = link p n w; x = node_at w1 p
      in upd_node n (\<lambda>y. y\<lparr>nd_exec := nd_exec x, nd_state := nd_state x\<rparr>) w1)"

definition fill_label :: "nat \<Rightarrow> ('s, 'g) world \<Rightarrow> ('s, 'g) world" where
  "fill_label n w =
     (let label = nd_instruction (node_at w n); w1 = w\<lparr>w_to_node := (w_to_node w)(label \<mapsto> n)\<rparr>
      in case w_from_node w1 label of None \<Rightarrow> w1 | Some ps \<Rightarrow> foldl (\<lambda>w p. join_waiting n p w) w1 ps)"

definition fill_branch :: "nat \<Rightarrow> ('s, 'g) world \<Rightarrow> ('s, 'g) world" where
  "fill_branch n w =
     (let label = op_name (last (nd_operands (node_at w n)))
      in case w_to_node w label of
           Some m \<Rightarrow> (link n m w)\<lparr>w_loops := w_loops w @ [m], w_back_edges := w_back_edges w @ [n]\<rparr>
         | None \<Rightarrow>
             w\<lparr>w_from_node := (w_from_node w)(label \<mapsto> (case w_from_node w label of None \<Rightarrow> [] | Some ns \<Rightarrow> ns) @ [n])\<rparr>)"

definition is_branch_backend :: "backend \<Rightarrow> bool" where
  "is_branch_backend b = (b_class b \<in> {''SBranch'', ''SCbranchVccz'', ''SCbranchVccnz''})"

definition is_control_backend :: "backend \<Rightarrow> bool" where
  "is_control_backend b = (is_branch_backend b \<or> b_class b \<in> {''Label'', ''UseMask'', ''Unmask'', ''SEndpgm''})"

definition fill_control :: "backend \<Rightarrow> nat \<Rightarrow> ('s, 'g) world \<Rightarrow> ('s, 'g) world res" where
  "fill_control b n w =
     (if is_branch_backend b then Inr (fill_branch n w)
      else if b_class b = ''Label'' then Inr (fill_label n w)
      else if b_class b = ''UseMask''
      then (case w_exec_registers w (op_name (b_ops b ! 0)) of
              None \<Rightarrow> Inl KeyError | Some c \<Rightarrow> Inr (set_exec n c w))
      else Inr (set_exec n exec_default w))"

text \<open>\<open>to_fill_node\<close> of the backend object: its effect on the registers, and on the graph and the mask.\<close>

definition fill_node :: "('s, 'g) reg_step \<Rightarrow> backend \<Rightarrow> nat \<Rightarrow> ('s, 'g) world \<Rightarrow> ('s, 'g) world res" where
  "fill_node reg_step b n w =
     bind_res (reg_step b (nd_state (node_at w n)) (w_exec_registers w, w_rest w)) (\<lambda>(s, er, g).
       let w1 = (upd_node n (\<lambda>x. x\<lparr>nd_state := s\<rparr>) w)\<lparr>w_rest := g\<rparr>
       in if is_control_backend b then fill_control b n w1 else Inr (w1\<lparr>w_exec_registers := er\<rparr>))"

definition emit_backend ::
    "('s, 'g) reg_step \<Rightarrow> backend \<Rightarrow> exec_cond \<times> 's \<Rightarrow> nat list \<Rightarrow> ('s, 'g) world \<Rightarrow> (nat \<times> ('s, 'g) world) res" where
  "emit_backend reg_step b st parents w =
     (let (n, w1) = new_node b st w
      in bind_res (fill_node reg_step b n (attach n parents w1)) (\<lambda>w2. Inr (n, w2)))"

definition state_of :: "('s, 'g) world \<Rightarrow> nat \<Rightarrow> exec_cond \<times> 's" where
  "state_of w n = (nd_exec (node_at w n), nd_state (node_at w n))"

text \<open>\<open>to_fill_node\<close> of an instruction: each backend instruction is attached to the one before it.\<close>

fun emit_backends ::
    "('s, 'g) reg_step \<Rightarrow> backend list \<Rightarrow> exec_cond \<times> 's \<Rightarrow> nat list \<Rightarrow> ('s, 'g) world \<Rightarrow> (nat \<times> ('s, 'g) world) res" where
  "emit_backends reg_step [] st parents w = Inl AttributeError"
| "emit_backends reg_step [b] st parents w = emit_backend reg_step b st parents w"
| "emit_backends reg_step (b # c # bs) st parents w =
     bind_res (emit_backend reg_step b st parents w) (\<lambda>(n, w1). emit_backends reg_step (c # bs) (state_of w1 n) [n] w1)"

definition to_fill_node ::
    "('s, 'g) reg_step \<Rightarrow> instr \<Rightarrow> exec_cond \<times> 's \<Rightarrow> nat list \<Rightarrow> ('s, 'g) world \<Rightarrow> (nat \<times> ('s, 'g) world) res" where
  "to_fill_node reg_step i st parents w =
     bind_res (lower_instr i) (\<lambda>bs. emit_backends reg_step bs st parents w)"

section \<open>The graph stays consistent\<close>

text \<open>References lead to existing nodes, and a node is a parent exactly of its children.\<close>

definition refs_below :: "nat \<Rightarrow> 's cfg_node \<Rightarrow> bool" where
  "refs_below m x \<longleftrightarrow> set (nd_parents x) \<subseteq> {..<m} \<and> set (nd_children x) \<subseteq> {..<m}"

definition edges_match :: "'s cfg_node list \<Rightarrow> bool" where
  "edges_match ns \<longleftrightarrow>
     (\<forall>p < length ns. \<forall>c < length ns. count_list (nd_children (ns ! p)) c = count_list (nd_parents (ns ! c)) p)"

definition labels_ok :: "('s, 'g) world \<Rightarrow> bool" where
  "labels_ok w \<longleftrightarrow> ran (w_to_node w) \<subseteq> {..<length (w_nodes w)}
     \<and> \<Union> (set ` ran (w_from_node w)) \<subseteq> {..<length (w_nodes w)}"

definition world_ok :: "('s, 'g) world \<Rightarrow> bool" where
  "world_ok w \<longleftrightarrow> edges_match (w_nodes w) \<and> list_all (refs_below (length (w_nodes w))) (w_nodes w) \<and> labels_ok w"

lemma world_okI:
  "edges_match (w_nodes w) \<Longrightarrow> (\<And>k. k < length (w_nodes w) \<Longrightarrow> refs_below (length (w_nodes w)) (w_nodes w ! k)) \<Longrightarrow>
     labels_ok w \<Longrightarrow> world_ok w"
  by (simp add: world_ok_def list_all_length)

lemma world_okD:
  "world_ok w \<Longrightarrow> edges_match (w_nodes w)"
  "world_ok w \<Longrightarrow> k < length (w_nodes w) \<Longrightarrow> refs_below (length (w_nodes w)) (w_nodes w ! k)"
  "world_ok w \<Longrightarrow> labels_ok w"
  by (simp_all add: world_ok_def list_all_length)

lemma labels_okD:
  "labels_ok w \<Longrightarrow> w_to_node w l = Some n \<Longrightarrow> n < length (w_nodes w)"
  "labels_ok w \<Longrightarrow> w_from_node w l = Some ps \<Longrightarrow> p \<in> set ps \<Longrightarrow> p < length (w_nodes w)"
  by (fastforce simp: labels_ok_def ran_def)+

lemma labels_ok_mono:
  "labels_ok w \<Longrightarrow> w_to_node w' = w_to_node w \<Longrightarrow> w_from_node w' = w_from_node w \<Longrightarrow>
     length (w_nodes w) \<le> length (w_nodes w') \<Longrightarrow> labels_ok w'"
  by (fastforce simp: labels_ok_def)

lemma length_upd_node [simp]: "length (w_nodes (upd_node n f w)) = length (w_nodes w)"
  by (simp add: upd_node_def)

lemma w_upd_node [simp]:
  "w_to_node (upd_node n f w) = w_to_node w" "w_from_node (upd_node n f w) = w_from_node w"
  "w_exec_registers (upd_node n f w) = w_exec_registers w" "w_loops (upd_node n f w) = w_loops w"
  "w_back_edges (upd_node n f w) = w_back_edges w" "w_rest (upd_node n f w) = w_rest w"
  by (simp_all add: upd_node_def)

lemma nth_upd_node:
  "k < length (w_nodes w) \<Longrightarrow> w_nodes (upd_node n f w) ! k = (if k = n then f (w_nodes w ! k) else w_nodes w ! k)"
  by (simp add: upd_node_def nth_list_update)

text \<open>A change of the state of a node.\<close>

definition keeps_edges :: "('s cfg_node \<Rightarrow> 's cfg_node) \<Rightarrow> bool" where
  "keeps_edges f \<longleftrightarrow> (\<forall>x. nd_parents (f x) = nd_parents x \<and> nd_children (f x) = nd_children x)"

lemma world_ok_state:
  assumes ok: "world_ok w" and f: "keeps_edges f"
  shows "world_ok (upd_node n f w)"
proof (rule world_okI)
  have same: "nd_parents (w_nodes (upd_node n f w) ! k) = nd_parents (w_nodes w ! k)"
    "nd_children (w_nodes (upd_node n f w) ! k) = nd_children (w_nodes w ! k)" if "k < length (w_nodes w)" for k
    using f by (simp_all add: nth_upd_node [OF that] keeps_edges_def)
  show "edges_match (w_nodes (upd_node n f w))"
    using world_okD(1) [OF ok] by (simp add: edges_match_def same)
  show "refs_below (length (w_nodes (upd_node n f w))) (w_nodes (upd_node n f w) ! k)"
    if "k < length (w_nodes (upd_node n f w))" for k
    using world_okD(2) [OF ok, of k] that by (simp add: refs_below_def same)
  show "labels_ok (upd_node n f w)" by (rule labels_ok_mono [OF world_okD(3) [OF ok]]) simp_all
qed

lemma nth_link:
  assumes "p < length (w_nodes w)" "c < length (w_nodes w)" "k < length (w_nodes w)"
  shows "nd_children (w_nodes (link p c w) ! k) = nd_children (w_nodes w ! k) @ (if k = p then [c] else [])"
    "nd_parents (w_nodes (link p c w) ! k) = nd_parents (w_nodes w ! k) @ (if k = c then [p] else [])"
  using assms by (auto simp: link_def add_child_def add_parent_def nth_upd_node)

lemma link_simps [simp]:
  "length (w_nodes (link p c w)) = length (w_nodes w)"
  "w_to_node (link p c w) = w_to_node w" "w_from_node (link p c w) = w_from_node w"
  "w_exec_registers (link p c w) = w_exec_registers w" "w_rest (link p c w) = w_rest w"
  by (simp_all add: link_def add_child_def add_parent_def)

lemma count_list_append_one: "count_list (xs @ (if b then [y] else [])) z = count_list xs z + (if b \<and> y = z then 1 else 0)"
  by (auto simp: count_list_append)

lemma link_ok:
  assumes ok: "world_ok w" and p: "p < length (w_nodes w)" and c: "c < length (w_nodes w)"
  shows "world_ok (link p c w)"
proof (rule world_okI)
  have "count_list (nd_children (w_nodes (link p c w) ! i)) j = count_list (nd_parents (w_nodes (link p c w) ! j)) i"
    if "i < length (w_nodes w)" "j < length (w_nodes w)" for i j
    using world_okD(1) [OF ok] that
    by (simp only: nth_link [OF p c that(1)] nth_link [OF p c that(2)] count_list_append_one edges_match_def) auto
  then show "edges_match (w_nodes (link p c w))" by (simp add: edges_match_def)
  show "refs_below (length (w_nodes (link p c w))) (w_nodes (link p c w) ! k)" if "k < length (w_nodes (link p c w))" for k
    using world_okD(2) [OF ok, of k] that p c by (auto simp: refs_below_def nth_link)
  show "labels_ok (link p c w)" by (rule labels_ok_mono [OF world_okD(3) [OF ok]]) simp_all
qed

lemma attach_ok:
  "world_ok w \<Longrightarrow> n < length (w_nodes w) \<Longrightarrow> set ps \<subseteq> {..<length (w_nodes w)} \<Longrightarrow>
     world_ok (attach n ps w) \<and> length (w_nodes (attach n ps w)) = length (w_nodes w)"
proof (induction ps arbitrary: w)
  case (Cons p ps)
  from Cons.IH [of "link p n w"] Cons.prems show ?case by (simp add: attach_def link_ok)
qed (simp add: attach_def)

lemma new_node_ok:
  assumes ok: "world_ok w" and n: "new_node b st w = (n, w')"
  shows "world_ok w' \<and> n = length (w_nodes w) \<and> length (w_nodes w') = Suc (length (w_nodes w))"
proof -
  let ?m = "length (w_nodes w)"
  let ?x = "\<lparr>nd_instruction = b_opcode b, nd_operands = b_ops b, nd_parents = [], nd_children = [],
             nd_exec = fst st, nd_state = snd st\<rparr>"
  have w': "w' = w\<lparr>w_nodes := w_nodes w @ [?x]\<rparr>" "n = ?m" using n by (simp_all add: new_node_def)
  have none: "count_list (nd_children (w_nodes w ! k)) ?m = 0" "count_list (nd_parents (w_nodes w ! k)) ?m = 0"
    if "k < ?m" for k
    using world_okD(2) [OF ok that] by (auto simp: refs_below_def count_list_0_iff)
  have "world_ok w'"
  proof (rule world_okI)
    show "edges_match (w_nodes w')"
      using world_okD(1) [OF ok] none by (auto simp: edges_match_def w' nth_append less_Suc_eq)
    show "refs_below (length (w_nodes w')) (w_nodes w' ! k)" if "k < length (w_nodes w')" for k
      using world_okD(2) [OF ok, of k] that by (auto simp: refs_below_def w' nth_append less_Suc_eq)
    show "labels_ok w'" by (rule labels_ok_mono [OF world_okD(3) [OF ok]]) (simp_all add: w')
  qed
  with w' show ?thesis by simp
qed

lemma world_ok_fields [simp]:
  "world_ok (w\<lparr>w_exec_registers := er\<rparr>) = world_ok w" "world_ok (w\<lparr>w_rest := g\<rparr>) = world_ok w"
  "world_ok (w\<lparr>w_loops := l\<rparr>) = world_ok w" "world_ok (w\<lparr>w_back_edges := l\<rparr>) = world_ok w"
  by (simp_all add: world_ok_def labels_ok_def)

lemma join_waiting_ok:
  assumes "world_ok w" "n < length (w_nodes w)" "p < length (w_nodes w)"
  shows "world_ok (join_waiting n p w) \<and> length (w_nodes (join_waiting n p w)) = length (w_nodes w)"
  unfolding join_waiting_def Let_def using assms by (simp add: world_ok_state link_ok keeps_edges_def)

lemma join_all_ok:
  "world_ok w \<Longrightarrow> n < length (w_nodes w) \<Longrightarrow> set ps \<subseteq> {..<length (w_nodes w)} \<Longrightarrow>
     world_ok (foldl (\<lambda>w p. join_waiting n p w) w ps)
     \<and> length (w_nodes (foldl (\<lambda>w p. join_waiting n p w) w ps)) = length (w_nodes w)"
proof (induction ps arbitrary: w)
  case (Cons p ps)
  then have j: "world_ok (join_waiting n p w)" "length (w_nodes (join_waiting n p w)) = length (w_nodes w)"
    using join_waiting_ok [of w n p] by auto
  with Cons.IH [OF j(1)] Cons.prems show ?case by simp
qed simp

lemma fill_label_ok:
  assumes ok: "world_ok w" and n: "n < length (w_nodes w)"
  shows "world_ok (fill_label n w) \<and> length (w_nodes (fill_label n w)) = length (w_nodes w)"
proof -
  let ?label = "nd_instruction (node_at w n)"
  let ?w1 = "w\<lparr>w_to_node := (w_to_node w)(?label \<mapsto> n)\<rparr>"
  have "labels_ok ?w1" using world_okD(3) [OF ok] n by (auto simp: labels_ok_def ran_def split: if_splits)
  then have w1: "world_ok ?w1" using ok by (simp add: world_ok_def)
  show ?thesis
  proof (cases "w_from_node w ?label")
    case None
    with w1 show ?thesis by (simp add: fill_label_def Let_def)
  next
    case (Some ps)
    have "set ps \<subseteq> {..<length (w_nodes w)}" using labels_okD(2) [OF world_okD(3) [OF ok] Some] by blast
    with join_all_ok [OF w1] n Some show ?thesis by (simp add: fill_label_def Let_def)
  qed
qed

lemma fill_branch_ok:
  assumes ok: "world_ok w" and n: "n < length (w_nodes w)"
  shows "world_ok (fill_branch n w) \<and> length (w_nodes (fill_branch n w)) = length (w_nodes w)"
proof (cases "w_to_node w (op_name (last (nd_operands (node_at w n))))")
  case None
  let ?l = "op_name (last (nd_operands (node_at w n)))"
  let ?ps = "case w_from_node w ?l of None \<Rightarrow> [] | Some ns \<Rightarrow> ns"
  have "set ?ps \<subseteq> {..<length (w_nodes w)}"
    using labels_okD(2) [OF world_okD(3) [OF ok], of ?l] by (cases "w_from_node w ?l") auto
  then have "labels_ok (w\<lparr>w_from_node := (w_from_node w)(?l \<mapsto> ?ps @ [n])\<rparr>)"
    using world_okD(3) [OF ok] n by (fastforce simp: labels_ok_def ran_def split: if_splits)
  with ok None show ?thesis by (simp add: fill_branch_def Let_def world_ok_def)
next
  case (Some m)
  then have "m < length (w_nodes w)" by (rule labels_okD(1) [OF world_okD(3) [OF ok]])
  with ok n Some show ?thesis by (simp add: fill_branch_def Let_def link_ok)
qed

lemma fill_control_ok:
  assumes ok: "world_ok w" and n: "n < length (w_nodes w)" and r: "fill_control b n w = Inr w'"
  shows "world_ok w' \<and> length (w_nodes w') = length (w_nodes w)"
proof -
  have "world_ok (set_exec n c w) \<and> length (w_nodes (set_exec n c w)) = length (w_nodes w)" for c
    using ok by (simp add: set_exec_def world_ok_state keeps_edges_def)
  with r fill_label_ok [OF ok n] fill_branch_ok [OF ok n] ok show ?thesis
    by (auto simp: fill_control_def split: if_splits option.splits)
qed

lemma emit_backend_ok:
  assumes ok: "world_ok w" and ps: "set ps \<subseteq> {..<length (w_nodes w)}"
    and r: "emit_backend reg_step b st ps w = Inr (n, w')"
  shows "world_ok w' \<and> n = length (w_nodes w) \<and> length (w_nodes w') = Suc (length (w_nodes w))"
proof -
  obtain w1 where w1: "new_node b st w = (n, w1)" and f: "fill_node reg_step b n (attach n ps w1) = Inr w'"
    using r by (auto simp: emit_backend_def split: prod.splits)
  have 1: "world_ok w1" "n = length (w_nodes w)" "length (w_nodes w1) = Suc (length (w_nodes w))"
    using new_node_ok [OF ok w1] by auto
  have 2: "world_ok (attach n ps w1)" "length (w_nodes (attach n ps w1)) = length (w_nodes w1)"
    using attach_ok [OF 1(1), of n ps] ps 1 by (auto simp: subset_iff less_Suc_eq)
  obtain s er g where s: "(if is_control_backend b
        then fill_control b n ((upd_node n (\<lambda>x. x\<lparr>nd_state := s\<rparr>) (attach n ps w1))\<lparr>w_rest := g\<rparr>)
        else Inr ((upd_node n (\<lambda>x. x\<lparr>nd_state := s\<rparr>) (attach n ps w1))\<lparr>w_rest := g, w_exec_registers := er\<rparr>)) = Inr w'"
    using f by (auto simp: fill_node_def Let_def)
  have w2: "world_ok ((upd_node n (\<lambda>x. x\<lparr>nd_state := s\<rparr>) (attach n ps w1))\<lparr>w_rest := g\<rparr>)"
    using 2 by (simp add: world_ok_state keeps_edges_def)
  show ?thesis
  proof (cases "is_control_backend b")
    case True
    with s fill_control_ok [OF w2, of n b w'] 1 2 show ?thesis by simp
  next
    case False
    with s w2 1 2 show ?thesis by (auto simp: world_ok_state keeps_edges_def)
  qed
qed

lemma emit_backends_ok:
  assumes "world_ok w" "set ps \<subseteq> {..<length (w_nodes w)}" "emit_backends reg_step bs st ps w = Inr (n, w')"
  shows "world_ok w' \<and> n < length (w_nodes w') \<and> length (w_nodes w) \<le> n"
  using assms
proof (induction reg_step bs st ps w rule: emit_backends.induct)
  case (2 reg_step b st ps w)
  from emit_backend_ok [OF "2.prems"(1,2), of reg_step b st n w'] "2.prems"(3) show ?case by simp
next
  case (3 reg_step b c bs st ps w)
  then obtain m w1 where m: "emit_backend reg_step b st ps w = Inr (m, w1)"
    and rest: "emit_backends reg_step (c # bs) (state_of w1 m) [m] w1 = Inr (n, w')" by auto
  from emit_backend_ok [OF "3.prems"(1,2) m] have "world_ok w1" "m < length (w_nodes w1)" "length (w_nodes w) \<le> length (w_nodes w1)"
    by auto
  with "3.IH" [OF m refl _ _ rest] show ?case by simp
qed simp

lemma to_fill_node_ok:
  assumes "world_ok w" "set ps \<subseteq> {..<length (w_nodes w)}" "to_fill_node reg_step i st ps w = Inr (n, w')"
  shows "world_ok w' \<and> n < length (w_nodes w') \<and> length (w_nodes w) \<le> n"
proof -
  obtain bs where bs: "emit_backends reg_step bs st ps w = Inr (n, w')"
    using assms(3) unfolding to_fill_node_def by (cases "lower_instr i") (simp_all only: bind_res_simps sum.distinct)
  show ?thesis by (rule emit_backends_ok [OF assms(1,2) bs])
qed

section \<open>Execution conditions of the nodes\<close>

lemma exec_link: "k < length (w_nodes w) \<Longrightarrow> nd_exec (node_at (link p c w) k) = nd_exec (node_at w k)"
  by (simp add: link_def add_child_def add_parent_def node_at_def nth_upd_node)

lemma exec_attach: "k < length (w_nodes w) \<Longrightarrow> nd_exec (node_at (attach n ps w) k) = nd_exec (node_at w k)"
proof (induction ps arbitrary: w)
  case (Cons p ps)
  from Cons.IH [of "link p n w"] Cons.prems show ?case by (simp add: attach_def exec_link)
qed (simp add: attach_def)

lemma node_at_fields [simp]:
  "node_at (w\<lparr>w_exec_registers := er\<rparr>) k = node_at w k" "node_at (w\<lparr>w_rest := g\<rparr>) k = node_at w k"
  "node_at (w\<lparr>w_loops := l\<rparr>) k = node_at w k" "node_at (w\<lparr>w_back_edges := l\<rparr>) k = node_at w k"
  "node_at (w\<lparr>w_to_node := m\<rparr>) k = node_at w k" "node_at (w\<lparr>w_from_node := f\<rparr>) k = node_at w k"
  by (simp_all add: node_at_def)

lemma exec_join_all:
  assumes "k < length (w_nodes w)" "k \<noteq> n"
  shows "nd_exec (node_at (foldl (\<lambda>w p. join_waiting n p w) w ps) k) = nd_exec (node_at w k)"
  using assms
proof (induction ps arbitrary: w)
  case (Cons p ps)
  have "nd_exec (node_at (join_waiting n p w) k) = nd_exec (node_at w k)"
    using Cons.prems exec_link [of k w p n] by (simp add: join_waiting_def Let_def node_at_def nth_upd_node)
  with Cons.IH [of "join_waiting n p w"] Cons.prems show ?case by (simp add: join_waiting_def Let_def)
qed simp

lemma exec_fill_branch: "k < length (w_nodes w) \<Longrightarrow> nd_exec (node_at (fill_branch n w) k) = nd_exec (node_at w k)"
  by (simp add: fill_branch_def Let_def exec_link split: option.split)

lemma exec_fill_label:
  "k < length (w_nodes w) \<Longrightarrow> k \<noteq> n \<or> w_from_node w (nd_instruction (node_at w n)) = None \<Longrightarrow>
     nd_exec (node_at (fill_label n w) k) = nd_exec (node_at w k)"
  by (auto simp: fill_label_def Let_def exec_join_all split: option.split)

lemma exec_set_exec:
  "k < length (w_nodes w) \<Longrightarrow> nd_exec (node_at (set_exec n c w) k) = (if k = n then c else nd_exec (node_at w k))"
  by (simp add: set_exec_def node_at_def nth_upd_node)

text \<open>The condition under which the code of a backend instruction runs, given the condition of the state it
  is emitted in.\<close>

definition exec_after :: "('s, 'g) world \<Rightarrow> backend \<Rightarrow> exec_cond \<Rightarrow> exec_cond" where
  "exec_after w b c =
     (if b_class b = ''UseMask'' then the (w_exec_registers w (op_name (b_ops b ! 0)))
      else if b_class b = ''Unmask'' \<or> b_class b = ''SEndpgm'' then exec_default else c)"

definition joins_nothing :: "('s, 'g) world \<Rightarrow> backend \<Rightarrow> bool" where
  "joins_nothing w b \<longleftrightarrow> (b_class b = ''Label'' \<longrightarrow> w_from_node w (b_opcode b) = None)"

lemma exec_fill_control:
  assumes r: "fill_control b n w = Inr w'" and k: "k < length (w_nodes w)"
  shows "k \<noteq> n \<Longrightarrow> nd_exec (node_at w' k) = nd_exec (node_at w k)"
    and "k = n \<Longrightarrow> is_control_backend b \<Longrightarrow> b_class b = ''Label'' \<longrightarrow> w_from_node w (nd_instruction (node_at w n)) = None \<Longrightarrow>
      nd_exec (node_at w' k) = exec_after w b (nd_exec (node_at w n))"
  using r exec_fill_branch [OF k, of n] exec_fill_label [OF k, of n] exec_set_exec [OF k, of n] k
  by (auto simp: fill_control_def exec_after_def is_control_backend_def is_branch_backend_def split: if_splits option.splits)

lemma instruction_attach:
  "k < length (w_nodes w) \<Longrightarrow> nd_instruction (node_at (attach n ps w) k) = nd_instruction (node_at w k)"
proof (induction ps arbitrary: w)
  case (Cons p ps)
  have "nd_instruction (node_at (link p n w) k) = nd_instruction (node_at w k)"
    using Cons.prems by (simp add: link_def add_child_def add_parent_def node_at_def nth_upd_node)
  with Cons.IH [of "link p n w"] Cons.prems show ?case by (simp add: attach_def)
qed (simp add: attach_def)

lemma fields_attach [simp]:
  "length (w_nodes (attach n ps w)) = length (w_nodes w)"
  "w_exec_registers (attach n ps w) = w_exec_registers w" "w_from_node (attach n ps w) = w_from_node w"
  by (induction ps arbitrary: w) (simp_all add: attach_def)

lemma emit_backend_exec:
  assumes r: "emit_backend reg_step b st ps w = Inr (n, w')"
  shows "k < length (w_nodes w) \<Longrightarrow> nd_exec (node_at w' k) = nd_exec (node_at w k)"
    and "joins_nothing w b \<Longrightarrow> nd_exec (node_at w' n) = exec_after w b (fst st)"
proof -
  obtain w1 where w1: "new_node b st w = (n, w1)" and f: "fill_node reg_step b n (attach n ps w1) = Inr w'"
    using r by (auto simp: emit_backend_def split: prod.splits)
  have n: "n = length (w_nodes w)" "length (w_nodes w1) = Suc (length (w_nodes w))"
    and old: "\<And>k. k < length (w_nodes w) \<Longrightarrow> node_at w1 k = node_at w k"
    and new: "nd_exec (node_at w1 n) = fst st" "nd_instruction (node_at w1 n) = b_opcode b"
    and keep: "w_exec_registers w1 = w_exec_registers w" "w_from_node w1 = w_from_node w"
    using w1 by (auto simp: new_node_def node_at_def nth_append)
  let ?a = "attach n ps w1"
  obtain s er g where s: "(if is_control_backend b
        then fill_control b n ((upd_node n (\<lambda>x. x\<lparr>nd_state := s\<rparr>) ?a)\<lparr>w_rest := g\<rparr>)
        else Inr ((upd_node n (\<lambda>x. x\<lparr>nd_state := s\<rparr>) ?a)\<lparr>w_rest := g, w_exec_registers := er\<rparr>)) = Inr w'"
    using f by (auto simp: fill_node_def Let_def)
  let ?w2 = "(upd_node n (\<lambda>x. x\<lparr>nd_state := s\<rparr>) ?a)\<lparr>w_rest := g\<rparr>"
  have exec2: "nd_exec (node_at ?w2 k) = nd_exec (node_at w1 k)" if "k < length (w_nodes w1)" for k
    using that exec_attach [OF that, of n ps] by (auto simp: node_at_def nth_upd_node)
  have instr2: "nd_instruction (node_at ?w2 n) = b_opcode b"
    using n new instruction_attach [of n w1 n ps] by (auto simp: node_at_def nth_upd_node)
  show "nd_exec (node_at w' k) = nd_exec (node_at w k)" if k: "k < length (w_nodes w)"
  proof (cases "is_control_backend b")
    case True
    with s have "fill_control b n ?w2 = Inr w'" by simp
    from exec_fill_control(1) [OF this, of k] exec2 [of k] old [of k] n k show ?thesis by simp
  next
    case False
    with s exec2 [of k] old [of k] n k show ?thesis by auto
  qed
  show "nd_exec (node_at w' n) = exec_after w b (fst st)" if j: "joins_nothing w b"
  proof (cases "is_control_backend b")
    case True
    with s have "fill_control b n ?w2 = Inr w'" by simp
    from exec_fill_control(2) [OF this, of n] True j exec2 [of n] instr2 n new keep show ?thesis
      by (simp add: joins_nothing_def exec_after_def)
  next
    case False
    with s exec2 [of n] n new show ?thesis by (auto simp: exec_after_def is_control_backend_def)
  qed
qed

lemma emit_backends_keep:
  assumes "emit_backends reg_step bs st ps w = Inr (n, w')" "k < length (w_nodes w)"
    and "world_ok w" "set ps \<subseteq> {..<length (w_nodes w)}"
  shows "nd_exec (node_at w' k) = nd_exec (node_at w k)"
  using assms
proof (induction reg_step bs st ps w rule: emit_backends.induct)
  case (2 reg_step b st ps w)
  then show ?case by (simp add: emit_backend_exec(1))
next
  case (3 reg_step b c bs st ps w)
  then obtain m w1 where m: "emit_backend reg_step b st ps w = Inr (m, w1)"
    and rest: "emit_backends reg_step (c # bs) (state_of w1 m) [m] w1 = Inr (n, w')" by auto
  have w1: "world_ok w1" "m = length (w_nodes w)" "length (w_nodes w1) = Suc (length (w_nodes w))"
    using emit_backend_ok [OF "3.prems"(3,4) m] by auto
  with "3.IH" [OF m refl rest] "3.prems" emit_backend_exec(1) [OF m "3.prems"(2)] show ?case by simp
qed simp

definition quiet :: "backend \<Rightarrow> bool" where
  "quiet b \<longleftrightarrow> b_class b \<notin> {''Label'', ''UseMask'', ''Unmask'', ''SEndpgm''}"

lemma emit_backends_quiet:
  assumes "emit_backends reg_step bs st ps w = Inr (n, w')" "list_all quiet bs"
    and "world_ok w" "set ps \<subseteq> {..<length (w_nodes w)}"
  shows "nd_exec (node_at w' n) = fst st"
  using assms
proof (induction reg_step bs st ps w rule: emit_backends.induct)
  case (2 reg_step b st ps w)
  then show ?case using emit_backend_exec(2) [of reg_step b st ps w n w']
    by (simp add: quiet_def joins_nothing_def exec_after_def)
next
  case (3 reg_step b c bs st ps w)
  then obtain m w1 where m: "emit_backend reg_step b st ps w = Inr (m, w1)"
    and rest: "emit_backends reg_step (c # bs) (state_of w1 m) [m] w1 = Inr (n, w')" by auto
  have w1: "world_ok w1" "m = length (w_nodes w)" "length (w_nodes w1) = Suc (length (w_nodes w))"
    using emit_backend_ok [OF "3.prems"(3,4) m] by auto
  have "nd_exec (node_at w1 m) = fst st"
    using emit_backend_exec(2) [OF m] "3.prems"(2) by (simp add: quiet_def joins_nothing_def exec_after_def)
  with "3.IH" [OF m refl rest] "3.prems" w1 show ?case by (simp add: state_of_def)
qed simp

end
