(* ===== verification/Mask_CFG.thy ===== *)
theory Mask_CFG
  imports CFG_Nodes IR_Kernel
begin

text \<open>
  The pass that turns the program into a graph and follows the execution mask
  (\<open>src/src/ir/passes/decompilation/cfg.py\<close>, \<open>state.py\<close>): a stack of open masks tells, when a mask is
  left, from which nodes control flow joins.  The stack is then compared with the abstract discipline of
  nested conditions: \<open>mask_move\<close> is what may happen to a stack, and the pass performs such moves.
\<close>

section \<open>The state of the pass\<close>

record masked_block =
  om_change :: nat
  om_branch_end :: "nat option"

record ('s, 'g) decompilation =
  d_world :: "('s, 'g) world"
  d_last :: nat
  d_masks :: "masked_block list"

text \<open>\<open>from_kernel\<close>: one empty node that is the first open mask.\<close>

definition start_decompilation :: "'s \<Rightarrow> 'g \<Rightarrow> ('s, 'g) decompilation" where
  "start_decompilation s g =
     \<lparr>d_world =
        \<lparr>w_nodes = [\<lparr>nd_instruction = [], nd_operands = [], nd_parents = [], nd_children = [], nd_exec = exec_default,
                     nd_state = s\<rparr>],
         w_exec_registers = [''$MASK'' \<mapsto> exec_default], w_to_node = Map.empty, w_from_node = Map.empty,
         w_loops = [], w_back_edges = [], w_rest = g\<rparr>,
      d_last = 0, d_masks = [\<lparr>om_change = 0, om_branch_end = None\<rparr>]\<rparr>"

definition get_exec :: "('s, 'g) world \<Rightarrow> nat \<Rightarrow> exec_cond" where
  "get_exec w n = nd_exec (node_at w n)"

definition append_unique_node :: "nat list \<Rightarrow> nat \<Rightarrow> nat list" where
  "append_unique_node ns n = (if n \<in> set ns then ns else ns @ [n])"

text \<open>The innermost open mask below \<open>stop\<close> with a condition.\<close>

definition find_open_mask_index :: "('s, 'g) world \<Rightarrow> masked_block list \<Rightarrow> exec_cond \<Rightarrow> nat \<Rightarrow> nat option" where
  "find_open_mask_index w masks c stop =
     (case filter (\<lambda>k. exec_eq (get_exec w (om_change (masks ! k))) c) (rev [0..<stop]) of
        [] \<Rightarrow> None | k # _ \<Rightarrow> Some k)"

definition add_closed_mask_parent :: "nat list \<Rightarrow> masked_block \<Rightarrow> nat list" where
  "add_closed_mask_parent parents m =
     append_unique_node parents (case om_branch_end m of Some n \<Rightarrow> n | None \<Rightarrow> om_change m)"

function close_open_masks ::
    "('s, 'g) world \<Rightarrow> masked_block list \<Rightarrow> exec_cond \<Rightarrow> nat list \<Rightarrow> masked_block list \<times> nat list" where
  "close_open_masks w masks c parents =
     (if 1 < length masks \<and> is_strict_superset_of (get_exec w (om_change (last masks))) c
      then close_open_masks w (butlast masks) c (add_closed_mask_parent parents (last masks))
      else (masks, parents))"
  by pat_completeness auto
termination by (relation "measure (\<lambda>(w, masks, c, parents). length masks)") auto

declare close_open_masks.simps [simp del]

section \<open>One instruction\<close>

text \<open>What is decided before the node of an instruction exists: its parents, the node whose state it
  starts from, and the open masks as a function of the new node.\<close>

record mask_plan =
  pl_parents :: "nat list"
  pl_state :: nat
  pl_masks :: "nat \<Rightarrow> masked_block list"

definition plain_plan :: "('s, 'g) decompilation \<Rightarrow> nat list \<Rightarrow> mask_plan" where
  "plain_plan d parents = \<lparr>pl_parents = parents, pl_state = d_last d, pl_masks = (\<lambda>n. d_masks d)\<rparr>"

definition close_plan :: "('s, 'g) decompilation \<Rightarrow> nat list \<Rightarrow> exec_cond \<Rightarrow> mask_plan" where
  "close_plan d parents c =
     (let (masks, ps) = close_open_masks (d_world d) (d_masks d) c parents
      in \<lparr>pl_parents = ps, pl_state = d_last d, pl_masks = (\<lambda>n. masks)\<rparr>)"

definition else_plan :: "('s, 'g) decompilation \<Rightarrow> nat list \<Rightarrow> exec_cond \<Rightarrow> exec_cond \<Rightarrow> mask_plan" where
  "else_plan d parents prev parent_condition =
     (case find_open_mask_index (d_world d) (d_masks d) prev (length (d_masks d)) of
        None \<Rightarrow> plain_plan d parents
      | Some k \<Rightarrow>
          let branch = om_change (d_masks d ! k);
              j = (case find_open_mask_index (d_world d) (d_masks d) parent_condition k of Some j \<Rightarrow> j | None \<Rightarrow> k - 1)
          in \<lparr>pl_parents = [branch], pl_state = branch,
              pl_masks = (\<lambda>n. take (Suc j) (d_masks d) @ [\<lparr>om_change = n, om_branch_end = Some (d_last d)\<rparr>])\<rparr>)"

definition change_plan :: "('s, 'g) decompilation \<Rightarrow> nat list \<Rightarrow> exec_cond \<Rightarrow> mask_plan" where
  "change_plan d parents next =
     (let prev = get_exec (d_world d) (d_last d)
      in if is_strict_superset_of next prev
         then (plain_plan d parents)\<lparr>pl_masks := (\<lambda>n. d_masks d @ [\<lparr>om_change = n, om_branch_end = None\<rparr>])\<rparr>
         else if is_strict_subset_of next prev then close_plan d parents next
         else case negated_sibling_parent prev next of
           Some p \<Rightarrow> else_plan d parents prev p
         | None \<Rightarrow> plain_plan d parents)"

definition plan :: "instr \<Rightarrow> ('s, 'g) decompilation \<Rightarrow> mask_plan res" where
  "plan i d =
     (let parents = (if nd_instruction (node_at (d_world d) (d_last d)) = ''s_branch'' then [] else [d_last d])
      in if i_class i = C_ChangeMask
         then (case w_exec_registers (d_world d) (op_name (opn i 0)) of
                 None \<Rightarrow> Inl KeyError | Some next \<Rightarrow> Inr (change_plan d parents next))
         else if i_class i = C_EndPgm \<or> i_class i = C_Unmask then Inr (close_plan d parents exec_default)
         else Inr (plain_plan d parents))"

text \<open>\<open>find_max_and_prev_versions\<close> merges the registers of several parents into a node; it is the argument
  \<open>merge\<close>.\<close>

type_synonym ('s, 'g) merge = "'s list \<Rightarrow> 's \<times> 'g \<Rightarrow> ('s \<times> 'g) res"

definition merge_parents :: "('s, 'g) merge \<Rightarrow> nat \<Rightarrow> ('s, 'g) world \<Rightarrow> ('s, 'g) world res" where
  "merge_parents merge n w =
     (if 1 < length (nd_parents (node_at w n))
      then bind_res (merge (map (\<lambda>p. nd_state (node_at w p)) (nd_parents (node_at w n))) (nd_state (node_at w n), w_rest w))
             (\<lambda>(s, g). Inr ((upd_node n (\<lambda>x. x\<lparr>nd_state := s\<rparr>) w)\<lparr>w_rest := g\<rparr>))
      else Inr w)"

definition cfg_step ::
    "('s, 'g) reg_step \<Rightarrow> ('s, 'g) merge \<Rightarrow> instr \<Rightarrow> ('s, 'g) decompilation \<Rightarrow> ('s, 'g) decompilation res" where
  "cfg_step reg_step merge i d =
     bind_res (plan i d) (\<lambda>p.
     bind_res (to_fill_node reg_step i (state_of (d_world d) (pl_state p)) (pl_parents p) (d_world d)) (\<lambda>(n, w).
     bind_res (merge_parents merge n w) (\<lambda>w'.
       Inr \<lparr>d_world = w', d_last = n, d_masks = pl_masks p n\<rparr>)))"

fun cfg_run ::
    "('s, 'g) reg_step \<Rightarrow> ('s, 'g) merge \<Rightarrow> instr list \<Rightarrow> ('s, 'g) decompilation \<Rightarrow> ('s, 'g) decompilation res" where
  "cfg_run reg_step merge [] d = Inr d"
| "cfg_run reg_step merge (i # is) d = bind_res (cfg_step reg_step merge i d) (cfg_run reg_step merge is)"

definition build_cfg :: "('s, 'g) reg_step \<Rightarrow> ('s, 'g) merge \<Rightarrow> kernel \<Rightarrow> 's \<Rightarrow> 'g \<Rightarrow> ('s, 'g) decompilation res" where
  "build_cfg reg_step merge k s g = cfg_run reg_step merge (k_instrs k) (start_decompilation s g)"

section \<open>The graph is consistent\<close>

definition mask_below :: "nat \<Rightarrow> masked_block \<Rightarrow> bool" where
  "mask_below m x \<longleftrightarrow> om_change x < m \<and> (case om_branch_end x of Some n \<Rightarrow> n < m | None \<Rightarrow> True)"

definition cfg_ok :: "('s, 'g) decompilation \<Rightarrow> bool" where
  "cfg_ok d \<longleftrightarrow> world_ok (d_world d) \<and> d_last d < length (w_nodes (d_world d))
     \<and> d_masks d \<noteq> [] \<and> list_all (mask_below (length (w_nodes (d_world d)))) (d_masks d)"

lemma start_ok: "cfg_ok (start_decompilation s g)"
  by (simp add: cfg_ok_def start_decompilation_def world_ok_def edges_match_def refs_below_def labels_ok_def mask_below_def)

lemma mask_below_mono: "list_all (mask_below m) xs \<Longrightarrow> m \<le> m' \<Longrightarrow> list_all (mask_below m') xs"
  by (auto simp: list_all_iff mask_below_def split: option.splits)

lemma close_open_masks_ok:
  assumes "close_open_masks w masks c parents = (masks', parents')" "masks \<noteq> []" "list_all (mask_below m) masks"
    and "set parents \<subseteq> {..<m}"
  shows "masks' \<noteq> [] \<and> list_all (mask_below m) masks' \<and> set parents' \<subseteq> {..<m}"
  using assms
proof (induction w masks c parents rule: close_open_masks.induct)
  case (1 w masks c parents)
  show ?case
  proof (cases "1 < length masks \<and> is_strict_superset_of (get_exec w (om_change (last masks))) c")
    case True
    have "mask_below m (last masks)" using "1.prems" by (auto simp: list_all_iff)
    then have ps: "set (add_closed_mask_parent parents (last masks)) \<subseteq> {..<m}"
      using "1.prems"(4) by (auto simp: add_closed_mask_parent_def append_unique_node_def mask_below_def split: option.splits)
    have "butlast masks \<noteq> []" using True by (cases masks rule: rev_cases) auto
    moreover have "list_all (mask_below m) (butlast masks)"
      using "1.prems"(3) by (auto simp: list_all_iff dest: in_set_butlastD)
    ultimately show ?thesis
      using "1.IH" [OF True] "1.prems"(1) True ps by (simp add: close_open_masks.simps [of w masks])
  next
    case False
    with "1.prems" show ?thesis by (auto simp: close_open_masks.simps [of w masks])
  qed
qed

lemma close_masks_below:
  assumes "close_open_masks w masks c parents = (masks', parents')" "list_all (mask_below m) masks"
  shows "list_all (mask_below m) masks'"
  using assms
proof (induction w masks c parents rule: close_open_masks.induct)
  case (1 w masks c parents)
  then show ?case
    by (cases "1 < length masks \<and> is_strict_superset_of (get_exec w (om_change (last masks))) c")
      (auto simp: close_open_masks.simps [of w masks] list_all_iff dest: in_set_butlastD)
qed

text \<open>A plan refers to existing nodes.\<close>

definition plan_ok :: "nat \<Rightarrow> mask_plan \<Rightarrow> bool" where
  "plan_ok m p \<longleftrightarrow> set (pl_parents p) \<subseteq> {..<m} \<and> pl_state p < m
     \<and> (\<forall>n \<ge> m. pl_masks p n \<noteq> [] \<and> list_all (mask_below (Suc n)) (pl_masks p n))"

lemma plain_plan_ok:
  "cfg_ok d \<Longrightarrow> set ps \<subseteq> {..<length (w_nodes (d_world d))} \<Longrightarrow> plan_ok (length (w_nodes (d_world d))) (plain_plan d ps)"
  by (auto simp: plan_ok_def plain_plan_def cfg_ok_def elim: mask_below_mono)

lemma close_plan_ok:
  assumes ok: "cfg_ok d" and ps: "set ps \<subseteq> {..<length (w_nodes (d_world d))}"
  shows "plan_ok (length (w_nodes (d_world d))) (close_plan d ps c)"
proof -
  obtain masks ps' where c: "close_open_masks (d_world d) (d_masks d) c ps = (masks, ps')" by force
  from close_open_masks_ok [OF c _ _ ps] ok show ?thesis
    by (auto simp: plan_ok_def close_plan_def c cfg_ok_def elim: mask_below_mono)
qed

lemma find_open_mask_Some:
  assumes "find_open_mask_index w masks c stop = Some k"
  shows "k < stop \<and> exec_eq (get_exec w (om_change (masks ! k))) c"
proof -
  let ?f = "filter (\<lambda>k. exec_eq (get_exec w (om_change (masks ! k))) c) (rev [0..<stop])"
  obtain ks where ks: "?f = k # ks" using assms by (cases ?f) (auto simp: find_open_mask_index_def)
  have "k \<in> set ?f" unfolding ks by simp
  then show ?thesis by simp
qed

lemma else_plan_ok:
  assumes ok: "cfg_ok d" and ps: "set ps \<subseteq> {..<length (w_nodes (d_world d))}"
  shows "plan_ok (length (w_nodes (d_world d))) (else_plan d ps prev p)"
proof (cases "find_open_mask_index (d_world d) (d_masks d) prev (length (d_masks d))")
  case None
  with plain_plan_ok [OF ok ps] show ?thesis by (simp add: else_plan_def)
next
  case (Some k)
  have k: "om_change (d_masks d ! k) < length (w_nodes (d_world d))"
    using find_open_mask_Some [OF Some] ok by (auto simp: cfg_ok_def list_all_length mask_below_def)
  have "list_all (mask_below (Suc n)) (take j (d_masks d))" if "length (w_nodes (d_world d)) \<le> n" for j n
    using ok that mask_below_mono [of "length (w_nodes (d_world d))" "d_masks d" "Suc n"]
    by (auto simp: cfg_ok_def list_all_iff dest: in_set_takeD)
  with k ok show ?thesis
    by (auto simp: else_plan_def Some Let_def plan_ok_def cfg_ok_def mask_below_def)
qed

lemma plan_is_ok:
  assumes ok: "cfg_ok d" and p: "plan i d = Inr p"
  shows "plan_ok (length (w_nodes (d_world d))) p"
proof -
  let ?m = "length (w_nodes (d_world d))"
  have change: "plan_ok ?m (change_plan d ps c)" if "set ps \<subseteq> {..<?m}" for ps c
  proof -
    have "plan_ok ?m ((plain_plan d ps)\<lparr>pl_masks := (\<lambda>n. d_masks d @ [\<lparr>om_change = n, om_branch_end = None\<rparr>])\<rparr>)"
      using plain_plan_ok [OF ok that] by (auto simp: plan_ok_def plain_plan_def mask_below_def)
    with plain_plan_ok [OF ok that] close_plan_ok [OF ok that] else_plan_ok [OF ok that] show ?thesis
      by (auto simp: change_plan_def Let_def split: option.split)
  qed
  have "set (if nd_instruction (node_at (d_world d) (d_last d)) = ''s_branch'' then [] else [d_last d]) \<subseteq> {..<?m}"
    using ok by (simp add: cfg_ok_def)
  with p change plain_plan_ok [OF ok] close_plan_ok [OF ok] show ?thesis
    by (auto simp: plan_def Let_def split: if_splits option.splits)
qed

lemma merge_parents_ok:
  assumes "world_ok w" "merge_parents merge n w = Inr w'"
  shows "world_ok w' \<and> length (w_nodes w') = length (w_nodes w)
       \<and> (\<forall>k < length (w_nodes w). nd_exec (node_at w' k) = nd_exec (node_at w k))"
  using assms
  by (auto simp: merge_parents_def world_ok_state keeps_edges_def node_at_def nth_upd_node split: if_splits)

lemma cfg_step_ok:
  assumes ok: "cfg_ok d" and r: "cfg_step reg_step merge i d = Inr d'"
  shows "cfg_ok d'"
proof -
  obtain p n w where p: "plan i d = Inr p"
    and f: "to_fill_node reg_step i (state_of (d_world d) (pl_state p)) (pl_parents p) (d_world d) = Inr (n, w)"
    and m: "merge_parents merge n w = Inr (d_world d')" and d': "d_last d' = n" "d_masks d' = pl_masks p n"
    using r by (auto simp: cfg_step_def)
  have w: "world_ok w" "n < length (w_nodes w)" "length (w_nodes (d_world d)) \<le> n"
    using to_fill_node_ok [OF _ _ f] plan_is_ok [OF ok p] ok by (auto simp: cfg_ok_def plan_ok_def)
  from w(3) have "pl_masks p n \<noteq> [] \<and> list_all (mask_below (Suc n)) (pl_masks p n)"
    using plan_is_ok [OF ok p] by (simp add: plan_ok_def)
  with w merge_parents_ok [OF w(1) m] d' show ?thesis
    by (auto simp: cfg_ok_def elim: mask_below_mono)
qed

lemma cfg_run_ok: "cfg_ok d \<Longrightarrow> cfg_run reg_step merge is d = Inr d' \<Longrightarrow> cfg_ok d'"
  by (induction "is" arbitrary: d) (auto dest: cfg_step_ok)

text \<open>
  C29: the control flow graph of every program is consistent: whatever the opcodes do to the registers, and
  wherever masks, labels and branches lead, every reference is to a node of the graph, a node is listed as
  a parent exactly as often as it lists the other as a child, and there is always an open mask.
\<close>

theorem cfg_consistent:
  assumes "build_cfg reg_step merge k s g = Inr d"
  shows "cfg_ok d"
  using cfg_run_ok [OF start_ok] assms by (simp add: build_cfg_def)

definition no_registers :: "(unit, unit) reg_step" where
  "no_registers b s eg = Inr (s, eg)"

definition no_merge :: "(unit, unit) merge" where
  "no_merge ps sg = Inr sg"

definition loop_kernel :: kernel where
  "loop_kernel =
     (new_kernel ''k'' None Map.empty)
       \<lparr>k_instrs := [plain_instr C_Label [Val ''.L''], plain_instr C_Branch [PredReg ''p'', Val ''.M''],
                     plain_instr C_Jump [Val ''.L''], plain_instr C_Label [Val ''.M''], plain_instr C_EndPgm []]\<rparr>"

lemma loop_kernel_cfg:
  "case build_cfg no_registers no_merge loop_kernel () () of
     Inr d \<Rightarrow> map nd_children (w_nodes (d_world d)) = [[1], [2], [3, 4], [1], [5], []] | Inl e \<Rightarrow> False"
  by code_simp

theorem cfg_consistent_witness:
  "\<exists>d. build_cfg no_registers no_merge loop_kernel () () = Inr d \<and> cfg_ok d \<and> nd_children (node_at (d_world d) 3) = [1]"
proof -
  obtain d where d: "build_cfg no_registers no_merge loop_kernel () () = Inr d"
    "map nd_children (w_nodes (d_world d)) = [[1], [2], [3, 4], [1], [5], []]"
    using loop_kernel_cfg by (auto split: sum.splits)
  have "length (w_nodes (d_world d)) = 6" using arg_cong [OF d(2), of length] by simp
  moreover have "map nd_children (w_nodes (d_world d)) ! 3 = [1]" unfolding d(2) by simp
  ultimately have "nd_children (node_at (d_world d) 3) = [1]" by (simp add: node_at_def)
  with d(1) cfg_consistent [OF d(1)] show ?thesis by blast
qed

section \<open>Nested masks\<close>

text \<open>What may happen to the stack of the conditions of the open masks: a stronger condition is pushed, an
  open condition is returned to, or the condition on top gives way to a sibling over the same parent.\<close>

inductive mask_move :: "string set list \<Rightarrow> string set list \<Rightarrow> bool" where
  enter: "last S \<subset> c \<Longrightarrow> mask_move S (S @ [c])"
| leave: "c \<in> set S \<Longrightarrow> mask_move S (takeWhile (\<lambda>x. x \<noteq> c) S @ [c])"
| switch: "p \<in> set S \<Longrightarrow> p \<subset> c \<Longrightarrow> mask_move S (takeWhile (\<lambda>x. x \<noteq> p) S @ [p, c])"

inductive_cases mask_moveE: "mask_move S S'"

definition well_nested :: "string set list \<Rightarrow> bool" where
  "well_nested S \<longleftrightarrow> S \<noteq> [] \<and> hd S = {} \<and> sorted_wrt (\<subset>) S"

lemma takeWhile_prefix:
  assumes "c \<in> set S"
  obtains A T where "S = A @ c # T" "takeWhile (\<lambda>x. x \<noteq> c) S = A" "c \<notin> set A"
proof -
  obtain A T where S: "S = A @ c # T" "c \<notin> set A" using split_list_first [OF assms] by blast
  then have "takeWhile (\<lambda>x. x \<noteq> c) S = A" by (auto intro!: takeWhile_append2 [THEN trans])
  with S that show ?thesis by blast
qed

lemma sorted_last: "sorted_wrt (\<subset>) S \<Longrightarrow> x \<in> set S \<Longrightarrow> x \<subseteq> last S"
  by (cases S rule: rev_cases) (auto simp: sorted_wrt_append)

lemma well_nested_cut:
  assumes w: "well_nested S" and c: "c \<in> set S"
  shows "well_nested (takeWhile (\<lambda>x. x \<noteq> c) S @ [c])"
proof -
  obtain A T where S: "S = A @ c # T" and A: "takeWhile (\<lambda>x. x \<noteq> c) S = A" using takeWhile_prefix [OF c] by blast
  have "well_nested (A @ c # T)" using w unfolding S .
  then show ?thesis unfolding A by (cases A) (auto simp: well_nested_def sorted_wrt_append)
qed

lemma well_nested_push:
  assumes w: "well_nested S" and c: "last S \<subset> c"
  shows "well_nested (S @ [c])"
proof -
  have "x \<subset> c" if "x \<in> set S" for x using sorted_last [of S x] that c w by (auto simp: well_nested_def)
  with w show ?thesis by (auto simp: well_nested_def sorted_wrt_append)
qed

lemma well_nested_move: "well_nested S \<Longrightarrow> mask_move S S' \<Longrightarrow> well_nested S'"
  using well_nested_push [OF well_nested_cut] by (auto elim!: mask_moveE intro: well_nested_cut well_nested_push)

lemma well_nested_reachable: "mask_move\<^sup>*\<^sup>* [{}] S \<Longrightarrow> well_nested S"
proof (induction rule: rtranclp_induct)
  case base
  show ?case by (simp add: well_nested_def)
next
  case (step S S')
  then show ?case by (simp only: well_nested_move)
qed

section \<open>The pass moves along the discipline\<close>

definition mask_set :: "('s, 'g) world \<Rightarrow> masked_block \<Rightarrow> string set" where
  "mask_set w m = condition_set (get_exec w (om_change m))"

definition mask_stack :: "('s, 'g) decompilation \<Rightarrow> string set list" where
  "mask_stack d = map (mask_set (d_world d)) (d_masks d)"

definition current_set :: "('s, 'g) decompilation \<Rightarrow> string set" where
  "current_set d = condition_set (get_exec (d_world d) (d_last d))"

definition nested :: "('s, 'g) decompilation \<Rightarrow> bool" where
  "nested d \<longleftrightarrow> cfg_ok d \<and> well_nested (mask_stack d) \<and> last (mask_stack d) = current_set d"

text \<open>A structured program: a change of the mask strengthens the current condition, keeps it, returns to an
  open one, or turns to its sibling over an open one; a label joins no pending branch.\<close>

definition disciplined :: "instr \<Rightarrow> ('s, 'g) decompilation \<Rightarrow> bool" where
  "disciplined i d =
     (if i_class i = C_ChangeMask
      then (case w_exec_registers (d_world d) (op_name (opn i 0)) of
              None \<Rightarrow> True
            | Some c \<Rightarrow>
                current_set d \<subseteq> condition_set c \<or> condition_set c \<in> set (mask_stack d)
                \<or> (case negated_sibling_parent (get_exec (d_world d) (d_last d)) c of
                     None \<Rightarrow> False | Some p \<Rightarrow> condition_set p \<in> set (mask_stack d)))
      else if i_class i = C_EndPgm \<or> i_class i = C_Unmask then True
      else (case lower_instr i of
              Inl e \<Rightarrow> True
            | Inr bs \<Rightarrow> list_all quiet bs
                \<or> (case bs of [b] \<Rightarrow> b_class b = ''Label'' \<and> joins_nothing (d_world d) b | _ \<Rightarrow> False)))"

lemma strict_superset_sets: "is_strict_superset_of a b \<longleftrightarrow> condition_set b \<subset> condition_set a"
  by (auto simp: is_strict_superset_of_def is_superset_of_def exec_eq_def)

lemma strict_subset_sets: "is_strict_subset_of a b \<longleftrightarrow> condition_set a \<subset> condition_set b"
  by (auto simp: is_strict_subset_of_def is_subset_of_def exec_eq_def)

lemma sibling_facts:
  assumes "negated_sibling_parent a b = Some p"
  shows "\<not> condition_set a \<subseteq> condition_set b \<and> \<not> condition_set b \<subseteq> condition_set a
       \<and> condition_set p \<subset> condition_set a \<and> condition_set p \<subset> condition_set b"
proof -
  obtain x y where xy: "conditions_minus a b = [x]" "conditions_minus b a = [y]"
    and p: "p = from_conditions (conditions_inter a b)"
    using assms by (auto simp: negated_sibling_parent_def split: list.splits if_splits)
  have "condition_set a - condition_set b = {x}" "condition_set b - condition_set a = {y}"
    using set_conditions(1) [of a b] set_conditions(1) [of b a] xy by simp_all
  moreover have "condition_set p \<subseteq> condition_set a \<inter> condition_set b"
    unfolding p condition_set_from set_conditions by blast
  ultimately show ?thesis by blast
qed

lemma close_open_masks_sets:
  assumes "sorted_wrt (\<subset>) (map (mask_set w) masks)" "condition_set c \<in> set (map (mask_set w) masks)"
  shows "map (mask_set w) (fst (close_open_masks w masks c parents))
       = takeWhile (\<lambda>x. x \<noteq> condition_set c) (map (mask_set w) masks) @ [condition_set c]"
  using assms
proof (induction w masks c parents rule: close_open_masks.induct)
  case (1 w masks c parents)
  obtain ms m where masks: "masks = ms @ [m]" using "1.prems"(2) by (cases masks rule: rev_cases) auto
  let ?S = "map (mask_set w) ms"
  have sorted: "sorted_wrt (\<subset>) ?S" "\<And>x. x \<in> set ?S \<Longrightarrow> x \<subset> mask_set w m"
    using "1.prems"(1) by (auto simp: masks sorted_wrt_append)
  have sup: "is_strict_superset_of (get_exec w (om_change (last masks))) c \<longleftrightarrow> condition_set c \<subset> mask_set w m"
    by (simp add: masks strict_superset_sets mask_set_def)
  show ?case
  proof (cases "condition_set c \<subset> mask_set w m")
    case True
    then have c: "condition_set c \<in> set ?S" using "1.prems"(2) by (auto simp: masks)
    then have "ms \<noteq> []" by auto
    with True sup have t: "1 < length masks \<and> is_strict_superset_of (get_exec w (om_change (last masks))) c"
      by (simp add: masks)
    have "map (mask_set w) (fst (close_open_masks w ms c (add_closed_mask_parent parents m)))
        = takeWhile (\<lambda>x. x \<noteq> condition_set c) ?S @ [condition_set c]"
      using "1.IH" [OF t] sorted(1) c by (simp add: masks)
    with t c show ?thesis by (simp add: close_open_masks.simps [of w "ms @ [m]"] masks takeWhile_append1)
  next
    case False
    then have c: "condition_set c = mask_set w m" "condition_set c \<notin> set ?S"
      using "1.prems"(2) sorted(2) by (auto simp: masks)
    have r: "fst (close_open_masks w masks c parents) = masks"
      using False sup by (simp add: close_open_masks.simps [of w masks])
    have "takeWhile (\<lambda>x. x \<noteq> condition_set c) (?S @ [mask_set w m]) = ?S"
      using c by (auto intro!: takeWhile_append2 [THEN trans])
    with c show ?thesis unfolding r by (simp add: masks)
  qed
qed

lemma sorted_nth_inj:
  assumes "sorted_wrt (\<subset>) S" "i < length S" "j < length S" "S ! i = S ! j"
  shows "i = j"
  using assms sorted_wrt_nth_less [OF assms(1), of i j] sorted_wrt_nth_less [OF assms(1), of j i]
  by (cases i j rule: linorder_cases) auto

lemma find_open_mask_sets:
  assumes s: "sorted_wrt (\<subset>) (map (mask_set w) masks)" and k: "k < stop" "stop \<le> length masks"
    and c: "map (mask_set w) masks ! k = condition_set c"
  shows "find_open_mask_index w masks c stop = Some k"
proof -
  let ?f = "filter (\<lambda>k. exec_eq (get_exec w (om_change (masks ! k))) c) (rev [0..<stop])"
  have "k \<in> set ?f" using k c by (simp add: exec_eq_def mask_set_def)
  then obtain j js where j: "?f = j # js" by (cases ?f) auto
  then have f: "find_open_mask_index w masks c stop = Some j" by (simp add: find_open_mask_index_def)
  with find_open_mask_Some [OF f] k c s have "j = k"
    by (intro sorted_nth_inj [OF s]) (auto simp: exec_eq_def mask_set_def)
  with f show ?thesis by simp
qed

text \<open>The sets of the open masks after the new node: the old ones, and its own.\<close>

lemma stack_after:
  assumes old: "\<And>k. k < m \<Longrightarrow> get_exec w' k = get_exec w k" and ms: "list_all (mask_below m) ms"
  shows "map (mask_set w') ms = map (mask_set w) ms"
  using assms by (auto simp: mask_set_def list_all_iff mask_below_def)

lemma else_plan_stack:
  assumes n: "nested d" and p: "negated_sibling_parent (get_exec (d_world d) (d_last d)) c = Some p"
    and open_p: "condition_set p \<in> set (mask_stack d)"
    and old: "\<And>k. k < length (w_nodes (d_world d)) \<Longrightarrow> get_exec w' k = get_exec (d_world d) k"
    and new: "condition_set (get_exec w' k) = condition_set c"
  shows "mask_move (mask_stack d) (map (mask_set w') (pl_masks (else_plan d ps (get_exec (d_world d) (d_last d)) p) k))
       \<and> last (map (mask_set w') (pl_masks (else_plan d ps (get_exec (d_world d) (d_last d)) p) k)) = condition_set c"
proof -
  let ?w = "d_world d" and ?S = "mask_stack d"
  have s: "sorted_wrt (\<subset>) ?S" and ne: "d_masks d \<noteq> []" and last_S: "last ?S = current_set d"
    using n by (auto simp: nested_def well_nested_def cfg_ok_def)
  let ?k = "length (d_masks d) - 1"
  have "?S ! ?k = condition_set (get_exec ?w (d_last d))"
    using last_S ne by (simp add: last_conv_nth mask_stack_def current_set_def)
  then have fk: "find_open_mask_index ?w (d_masks d) (get_exec ?w (d_last d)) (length (d_masks d)) = Some ?k"
    using s ne by (intro find_open_mask_sets) (auto simp: mask_stack_def)
  obtain A T where S: "?S = A @ condition_set p # T" and A: "takeWhile (\<lambda>x. x \<noteq> condition_set p) ?S = A"
    using takeWhile_prefix [OF open_p] by blast
  let ?j = "length A"
  have pj: "?S ! ?j = condition_set p" "?j < length ?S" by (simp_all add: S)
  have "T \<noteq> []"
  proof
    assume "T = []"
    then have "last ?S = condition_set p" by (simp add: S)
    with last_S sibling_facts [OF p] show False by (simp add: current_set_def)
  qed
  then have jk: "?j < ?k" using arg_cong [OF S, of length] by (cases T) (simp_all add: mask_stack_def)
  have fj: "find_open_mask_index ?w (d_masks d) p ?k = Some ?j"
    using s pj jk by (intro find_open_mask_sets) (auto simp: mask_stack_def)
  have "pl_masks (else_plan d ps (get_exec ?w (d_last d)) p) k
      = take (Suc ?j) (d_masks d) @ [\<lparr>om_change = k, om_branch_end = Some (d_last d)\<rparr>]"
    by (simp add: else_plan_def fk [unfolded One_nat_def] fj [unfolded One_nat_def] Let_def)
  moreover have "map (mask_set w') (take (Suc ?j) (d_masks d)) = map (mask_set ?w) (take (Suc ?j) (d_masks d))"
    using n by (intro stack_after [OF old]) (auto simp: nested_def cfg_ok_def list_all_iff dest: in_set_takeD)
  moreover have "map (mask_set ?w) (take (Suc ?j) (d_masks d)) = A @ [condition_set p]"
    using arg_cong [OF S, of "take (Suc ?j)"] by (simp add: mask_stack_def take_map)
  ultimately have r: "map (mask_set w') (pl_masks (else_plan d ps (get_exec ?w (d_last d)) p) k)
      = takeWhile (\<lambda>x. x \<noteq> condition_set p) ?S @ [condition_set p, condition_set c]"
    using new by (simp add: A mask_set_def)
  have "condition_set p \<subset> condition_set c" using sibling_facts [OF p] by blast
  then show ?thesis unfolding r using mask_move.switch [OF open_p] by simp
qed

lemma plain_masks [simp]: "pl_masks (plain_plan d ps) n = d_masks d" "pl_state (plain_plan d ps) = d_last d"
  by (simp_all add: plain_plan_def)

text \<open>The condition of the node that an instruction makes.\<close>

lemma lower_mask_classes:
  "i_class i = C_ChangeMask \<Longrightarrow> lower_instr i = Inr [be ''UseMask'' ''change_mask'' (i_ops i) []]"
  "i_class i = C_Unmask \<Longrightarrow> lower_instr i = Inr [be ''Unmask'' ''unmask'' [] []]"
  "i_class i = C_EndPgm \<Longrightarrow> lower_instr i = Inr [be ''SEndpgm'' ''s_endpgm'' (i_ops i) []]"
  by (simp_all add: lower_instr_def class_of_def changemask_class_def unmask_class_def endpgm_class_def plain_class_def one_def)

lemma to_fill_node_exec:
  assumes r: "to_fill_node reg_step i st ps w = Inr (n, w')"
    and ok: "world_ok w" "set ps \<subseteq> {..<length (w_nodes w)}"
  shows "k < length (w_nodes w) \<Longrightarrow> get_exec w' k = get_exec w k"
    and "i_class i = C_ChangeMask \<Longrightarrow> get_exec w' n = the (w_exec_registers w (op_name (opn i 0)))"
    and "i_class i = C_Unmask \<or> i_class i = C_EndPgm \<Longrightarrow> get_exec w' n = exec_default"
    and "lower_instr i = Inr bs \<Longrightarrow> list_all quiet bs \<or> (\<exists>b. bs = [b] \<and> b_class b = ''Label'' \<and> joins_nothing w b) \<Longrightarrow>
      get_exec w' n = fst st"
proof -
  obtain cs where cs: "lower_instr i = Inr cs" "emit_backends reg_step cs st ps w = Inr (n, w')"
    using r unfolding to_fill_node_def by (cases "lower_instr i") simp_all
  show "k < length (w_nodes w) \<Longrightarrow> get_exec w' k = get_exec w k"
    using emit_backends_keep [OF cs(2) _ ok] by (simp add: get_exec_def)
  have single: "get_exec w' n = exec_after w b (fst st)" if "cs = [b]" "joins_nothing w b" for b
    using emit_backend_exec(2) [of reg_step b st ps w n w'] cs(2) that by (simp add: get_exec_def)
  show "i_class i = C_ChangeMask \<Longrightarrow> get_exec w' n = the (w_exec_registers w (op_name (opn i 0)))"
    using single lower_mask_classes(1) [of i] cs(1) by (simp add: exec_after_def joins_nothing_def be_def opn_def)
  show "i_class i = C_Unmask \<or> i_class i = C_EndPgm \<Longrightarrow> get_exec w' n = exec_default"
    using single lower_mask_classes(2,3) [of i] cs(1) by (auto simp: exec_after_def joins_nothing_def be_def)
  show "lower_instr i = Inr bs \<Longrightarrow> list_all quiet bs \<or> (\<exists>b. bs = [b] \<and> b_class b = ''Label'' \<and> joins_nothing w b) \<Longrightarrow>
      get_exec w' n = fst st"
    using emit_backends_quiet [OF cs(2) _ ok] single cs(1) by (auto simp: get_exec_def exec_after_def)
qed

text \<open>The moves of the stack for each plan, once the new node has the expected condition.\<close>

lemma change_plan_stack:
  assumes n: "nested d" and c: "w_exec_registers (d_world d) (op_name (opn i 0)) = Some c"
    and i: "i_class i = C_ChangeMask" and disc: "disciplined i d"
    and old: "\<And>k. k < length (w_nodes (d_world d)) \<Longrightarrow> get_exec w' k = get_exec (d_world d) k"
    and new: "condition_set (get_exec w' k) = condition_set c"
  shows "mask_move\<^sup>*\<^sup>* (mask_stack d) (map (mask_set w') (pl_masks (change_plan d ps c) k))
       \<and> last (map (mask_set w') (pl_masks (change_plan d ps c) k)) = condition_set c"
proof -
  let ?S = "mask_stack d" and ?prev = "get_exec (d_world d) (d_last d)"
  have keep: "map (mask_set w') (d_masks d) = ?S"
    using n stack_after [OF old, where ms = "d_masks d"] by (simp add: nested_def cfg_ok_def mask_stack_def)
  have cur: "last ?S = condition_set ?prev" "sorted_wrt (\<subset>) ?S" "?S \<noteq> []"
    using n by (auto simp: nested_def current_set_def well_nested_def)
  consider "condition_set ?prev \<subset> condition_set c" | "condition_set c \<subset> condition_set ?prev"
    | "condition_set c = condition_set ?prev"
    | "\<not> condition_set c \<subseteq> condition_set ?prev" "\<not> condition_set ?prev \<subseteq> condition_set c" by blast
  then show ?thesis
  proof cases
    case 1
    then have "mask_move ?S (?S @ [condition_set c])" by (intro mask_move.enter) (simp add: cur)
    with 1 keep new show ?thesis
      by (auto simp: change_plan_def Let_def strict_superset_sets mask_set_def)
  next
    case 2
    then have no: "negated_sibling_parent ?prev c = None" using sibling_facts [of ?prev c] by (cases "negated_sibling_parent ?prev c") auto
    from 2 disc c no i have in_S: "condition_set c \<in> set ?S" by (auto simp: disciplined_def current_set_def)
    obtain masks ps' where m: "close_open_masks (d_world d) (d_masks d) c ps = (masks, ps')" by force
    have "map (mask_set (d_world d)) masks = takeWhile (\<lambda>x. x \<noteq> condition_set c) ?S @ [condition_set c]"
      using close_open_masks_sets [of "d_world d" "d_masks d" c ps] cur in_S by (simp add: m mask_stack_def)
    moreover have "map (mask_set w') masks = map (mask_set (d_world d)) masks"
      using n by (intro stack_after [OF old]) (auto simp: nested_def cfg_ok_def close_masks_below [OF m])
    ultimately show ?thesis
      using 2 mask_move.leave [OF in_S]
      by (auto simp: change_plan_def Let_def strict_superset_sets strict_subset_sets close_plan_def m)
  next
    case 3
    then have "negated_sibling_parent ?prev c = None" using sibling_facts [of ?prev c] by (cases "negated_sibling_parent ?prev c") auto
    with 3 keep cur show ?thesis
      by (simp add: change_plan_def Let_def strict_superset_sets strict_subset_sets)
  next
    case 4
    with disc c i cur sorted_last [OF cur(2), of "condition_set c"]
    obtain p where p: "negated_sibling_parent ?prev c = Some p" "condition_set p \<in> set ?S"
      by (auto simp: disciplined_def current_set_def split: option.splits)
    have "change_plan d ps c = else_plan d ps ?prev p"
      using 4 p by (auto simp: change_plan_def Let_def strict_superset_sets strict_subset_sets)
    with else_plan_stack [OF n p old new] show ?thesis by auto
  qed
qed

lemma close_default_stack:
  assumes n: "nested d"
    and old: "\<And>k. k < length (w_nodes (d_world d)) \<Longrightarrow> get_exec w' k = get_exec (d_world d) k"
  shows "mask_move (mask_stack d) (map (mask_set w') (pl_masks (close_plan d ps exec_default) k))
       \<and> last (map (mask_set w') (pl_masks (close_plan d ps exec_default) k)) = {}"
proof -
  let ?S = "mask_stack d"
  have S: "sorted_wrt (\<subset>) ?S" and in_S: "{} \<in> set ?S"
    using n hd_in_set [of ?S] by (auto simp: nested_def well_nested_def)
  obtain masks ps' where m: "close_open_masks (d_world d) (d_masks d) exec_default ps = (masks, ps')" by force
  have "map (mask_set (d_world d)) masks = takeWhile (\<lambda>x. x \<noteq> {}) ?S @ [{}]"
    using close_open_masks_sets [of "d_world d" "d_masks d" exec_default ps] S in_S by (simp add: m mask_stack_def)
  moreover have "map (mask_set w') masks = map (mask_set (d_world d)) masks"
    using n by (intro stack_after [OF old]) (auto simp: nested_def cfg_ok_def close_masks_below [OF m])
  ultimately show ?thesis using mask_move.leave [OF in_S] by (simp add: close_plan_def m)
qed

lemma cfg_step_nested:
  assumes n: "nested d" and disc: "disciplined i d" and r: "cfg_step reg_step merge i d = Inr d'"
  shows "nested d' \<and> mask_move\<^sup>*\<^sup>* (mask_stack d) (mask_stack d')"
proof -
  have ok: "cfg_ok d" using n by (simp add: nested_def)
  obtain p m w where p: "plan i d = Inr p"
    and f: "to_fill_node reg_step i (state_of (d_world d) (pl_state p)) (pl_parents p) (d_world d) = Inr (m, w)"
    and mg: "merge_parents merge m w = Inr (d_world d')" and d': "d_last d' = m" "d_masks d' = pl_masks p m"
    using r by (auto simp: cfg_step_def)
  have wok: "world_ok (d_world d)" "set (pl_parents p) \<subseteq> {..<length (w_nodes (d_world d))}"
    using ok plan_is_ok [OF ok p] by (auto simp: cfg_ok_def plan_ok_def)
  have w: "world_ok w" "m < length (w_nodes w)" "length (w_nodes (d_world d)) \<le> m" using to_fill_node_ok [OF wok f] by auto
  have same: "get_exec (d_world d') k = get_exec w k" if "k < length (w_nodes w)" for k
    using merge_parents_ok [OF w(1) mg] that by (simp add: get_exec_def)
  have old: "get_exec (d_world d') k = get_exec (d_world d) k" if "k < length (w_nodes (d_world d))" for k
    using same [of k] to_fill_node_exec(1) [OF f wok that] that w by simp
  have new: "get_exec (d_world d') m = get_exec w m" by (rule same [OF w(2)])
  have stack': "mask_stack d' = map (mask_set (d_world d')) (pl_masks p m)" by (simp add: mask_stack_def d')
  have moves: "mask_move\<^sup>*\<^sup>* (mask_stack d) (mask_stack d') \<and> last (mask_stack d') = current_set d'"
  proof -
    consider (change) "i_class i = C_ChangeMask" | (close) "i_class i = C_EndPgm \<or> i_class i = C_Unmask"
      | (plain) "i_class i \<notin> {C_ChangeMask, C_EndPgm, C_Unmask}" by blast
    then show ?thesis
    proof cases
      case change
      then obtain c ps where c: "w_exec_registers (d_world d) (op_name (opn i 0)) = Some c" and pp: "p = change_plan d ps c"
        using p by (auto simp: plan_def Let_def split: option.splits)
      have "condition_set (get_exec (d_world d') m) = condition_set c"
        using to_fill_node_exec(2) [OF f wok change] c new by simp
      with change_plan_stack [OF n c change disc old, of m ps] show ?thesis
        by (simp add: stack' pp current_set_def d')
    next
      case close
      then obtain ps where pp: "p = close_plan d ps exec_default"
        using p by (auto simp: plan_def Let_def split: if_splits)
      have "get_exec (d_world d') m = exec_default"
        using to_fill_node_exec(3) [OF f wok] close new by auto
      with close_default_stack [OF n old, where k = m and ps = ps] show ?thesis
        by (auto simp: stack' pp current_set_def d')
    next
      case plain
      then obtain ps where pp: "p = plain_plan d ps" using p by (auto simp: plan_def Let_def split: if_splits)
      obtain bs where bs: "lower_instr i = Inr bs" using f by (cases "lower_instr i") (auto simp: to_fill_node_def)
      have "list_all quiet bs \<or> (\<exists>b. bs = [b] \<and> b_class b = ''Label'' \<and> joins_nothing (d_world d) b)"
        using disc plain bs by (auto simp: disciplined_def split: list.splits)
      from to_fill_node_exec(4) [OF f wok bs this]
      have "get_exec w m = get_exec (d_world d) (d_last d)" by (simp add: pp state_of_def get_exec_def)
      with new have "get_exec (d_world d') m = get_exec (d_world d) (d_last d)" by simp
      moreover have "map (mask_set (d_world d')) (d_masks d) = map (mask_set (d_world d)) (d_masks d)"
        using ok by (intro stack_after [OF old]) (auto simp: cfg_ok_def)
      then have "mask_stack d' = mask_stack d" by (simp add: stack' pp) (simp add: mask_stack_def)
      ultimately show ?thesis using n by (simp add: nested_def current_set_def d')
    qed
  qed
  have "well_nested T" if "mask_move\<^sup>*\<^sup>* (mask_stack d) T" for T
    using that by (induction rule: rtranclp_induct) (use n in \<open>auto simp: nested_def intro: well_nested_move\<close>)
  with moves cfg_step_ok [OF ok r] show ?thesis by (simp add: nested_def)
qed

fun disciplined_run ::
    "('s, 'g) reg_step \<Rightarrow> ('s, 'g) merge \<Rightarrow> instr list \<Rightarrow> ('s, 'g) decompilation \<Rightarrow> bool" where
  "disciplined_run reg_step merge [] d = True"
| "disciplined_run reg_step merge (i # is) d =
     (disciplined i d \<and> (case cfg_step reg_step merge i d of
        Inl e \<Rightarrow> True | Inr d' \<Rightarrow> disciplined_run reg_step merge is d'))"

lemma cfg_run_nested:
  "nested d \<Longrightarrow> disciplined_run reg_step merge is d \<Longrightarrow> cfg_run reg_step merge is d = Inr d' \<Longrightarrow>
     nested d' \<and> mask_move\<^sup>*\<^sup>* (mask_stack d) (mask_stack d')"
proof (induction "is" arbitrary: d)
  case (Cons i "is")
  from Cons.prems obtain d1 where d1: "cfg_step reg_step merge i d = Inr d1"
    and rest: "disciplined_run reg_step merge is d1" "cfg_run reg_step merge is d1 = Inr d'"
    by auto
  have "nested d1 \<and> mask_move\<^sup>*\<^sup>* (mask_stack d) (mask_stack d1)"
    using cfg_step_nested [OF Cons.prems(1) _ d1] Cons.prems(2) by simp
  with Cons.IH [OF _ rest] show ?case by (auto intro: rtranclp_trans)
qed simp

lemma start_stack: "mask_stack (start_decompilation s g) = [{}]"
  by (simp add: mask_stack_def mask_set_def get_exec_def start_decompilation_def node_at_def)

lemma start_nested: "nested (start_decompilation s g)"
  using start_ok [of s g]
  by (simp add: nested_def well_nested_def start_stack current_set_def)
    (simp add: get_exec_def start_decompilation_def node_at_def)


definition mark_registers :: "(unit, unit) reg_step" where
  "mark_registers b s eg =
     (case b_ops b of
        [PredReg p, Val c] \<Rightarrow> Inr (s, (fst eg)(p \<mapsto> mk_exec [c]), snd eg)
      | _ \<Rightarrow> Inr (s, eg))"

definition if_else_kernel :: kernel where
  "if_else_kernel =
     (new_kernel ''k'' None Map.empty)
       \<lparr>k_instrs := [plain_instr C_Mov [PredReg ''p'', Val ''a''], plain_instr C_Mov [PredReg ''q'', Val ''!(a)''],
                     plain_instr C_ChangeMask [PredReg ''p''], plain_instr C_ChangeMask [PredReg ''q'']]\<rparr>"

lemma if_else_kernel_cfg:
  "case build_cfg mark_registers no_merge if_else_kernel () () of
     Inr d \<Rightarrow> map nd_parents (w_nodes (d_world d)) = [[], [0], [1], [2], [3]]
              \<and> map (get_exec (d_world d)) (map om_change (d_masks d)) = [exec_default, mk_exec [''!(a)'']]
   | Inl e \<Rightarrow> False"
  by code_simp

lemma if_else_kernel_disciplined:
  "disciplined_run mark_registers no_merge (k_instrs if_else_kernel) (start_decompilation () ())"
  by code_simp


end
