(* ===== verification/Reg_Content.thy ===== *)
theory Reg_Content
  imports Expr_Manager Expr_Semantics
begin

text \<open>
  What a register holds (\<open>src/src/register_content.py\<close>, \<open>operation_register_content.py\<close>,
  \<open>combined_register_content.py\<close>): a plain value, an operation over values that is kept as a list of
  summands or factors, or several values packed into one register.  A value is Python text or an integer.
  Sizes and data types are plain values at first, and become lists when an operation is simplified; the
  data type \<open>nest\<close> keeps that distinction.
\<close>

section \<open>Contents\<close>

datatype py_object = PStr string | PInt int

datatype 'a nest = Leaf 'a | Nest "'a nest list"

record plain_content =
  pc_value :: py_object
  pc_type :: "register_type option"
  pc_size :: "int nest"
  pc_data :: "string option nest"
  pc_sign :: "register_sign option"
  pc_node :: "expr_node option"

datatype content_op = OP_PLUS | OP_MINUS | OP_PRODUCT | OP_DIVISION | OP_R_SHIFT | OP_L_SHIFT | OP_BITWISE_AND | OP_BITWISE_OR

fun content_op_value :: "content_op \<Rightarrow> string" where
  "content_op_value OP_PLUS = ''+''"
| "content_op_value OP_MINUS = ''-''"
| "content_op_value OP_PRODUCT = ''*''"
| "content_op_value OP_DIVISION = ''/''"
| "content_op_value OP_R_SHIFT = ''>>''"
| "content_op_value OP_L_SHIFT = ''<<''"
| "content_op_value OP_BITWISE_AND = ''&''"
| "content_op_value OP_BITWISE_OR = ''|''"

text \<open>The parallel lists \<open>_value\<close>, \<open>_type\<close>, \<open>_sign\<close> of an operation are one list of summands.\<close>

record summand =
  sm_value :: py_object
  sm_type :: "register_type option"
  sm_sign :: "register_sign option"

record operation_content =
  oc_op :: content_op
  oc_terms :: "summand list"
  oc_size :: "int nest"
  oc_data :: "string option nest"
  oc_node :: "expr_node option"

datatype reg_content = Plain plain_content | Oper operation_content | Comb "plain_content list"

definition DEFAULT_REGISTER_SIZE :: int where
  "DEFAULT_REGISTER_SIZE = 32"

definition plain :: "py_object \<Rightarrow> register_type \<Rightarrow> int \<Rightarrow> string option \<Rightarrow> expr_node option \<Rightarrow> plain_content" where
  "plain v t n d e =
     \<lparr>pc_value = v, pc_type = Some t, pc_size = Leaf n, pc_data = Leaf d, pc_sign = Some POSITIVE, pc_node = e\<rparr>"

text \<open>Text stands for \<open>None\<close> in the value of an empty content, which no operation reads.\<close>

definition empty_content :: "int \<Rightarrow> plain_content" where
  "empty_content n = plain (PStr ''None'') EMPTY n None None"

fun object_str :: "py_object \<Rightarrow> string" where
  "object_str (PStr s) = s"
| "object_str (PInt i) = show_int i"

section \<open>Attributes\<close>

definition hd_res :: "'a list \<Rightarrow> 'a res" where
  "hd_res xs = py_nth xs 0"

fun leaf_of :: "'a nest \<Rightarrow> 'a res" where
  "leaf_of (Leaf x) = Inr x"
| "leaf_of (Nest xs) = Inl TypeError"

definition summand_str :: "summand \<Rightarrow> string" where
  "summand_str t = (if sm_sign t = Some NEGATIVE then ''-'' else []) @ object_str (sm_value t)"

definition operation_str :: "operation_content \<Rightarrow> string" where
  "operation_str c = join ('' '' @ content_op_value (oc_op c) @ '' '') (map summand_str (oc_terms c))"

fun get_value :: "reg_content \<Rightarrow> py_object res" where
  "get_value (Plain p) = Inr (pc_value p)"
| "get_value (Oper c) = Inr (PStr (operation_str c))"
| "get_value (Comb ps) = bind_res (hd_res ps) (\<lambda>p. Inr (pc_value p))"

fun get_reg_type :: "reg_content \<Rightarrow> register_type option res" where
  "get_reg_type (Plain p) = Inr (pc_type p)"
| "get_reg_type (Oper c) = Inr None"
| "get_reg_type (Comb ps) = bind_res (hd_res ps) (\<lambda>p. Inr (pc_type p))"

fun get_content_size :: "reg_content \<Rightarrow> int nest res" where
  "get_content_size (Plain p) = Inr (pc_size p)"
| "get_content_size (Oper c) = Inr (oc_size c)"
| "get_content_size (Comb ps) = bind_res (mapE (\<lambda>p. leaf_of (pc_size p)) ps) (\<lambda>ns. Inr (Leaf (sum_list ns)))"

fun get_data_type :: "reg_content \<Rightarrow> string option nest res" where
  "get_data_type (Plain p) = Inr (pc_data p)"
| "get_data_type (Oper c) = Inr (oc_data c)"
| "get_data_type (Comb ps) = bind_res (hd_res ps) (\<lambda>p. Inr (pc_data p))"

fun get_sign :: "reg_content \<Rightarrow> register_sign option res" where
  "get_sign (Plain p) = Inr (pc_sign p)"
| "get_sign (Oper c) = Inr None"
| "get_sign (Comb ps) = bind_res (hd_res ps) (\<lambda>p. Inr (pc_sign p))"

fun get_node :: "reg_content \<Rightarrow> expr_node option res" where
  "get_node (Plain p) = Inr (pc_node p)"
| "get_node (Oper c) = Inr (oc_node c)"
| "get_node (Comb ps) = bind_res (hd_res ps) (\<lambda>p. Inr (pc_node p))"

text \<open>\<open>__invert__\<close> flips the sign in place; the sign of the other contents is a list.\<close>

fun invert_content :: "reg_content \<Rightarrow> reg_content res" where
  "invert_content (Plain p) =
     (case pc_sign p of Some s \<Rightarrow> Inr (Plain (p\<lparr>pc_sign := Some (invert_sign s)\<rparr>)) | None \<Rightarrow> Inl AttributeError)"
| "invert_content c = Inl AttributeError"

section \<open>OperationRegisterContent\<close>

definition is_oper :: "reg_content \<Rightarrow> bool" where
  "is_oper c = (case c of Oper oc \<Rightarrow> True | _ \<Rightarrow> False)"

definition same_operation :: "content_op \<Rightarrow> reg_content list \<Rightarrow> bool" where
  "same_operation x cs \<longleftrightarrow> list_all (\<lambda>c. case c of Oper oc \<Rightarrow> oc_op oc = x | _ \<Rightarrow> True) cs"

text \<open>What one operand adds to the lists of the operation.\<close>

definition simple_contribution :: "reg_content \<Rightarrow> (summand list \<times> int nest list \<times> string option nest list) res" where
  "simple_contribution c =
     bind_res (get_value c) (\<lambda>v. bind_res (get_reg_type c) (\<lambda>t. bind_res (get_content_size c) (\<lambda>n.
     bind_res (get_data_type c) (\<lambda>d. bind_res (get_sign c) (\<lambda>s.
       Inr ([\<lparr>sm_value = v, sm_type = t, sm_sign = s\<rparr>], [n], [d]))))))"

definition contribution :: "bool \<Rightarrow> reg_content \<Rightarrow> (summand list \<times> int nest list \<times> string option nest list) res" where
  "contribution same c =
     (case c of
        Oper oc \<Rightarrow>
          if same
          then Inr (oc_terms oc, replicate (length (oc_terms oc)) (oc_size oc), replicate (length (oc_terms oc)) (oc_data oc))
          else Inr ([\<lparr>sm_value = PStr (''('' @ operation_str oc @ '')''), sm_type = None, sm_sign = None\<rparr>],
                    [oc_size oc], [oc_data oc])
      | _ \<Rightarrow> simple_contribution c)"

text \<open>\<open>apply_operation_to_nodes\<close>, on nodes that may be missing.\<close>

fun apply_nodes_from :: "expr_op \<Rightarrow> expr_node option \<Rightarrow> expr_node option list \<Rightarrow> expr_node option mgr" where
  "apply_nodes_from x prev [] = returnS prev"
| "apply_nodes_from x prev (n # ns) =
     (case (prev, n) of
        (Some p, Some m) \<Rightarrow> bindS (add_operation p m x OUnknown) (\<lambda>q. apply_nodes_from x (Some q) ns)
      | _ \<Rightarrow> raiseS AssertionError)"

definition apply_nodes :: "expr_op \<Rightarrow> expr_node option list \<Rightarrow> expr_node option mgr" where
  "apply_nodes x ns = (case ns of [] \<Rightarrow> raiseS AssertionError | n # rest \<Rightarrow> apply_nodes_from x n rest)"

definition common_data :: "string option list \<Rightarrow> string option" where
  "common_data ds = (case remdups ds of [d] \<Rightarrow> d | _ \<Rightarrow> None)"

definition max_res :: "int list \<Rightarrow> int res" where
  "max_res ns = (case ns of [] \<Rightarrow> Inl ValueError | n # rest \<Rightarrow> Inr (fold max rest n))"

definition invert_rest :: "reg_content list \<Rightarrow> reg_content list res" where
  "invert_rest cs = (case cs of [] \<Rightarrow> Inr [] | c # rest \<Rightarrow> bind_res (mapE invert_content rest) (\<lambda>rs. Inr (c # rs)))"

definition operation_of :: "content_op \<Rightarrow> reg_content list \<Rightarrow> expr_node option \<Rightarrow> operation_content mgr" where
  "operation_of x cs node =
     (if cs = []
      then returnS \<lparr>oc_op = x, oc_terms = [], oc_size = Leaf DEFAULT_REGISTER_SIZE, oc_data = Leaf None, oc_node = None\<rparr>
      else bindS (liftS (if x = OP_MINUS then invert_rest cs else Inr cs)) (\<lambda>cs'.
        let x' = (if x = OP_MINUS then OP_PLUS else x)
        in bindS (liftS (mapE (contribution (same_operation x' cs')) cs')) (\<lambda>parts.
           bindS (liftS (mapE leaf_of (concat (map (snd \<circ> snd) parts)))) (\<lambda>ds.
           bindS (case node of
                    Some n \<Rightarrow> returnS (Some n)
                  | None \<Rightarrow> bindS (liftS (mapE get_node cs')) (\<lambda>ns. apply_nodes (op_from_string (content_op_value x')) ns)) (\<lambda>e.
           bindS (liftS (mapE leaf_of (concat (map (fst \<circ> snd) parts)))) (\<lambda>sizes.
           bindS (liftS (max_res sizes)) (\<lambda>n.
             returnS \<lparr>oc_op = x', oc_terms = concat (map fst parts), oc_size = Leaf n, oc_data = Leaf (common_data ds),
                      oc_node = e\<rparr>)))))))"

subsection \<open>\<open>maybe_simplify\<close>\<close>

text \<open>Two equal summands of opposite sign.\<close>

definition opposite :: "summand \<Rightarrow> summand \<Rightarrow> bool" where
  "opposite a b \<longleftrightarrow> sm_type a = sm_type b \<and> sm_value a = sm_value b \<and> sm_sign a \<noteq> sm_sign b"

definition find_opposite_pos :: "summand list \<Rightarrow> (nat \<times> nat) option" where
  "find_opposite_pos ts =
     find (\<lambda>(i, j). opposite (ts ! i) (ts ! j)) (concat (map (\<lambda>i. map (Pair i) [Suc i..<length ts]) [0..<length ts]))"

definition first_pos :: "register_type \<Rightarrow> summand list \<Rightarrow> nat option" where
  "first_pos t ts = find (\<lambda>i. sm_type (ts ! i) = Some t) [0..<length ts]"

fun find_types_pos :: "register_type list \<Rightarrow> summand list \<Rightarrow> nat list option" where
  "find_types_pos [] ts = Some []"
| "find_types_pos (t # types) ts =
     (case first_pos t ts of
        None \<Rightarrow> None
      | Some i \<Rightarrow> (case find_types_pos types ts of None \<Rightarrow> None | Some ps \<Rightarrow> Some (i # ps)))"

definition without_pos :: "nat list \<Rightarrow> 'a list \<Rightarrow> 'a list" where
  "without_pos ps ts = nths ts (- set ps)"

definition without_positions :: "nat list \<Rightarrow> operation_content \<Rightarrow> operation_content" where
  "without_positions ps c =
     (let ts = without_pos ps (oc_terms c)
      in c\<lparr>oc_terms := ts, oc_size := Nest (replicate (length ts) (oc_size c)),
           oc_data := Nest (replicate (length ts) (oc_data c))\<rparr>)"

text \<open>\<open>_SUM_SIMPLIFY_COMBINATIONS\<close>.\<close>

definition sum_rules :: "(register_type list \<times> string \<times> register_type) list" where
  "sum_rules =
     map (\<lambda>d. ([GLOBAL_OFFSET d, WORK_ITEM_ID d, WORK_GROUP_ID_LOCAL_SIZE d], call_dim ''get_global_id'' d, GLOBAL_ID d)) dims
     @ map (\<lambda>d. ([GLOBAL_OFFSET d, WORK_GROUP_ID_WORK_ITEM_ID d], call_dim ''get_global_id'' d, GLOBAL_ID d)) dims
     @ map (\<lambda>d. ([WORK_ITEM_ID d, WORK_GROUP_ID_LOCAL_SIZE_OFFSET d], call_dim ''get_global_id'' d, GLOBAL_ID d)) dims
     @ map (\<lambda>d. ([NUM_GROUPS d, WORK_GROUP_ID_LOCAL_SIZE d], call_dim ''get_global_size'' d, GLOBAL_SIZE d)) dims"

fun first_rule ::
    "(register_type list \<times> string \<times> register_type) list \<Rightarrow> summand list \<Rightarrow> (nat list \<times> string \<times> register_type) option" where
  "first_rule [] ts = None"
| "first_rule ((types, s, t) # rules) ts =
     (case find_types_pos types ts of Some ps \<Rightarrow> Some (ps, s, t) | None \<Rightarrow> first_rule rules ts)"

fun append_nest :: "'a nest \<Rightarrow> 'a \<Rightarrow> 'a nest" where
  "append_nest (Nest xs) x = Nest (xs @ [Leaf x])"
| "append_nest (Leaf y) x = Leaf y"

definition positive_summand :: "string \<Rightarrow> register_type \<Rightarrow> summand" where
  "positive_summand s t = \<lparr>sm_value = PStr s, sm_type = Some t, sm_sign = Some POSITIVE\<rparr>"

definition apply_rule :: "nat list \<times> string \<times> register_type \<Rightarrow> operation_content \<Rightarrow> operation_content" where
  "apply_rule r c =
     (let (ps, s, t) = r; c' = without_positions ps c
      in c'\<lparr>oc_terms := oc_terms c' @ [positive_summand s t],
            oc_size := append_nest (oc_size c') DEFAULT_REGISTER_SIZE, oc_data := append_nest (oc_data c') None\<rparr>)"

fun nest_hd :: "'a nest \<Rightarrow> 'a nest res" where
  "nest_hd (Leaf x) = Inl TypeError"
| "nest_hd (Nest []) = Inl IndexError"
| "nest_hd (Nest (x # xs)) = Inr x"

definition single_summand :: "summand \<Rightarrow> operation_content \<Rightarrow> plain_content res" where
  "single_summand t c =
     bind_res (nest_hd (oc_size c)) (\<lambda>n. bind_res (nest_hd (oc_data c)) (\<lambda>d.
       Inr \<lparr>pc_value = sm_value t, pc_type = sm_type t, pc_size = n, pc_data = d, pc_sign = sm_sign t, pc_node = oc_node c\<rparr>))"

text \<open>The positions that a rule removes are pairwise different.\<close>

lemma first_posD: "first_pos t ts = Some i \<Longrightarrow> i < length ts \<and> sm_type (ts ! i) = Some t"
  by (auto simp: first_pos_def find_Some_iff)

lemma find_types_posD:
  "find_types_pos types ts = Some ps \<Longrightarrow> set ps \<subseteq> {..<length ts} \<and> map (\<lambda>i. sm_type (ts ! i)) ps = map Some types"
  by (induction types arbitrary: ps) (auto split: option.splits dest: first_posD)

lemma find_types_pos_distinct:
  assumes "find_types_pos types ts = Some ps" "distinct types"
  shows "distinct ps"
proof -
  have "distinct (map (\<lambda>i. sm_type (ts ! i)) ps)"
    using find_types_posD [OF assms(1)] assms(2) by (simp add: distinct_map)
  then show ?thesis by (simp add: distinct_map)
qed

lemma first_ruleD:
  "first_rule rules ts = Some (ps, s, t) \<Longrightarrow> \<exists>types. (types, s, t) \<in> set rules \<and> find_types_pos types ts = Some ps"
  by (induction rules) (auto split: option.splits)

lemma sum_rules_types: "(types, s, t) \<in> set sum_rules \<Longrightarrow> distinct types \<and> 2 \<le> length types"
  by (auto simp: sum_rules_def)

lemma length_without_pos:
  assumes "distinct ps" "set ps \<subseteq> {..<length ts}"
  shows "length (without_pos ps ts) = length ts - length ps"
proof -
  have "{i. i < length ts \<and> i \<in> - set ps} = {..<length ts} - set ps" by auto
  with assms show ?thesis by (simp add: without_pos_def length_nths card_Diff_subset distinct_card)
qed

lemma apply_rule_shorter:
  assumes "first_rule sum_rules (oc_terms c) = Some r"
  shows "length (oc_terms (apply_rule r c)) < length (oc_terms c)"
proof -
  obtain ps s t where r: "r = (ps, s, t)" by (cases r) auto
  with assms obtain types where types: "(types, s, t) \<in> set sum_rules" "find_types_pos types (oc_terms c) = Some ps"
    using first_ruleD by blast
  have ps: "distinct ps" "set ps \<subseteq> {..<length (oc_terms c)}" "2 \<le> length ps"
    using find_types_pos_distinct [OF types(2)] sum_rules_types [OF types(1)] find_types_posD [OF types(2)]
    by (auto dest!: arg_cong [of _ _ length])
  have "length ps \<le> length (oc_terms c)"
    using card_mono [OF _ ps(2)] ps(1) by (simp add: distinct_card)
  with ps show ?thesis
    by (simp add: r apply_rule_def Let_def without_positions_def length_without_pos)
qed

lemma find_opposite_posD:
  "find_opposite_pos ts = Some (i, j) \<Longrightarrow> i < j \<and> j < length ts \<and> opposite (ts ! i) (ts ! j)"
  by (fastforce simp: find_opposite_pos_def dest!: find_SomeD)

lemma without_opposite_shorter:
  assumes "find_opposite_pos (oc_terms c) = Some (i, j)"
  shows "length (oc_terms (without_positions [i, j] c)) < length (oc_terms c)"
  using find_opposite_posD [OF assms] by (auto simp: without_positions_def Let_def length_without_pos)

text \<open>The recursion ends: every simplification shortens the list.\<close>

function simplify_operation :: "operation_content \<Rightarrow> reg_content option res" where
  "simplify_operation c =
     (if length (oc_terms c) = 1
      then bind_res (single_summand (hd (oc_terms c)) c) (\<lambda>p. Inr (Some (Plain p)))
      else case find_opposite_pos (oc_terms c) of
        Some (i, j) \<Rightarrow>
          bind_res (simplify_operation (without_positions [i, j] c)) (\<lambda>r.
            Inr (Some (case r of Some s \<Rightarrow> s | None \<Rightarrow> Oper (without_positions [i, j] c))))
      | None \<Rightarrow>
          if oc_op c \<noteq> OP_PLUS then Inr None
          else case first_rule sum_rules (oc_terms c) of
            None \<Rightarrow> Inr None
          | Some r \<Rightarrow>
              bind_res (simplify_operation (apply_rule r c)) (\<lambda>x.
                Inr (Some (case x of Some s \<Rightarrow> s | None \<Rightarrow> Oper (apply_rule r c)))))"
  by pat_completeness auto
termination
  by (relation "measure (\<lambda>c. length (oc_terms c))") (auto dest: without_opposite_shorter apply_rule_shorter)

declare simplify_operation.simps [simp del]

section \<open>The simplification keeps the value of a sum\<close>

text \<open>The order in which a rule lists its types does not matter: it removes the same summands.\<close>

lemma find_types_pos_set:
  "find_types_pos types ts = Some ps \<Longrightarrow> Some ` set ps = (\<lambda>t. first_pos t ts) ` set types"
proof (induction types arbitrary: ps)
  case (Cons t types)
  then obtain i ps' where "first_pos t ts = Some i" "find_types_pos types ts = Some ps'" "ps = i # ps'"
    by (auto split: option.splits)
  with Cons.IH show ?case by simp
qed simp

lemma find_types_pos_None: "find_types_pos types ts = None \<longleftrightarrow> (\<exists>t \<in> set types. first_pos t ts = None)"
  by (induction types) (auto split: option.splits)

lemma find_types_pos_any_order:
  assumes "set types = set types'" "find_types_pos types ts = Some ps"
  obtains ps' where "find_types_pos types' ts = Some ps'" "without_pos ps' = (without_pos ps :: 'a list \<Rightarrow> 'a list)"
proof -
  obtain ps' where ps': "find_types_pos types' ts = Some ps'"
    using assms find_types_pos_None [of types ts] find_types_pos_None [of types' ts] by (cases "find_types_pos types' ts") auto
  have "Some ` set ps = Some ` set ps'"
    using find_types_pos_set [OF assms(2)] find_types_pos_set [OF ps'] assms(1) by simp
  then have "set ps = set ps'" by (simp add: inj_image_eq_iff)
  then have "without_pos ps' = (without_pos ps :: 'a list \<Rightarrow> 'a list)" by (simp add: without_pos_def fun_eq_iff)
  with ps' that show ?thesis by blast
qed

text \<open>The value of a summand: what the work-item functions give for the types that stand for them, and the
  value of its text otherwise.\<close>

fun wi_value :: "env \<Rightarrow> register_type \<Rightarrow> rat option" where
  "wi_value e (GLOBAL_OFFSET d) = Some (wi e (GLOBAL_OFFSET d))"
| "wi_value e (WORK_ITEM_ID d) = Some (wi e (WORK_ITEM_ID d))"
| "wi_value e (WORK_GROUP_ID_LOCAL_SIZE d) = Some (wi e (WORK_GROUP_ID_LOCAL_SIZE d))"
| "wi_value e (WORK_GROUP_ID_WORK_ITEM_ID d) = Some (wi e (WORK_GROUP_ID_LOCAL_SIZE d) + wi e (WORK_ITEM_ID d))"
| "wi_value e (WORK_GROUP_ID_LOCAL_SIZE_OFFSET d) = Some (wi e (WORK_GROUP_ID_LOCAL_SIZE d) + wi e (GLOBAL_OFFSET d))"
| "wi_value e (GLOBAL_ID d) = Some (wi e (GLOBAL_ID d))"
| "wi_value e _ = None"

definition object_value :: "env \<Rightarrow> (py_object \<Rightarrow> rat) \<Rightarrow> register_type option \<Rightarrow> py_object \<Rightarrow> rat" where
  "object_value e v t x = (case Option.bind t (wi_value e) of Some q \<Rightarrow> q | None \<Rightarrow> v x)"

definition signed :: "register_sign option \<Rightarrow> rat \<Rightarrow> rat" where
  "signed s q = (if s = Some NEGATIVE then - q else q)"

definition summand_value :: "env \<Rightarrow> (py_object \<Rightarrow> rat) \<Rightarrow> summand \<Rightarrow> rat" where
  "summand_value e v t = signed (sm_sign t) (object_value e v (sm_type t) (sm_value t))"

definition sum_value :: "env \<Rightarrow> (py_object \<Rightarrow> rat) \<Rightarrow> summand list \<Rightarrow> rat" where
  "sum_value e v ts = sum_list (map (summand_value e v) ts)"

fun content_value :: "env \<Rightarrow> (py_object \<Rightarrow> rat) \<Rightarrow> reg_content \<Rightarrow> rat" where
  "content_value e v (Plain p) = signed (pc_sign p) (object_value e v (pc_type p) (pc_value p))"
| "content_value e v (Oper c) = sum_value e v (oc_terms c)"
| "content_value e v (Comb ps) = 0"

text \<open>What the code relies on without checking it: a rule is applied whatever the signs of its summands
  are, and the number of groups is never added to the offset of a group.\<close>

definition regular :: "summand \<Rightarrow> bool" where
  "regular t \<longleftrightarrow> sm_sign t \<noteq> None
     \<and> (case sm_type t of None \<Rightarrow> True
        | Some ty \<Rightarrow> (\<forall>d. ty \<noteq> NUM_GROUPS d) \<and> (wi_value undefined ty \<noteq> None \<longrightarrow> sm_sign t = Some POSITIVE))"

lemma wi_value_None: "wi_value e t = None \<longleftrightarrow> wi_value e' t = None"
  by (cases t) auto

lemma regular_positive: "regular t \<Longrightarrow> sm_type t = Some ty \<Longrightarrow> wi_value e ty = Some q \<Longrightarrow> summand_value e v t = q"
  using wi_value_None [of e ty undefined]
  by (auto simp: regular_def summand_value_def object_value_def signed_def)

lemma sum_nths: "sum_list (map f (nths ts A)) = (\<Sum>i \<in> {i. i < length ts \<and> i \<in> A}. f (ts ! i))"
  for f :: "'a \<Rightarrow> rat"
proof (induction ts rule: rev_induct)
  case (snoc t ts)
  have "{i. i < length (ts @ [t]) \<and> i \<in> A} = {i. i < length ts \<and> i \<in> A} \<union> (if length ts \<in> A then {length ts} else {})"
    by (auto simp: less_Suc_eq)
  moreover have "(\<Sum>i \<in> {i. i < length ts \<and> i \<in> A}. f ((ts @ [t]) ! i)) = (\<Sum>i \<in> {i. i < length ts \<and> i \<in> A}. f (ts ! i))"
    by (rule sum.cong) (auto simp: nth_append)
  ultimately show ?case using snoc by (simp add: nths_append nths_singleton)
qed simp

lemma sum_without_pos:
  assumes "distinct ps" "set ps \<subseteq> {..<length ts}"
  shows "sum_value e v (without_pos ps ts) = sum_value e v ts - (\<Sum>i \<leftarrow> ps. summand_value e v (ts ! i))"
proof -
  let ?f = "\<lambda>i. summand_value e v (ts ! i)"
  have "{i. i < length ts \<and> i \<in> - set ps} = {..<length ts} - set ps" by auto
  then have "sum_value e v (without_pos ps ts) = sum ?f ({..<length ts} - set ps)"
    by (simp add: sum_value_def without_pos_def sum_nths)
  also have "\<dots> = sum ?f {..<length ts} - sum ?f (set ps)" using assms(2) by (simp add: sum_diff)
  also have "sum ?f {..<length ts} = sum_value e v ts"
    using sum_nths [of "summand_value e v" ts UNIV] by (simp add: sum_value_def nths_all lessThan_def)
  also have "sum ?f (set ps) = (\<Sum>i \<leftarrow> ps. ?f i)" using assms(1) by (simp add: sum.distinct_set_conv_list)
  finally show ?thesis .
qed

lemma opposite_cancels: "opposite a b \<Longrightarrow> regular a \<Longrightarrow> regular b \<Longrightarrow> summand_value e v a + summand_value e v b = 0"
  by (cases "sm_sign a"; cases "sm_sign b"; cases "the (sm_sign a)"; cases "the (sm_sign b)")
    (auto simp: opposite_def regular_def summand_value_def signed_def)

lemma without_pos_subset: "set (without_pos ps ts) \<subseteq> set ts"
  by (simp add: without_pos_def set_nths_subset)

lemma without_opposite_value:
  assumes "find_opposite_pos ts = Some (i, j)" "list_all regular ts"
  shows "sum_value e v (without_pos [i, j] ts) = sum_value e v ts"
proof -
  have ij: "i < j" "j < length ts" "opposite (ts ! i) (ts ! j)" using find_opposite_posD [OF assms(1)] by auto
  moreover have "regular (ts ! i)" "regular (ts ! j)" using assms(2) ij by (auto simp: list_all_length)
  ultimately show ?thesis using opposite_cancels by (simp add: sum_without_pos)
qed

text \<open>The rules are identities of the work-item functions.\<close>

lemma sum_rules_identities:
  assumes "(types, s, t) \<in> set sum_rules" "\<forall>d. NUM_GROUPS d \<notin> set types" "consistent sizes e"
  shows "list_all (\<lambda>ty. wi_value e ty \<noteq> None) types \<and> wi_value e t = Some (\<Sum>ty \<leftarrow> types. the (wi_value e ty))"
  using assms by (auto simp: sum_rules_def consistent_def algebra_simps)

lemma apply_rule_value:
  assumes r: "first_rule sum_rules (oc_terms c) = Some r" and ok: "list_all regular (oc_terms c)" and e: "consistent sizes e"
  shows "sum_value e v (oc_terms (apply_rule r c)) = sum_value e v (oc_terms c) \<and> list_all regular (oc_terms (apply_rule r c))"
proof -
  let ?ts = "oc_terms c"
  obtain ps s t where r': "r = (ps, s, t)" by (cases r) auto
  with r obtain types where types: "(types, s, t) \<in> set sum_rules" and find: "find_types_pos types ?ts = Some ps"
    using first_ruleD by blast
  have ps: "distinct ps" "set ps \<subseteq> {..<length ?ts}" "map (\<lambda>i. sm_type (?ts ! i)) ps = map Some types"
    using find_types_pos_distinct [OF find] sum_rules_types [OF types] find_types_posD [OF find] by auto
  have reg: "regular (?ts ! i)" if "i \<in> set ps" for i using ok ps(2) that by (auto simp: list_all_length)
  have "NUM_GROUPS d \<notin> set types" for d
  proof
    assume "NUM_GROUPS d \<in> set types"
    then have "Some (NUM_GROUPS d) \<in> set (map (\<lambda>i. sm_type (?ts ! i)) ps)" unfolding ps(3) by simp
    then obtain i where "i \<in> set ps" "sm_type (?ts ! i) = Some (NUM_GROUPS d)" by force
    with reg [of i] show False by (auto simp: regular_def)
  qed
  then have id: "list_all (\<lambda>ty. wi_value e ty \<noteq> None) types" "wi_value e t = Some (\<Sum>ty \<leftarrow> types. the (wi_value e ty))"
    using sum_rules_identities [OF types _ e] by auto
  have "summand_value e v (?ts ! i) = the (wi_value e (the (sm_type (?ts ! i))))" if "i \<in> set ps" for i
  proof -
    have "sm_type (?ts ! i) \<in> set (map (\<lambda>i. sm_type (?ts ! i)) ps)" using that by simp
    then obtain ty where "sm_type (?ts ! i) = Some ty" "ty \<in> set types" unfolding ps(3) by auto
    with reg [OF that] id(1) show ?thesis by (auto simp: list_all_iff regular_positive)
  qed
  then have "(\<Sum>i \<leftarrow> ps. summand_value e v (?ts ! i)) = (\<Sum>x \<leftarrow> map (\<lambda>i. sm_type (?ts ! i)) ps. the (wi_value e (the x)))"
    by (simp add: comp_def cong: map_cong)
  also have "\<dots> = (\<Sum>ty \<leftarrow> types. the (wi_value e ty))" unfolding ps(3) by (simp add: comp_def)
  finally have "sum_value e v (without_pos ps ?ts) = sum_value e v ?ts - the (wi_value e t)"
    using id(2) by (simp add: sum_without_pos [OF ps(1,2)])
  moreover have "wi_value undefined t \<noteq> None \<longrightarrow> True" "\<forall>d. t \<noteq> NUM_GROUPS d"
    using id(2) by (cases t; simp)+
  ultimately show ?thesis
    using id(2) ok without_pos_subset [of ps ?ts]
    by (auto simp: r' apply_rule_def Let_def without_positions_def sum_value_def positive_summand_def summand_value_def
        signed_def object_value_def regular_def list_all_iff)
qed

lemma simplify_operation_value:
  assumes "simplify_operation c = Inr (Some x)" "oc_op c = OP_PLUS" "list_all regular (oc_terms c)" "consistent sizes e"
  shows "content_value e v x = sum_value e v (oc_terms c)"
  using assms
proof (induction c arbitrary: x rule: simplify_operation.induct)
  case (1 c)
  consider t where "oc_terms c = [t]" | i j where "length (oc_terms c) \<noteq> 1" "find_opposite_pos (oc_terms c) = Some (i, j)"
    | "length (oc_terms c) \<noteq> 1" "find_opposite_pos (oc_terms c) = None"
    by (cases "find_opposite_pos (oc_terms c)") (auto simp: length_Suc_conv)
  then show ?case
  proof cases
    case (1 t)
    with "1.prems"(1) show ?thesis
      by (auto simp: simplify_operation.simps [of c] single_summand_def sum_value_def summand_value_def)
  next
    case (2 i j)
    let ?c = "without_positions [i, j] c"
    have c: "oc_op ?c = OP_PLUS" "list_all regular (oc_terms ?c)" "sum_value e v (oc_terms ?c) = sum_value e v (oc_terms c)"
      using "1.prems"(2,3) without_pos_subset [of "[i, j]" "oc_terms c"] without_opposite_value [OF 2(2) "1.prems"(3)]
      by (auto simp: without_positions_def Let_def list_all_iff)
    obtain r where r: "simplify_operation ?c = Inr r" "x = (case r of Some s \<Rightarrow> s | None \<Rightarrow> Oper ?c)"
      using "1.prems"(1) 2 by (auto simp: simplify_operation.simps [of c])
    show ?thesis
      using "1.IH"(2) [OF 2(1) 2(2) refl _ c(1,2) "1.prems"(4)] r c(3) by (cases r) auto
  next
    case 3
    then obtain rule where rule: "first_rule sum_rules (oc_terms c) = Some rule"
      using "1.prems"(1,2) by (cases "first_rule sum_rules (oc_terms c)") (auto simp: simplify_operation.simps [of c])
    let ?c = "apply_rule rule c"
    have c: "oc_op ?c = OP_PLUS" "list_all regular (oc_terms ?c)" "sum_value e v (oc_terms ?c) = sum_value e v (oc_terms c)"
      using "1.prems"(2) apply_rule_value [OF rule "1.prems"(3,4)]
      by (auto simp: apply_rule_def Let_def without_positions_def split: prod.split)
    obtain r where r: "simplify_operation ?c = Inr r" "x = (case r of Some s \<Rightarrow> s | None \<Rightarrow> Oper ?c)"
      using "1.prems"(1,2) 3 rule by (auto simp: simplify_operation.simps [of c])
    show ?thesis
      using "1.IH"(1) [OF 3 _ rule _ c(1,2) "1.prems"(4)] "1.prems"(2) r c(3) by (cases r) auto
  qed
qed

text \<open>A simplification never raises, unless the operation has one operand from the start.\<close>

definition one_size_each :: "operation_content \<Rightarrow> bool" where
  "one_size_each c \<longleftrightarrow> (case (oc_size c, oc_data c) of
     (Nest ns, Nest ds) \<Rightarrow> length ns = length (oc_terms c) \<and> length ds = length (oc_terms c) | _ \<Rightarrow> False)"

lemma simplified_one_size_each: "one_size_each (without_positions ps c)" "one_size_each (apply_rule r c)"
  by (simp_all add: one_size_each_def without_positions_def apply_rule_def Let_def split: prod.split)

lemma simplify_operation_total: "length (oc_terms c) \<noteq> 1 \<or> one_size_each c \<Longrightarrow> \<exists>r. simplify_operation c = Inr r"
proof (induction c rule: simplify_operation.induct)
  case (1 c)
  have sub: "\<exists>r. simplify_operation (without_positions [i, j] c) = Inr r"
    if "length (oc_terms c) \<noteq> 1" "find_opposite_pos (oc_terms c) = Some (i, j)" for i j
    using "1.IH"(2) [OF that refl] simplified_one_size_each by blast
  have rule: "\<exists>x. simplify_operation (apply_rule r c) = Inr x"
    if "length (oc_terms c) \<noteq> 1" "find_opposite_pos (oc_terms c) = None" "oc_op c = OP_PLUS"
      "first_rule sum_rules (oc_terms c) = Some r" for r
    using "1.IH"(1) [OF that(1,2) _ that(4)] that(3) simplified_one_size_each by blast
  show ?case
  proof (cases "length (oc_terms c) = 1")
    case True
    with "1.prems" show ?thesis
      by (auto simp: simplify_operation.simps [of c] single_summand_def one_size_each_def length_Suc_conv
          split: nest.splits)
  next
    case False
    with sub rule show ?thesis
      by (force simp: simplify_operation.simps [of c] split: option.split)
  qed
qed


definition positive_term :: "py_object \<Rightarrow> register_type \<Rightarrow> summand" where
  "positive_term v t = \<lparr>sm_value = v, sm_type = Some t, sm_sign = Some POSITIVE\<rparr>"

definition global_id_sum :: operation_content where
  "global_id_sum =
     \<lparr>oc_op = OP_PLUS,
      oc_terms = [positive_term (PStr ''get_group_id(0) * get_local_size(0)'') (WORK_GROUP_ID_LOCAL_SIZE DX),
                  positive_term (PStr ''n'') KERNEL_ARGUMENT_VALUE, positive_term (PStr ''get_local_id(0)'') (WORK_ITEM_ID DX),
                  positive_term (PStr ''get_global_offset(0)'') (GLOBAL_OFFSET DX)],
      oc_size = Leaf 32, oc_data = Leaf (Some ''u32''), oc_node = None\<rparr>"

definition simplified_global_id_sum :: operation_content where
  "simplified_global_id_sum =
     \<lparr>oc_op = OP_PLUS,
      oc_terms = [positive_term (PStr ''n'') KERNEL_ARGUMENT_VALUE, positive_term (PStr ''get_global_id(0)'') (GLOBAL_ID DX)],
      oc_size = Nest [Leaf 32, Leaf 32], oc_data = Nest [Leaf (Some ''u32''), Leaf None], oc_node = None\<rparr>"

lemma global_id_sum_simplified: "simplify_operation global_id_sum = Inr (Some (Oper simplified_global_id_sum))"
  by code_simp

definition unit_env :: env where
  "unit_env = \<lparr>wi = (\<lambda>t. case t of GLOBAL_ID d \<Rightarrow> 3 | _ \<Rightarrow> 1), var_val = (\<lambda>x. 0)\<rparr>"


section \<open>What the simplification leaves behind\<close>

text \<open>A simplified operation has a list of data types, and cannot be an operand again.\<close>

lemma simplified_operand_raises:
  assumes "oc_data c = Nest ds" "oc_terms c \<noteq> []" "x \<noteq> OP_MINUS"
  shows "operation_of x [Oper c, Plain p] node s = Inl TypeError"
  using assms
  by (cases "oc_op c = x"; cases "oc_terms c")
    (auto simp: operation_of_def method_simps contribution_def same_operation_def simple_contribution_def)

text \<open>A difference is kept as the sum with a negated summand, and its expression is the one of the sum.\<close>

lemma difference_has_node_of_sum:
  assumes "operation_of OP_MINUS [Plain a, Plain b] None s = Inr (c, s')"
  shows "oc_op c = OP_PLUS \<and> apply_nodes O_PLUS [pc_node a, pc_node b] s = Inr (oc_node c, s')"
proof -
  obtain sg where sg: "pc_sign b = Some sg"
    using assms by (cases "pc_sign b") (auto simp: operation_of_def method_simps invert_rest_def)
  have "op_from_string ''+'' = O_PLUS" by code_simp
  with assms sg show ?thesis
    by (auto simp: operation_of_def method_simps invert_rest_def contribution_def simple_contribution_def)
qed

end
