(* ===== verification/Reg_Packed.thy ===== *)
theory Reg_Packed
  imports Reg_Content
begin

text \<open>
  Several values in one register (\<open>src/src/combined_register_content.py\<close>): fields from the least
  significant bit on, each with its size.  A shift drops whole fields, and a mask selects one field.  The
  meaning of the content is the number that the fields make up; a field is what a shift by its position and
  a mask of its size extract from that number.
\<close>

section \<open>CombinedRegisterContent\<close>

definition field_of :: "reg_content \<Rightarrow> plain_content res" where
  "field_of c =
     bind_res (get_value c) (\<lambda>v. bind_res (get_reg_type c) (\<lambda>t. bind_res (get_content_size c) (\<lambda>n.
     bind_res (get_data_type c) (\<lambda>d. bind_res (get_sign c) (\<lambda>s. bind_res (get_node c) (\<lambda>e.
       Inr \<lparr>pc_value = v, pc_type = t, pc_size = n, pc_data = d, pc_sign = s, pc_node = e\<rparr>))))))"

definition combined :: "reg_content list \<Rightarrow> reg_content res" where
  "combined cs = bind_res (mapE field_of cs) (\<lambda>ps. Inr (Comb ps))"

definition append_content :: "plain_content list \<Rightarrow> reg_content \<Rightarrow> plain_content list res" where
  "append_content ps c = bind_res (field_of c) (\<lambda>p. Inr (ps @ [p]))"

definition maybe_get_by_idx :: "plain_content list \<Rightarrow> nat \<Rightarrow> plain_content res" where
  "maybe_get_by_idx ps i = py_nth ps i"

text \<open>The first field that starts at \<open>b\<close> and reaches at least \<open>e\<close>.\<close>

fun acquire_from :: "int \<Rightarrow> plain_content list \<Rightarrow> int \<Rightarrow> int \<Rightarrow> plain_content option res" where
  "acquire_from pos [] b e = Inr None"
| "acquire_from pos (p # ps) b e =
     bind_res (leaf_of (pc_size p)) (\<lambda>n.
       if pos = b \<and> e \<le> pos + n - 1 then Inr (Some p) else acquire_from (pos + n) ps b e)"

definition maybe_acquire_content :: "plain_content list \<Rightarrow> int \<Rightarrow> int \<Rightarrow> plain_content option res" where
  "maybe_acquire_content ps b e = acquire_from 0 ps b e"

text \<open>The digits of \<open>f"{n:b}"\<close>, least significant first, and the run of ones they consist of.\<close>

fun bits_of :: "nat \<Rightarrow> bool list" where
  "bits_of n = (if n = 0 then [] else odd n # bits_of (n div 2))"

declare bits_of.simps [simp del]

definition mask_bounds :: "nat \<Rightarrow> (nat \<times> nat) option" where
  "mask_bounds n =
     (let bs = bits_of n;
          b = length (takeWhile Not bs);
          r = length (takeWhile id (drop b bs))
      in if True \<in> set (drop (b + r) bs) then None else Some (b, b + r - 1))"

text \<open>\<open>__and__\<close> with the text of a mask; \<open>None\<close> when the mask selects no field.\<close>

definition combined_and :: "plain_content list \<Rightarrow> string \<Rightarrow> plain_content option mgr" where
  "combined_and ps m =
     bindS (liftS (int_base16 m)) (\<lambda>i.
       if i = 0
       then bindS (add_const_node (CInt 0) (OType UINT_T W1)) (\<lambda>n. returnS (Some (plain (PStr ''0'') UNKNOWN 0 None (Some n))))
       else case mask_bounds (nat \<bar>i\<bar>) of
              None \<Rightarrow> returnS None
            | Some (b, e) \<Rightarrow> liftS (maybe_acquire_content ps (int b) (int e)))"

fun shift_fields :: "bool \<Rightarrow> int \<Rightarrow> int \<Rightarrow> plain_content list \<Rightarrow> plain_content list res" where
  "shift_fields started pos bits [] = Inr []"
| "shift_fields started pos bits (p # ps) =
     (if started \<or> bits = pos then bind_res (shift_fields True pos bits ps) (\<lambda>qs. Inr (p # qs))
      else if bits < pos then bind_res (shift_fields True pos bits ps) (\<lambda>qs. Inr (empty_content (pos - bits) # p # qs))
      else bind_res (leaf_of (pc_size p)) (\<lambda>n. shift_fields False (pos + n) bits ps))"

definition combined_rshift :: "plain_content list \<Rightarrow> int \<Rightarrow> reg_content res" where
  "combined_rshift ps bits = bind_res (shift_fields False 0 bits ps) (\<lambda>qs. Inr (Comb qs))"

text \<open>\<open>RegisterContent.__mul__\<close> with an integer.\<close>

definition content_times_int :: "reg_content \<Rightarrow> int \<Rightarrow> operation_content mgr" where
  "content_times_int c i =
     bindS (add_const_node (CInt i) (OType INT_T W1)) (\<lambda>n.
       operation_of OP_PRODUCT [c, Plain (plain (PInt i) INT32 0 None (Some n))] None)"

definition simplify_combined :: "plain_content list \<Rightarrow> reg_content option mgr" where
  "simplify_combined ps =
     (case ps of
        [p] \<Rightarrow> returnS (Some (Plain p))
      | [p, q] \<Rightarrow>
          if pc_type p = Some EMPTY
          then bindS (liftS (leaf_of (pc_size p))) (\<lambda>n.
               bindS (content_times_int (Plain q) (2 ^ nat n)) (\<lambda>c. returnS (Some (Oper c))))
          else returnS None
      | _ \<Rightarrow> returnS None)"

text \<open>\<open>maybe_simplify\<close> of the three classes.\<close>

definition maybe_simplify :: "reg_content \<Rightarrow> reg_content option mgr" where
  "maybe_simplify c =
     (case c of
        Plain p \<Rightarrow> returnS None
      | Oper oc \<Rightarrow> liftS (simplify_operation oc)
      | Comb ps \<Rightarrow> simplify_combined ps)"

section \<open>The operators of a content\<close>

text \<open>\<open>__and__\<close> with text: a plain value and a mask of exactly its size.\<close>

definition full_mask :: "int nest \<Rightarrow> string \<Rightarrow> bool res" where
  "full_mask width m =
     (if startswith m ''0x''
      then bind_res (int_base16 m) (\<lambda>i.
        Inr (i > 0 \<and> list_all id (bits_of (nat i)) \<and> width = Leaf (int (length (bits_of (nat i))))))
      else Inr False)"

definition content_and :: "reg_content \<Rightarrow> string \<Rightarrow> reg_content option mgr" where
  "content_and c m =
     (case c of
        Comb ps \<Rightarrow> bindS (combined_and ps m) (\<lambda>p. returnS (map_option Plain p))
      | _ \<Rightarrow> bindS (liftS (get_content_size c)) (\<lambda>n. bindS (liftS (full_mask n m)) (\<lambda>b.
               if b then returnS (Some c) else raiseS NotImplementedError)))"

definition content_or :: "reg_content \<Rightarrow> reg_content \<Rightarrow> reg_content mgr" where
  "content_or a b = bindS (operation_of OP_BITWISE_OR [a, b] None) (\<lambda>c. returnS (Oper c))"

definition content_rshift :: "reg_content \<Rightarrow> int \<Rightarrow> reg_content mgr" where
  "content_rshift c bits = (case c of Comb ps \<Rightarrow> liftS (combined_rshift ps bits) | _ \<Rightarrow> raiseS NotImplementedError)"

definition content_lshift :: "reg_content \<Rightarrow> int \<Rightarrow> reg_content mgr" where
  "content_lshift c i =
     bindS (add_const_node (CInt i) (OType UINT_T W1)) (\<lambda>n.
     bindS (operation_of OP_L_SHIFT [c, Plain (plain (PInt i) UNKNOWN 0 None (Some n))] None) (\<lambda>oc. returnS (Oper oc)))"

definition content_add :: "reg_content \<Rightarrow> reg_content \<Rightarrow> reg_content mgr" where
  "content_add a b = bindS (operation_of OP_PLUS [a, b] None) (\<lambda>c. returnS (Oper c))"

definition content_sub :: "reg_content \<Rightarrow> reg_content \<Rightarrow> reg_content mgr" where
  "content_sub a b = bindS (operation_of OP_MINUS [a, b] None) (\<lambda>c. returnS (Oper c))"

definition content_mul :: "reg_content \<Rightarrow> reg_content \<Rightarrow> reg_content mgr" where
  "content_mul a b = bindS (operation_of OP_PRODUCT [a, b] None) (\<lambda>c. returnS (Oper c))"

section \<open>Fields are what they pack\<close>

text \<open>The number that the fields make up, when \<open>v\<close> gives the number in each field.\<close>

definition field_bits :: "plain_content \<Rightarrow> nat" where
  "field_bits p = (case pc_size p of Leaf n \<Rightarrow> nat n | Nest ns \<Rightarrow> 0)"

fun packed_value :: "(plain_content \<Rightarrow> nat) \<Rightarrow> plain_content list \<Rightarrow> nat" where
  "packed_value v [] = 0"
| "packed_value v (p # ps) = v p + 2 ^ field_bits p * packed_value v ps"

definition sized :: "plain_content \<Rightarrow> bool" where
  "sized p \<longleftrightarrow> (\<exists>n > 0. pc_size p = Leaf n)"

definition packed_bits :: "plain_content list \<Rightarrow> nat" where
  "packed_bits ps = sum_list (map field_bits ps)"

lemma sized_leaf: "sized p \<Longrightarrow> leaf_of (pc_size p) = Inr (int (field_bits p))" "sized p \<Longrightarrow> 0 < field_bits p"
  "sized p \<Longrightarrow> pc_size p = Leaf (int (field_bits p))"
  by (auto simp: sized_def field_bits_def)

lemma packed_bits_simps [simp]: "packed_bits [] = 0" "packed_bits (p # ps) = field_bits p + packed_bits ps"
  "packed_bits (ps @ qs) = packed_bits ps + packed_bits qs"
  by (simp_all add: packed_bits_def)

lemma packed_bits_0: "list_all sized ps \<Longrightarrow> packed_bits ps = 0 \<longleftrightarrow> ps = []"
  by (cases ps) (auto dest: sized_leaf(2))

lemma shift_started: "shift_fields True pos bits ps = Inr ps"
  by (induction ps) auto

lemma shift_whole_fields:
  assumes "list_all sized qs" "rs \<noteq> []"
  shows "shift_fields False pos (pos + int (packed_bits qs)) (qs @ rs) = Inr rs"
  using assms(1)
proof (induction qs arbitrary: pos)
  case Nil
  with assms(2) show ?case by (cases rs) (auto simp: shift_started)
next
  case (Cons q qs)
  have "pos + int (field_bits q) + int (packed_bits qs) = pos + int (packed_bits (q # qs))" by simp
  with Cons.IH [of "pos + int (field_bits q)"] Cons.prems sized_leaf(1,2) [of q] show ?case by simp
qed

lemma packed_append:
  "packed_value v (qs @ rs) = packed_value v qs + 2 ^ packed_bits qs * packed_value v rs"
  by (induction qs) (simp_all add: algebra_simps power_add)

lemma packed_bound: "\<forall>p \<in> set ps. v p < 2 ^ field_bits p \<Longrightarrow> packed_value v ps < 2 ^ packed_bits ps"
proof (induction ps)
  case (Cons p ps)
  then have "v p < 2 ^ field_bits p" "packed_value v ps + 1 \<le> 2 ^ packed_bits ps" by auto
  moreover have "2 ^ field_bits p * (packed_value v ps + 1) \<le> (2 :: nat) ^ field_bits p * 2 ^ packed_bits ps"
    using calculation(2) by (intro mult_le_mono) simp_all
  ultimately show ?case by (simp add: power_add algebra_simps)
qed simp

lemma packed_drop:
  assumes "\<forall>p \<in> set qs. v p < 2 ^ field_bits p"
  shows "packed_value v (qs @ rs) div 2 ^ packed_bits qs = packed_value v rs"
  using packed_bound [OF assms] by (simp add: packed_append)

lemma packed_hd: "v p < 2 ^ field_bits p \<Longrightarrow> packed_value v (p # ps) mod 2 ^ field_bits p = v p"
  by simp

text \<open>The mask of a field at the bottom.\<close>

lemma bits_of_mask: "bits_of (2 ^ n - 1) = replicate n True"
proof (induction n)
  case (Suc n)
  obtain k where "2 ^ n = Suc k" using not0_implies_Suc [of "2 ^ n"] by auto
  then have "2 ^ Suc n - Suc 0 = Suc (2 * (2 ^ n - 1))" by simp
  moreover have "Suc (2 * (2 ^ n - 1)) div 2 = 2 ^ n - (1 :: nat)" by simp
  ultimately show ?case using Suc by (simp add: bits_of.simps [of "Suc (2 * (2 ^ n - Suc 0))"])
qed (simp add: bits_of.simps)

lemma mask_bounds_mask: "0 < n \<Longrightarrow> mask_bounds (2 ^ n - 1) = Some (0, n - 1)"
  unfolding mask_bounds_def bits_of_mask Let_def by (simp add: takeWhile_replicate)

definition masks :: "string \<Rightarrow> nat \<Rightarrow> bool" where
  "masks m n \<longleftrightarrow> startswith m ''0x'' \<and> int_base16 m = Inr (2 ^ n - 1)"

lemma nat_mask: "nat \<bar>2 ^ n - 1\<bar> = 2 ^ n - (1 :: nat)" "nat (2 ^ n - 1) = 2 ^ n - (1 :: nat)"
  by (simp_all add: nat_diff_distrib nat_power_eq)

lemma combined_and_first:
  assumes "sized p" "masks m (field_bits p)"
  shows "combined_and (p # ps) m s = Inr (Some p, s)"
proof -
  have n: "0 < field_bits p" using assms(1) by (rule sized_leaf)
  have "1 < (2 :: int) ^ field_bits p" by (rule one_less_power) (use n in simp_all)
  then have "(2 :: int) ^ field_bits p \<noteq> 1" by (metis less_irrefl)
  moreover have "int (field_bits p - 1) \<le> int (field_bits p) - 1" using n by simp
  ultimately show ?thesis
    using assms n
    by (simp add: combined_and_def method_simps masks_def nat_mask mask_bounds_mask [OF n, unfolded One_nat_def]
        maybe_acquire_content_def sized_leaf(1))
qed

lemma full_mask_field: "sized p \<Longrightarrow> masks m (field_bits p) \<Longrightarrow> full_mask (pc_size p) m = Inr True"
  using sized_leaf(2) [of p]
  by (auto simp: full_mask_def masks_def nat_mask bits_of_mask [unfolded One_nat_def] sized_leaf(3) list_all_iff)

text \<open>A shift to the start of a field followed by its mask: the field remains, with or without the
  simplification in between.\<close>

definition shifted :: "plain_content list \<Rightarrow> reg_content" where
  "shifted rs = (case rs of [p] \<Rightarrow> Plain p | _ \<Rightarrow> Comb rs)"

lemma shift_simplified:
  assumes "list_all sized qs" "rs \<noteq> []" "pc_type (hd rs) \<noteq> Some EMPTY"
  shows "combined_rshift (qs @ rs) (int (packed_bits qs)) = Inr (Comb rs)"
    and "simplify_combined rs s = Inr (if length rs = 1 then Some (shifted rs) else None, s)"
  using shift_whole_fields [OF assms(1,2), of 0] assms(2,3)
  by (auto simp: combined_rshift_def simplify_combined_def shifted_def method_simps split: list.splits)

lemma shifted_and:
  assumes "sized p" "masks m (field_bits p)"
  shows "content_and (shifted (p # rs)) m s = Inr (Some (Plain p), s)"
  using assms
  by (cases rs) (simp_all add: shifted_def content_and_def method_simps full_mask_field combined_and_first)

end
