(* ===== verification/Kernel_State.thy ===== *)
theory Kernel_State
  imports Reg_Packed Expr_Vars Exec_Condition "HOL-Library.AList"
begin

text \<open>
  The registers of the decompiler (\<open>src/src/register.py\<close>, \<open>state.py\<close>) and the part of
  \<open>DecompilerData\<close> that numbers their versions (\<open>decompiler_data.py\<close>).  A register has the name and
  number of its version; the decompiler counts the versions of every register name, and what it writes gets
  the next number.
\<close>

section \<open>Register\<close>

datatype integrity = ENTIRE | LOW_PART | HIGH_PART

record register =
  rg_integrity :: integrity
  rg_version_name :: string
  rg_version_num :: int
  rg_prev :: "string list"
  rg_exec :: "exec_cond option"
  rg_content :: reg_content
  rg_size :: "int nest"

definition new_register :: "integrity \<Rightarrow> reg_content \<Rightarrow> int nest \<Rightarrow> register" where
  "new_register i c n =
     \<lparr>rg_integrity = i, rg_version_name = [], rg_version_num = 0, rg_prev = [], rg_exec = None, rg_content = c, rg_size = n\<rparr>"

definition version_text :: "string \<Rightarrow> int \<Rightarrow> string" where
  "version_text name n = name @ ''#'' @ show_int n"

definition version :: "register \<Rightarrow> string" where
  "version r = version_text (rg_version_name r) (rg_version_num r)"

definition register_copy :: "register \<Rightarrow> register" where
  "register_copy r = new_register (rg_integrity r) (rg_content r) (rg_size r)"

definition copy_version_from :: "register \<Rightarrow> register \<Rightarrow> register" where
  "copy_version_from r s = r\<lparr>rg_version_name := rg_version_name s, rg_version_num := rg_version_num s\<rparr>"

definition add_version :: "string \<Rightarrow> int \<Rightarrow> register \<Rightarrow> register" where
  "add_version name n r = r\<lparr>rg_version_name := name, rg_version_num := n + 1\<rparr>"

definition make_prev :: "register \<Rightarrow> register" where
  "make_prev r = r\<lparr>rg_prev := [version_text (rg_version_name r) (rg_version_num r - 1)]\<rparr>"

subsection \<open>Operators\<close>

definition try_simplify :: "register \<Rightarrow> (bool \<times> register) mgr" where
  "try_simplify r =
     bindS (maybe_simplify (rg_content r)) (\<lambda>x.
       returnS (case x of Some c \<Rightarrow> (True, r\<lparr>rg_content := c\<rparr>) | None \<Rightarrow> (False, r)))"

definition result_register :: "register \<Rightarrow> reg_content \<Rightarrow> register mgr" where
  "result_register r c =
     bindS (try_simplify (new_register (rg_integrity r) c (rg_size r))) (\<lambda>(b, r'). returnS r')"

definition register_and :: "register \<Rightarrow> string \<Rightarrow> register mgr" where
  "register_and r m =
     bindS (content_and (rg_content r) m) (\<lambda>c. case c of
       Some c' \<Rightarrow> result_register r c' | None \<Rightarrow> raiseS AttributeError)"

definition register_or :: "register \<Rightarrow> register \<Rightarrow> register mgr" where
  "register_or a b = bindS (content_or (rg_content a) (rg_content b)) (result_register a)"

definition register_rshift :: "register \<Rightarrow> int \<Rightarrow> register mgr" where
  "register_rshift r n = bindS (content_rshift (rg_content r) n) (result_register r)"

definition register_lshift :: "register \<Rightarrow> int \<Rightarrow> register mgr" where
  "register_lshift r n = bindS (content_lshift (rg_content r) n) (result_register r)"

definition register_add :: "register \<Rightarrow> register \<Rightarrow> register mgr" where
  "register_add a b = bindS (content_add (rg_content a) (rg_content b)) (result_register a)"

definition register_sub :: "register \<Rightarrow> register \<Rightarrow> register mgr" where
  "register_sub a b = bindS (content_sub (rg_content a) (rg_content b)) (result_register a)"

definition register_mul :: "register \<Rightarrow> register \<Rightarrow> register mgr" where
  "register_mul a b = bindS (content_mul (rg_content a) (rg_content b)) (result_register a)"

text \<open>The product with the size of a work group, per dimension; \<open>sizes\<close> is the configured size.\<close>

definition work_group_products :: "int list option \<Rightarrow> (register_type \<times> int \<times> dim) list res" where
  "work_group_products sizes =
     (case sizes of
        None \<Rightarrow> Inr []
      | Some [] \<Rightarrow> Inr []
      | Some ns \<Rightarrow> mapE (\<lambda>d. bind_res (py_nth ns (dim_index d)) (\<lambda>n. Inr (WORK_GROUP_ID d, n, d))) dims)"

definition work_group_product :: "dim \<Rightarrow> register \<Rightarrow> register mgr" where
  "work_group_product d r =
     bindS (liftS (get_data_type (rg_content r))) (\<lambda>dt.
     bindS (add_register_node (WORK_GROUP_ID_LOCAL_SIZE d) None) (\<lambda>n.
       result_register r (Plain
         \<lparr>pc_value = PStr (call_dim ''get_group_id'' d @ '' * '' @ call_dim ''get_local_size'' d),
          pc_type = Some (WORK_GROUP_ID_LOCAL_SIZE d), pc_size = rg_size r, pc_data = dt,
          pc_sign = Some POSITIVE, pc_node = n\<rparr>)))"

definition register_mul_int :: "int list option \<Rightarrow> register \<Rightarrow> int \<Rightarrow> register mgr" where
  "register_mul_int sizes r i =
     bindS (liftS (work_group_products sizes)) (\<lambda>rules.
     bindS (liftS (get_reg_type (rg_content r))) (\<lambda>t.
       case find (\<lambda>(ty, n, d). t = Some ty \<and> n = i) rules of
         Some (ty, n, d) \<Rightarrow> work_group_product d r
       | None \<Rightarrow> bindS (content_times_int (rg_content r) i) (\<lambda>c. result_register r (Oper c))))"

section \<open>A field of a packed register\<close>

text \<open>
  C32: a shift followed by a mask extracts a field of a packed register: when the shift is the position of a
  field and the mask has as many ones as the field has bits, the register that results holds exactly that
  field, whether or not the shift left it alone in the register; and the number in the field is the number
  that the shift and the mask extract from the packed number.
\<close>

theorem packed_field_extracted:
  assumes "rg_content r = Comb (qs @ p # rs)" "list_all sized qs" "sized p" "pc_type p \<noteq> Some EMPTY"
    and "masks m (field_bits p)" "\<forall>q \<in> set (qs @ p # rs). v q < 2 ^ field_bits q"
  shows "\<exists>r'. bindS (register_rshift r (int (packed_bits qs))) (\<lambda>x. register_and x m) s = Inr (r', s)
           \<and> rg_content r' = Plain p
           \<and> v p = (packed_value v (qs @ p # rs) div 2 ^ packed_bits qs) mod 2 ^ field_bits p"
proof -
  have "v p = (packed_value v (qs @ p # rs) div 2 ^ packed_bits qs) mod 2 ^ field_bits p"
    using assms(6) by (simp add: packed_drop packed_hd)
  moreover have "result_register r (Comb (p # rs)) s
      = Inr (new_register (rg_integrity r) (shifted (p # rs)) (rg_size r), s)"
    using shift_simplified(2) [OF assms(2), of "p # rs" s] assms(4)
    by (simp add: result_register_def try_simplify_def maybe_simplify_def new_register_def method_simps shifted_def)
      (simp split: list.splits)
  moreover have "result_register x (Plain p) s = Inr (new_register (rg_integrity x) (Plain p) (rg_size x), s)" for x
    by (simp add: result_register_def try_simplify_def maybe_simplify_def method_simps new_register_def)
  ultimately show ?thesis
    using shift_simplified(1) [OF assms(2), of "p # rs"] assms(1,4)
    by (simp add: register_rshift_def content_rshift_def register_and_def method_simps new_register_def
        shifted_and [OF assms(3,5)])
qed

definition id_field :: "dim \<Rightarrow> plain_content" where
  "id_field d = plain (PStr (call_dim ''get_local_id'' d)) (WORK_ITEM_ID d) 10 (Some ''u32'') None"

definition local_ids :: register where
  "local_ids = new_register ENTIRE (Comb [id_field DX, id_field DY, id_field DZ]) (Leaf 32)"

definition id_number :: "plain_content \<Rightarrow> nat" where
  "id_number p = (if p = id_field DX then 5 else if p = id_field DY then 6 else 7)"

theorem packed_field_extracted_witness:
  "\<exists>r'. bindS (register_rshift local_ids 10) (\<lambda>x. register_and x ''0x3ff'') init_manager = Inr (r', init_manager)
      \<and> rg_content r' = Plain (id_field DY)
      \<and> (5 + 2 ^ 10 * (6 + 2 ^ 10 * 7)) div 2 ^ 10 mod 2 ^ 10 = (6 :: nat)"
proof -
  have m: "masks ''0x3ff'' (field_bits (id_field DY))" by (simp add: id_field_def plain_def field_bits_def masks_def) code_simp
  have sized: "sized (id_field d)" "field_bits (id_field d) = 10" "pc_type (id_field d) = Some (WORK_ITEM_ID d)" for d
    by (simp_all add: sized_def id_field_def plain_def field_bits_def)
  have n: "id_number (id_field DX) = 5" "id_number (id_field DY) = 6" "id_number (id_field DZ) = 7"
    by (simp_all add: id_number_def id_field_def plain_def)
  have c: "rg_content local_ids = Comb ([id_field DX] @ id_field DY # [id_field DZ])"
    by (simp add: local_ids_def new_register_def)
  from packed_field_extracted [OF c _ sized(1) _ m, where v = id_number and s = init_manager] sized n
  show ?thesis by (auto simp: packed_bits_def)
qed

section \<open>The registers of a node and the counters of versions\<close>

text \<open>\<open>KernelState\<close> is a dictionary: assignment keeps the place of a key that exists.\<close>

type_synonym kernel_state = "(string \<times> register) list"

record decompiler =
  dd_manager :: manager
  dd_versions :: "(string \<times> int) list"
  dd_variables :: "(string \<times> string) list"
  dd_checked :: "(string \<times> string) list"
  dd_names_of_vars :: "(string \<times> string option nest) list"
  dd_num_of_var :: nat
  dd_address_params :: "string list"
  dd_predicates :: "string list"
  dd_type_conversion :: "(string \<times> string) list"
  dd_work_groups :: "int list option"
  dd_type_params :: "(string \<times> string) list"
  dd_type_gdata :: "(string \<times> string) list"
  dd_global_data :: "(string \<times> string list) list"
  dd_var_value :: "(string \<times> py_object) list"
  dd_bfe_offsets :: "((py_object \<times> string) \<times> string) list"
  dd_lds_vars :: "(int \<times> expr_node) list"
  dd_lds_number :: nat
  dd_contents :: "(string \<times> (int \<times> plain_content) list) list"
  dd_arguments :: "kernel_argument list"
  dd_local_size :: int

text \<open>The state after \<open>reset\<close>, with the configuration of a kernel without arguments.  The sizes of work groups and what
  follows \<open>dd_lds_number\<close> belong to the configuration.\<close>

definition reset_decompiler :: "manager \<Rightarrow> decompiler" where
  "reset_decompiler mg =
     \<lparr>dd_manager = mg, dd_versions = [], dd_variables = [], dd_checked = [], dd_names_of_vars = [], dd_num_of_var = 0,
      dd_address_params = [], dd_predicates = [], dd_type_conversion = [], dd_work_groups = None, dd_type_params = [],
      dd_type_gdata = [], dd_global_data = [], dd_var_value = [], dd_bfe_offsets = [], dd_lds_vars = [],
      dd_lds_number = 0, dd_contents = [], dd_arguments = [], dd_local_size = 0\<rparr>"

type_synonym 'a dec = "(kernel_state \<times> decompiler, 'a) action"

text \<open>A method of the expression manager, on the state of the decompiler.\<close>

definition on_manager :: "'a mgr \<Rightarrow> 'a dec" where
  "on_manager m = (\<lambda>(st, dd). bind_res (m (dd_manager dd)) (\<lambda>(x, mg). Inr (x, (st, dd\<lparr>dd_manager := mg\<rparr>))))"

definition version_counter :: "decompiler \<Rightarrow> string \<Rightarrow> int" where
  "version_counter dd reg = (case map_of (dd_versions dd) reg of Some n \<Rightarrow> n | None \<Rightarrow> 0)"

definition make_version :: "string \<Rightarrow> unit dec" where
  "make_version reg = (\<lambda>(st, dd).
     case map_of st reg of
       None \<Rightarrow> Inl KeyError
     | Some r \<Rightarrow> Inr ((), (AList.update reg (add_version reg (version_counter dd reg) r) st,
                           dd\<lparr>dd_versions := AList.update reg (version_counter dd reg + 1) (dd_versions dd)\<rparr>)))"

definition put_register :: "string \<Rightarrow> register \<Rightarrow> unit dec" where
  "put_register reg r = (\<lambda>(st, dd). Inr ((), (AList.update reg r st, dd)))"

definition set_reg_make_version :: "string \<Rightarrow> register \<Rightarrow> unit dec" where
  "set_reg_make_version reg r = bindS (put_register reg r) (\<lambda>_. make_version reg)"

definition get_register :: "string \<Rightarrow> register dec" where
  "get_register reg = (\<lambda>(st, dd). case map_of st reg of None \<Rightarrow> Inl KeyError | Some r \<Rightarrow> Inr (r, (st, dd)))"

section \<open>\<open>set_reg_value\<close>\<close>

text \<open>What the caller asks for: one value, the fields of a packed register, or an operation.  The lists are
  zipped, so that the shortest one decides; the sign and the data type of an operation are lists or single
  values.\<close>

datatype 'a one_or_many = One 'a | Many "'a list"

datatype content_request =
    Want_Plain py_object "register_type option" "register_sign option" "string option nest" "expr_node option"
  | Want_Combined "py_object list" "register_type option list" "register_sign option list" "string option nest list"
      "int nest list" "expr_node option list option"
  | Want_Operation content_op "py_object list" "register_type option list" "register_sign option one_or_many"
      "string option nest one_or_many" "expr_node option"

definition default_plain ::
    "py_object \<Rightarrow> register_type option \<Rightarrow> register_sign option \<Rightarrow> string option nest \<Rightarrow> expr_node option \<Rightarrow> plain_content" where
  "default_plain v t s d n =
     \<lparr>pc_value = v, pc_type = t, pc_size = Leaf DEFAULT_REGISTER_SIZE, pc_data = d, pc_sign = s, pc_node = n\<rparr>"

text \<open>The list of nodes of a packed content goes with its fields.\<close>

definition requested_fields ::
    "py_object list \<Rightarrow> register_type option list \<Rightarrow> register_sign option list \<Rightarrow> string option nest list \<Rightarrow>
     int nest list \<Rightarrow> expr_node option list option \<Rightarrow> plain_content list" where
  "requested_fields vs ts ss ds ns es =
     (let ps = map (\<lambda>(v, t, s, d, n). (default_plain v t s d None)\<lparr>pc_size := n\<rparr>) (zip vs (zip ts (zip ss (zip ds ns))))
      in case es of None \<Rightarrow> ps | Some es \<Rightarrow> map (\<lambda>(p, e). p\<lparr>pc_node := e\<rparr>) (zip ps es))"

definition requested_operands ::
    "py_object list \<Rightarrow> register_type option list \<Rightarrow> register_sign option one_or_many \<Rightarrow>
     string option nest one_or_many \<Rightarrow> plain_content list" where
  "requested_operands vs ts s d =
     (case s of
        One _ \<Rightarrow> (case d of One x \<Rightarrow> map (\<lambda>(v, t). default_plain v t (Some POSITIVE) x None) (zip vs ts)
                   | Many xs \<Rightarrow> map (\<lambda>(v, t). default_plain v t (Some POSITIVE) (Nest xs) None) (zip vs ts))
      | Many ss \<Rightarrow>
          (case d of
             Many ds \<Rightarrow> map (\<lambda>(v, t, s, d). default_plain v t s d None) (zip vs (zip ts (zip ss ds)))
           | One x \<Rightarrow> map (\<lambda>(v, t, s). default_plain v t s x None) (zip vs (zip ts ss))))"

definition requested_content :: "content_request \<Rightarrow> reg_content mgr" where
  "requested_content q =
     (case q of
        Want_Plain v t s d n \<Rightarrow> returnS (Plain (default_plain v t s d n))
      | Want_Combined vs ts ss ds ns es \<Rightarrow> returnS (Comb (requested_fields vs ts ss ds ns es))
      | Want_Operation x vs ts s d n \<Rightarrow>
          bindS (operation_of x (map Plain (requested_operands vs ts s d)) n) (\<lambda>c. returnS (Oper c)))"

definition update_register :: "string \<Rightarrow> (register \<Rightarrow> register) \<Rightarrow> unit dec" where
  "update_register reg f = bindS (get_register reg) (\<lambda>r. put_register reg (f r))"

definition simplify_register :: "string \<Rightarrow> unit dec" where
  "simplify_register reg =
     bindS (get_register reg) (\<lambda>r. bindS (on_manager (try_simplify r)) (\<lambda>(b, r'). put_register reg r'))"

definition set_reg_value ::
    "content_request \<Rightarrow> string \<Rightarrow> string list \<Rightarrow> integrity \<Rightarrow> exec_cond option \<Rightarrow> unit dec" where
  "set_reg_value q to_reg from_regs i x =
     bindS (on_manager (requested_content q)) (\<lambda>c.
     bindS (put_register to_reg (new_register i c (Leaf DEFAULT_REGISTER_SIZE))) (\<lambda>_.
     bindS (simplify_register to_reg) (\<lambda>_.
     bindS (make_version to_reg) (\<lambda>_.
     bindS (if to_reg \<in> set from_regs then update_register to_reg make_prev else returnS ()) (\<lambda>_.
       update_register to_reg (\<lambda>r. r\<lparr>rg_exec := x\<rparr>))))))"

text \<open>\<open>set_reg\<close> stores the content of a register that an operator made.\<close>

definition request_of :: "reg_content \<Rightarrow> content_request" where
  "request_of c =
     (case c of
        Plain p \<Rightarrow> Want_Plain (pc_value p) (pc_type p) (pc_sign p) (pc_data p) (pc_node p)
      | Comb ps \<Rightarrow> Want_Combined (map pc_value ps) (map pc_type ps) (map pc_sign ps) (map pc_data ps) (map pc_size ps)
                    (Some (map pc_node ps))
      | Oper oc \<Rightarrow> Want_Operation (oc_op oc) (map sm_value (oc_terms oc)) (map sm_type (oc_terms oc))
                    (Many (map sm_sign (oc_terms oc)))
                    (case oc_data oc of Nest ds \<Rightarrow> Many ds | Leaf d \<Rightarrow> One (Leaf d)) (oc_node oc))"

definition set_reg :: "string \<Rightarrow> string list \<Rightarrow> register \<Rightarrow> unit dec" where
  "set_reg to_reg from_regs r = set_reg_value (request_of (rg_content r)) to_reg from_regs (rg_integrity r) None"

section \<open>What a write does\<close>

lemma on_manager_Inr:
  "on_manager m (st, dd) = Inr (x, s') \<longleftrightarrow> (\<exists>mg. m (dd_manager dd) = Inr (x, mg) \<and> s' = (st, dd\<lparr>dd_manager := mg\<rparr>))"
  by (auto simp: on_manager_def)

lemma get_register_Inr:
  "get_register reg (st, dd) = Inr (r, s') \<longleftrightarrow> map_of st reg = Some r \<and> s' = (st, dd)"
  by (auto simp: get_register_def split: option.splits)

lemma put_register_Inr:
  "put_register reg r (st, dd) = Inr (u, s') \<longleftrightarrow> s' = (AList.update reg r st, dd)"
  by (auto simp: put_register_def)

lemma make_version_Inr:
  "make_version reg (st, dd) = Inr (u, s') \<longleftrightarrow>
     (\<exists>r. map_of st reg = Some r
        \<and> s' = (AList.update reg (add_version reg (version_counter dd reg) r) st,
                dd\<lparr>dd_versions := AList.update reg (version_counter dd reg + 1) (dd_versions dd)\<rparr>))"
  by (auto simp: make_version_def split: option.splits)

lemmas dec_simps = on_manager_Inr get_register_Inr put_register_Inr make_version_Inr method_simps update_conv'

lemma try_simplify_content: "try_simplify r m = Inr ((b, r'), m') \<Longrightarrow> \<exists>c. r' = r\<lparr>rg_content := c\<rparr>"
  by (auto simp: try_simplify_def method_simps split: option.splits intro: exI [of _ "rg_content r"])

lemma version_counter_update [simp]:
  "version_counter (dd\<lparr>dd_versions := AList.update reg n vs\<rparr>) reg' =
     (if reg' = reg then n else version_counter (dd\<lparr>dd_versions := vs\<rparr>) reg')"
  by (simp add: version_counter_def update_conv')

text \<open>The version after a write, and what the write leaves alone.\<close>

definition written :: "string \<Rightarrow> string list \<Rightarrow> decompiler \<Rightarrow> register \<Rightarrow> bool" where
  "written reg from_regs dd r \<longleftrightarrow>
     rg_version_name r = reg \<and> rg_version_num r = version_counter dd reg + 1
     \<and> rg_prev r = (if reg \<in> set from_regs then [version_text reg (version_counter dd reg)] else [])"

lemma set_reg_value_effect:
  assumes "set_reg_value q reg from_regs i x (st, dd) = Inr (u, (st', dd'))"
  shows "\<exists>r mg. map_of st' = (map_of st)(reg \<mapsto> r) \<and> written reg from_regs dd r \<and> rg_integrity r = i \<and> rg_exec r = x
     \<and> dd' = dd\<lparr>dd_manager := mg, dd_versions := AList.update reg (version_counter dd reg + 1) (dd_versions dd)\<rparr>"
proof -
  obtain c mg1 b r1 mg2 where
    s: "try_simplify (new_register i c (Leaf DEFAULT_REGISTER_SIZE)) mg1 = Inr ((b, r1), mg2)"
    and rest: "bindS (make_version reg) (\<lambda>_.
       bindS (if reg \<in> set from_regs then update_register reg make_prev else returnS ()) (\<lambda>_.
         update_register reg (\<lambda>r. r\<lparr>rg_exec := x\<rparr>)))
       (AList.update reg r1 (AList.update reg (new_register i c (Leaf DEFAULT_REGISTER_SIZE)) st), dd\<lparr>dd_manager := mg2\<rparr>)
       = Inr (u, (st', dd'))"
    using assms by (fastforce simp: set_reg_value_def simplify_register_def dec_simps)
  obtain c' where r1: "r1 = (new_register i c (Leaf DEFAULT_REGISTER_SIZE))\<lparr>rg_content := c'\<rparr>"
    using try_simplify_content [OF s] by blast
  have count: "version_counter (dd\<lparr>dd_manager := mg2\<rparr>) reg = version_counter dd reg" by (simp add: version_counter_def)
  from rest show ?thesis
    by (cases "reg \<in> set from_regs")
      (auto simp: update_register_def dec_simps r1 new_register_def add_version_def make_prev_def written_def count)
qed

section \<open>Versions\<close>

text \<open>Every register carries its own name and a number that the decompiler has counted.\<close>

definition versions_ok :: "kernel_state \<Rightarrow> decompiler \<Rightarrow> bool" where
  "versions_ok st dd \<longleftrightarrow>
     (\<forall>reg r. map_of st reg = Some r \<longrightarrow> rg_version_name r = reg \<and> rg_version_num r \<le> version_counter dd reg)"

lemma show_int_inject [simp]: "show_int i = show_int j \<longleftrightarrow> i = j"
  by (metis int_base10_show_int option.inject)

lemma version_text_inject [simp]: "version_text reg i = version_text reg j \<longleftrightarrow> i = j"
  by (simp add: version_text_def)

text \<open>
  A write gives a register a fresh version.  Whatever was written where, once every register of the
  states of the graph has a version that was counted, the version that \<open>set_reg_value\<close> gives differs from
  the version of this register in every one of them, all other registers keep their contents and versions,
  a register that is computed from itself remembers the version before, and all versions stay counted.
\<close>

lemma write_gives_fresh_version:
  assumes "\<forall>s \<in> insert st states. versions_ok s dd"
    and "set_reg_value q reg from_regs i x (st, dd) = Inr (u, (st', dd'))"
  shows "(\<forall>s \<in> insert st' states. versions_ok s dd')
    \<and> (\<forall>other. other \<noteq> reg \<longrightarrow> map_of st' other = map_of st other)
    \<and> (\<exists>r. map_of st' reg = Some r \<and> rg_integrity r = i \<and> rg_exec r = x
         \<and> (reg \<in> set from_regs \<longrightarrow> rg_prev r = [version_text reg (version_counter dd reg)])
         \<and> (\<forall>s \<in> insert st states. \<forall>old. map_of s reg = Some old \<longrightarrow> version old \<noteq> version r))"
proof -
  obtain r mg where e: "map_of st' = (map_of st)(reg \<mapsto> r)" "written reg from_regs dd r" "rg_integrity r = i" "rg_exec r = x"
    and dd': "dd' = dd\<lparr>dd_manager := mg, dd_versions := AList.update reg (version_counter dd reg + 1) (dd_versions dd)\<rparr>"
    using set_reg_value_effect [OF assms(2)] by blast
  have c: "version_counter dd' other = (if other = reg then version_counter dd reg + 1 else version_counter dd other)" for other
    by (simp add: dd' version_counter_def update_conv')
  have grown: "versions_ok s dd'" if "versions_ok s dd" for s
    using that by (force simp: versions_ok_def c)
  moreover have "versions_ok st' dd'"
    using assms(1) e(1,2) by (force simp: versions_ok_def c written_def)
  moreover have "version old \<noteq> version r" if "s \<in> insert st states" "map_of s reg = Some old" for s old
  proof -
    have "rg_version_name old = reg \<and> rg_version_num old \<le> version_counter dd reg"
      using assms(1) that by (auto simp: versions_ok_def)
    with e(2) show ?thesis by (auto simp: version_def written_def)
  qed
  ultimately show ?thesis using assms(1) e by (auto simp: written_def)
qed

definition fresh_decompiler :: decompiler where
  "fresh_decompiler = (reset_decompiler init_manager)\<lparr>dd_versions := [(''v0'', 3)]\<rparr>"

definition plain_register :: "string \<Rightarrow> int \<Rightarrow> register" where
  "plain_register reg n =
     (new_register ENTIRE (Plain (plain (PStr ''x'') UNKNOWN 32 None None)) (Leaf 32))
       \<lparr>rg_version_name := reg, rg_version_num := n\<rparr>"

theorem write_gives_fresh_version_witness:
  "\<exists>st' dd' r. set_reg_value (Want_Plain (PStr ''1'') (Some INT32) (Some POSITIVE) (Leaf None) None) ''v0'' [''v0''] ENTIRE None
       ([(''v0'', plain_register ''v0'' 2)], fresh_decompiler) = Inr ((), (st', dd'))
     \<and> map_of st' ''v0'' = Some r \<and> rg_prev r = [''v0#3''] \<and> version r \<noteq> ''v0#3''"
proof -
  let ?st = "[(''v0'', plain_register ''v0'' 2)]" and ?old = "[(''v0'', plain_register ''v0'' 3)]"
  let ?q = "Want_Plain (PStr ''1'') (Some INT32) (Some POSITIVE) (Leaf None) None"
  have ok: "\<forall>s \<in> insert ?st {?old}. versions_ok s fresh_decompiler"
    by (auto simp: versions_ok_def plain_register_def fresh_decompiler_def reset_decompiler_def version_counter_def split: if_splits)
  have "case set_reg_value ?q ''v0'' [''v0''] ENTIRE None (?st, fresh_decompiler) of Inl e \<Rightarrow> False | Inr z \<Rightarrow> True"
    by code_simp
  then obtain st' dd' where run: "set_reg_value ?q ''v0'' [''v0''] ENTIRE None (?st, fresh_decompiler) = Inr ((), (st', dd'))"
    by (auto split: sum.splits)
  have t: "version_text ''v0'' 3 = ''v0#3''" "version_counter fresh_decompiler ''v0'' = 3" by code_simp+
  have v: "version (plain_register ''v0'' 3) = version_text ''v0'' 3" by (simp add: version_def plain_register_def)
  from write_gives_fresh_version [OF ok run] obtain r where "map_of st' ''v0'' = Some r"
    "rg_prev r = [version_text ''v0'' 3]" "version (plain_register ''v0'' 3) \<noteq> version r"
    unfolding t(2) by auto
  with run show ?thesis unfolding v t(1) by (intro exI [of _ st'] exI [of _ dd'] exI [of _ r]) simp
qed

end
