(* ===== verification/Version_Join.thy ===== *)
theory Version_Join
  imports Kernel_State Expr_Vars Mask_CFG
begin

text \<open>
  What happens to the registers where control flow joins (\<open>src/src/versions.py\<close>): a register that arrives
  with different versions gets a new version and a variable that stands for all of them.  This is the
  merging of parents that the construction of the graph (theory \<open>Mask_CFG\<close>) takes as a parameter.
\<close>

section \<open>Text\<close>

text \<open>\<open>s.replace(old, new)\<close> for a text \<open>old\<close> that is not empty.\<close>

function replace_text :: "string \<Rightarrow> string \<Rightarrow> string \<Rightarrow> string" where
  "replace_text old new s =
     (if old = [] \<or> s = [] then s
      else if startswith s old then new @ replace_text old new (drop (length old) s)
      else hd s # replace_text old new (tl s))"
  by pat_completeness auto
termination by (relation "measure (\<lambda>(old, new, s). length s)") auto

declare replace_text.simps [simp del]

text \<open>\<open>int(v[v.find("#") + 1:])\<close>.\<close>

definition version_number :: "string \<Rightarrow> int res" where
  "version_number v =
     (let rest = (if CHR ''#'' \<in> set v then tl (dropWhile (\<lambda>c. c \<noteq> CHR ''#'') v) else v)
      in case int_base10 rest of Some n \<Rightarrow> Inr n | None \<Rightarrow> Inl ValueError)"

section \<open>The variable of a join\<close>

definition update_dec :: "(decompiler \<Rightarrow> decompiler) \<Rightarrow> unit dec" where
  "update_dec f = modifyS (\<lambda>(st, dd). (st, f dd))"

definition get_dec :: "(decompiler \<Rightarrow> 'a) \<Rightarrow> 'a dec" where
  "get_dec f = getS (\<lambda>(st, dd). f dd)"

text \<open>The variables of the versions that arrive are renamed, wherever their names occur; the result is the
  hints of their nodes.\<close>

definition rename_variable :: "string \<Rightarrow> string \<Rightarrow> type_hint list dec" where
  "rename_variable variable prev =
     bindS (get_dec (\<lambda>dd. map_of (dd_checked dd) prev)) (\<lambda>z.
       case z of
         None \<Rightarrow> returnS []
       | Some old_var \<Rightarrow>
           if old_var = [] then returnS []
           else bindS (get_dec (\<lambda>dd. get_variable_node old_var (dd_manager dd))) (\<lambda>n.
                bindS (update_dec (\<lambda>dd. dd\<lparr>dd_checked := AList.update prev variable (dd_checked dd),
                   dd_variables := map (\<lambda>(k, v). (k, replace_text old_var variable v)) (dd_variables dd)\<rparr>)) (\<lambda>_.
                returnS (case n of Some m \<Rightarrow> [node_hint m] | None \<Rightarrow> []))))"

text \<open>Assignment to \<open>_value\<close>; the text takes the place of the list of values of an operation or of a
  packed register, one character each.\<close>

fun set_value :: "string \<Rightarrow> reg_content \<Rightarrow> reg_content" where
  "set_value s (Plain p) = Plain (p\<lparr>pc_value := PStr s\<rparr>)"
| "set_value s (Oper c) = Oper (c\<lparr>oc_terms := map (\<lambda>(ch, t). t\<lparr>sm_value := PStr [ch]\<rparr>) (zip s (oc_terms c))\<rparr>)"
| "set_value s (Comb ps) = Comb (map (\<lambda>(ch, p). p\<lparr>pc_value := PStr [ch]\<rparr>) (zip s ps))"

text \<open>\<open>set_expression_node\<close>; a packed register keeps one node in place of its list, which no later access
  survives, so that the \<open>TypeError\<close> is raised here already.\<close>

fun set_node :: "expr_node \<Rightarrow> reg_content \<Rightarrow> reg_content res" where
  "set_node n (Plain p) = Inr (Plain (p\<lparr>pc_node := Some n\<rparr>))"
| "set_node n (Oper c) = Inr (Oper (c\<lparr>oc_node := Some n\<rparr>))"
| "set_node n (Comb ps) = Inl TypeError"

definition joined_hint :: "type_hint \<Rightarrow> type_hint list \<Rightarrow> type_hint res" where
  "joined_hint h hs =
     bind_res (fold (\<lambda>x r. bind_res r (\<lambda>h. hint_common h x)) hs (Inr h)) (\<lambda>h'.
       Inr (hint_set_is_const (if opencl_type h' = OUnknown then h'\<lparr>opencl_type := OType UINT_T W1\<rparr> else h') False))"

definition is_address_type :: "register_type option \<Rightarrow> bool" where
  "is_address_type t = (t \<in> {Some ADDRESS_KERNEL_ARGUMENT_ELEMENT, Some ADDRESS_KERNEL_ARGUMENT})"

text \<open>\<open>DecompilerData.update_reg_version\<close>.\<close>

definition record_join :: "string list \<Rightarrow> string \<Rightarrow> string \<Rightarrow> string \<Rightarrow> int \<Rightarrow> decompiler \<Rightarrow> decompiler" where
  "record_join prevs variable v reg max_version dd =
     dd\<lparr>dd_num_of_var := dd_num_of_var dd + 1,
        dd_variables := fold (\<lambda>p. AList.update p variable) prevs (dd_variables dd),
        dd_checked := AList.update v variable (dd_checked dd),
        dd_versions := AList.update reg (max_version + 1) (dd_versions dd)\<rparr>"

text \<open>The variable becomes the content of the register.\<close>

definition set_join_variable :: "string \<Rightarrow> string \<Rightarrow> type_hint list \<Rightarrow> unit dec" where
  "set_join_variable reg variable hints =
     bindS (get_register reg) (\<lambda>r.
     let content = set_value variable (rg_content r)
     in bindS (liftS (get_node content)) (\<lambda>n. case n of
         None \<Rightarrow> raiseS AttributeError
       | Some cur \<Rightarrow>
           bindS (liftS (joined_hint (node_hint cur) hints)) (\<lambda>h.
           bindS (on_manager (add_variable_node variable h)) (\<lambda>var_node.
           bindS (liftS (set_node var_node content)) (\<lambda>c.
           bindS (put_register reg (r\<lparr>rg_content := c\<rparr>)) (\<lambda>_.
           bindS (liftS (get_reg_type c)) (\<lambda>t.
             if is_address_type t
             then update_dec (\<lambda>dd. dd\<lparr>dd_address_params := List.insert variable (dd_address_params dd)\<rparr>)
             else returnS ())))))))"

text \<open>\<open>update_reg_version\<close>; the set of the previous versions is given as a list of its elements.\<close>

definition update_reg_version :: "string \<Rightarrow> int \<Rightarrow> string list \<Rightarrow> unit dec" where
  "update_reg_version reg max_version prevs =
     bindS (update_register reg (\<lambda>r. (add_version reg max_version r)\<lparr>rg_prev := prevs\<rparr>)) (\<lambda>_.
     bindS (get_dec (\<lambda>dd. ''var'' @ show_nat (dd_num_of_var dd))) (\<lambda>variable.
     bindS (mapS (rename_variable variable) prevs) (\<lambda>hints.
     bindS (set_join_variable reg variable (concat hints)) (\<lambda>_.
     bindS (get_register reg) (\<lambda>r.
       update_dec (record_join prevs variable (version r) reg max_version))))))"

section \<open>\<open>find_max_and_prev_versions\<close>\<close>

definition parent_versions :: "kernel_state list \<Rightarrow> string \<Rightarrow> string list" where
  "parent_versions parents reg = map version (List.map_filter (\<lambda>st. map_of st reg) parents)"

definition join_register :: "kernel_state list \<Rightarrow> string \<Rightarrow> unit dec" where
  "join_register parents reg =
     bindS (get_dec (\<lambda>dd. reg \<in> set (dd_predicates dd))) (\<lambda>skip.
       if skip then returnS ()
       else let vs = parent_versions parents reg
            in bindS (liftS (mapE version_number vs)) (\<lambda>ns.
               if 1 < length (remdups vs) then update_reg_version reg (fold max ns 0) (remdups vs) else returnS ()))"

fun join_registers :: "kernel_state list \<Rightarrow> string list \<Rightarrow> unit dec" where
  "join_registers parents [] = returnS ()"
| "join_registers parents (reg # regs) = bindS (join_register parents reg) (\<lambda>_. join_registers parents regs)"

definition find_max_and_prev_versions :: "(kernel_state, decompiler) merge" where
  "find_max_and_prev_versions parents sd =
     bind_res (join_registers parents (map fst (fst sd)) sd) (\<lambda>(u, sd'). Inr sd')"

section \<open>What a join does\<close>

lemma version_number_text: "CHR ''#'' \<notin> set reg \<Longrightarrow> version_number (version_text reg n) = Inr n"
proof -
  assume "CHR ''#'' \<notin> set reg"
  then have "dropWhile (\<lambda>c. c \<noteq> CHR ''#'') (reg @ CHR ''#'' # show_int n) = CHR ''#'' # show_int n"
    by (subst dropWhile_append2) auto
  then show ?thesis by (simp add: version_number_def version_text_def)
qed

lemma update_dec_Inr: "update_dec f (st, dd) = Inr (u, s') \<longleftrightarrow> s' = (st, f dd)"
  by (auto simp: update_dec_def method_simps)

lemma get_dec_Inr: "get_dec f (st, dd) = Inr (x, s') \<longleftrightarrow> x = f dd \<and> s' = (st, dd)"
  by (auto simp: get_dec_def method_simps)

lemmas join_simps = update_dec_Inr get_dec_Inr dec_simps

text \<open>Renaming touches the tables of variables alone.\<close>

definition same_counters :: "decompiler \<Rightarrow> decompiler \<Rightarrow> bool" where
  "same_counters dd dd' \<longleftrightarrow>
     dd_versions dd' = dd_versions dd \<and> dd_num_of_var dd' = dd_num_of_var dd \<and> dd_predicates dd' = dd_predicates dd"

lemma rename_variable_effect:
  "rename_variable variable prev (st, dd) = Inr (hs, (st', dd')) \<Longrightarrow> st' = st \<and> same_counters dd dd'"
  by (auto simp: rename_variable_def join_simps same_counters_def split: option.splits if_splits)

lemma rename_variables_effect:
  "mapS (rename_variable variable) prevs (st, dd) = Inr (hs, (st', dd')) \<Longrightarrow> st' = st \<and> same_counters dd dd'"
proof (induction prevs arbitrary: dd hs)
  case (Cons p ps)
  then obtain h hs' s1 dd1 where "rename_variable variable p (st, dd) = Inr (h, (s1, dd1))"
    "mapS (rename_variable variable) ps (s1, dd1) = Inr (hs', (st', dd'))"
    by (fastforce simp: method_simps)
  with Cons.IH rename_variable_effect [of variable p st dd] show ?case by (fastforce simp: same_counters_def)
qed (simp add: method_simps same_counters_def)

lemma variables_recorded:
  "p \<in> set prevs \<Longrightarrow> map_of (fold (\<lambda>p. AList.update p variable) prevs vs) p = Some variable"
proof (induction prevs arbitrary: vs)
  case (Cons q qs)
  have keep: "map_of vs p = Some variable \<Longrightarrow> map_of (fold (\<lambda>p. AList.update p variable) qs vs) p = Some variable" for vs
    by (induction qs arbitrary: vs) (simp_all add: update_conv')
  show ?case
  proof (cases "p \<in> set qs")
    case True
    with Cons.IH show ?thesis by simp
  next
    case False
    with Cons.prems keep show ?thesis by (simp add: update_conv')
  qed
qed simp

lemma set_join_variable_effect:
  assumes "set_join_variable reg variable hints (st, dd) = Inr (u, (st', dd'))"
  shows "\<exists>r c. map_of st reg = Some r \<and> map_of st' = (map_of st)(reg \<mapsto> r\<lparr>rg_content := c\<rparr>) \<and> same_counters dd dd'"
  using assms
  by (auto simp: set_join_variable_def Let_def join_simps same_counters_def split: option.splits if_splits)

text \<open>The register of a join: its version is one above the greatest that arrives, it remembers the versions
  that arrive, and one new variable stands for all of them.\<close>

lemma update_reg_version_effect:
  assumes "update_reg_version reg n prevs (st, dd) = Inr (u, (st', dd'))"
  shows "\<exists>r variable. map_of st' = (map_of st)(reg \<mapsto> r) \<and> map_of st reg \<noteq> None
     \<and> rg_version_name r = reg \<and> rg_version_num r = n + 1 \<and> rg_prev r = prevs
     \<and> variable = ''var'' @ show_nat (dd_num_of_var dd)
     \<and> map_of (dd_checked dd') (version r) = Some variable
     \<and> (\<forall>p \<in> set prevs. map_of (dd_variables dd') p = Some variable)
     \<and> dd_num_of_var dd' = dd_num_of_var dd + 1 \<and> dd_predicates dd' = dd_predicates dd
     \<and> dd_versions dd' = AList.update reg (n + 1) (dd_versions dd)"
proof -
  let ?var = "''var'' @ show_nat (dd_num_of_var dd)"
  obtain r0 where r0: "map_of st reg = Some r0"
    using assms by (auto simp: update_reg_version_def update_register_def join_simps)
  let ?r1 = "(add_version reg n r0)\<lparr>rg_prev := prevs\<rparr>"
  obtain hs st1 dd1 st2 dd2 r where h: "mapS (rename_variable ?var) prevs (AList.update reg ?r1 st, dd) = Inr (hs, (st1, dd1))"
    and j: "set_join_variable reg ?var (concat hs) (st1, dd1) = Inr ((), (st2, dd2))"
    and r: "map_of st2 reg = Some r" and last: "st' = st2" "dd' = record_join prevs ?var (version r) reg n dd2"
    using assms r0 by (fastforce simp: update_reg_version_def update_register_def join_simps)
  have "st1 = AList.update reg ?r1 st" and dd1: "same_counters dd dd1" using rename_variables_effect [OF h] by auto
  then have "map_of st1 reg = Some ?r1" "map_of st1 = (map_of st)(reg \<mapsto> ?r1)" by (simp_all add: update_conv')
  with set_join_variable_effect [OF j] r obtain c where
    "r = ?r1\<lparr>rg_content := c\<rparr>" "map_of st2 = (map_of st)(reg \<mapsto> r)" "same_counters dd1 dd2" by auto
  with dd1 r0 show ?thesis
    by (auto simp: last record_join_def add_version_def version_def variables_recorded same_counters_def update_conv')
qed

lemma join_register_effect:
  assumes "join_register parents reg (st, dd) = Inr (u, (st', dd'))"
  shows "dd_predicates dd' = dd_predicates dd
     \<and> (if reg \<in> set (dd_predicates dd) \<or> length (remdups (parent_versions parents reg)) \<le> 1
        then st' = st
        else \<exists>r ns. map_of st' = (map_of st)(reg \<mapsto> r) \<and> mapE version_number (parent_versions parents reg) = Inr ns
               \<and> rg_version_name r = reg \<and> rg_version_num r = fold max ns 0 + 1
               \<and> rg_prev r = remdups (parent_versions parents reg))"
proof (cases "reg \<in> set (dd_predicates dd)")
  case True
  with assms show ?thesis by (auto simp: join_register_def join_simps)
next
  case False
  with assms obtain ns where ns: "mapE version_number (parent_versions parents reg) = Inr ns"
    and r: "(if 1 < length (remdups (parent_versions parents reg))
             then update_reg_version reg (fold max ns 0) (remdups (parent_versions parents reg)) else returnS ()) (st, dd)
        = Inr (u, (st', dd'))"
    by (auto simp: join_register_def Let_def join_simps)
  from r show ?thesis
  proof (cases "1 < length (remdups (parent_versions parents reg))")
    case True
    with r have "update_reg_version reg (fold max ns 0) (remdups (parent_versions parents reg)) (st, dd) = Inr (u, (st', dd'))"
      by simp
    from update_reg_version_effect [OF this] ns False True show ?thesis by auto
  next
    case F: False
    with r False show ?thesis by (simp add: method_simps)
  qed
qed

text \<open>What a join does to one register.\<close>

definition joined :: "kernel_state list \<Rightarrow> decompiler \<Rightarrow> string \<Rightarrow> register option \<Rightarrow> register option \<Rightarrow> bool" where
  "joined parents dd reg before after \<longleftrightarrow>
     (if reg \<in> set (dd_predicates dd) \<or> length (remdups (parent_versions parents reg)) \<le> 1 then after = before
      else \<exists>r ns. after = Some r \<and> mapE version_number (parent_versions parents reg) = Inr ns
             \<and> rg_version_name r = reg \<and> rg_version_num r = fold max ns 0 + 1
             \<and> rg_prev r = remdups (parent_versions parents reg))"

lemma join_register_joined:
  assumes "join_register parents reg (st, dd) = Inr (u, (st', dd'))"
  shows "dd_predicates dd' = dd_predicates dd \<and> joined parents dd reg (map_of st reg) (map_of st' reg)
     \<and> (\<forall>other. other \<noteq> reg \<longrightarrow> map_of st' other = map_of st other)"
  using join_register_effect [OF assms] by (auto simp: joined_def split: if_splits)

lemma join_registers_joined:
  assumes "distinct regs" "join_registers parents regs (st, dd) = Inr (u, (st', dd'))"
  shows "dd_predicates dd' = dd_predicates dd
     \<and> (\<forall>reg. if reg \<in> set regs then joined parents dd reg (map_of st reg) (map_of st' reg) else map_of st' reg = map_of st reg)"
  using assms
proof (induction regs arbitrary: st dd)
  case (Cons reg regs)
  then obtain st1 dd1 where j: "join_register parents reg (st, dd) = Inr ((), (st1, dd1))"
    and rest: "join_registers parents regs (st1, dd1) = Inr (u, (st', dd'))"
    by (auto simp: method_simps)
  have "joined parents dd1 = joined parents dd"
    using join_register_joined [OF j] by (simp add: joined_def fun_eq_iff)
  with Cons.IH [OF _ rest] Cons.prems(1) join_register_joined [OF j] show ?case by auto metis+
qed (simp add: method_simps)

lemma fold_max_start: "n \<le> fold max ns n" for n :: int
proof (induction ns arbitrary: n)
  case (Cons m ns)
  from Cons.IH [of "max m n"] show ?case by simp
qed simp

lemma fold_max_ge: "x \<in> set ns \<Longrightarrow> x \<le> fold max ns n" for x :: int
proof (induction ns arbitrary: n)
  case (Cons m ns)
  with fold_max_start [of "max m n" ns] show ?case by auto
qed simp

lemma mapE_version_texts: "CHR ''#'' \<notin> set reg \<Longrightarrow> mapE version_number (map (version_text reg) ns) = Inr ns"
  by (induction ns) (simp_all add: version_number_text)

text \<open>
  C34: at a join, every register that arrives with at least two different versions gets a version above all
  of them, so that it differs from each, and remembers exactly the versions that arrive; every other
  register, and every predicate, stays as it is.
\<close>

theorem join_gives_new_version:
  assumes "find_max_and_prev_versions parents (st, dd) = Inr (st', dd')" "distinct (map fst st)"
    and "\<forall>p \<in> set parents. \<forall>reg r. map_of p reg = Some r \<longrightarrow> rg_version_name r = reg"
    and "reg \<in> fst ` set st" "CHR ''#'' \<notin> set reg"
  shows "if reg \<in> set (dd_predicates dd) \<or> length (remdups (parent_versions parents reg)) \<le> 1
     then map_of st' reg = map_of st reg
     else \<exists>r. map_of st' reg = Some r \<and> set (rg_prev r) = set (parent_versions parents reg)
            \<and> version r \<notin> set (parent_versions parents reg)
            \<and> (\<forall>p \<in> set parents. \<forall>old. map_of p reg = Some old \<longrightarrow> rg_version_num old < rg_version_num r)"
proof -
  let ?vs = "parent_versions parents reg"
  have "join_registers parents (map fst st) (st, dd) = Inr ((), (st', dd'))"
    using assms(1) by (auto simp: find_max_and_prev_versions_def)
  from join_registers_joined [OF assms(2) this] assms(4)
  have j: "joined parents dd reg (map_of st reg) (map_of st' reg)" by (auto split: if_splits)
  have vs: "?vs = map (version_text reg) (map rg_version_num (List.map_filter (\<lambda>s. map_of s reg) parents))"
    using assms(3) by (fastforce simp: parent_versions_def version_def List.map_filter_def)
  have nums: "ns = map rg_version_num (List.map_filter (\<lambda>s. map_of s reg) parents)" if "mapE version_number ?vs = Inr ns" for ns
    using that unfolding vs mapE_version_texts [OF assms(5)] by simp
  show ?thesis
  proof (cases "reg \<in> set (dd_predicates dd) \<or> length (remdups ?vs) \<le> 1")
    case True
    with j show ?thesis by (simp add: joined_def)
  next
    case False
    then obtain r ns where r: "map_of st' reg = Some r" "mapE version_number ?vs = Inr ns" "rg_version_name r = reg"
      "rg_version_num r = fold max ns 0 + 1" "rg_prev r = remdups ?vs"
      using j by (auto simp: joined_def)
    have less: "n < rg_version_num r" if "n \<in> set ns" for n using fold_max_ge [of n ns 0] that r(4) by simp
    have "version r \<notin> set ?vs"
    proof
      assume "version r \<in> set ?vs"
      then have "rg_version_num r \<in> set ns" unfolding vs nums [OF r(2)] using r(3) by (auto simp: version_def)
      from less [OF this] show False by simp
    qed
    moreover have "rg_version_num old \<in> set ns" if "p \<in> set parents" "map_of p reg = Some old" for p old
      using nums [OF r(2)] that by (force simp: List.map_filter_def)
    ultimately show ?thesis using False r less by auto
  qed
qed

text \<open>Two states in which \<open>v0\<close> has the versions 1 and 2.\<close>

definition start_decompiler :: decompiler where
  "start_decompiler = reset_decompiler (reset_manager ''k'' init_manager)"

definition sample_state :: "int \<Rightarrow> kernel_state" where
  "sample_state n =
     [(''v0'', add_version ''v0'' (n - 1) (new_register ENTIRE
        (Plain (default_plain (PStr ''1'') (Some INT32) (Some POSITIVE) (Leaf (Some ''b32''))
           (Some (create_const_node 0 (CStr ''1'') (mk_hint (OType INT_T W1))))))
        (Leaf DEFAULT_REGISTER_SIZE)))]"

theorem join_gives_new_version_witness:
  "\<exists>st' dd' r. find_max_and_prev_versions [sample_state 1, sample_state 2] (sample_state 2, start_decompiler) = Inr (st', dd')
     \<and> map_of st' ''v0'' = Some r \<and> set (rg_prev r) = {''v0#1'', ''v0#2''} \<and> version r \<notin> {''v0#1'', ''v0#2''}"
proof -
  let ?ps = "[sample_state 1, sample_state 2]"
  have "case find_max_and_prev_versions ?ps (sample_state 2, start_decompiler) of Inl e \<Rightarrow> False | Inr z \<Rightarrow> True"
    by code_simp
  then obtain st' dd' where run: "find_max_and_prev_versions ?ps (sample_state 2, start_decompiler) = Inr (st', dd')"
    by (auto split: sum.splits)
  have named: "\<forall>p \<in> set ?ps. \<forall>reg r. map_of p reg = Some r \<longrightarrow> rg_version_name r = reg"
    by (auto simp: sample_state_def add_version_def split: if_splits)
  have vs: "parent_versions ?ps ''v0'' = [''v0#1'', ''v0#2'']" by code_simp
  have "distinct (map fst (sample_state 2))" "''v0'' \<in> fst ` set (sample_state 2)" "CHR ''#'' \<notin> set ''v0''"
    "''v0'' \<notin> set (dd_predicates start_decompiler)"
    by (simp_all add: sample_state_def start_decompiler_def reset_decompiler_def)
  with join_gives_new_version [OF run _ named, of "''v0''"] run show ?thesis by (auto simp: vs)
qed

end
