(* ===== verification/Reg_Backends.thy ===== *)
theory Reg_Backends
  imports Version_Join Py_Text
begin

text \<open>
  Backend instructions that fill the registers of a node (\<open>src/src/instructions\<close>): moves and constants,
  the initial registers and predicates, the pointer to the arguments, and the negation of a condition.
  They work on the registers of the node, on the conditions that predicate registers hold, and on the
  decompiler.
\<close>

type_synonym conditions = "string \<Rightarrow> exec_cond option"

type_synonym 'a bck = "(kernel_state \<times> conditions \<times> decompiler, 'a) action"

definition on_regs :: "'a dec \<Rightarrow> 'a bck" where
  "on_regs m = (\<lambda>(st, er, dd). bind_res (m (st, dd)) (\<lambda>(x, st', dd'). Inr (x, (st', er, dd'))))"

definition get_condition :: "string \<Rightarrow> exec_cond bck" where
  "get_condition p = (\<lambda>(st, er, dd). case er p of None \<Rightarrow> Inl KeyError | Some c \<Rightarrow> Inr (c, (st, er, dd)))"

definition put_condition :: "string \<Rightarrow> exec_cond \<Rightarrow> unit bck" where
  "put_condition p c = (\<lambda>(st, er, dd). Inr ((), (st, er(p \<mapsto> c), dd)))"

section \<open>Reading operands\<close>

definition lookup_register :: "string \<Rightarrow> register option dec" where
  "lookup_register reg = getS (\<lambda>(st, dd). map_of st reg)"

fun object_const :: "py_object \<Rightarrow> const_value" where
  "object_const (PStr s) = CStr s"
| "object_const (PInt i) = CInt i"

text \<open>The node of a register that has a content without one.\<close>

definition content_node :: "bool \<Rightarrow> reg_content \<Rightarrow> expr_node option dec" where
  "content_node allow_unknown c =
     bindS (liftS (get_node c)) (\<lambda>n. case n of
         Some e \<Rightarrow> returnS (Some e)
       | None \<Rightarrow>
           bindS (liftS (get_reg_type c)) (\<lambda>t.
             if allow_unknown \<and> t = Some UNKNOWN then bindS (on_manager get_empty_node) (\<lambda>e. returnS (Some e))
             else case t of
               None \<Rightarrow> raiseS AssertionError
             | Some ty \<Rightarrow> bindS (liftS (get_value c)) (\<lambda>v. on_manager (add_register_node ty (Some (object_const v))))))"

definition is_big_value :: "py_object \<Rightarrow> py_object \<Rightarrow> bool" where
  "is_big_value lo hi \<longleftrightarrow> lo = PStr ''0xa2000000'' \<and> hi = PStr ''0x426d1a94''"

definition register_value :: "string \<Rightarrow> py_object dec" where
  "register_value reg = bindS (get_register reg) (\<lambda>r. liftS (get_value (rg_content r)))"

definition get_or_add_expression_node :: "operand \<Rightarrow> opencl_types \<Rightarrow> expr_node option dec" where
  "get_or_add_expression_node reg t =
     bindS (lookup_register (op_name reg)) (\<lambda>z. case z of
         Some r \<Rightarrow> content_node True (rg_content r)
       | None \<Rightarrow>
           if is_range reg
           then case expand_register_names reg of
                  [] \<Rightarrow> raiseS IndexError
                | start # rest \<Rightarrow>
                    bindS (register_value start) (\<lambda>lo.
                    bindS (if lo = PStr ''0xa2000000'' then register_value (last (start # rest)) else returnS lo) (\<lambda>hi.
                      if is_big_value lo hi
                      then bindS (on_manager (add_const_node (CStr ''1e12'') t)) (\<lambda>e. returnS (Some e))
                      else bindS (get_register start) (\<lambda>r. content_node False (rg_content r))))
           else bindS (on_manager (add_const_node (CStr (op_name reg)) t)) (\<lambda>e. returnS (Some e)))"

text \<open>\<open>BaseInstruction.get_expression_node\<close>.\<close>

definition get_expression_node :: "operand \<Rightarrow> string \<Rightarrow> expr_node option dec" where
  "get_expression_node reg suffix =
     bindS (liftS (opencl_from_string suffix)) (\<lambda>t. get_or_add_expression_node reg t)"

text \<open>\<open>get_from_state\<close> asserts that its operand is a register; the callers read an attribute of the result.\<close>

definition get_from_state :: "operand \<Rightarrow> register option dec" where
  "get_from_state a = (if is_base_reg a then lookup_register (op_name a) else raiseS AssertionError)"

definition state_register :: "operand \<Rightarrow> register dec" where
  "state_register a = bindS (get_from_state a) (\<lambda>z. case z of Some r \<Rightarrow> returnS r | None \<Rightarrow> raiseS AttributeError)"

definition in_state :: "operand \<Rightarrow> bool dec" where
  "in_state a = bindS (lookup_register (op_name a)) (\<lambda>z. returnS (z \<noteq> None))"

definition val_of :: "register \<Rightarrow> py_object dec" where
  "val_of r = liftS (get_value (rg_content r))"

definition type_of_reg :: "register \<Rightarrow> register_type option dec" where
  "type_of_reg r = liftS (get_reg_type (rg_content r))"

definition data_of :: "register \<Rightarrow> string option nest dec" where
  "data_of r = liftS (get_data_type (rg_content r))"

section \<open>Moves\<close>

definition value_request :: "py_object \<Rightarrow> register_type option \<Rightarrow> string option nest \<Rightarrow> expr_node option \<Rightarrow> content_request" where
  "value_request v t d n = Want_Plain v t (Some POSITIVE) d n"

text \<open>\<open>SMov\<close> between predicates: the condition moves with the value.  The list of sources is a text there, and
  the test for membership is the one for substrings.\<close>

definition b64_substrings :: "string list" where
  "b64_substrings = [[], ''b'', ''6'', ''4'', ''b6'', ''64'', ''b64'']"

definition mov_predicate :: "operand \<Rightarrow> operand \<Rightarrow> string \<Rightarrow> unit bck" where
  "mov_predicate d s suffix =
     bindS (get_condition (op_name s)) (\<lambda>c.
     bindS (put_condition (op_name d) c) (\<lambda>_.
     on_regs (
       bindS (get_expression_node s suffix) (\<lambda>e.
       bindS (state_register s) (\<lambda>r.
       bindS (val_of r) (\<lambda>v.
         set_reg_value (value_request v (Some UNKNOWN) (Leaf None) e) (op_name d) b64_substrings ENTIRE None))))))"

definition mov_source :: "operand \<Rightarrow> string \<Rightarrow> (py_object \<times> register_type option \<times> string option nest \<times> expr_node option) dec" where
  "mov_source s suffix =
     bindS (in_state s) (\<lambda>known.
       if known
       then bindS (state_register s) (\<lambda>r. bindS (val_of r) (\<lambda>v. bindS (type_of_reg r) (\<lambda>t.
            bindS (data_of r) (\<lambda>d. returnS (v, t, d, None)))))
       else if is_base_reg s then raiseS AssertionError
       else bindS (on_manager (add_register_node INT32 (Some (CStr (op_name s))))) (\<lambda>e.
              returnS (PStr (op_name s), Some INT32, Leaf (Some suffix), e)))"

definition s_mov :: "operand \<Rightarrow> operand \<Rightarrow> string \<Rightarrow> unit bck" where
  "s_mov d s suffix =
     (if suffix \<notin> {''b32'', ''b64'', ''i32''} then raiseS AttributeError
      else if is_predicate s \<or> is_predicate d then mov_predicate d s suffix
      else on_regs (
           bindS (mov_source s suffix) (\<lambda>(v, ty, dt, e0).
           bindS (case e0 of Some e \<Rightarrow> returnS (Some e) | None \<Rightarrow> get_expression_node s suffix) (\<lambda>e.
           bindS (if suffix = ''b64''
                  then bindS (liftS (get_element d 0)) (\<lambda>lo.
                       bindS (set_reg_value (value_request v ty dt e) (op_name lo) [] LOW_PART None) (\<lambda>_.
                       bindS (liftS (get_element d 1)) (\<lambda>hi.
                         set_reg_value (value_request v ty dt e) (op_name hi) [] HIGH_PART None)))
                  else returnS ()) (\<lambda>_.
             set_reg_value (value_request v ty dt e) (op_name d) [] ENTIRE None)))))"

section \<open>Initial registers\<close>

definition init_entry_reg :: "string \<Rightarrow> string \<Rightarrow> register_type \<Rightarrow> unit dec" where
  "init_entry_reg reg v t =
     bindS (on_manager (add_register_node t (Some (CStr v)))) (\<lambda>n.
       set_reg_make_version reg (new_register ENTIRE
         (Plain (default_plain (PStr v) (Some t) (Some POSITIVE) (Leaf None) n)) (Leaf DEFAULT_REGISTER_SIZE)))"

text \<open>\<open>InitReg\<close>: a number, or the call of a work-item function with one digit.  What follows the call is not
  looked at, and a digit above 2 has no dimension.\<close>

definition work_item_calls :: "(string \<times> (dim \<Rightarrow> register_type)) list" where
  "work_item_calls =
     [(''get_group_id'', WORK_GROUP_ID), (''get_local_id'', WORK_ITEM_ID), (''get_global_offset'', GLOBAL_OFFSET),
      (''get_num_groups'', NUM_GROUPS), (''get_local_size'', LOCAL_SIZE)]"

definition parse_call :: "string \<Rightarrow> ((dim \<Rightarrow> register_type) \<times> nat) option" where
  "parse_call v =
     (case filter (\<lambda>(f, t). startswith v (f @ ''('')) work_item_calls of
        [] \<Rightarrow> None
      | (f, t) # _ \<Rightarrow>
          (case drop (Suc (length f)) v of
             c # d # _ \<Rightarrow> if is_decimal c \<and> d = CHR '')'' then Some (t, decimal_value c) else None
           | _ \<Rightarrow> None))"

definition init_reg :: "string \<Rightarrow> string \<Rightarrow> unit dec" where
  "init_reg reg v =
     (if all_decimal v then init_entry_reg reg v INT32
      else if v = ''get_work_dim()'' then init_entry_reg reg v WORK_DIM
      else case parse_call v of
        None \<Rightarrow> raiseS AttributeError
      | Some (t, k) \<Rightarrow> bindS (liftS (py_nth dims k)) (\<lambda>d. init_entry_reg reg v (t d)))"

definition init_predicate :: "string \<Rightarrow> unit dec" where
  "init_predicate name =
     bindS (set_reg_make_version name
        ((new_register ENTIRE (Plain (default_plain (PStr []) (Some UNKNOWN) (Some POSITIVE) (Leaf None) None))
           (Leaf DEFAULT_REGISTER_SIZE))\<lparr>rg_exec := Some exec_default\<rparr>)) (\<lambda>_.
       update_dec (\<lambda>dd. dd\<lparr>dd_predicates := dd_predicates dd @ [name]\<rparr>))"

definition init_pred :: "operand \<Rightarrow> unit bck" where
  "init_pred d =
     bindS (on_regs (
       bindS (init_predicate (op_name d)) (\<lambda>_.
       bindS (liftS (get_element d 0)) (\<lambda>lo. bindS (init_predicate (op_name lo)) (\<lambda>_.
       bindS (liftS (get_element d 1)) (\<lambda>hi. init_predicate (op_name hi))))))) (\<lambda>_.
       put_condition (op_name d) exec_default)"

text \<open>\<open>MemoryAllocation\<close>: the pointer to the arguments, in both halves and as a whole.\<close>

definition init_pointer_part :: "integrity \<Rightarrow> register_type \<Rightarrow> string \<Rightarrow> unit dec" where
  "init_pointer_part i t name =
     bindS (on_manager (add_const_node (CInt 0) (OType USHORT_T W1))) (\<lambda>n.
       set_reg_make_version name (new_register i
         (Plain (default_plain (PStr ''0'') (Some t) (Some POSITIVE) (Leaf None) (Some n))) (Leaf DEFAULT_REGISTER_SIZE)))"

definition init_ptr :: "operand \<Rightarrow> register_type \<Rightarrow> unit dec" where
  "init_ptr p t =
     bindS (liftS (get_element p 0)) (\<lambda>lo. bindS (init_pointer_part LOW_PART t (op_name lo)) (\<lambda>_.
     bindS (liftS (get_element p 1)) (\<lambda>hi. bindS (init_pointer_part HIGH_PART t (op_name hi)) (\<lambda>_.
       init_pointer_part ENTIRE t (op_name p)))))"

section \<open>The negation of a condition\<close>

text \<open>\<open>set_reg_value_save\<close> also writes the registers of a range.\<close>

definition set_reg_value_save ::
    "content_request \<Rightarrow> operand \<Rightarrow> string list \<Rightarrow> integrity \<Rightarrow> exec_cond option \<Rightarrow> unit dec" where
  "set_reg_value_save q d from_regs i x =
     (if \<not> is_base_reg d then raiseS AssertionError
      else bindS (set_reg_value q (op_name d) from_regs i x) (\<lambda>_.
             if is_range d
             then bindS (mapS (\<lambda>name. set_reg_value q name from_regs i x) (expand_register_names d)) (\<lambda>_. returnS ())
             else returnS ()))"

definition s_not :: "operand \<Rightarrow> operand \<Rightarrow> string \<Rightarrow> unit bck" where
  "s_not d s suffix =
     (if suffix \<notin> {''b32'', ''b64''} then raiseS AttributeError
      else bindS (on_regs (state_register s)) (\<lambda>r. bindS (on_regs (val_of r)) (\<lambda>v. bindS (on_regs (type_of_reg r)) (\<lambda>t.
           let new_value = ''!('' @ object_str v @ '')''
           in bindS (on_regs (get_expression_node s suffix)) (\<lambda>e. case e of
                None \<Rightarrow> raiseS AttributeError
              | Some n \<Rightarrow>
                  bindS (on_regs (on_manager (add_logical_not_node n))) (\<lambda>n'.
                  bindS (if is_predicate d \<and> is_predicate s then put_condition (op_name d) (mk_exec [new_value])
                         else returnS ()) (\<lambda>_.
                    on_regs (set_reg_value_save (value_request (PStr new_value) t (Leaf (Some suffix)) (Some n')) d
                               [op_name s] ENTIRE None))))))))"

section \<open>The registers along the graph\<close>

text \<open>\<open>UseMask\<close>: the register of the mask takes the condition of the predicate.\<close>

definition use_mask :: "operand \<Rightarrow> string \<Rightarrow> unit bck" where
  "use_mask s suffix =
     bindS (get_condition (op_name s)) (\<lambda>c.
     bindS (on_regs (get_expression_node s suffix)) (\<lambda>e.
     bindS (liftS (exec_top c)) (\<lambda>t.
       on_regs (set_reg_value (value_request (PStr t) (Some UNKNOWN) (Leaf None) e) ''$MASK'' [op_name s] ENTIRE (Some c)))))"

text \<open>Three assignments of constants to \<open>v0\<close>, one after the other, and the join of the paths that leave after
  the first and after the second.\<close>

definition mov_const :: "string \<Rightarrow> kernel_state \<times> decompiler \<Rightarrow> (kernel_state \<times> decompiler) res" where
  "mov_const v sd =
     bind_res (s_mov (Reg32 ''v0'') (Val v) ''b32'' (fst sd, Map.empty, snd sd)) (\<lambda>(u, st, er, dd). Inr (st, dd))"

definition register_summary :: "kernel_state \<Rightarrow> (py_object res \<times> string \<times> string list) option" where
  "register_summary st = map_option (\<lambda>r. (get_value (rg_content r), version r, rg_prev r)) (map_of st ''v0'')"

definition three_moves :: "(kernel_state list \<times> decompiler) res" where
  "three_moves =
     bind_res (mov_const ''1'' ([], start_decompiler)) (\<lambda>(s1, d1).
     bind_res (mov_const ''2'' (s1, d1)) (\<lambda>(s2, d2).
     bind_res (mov_const ''3'' (s2, d2)) (\<lambda>(s3, d3).
     bind_res (find_max_and_prev_versions [s1, s2] (s2, d3)) (\<lambda>(s4, d4).
     bind_res (find_max_and_prev_versions [s4, s3] (s3, d4)) (\<lambda>(s5, d5).
       Inr ([s1, s2, s3, s4, s5], d5))))))"


end
