(* ===== verification/Op_Values.thy ===== *)
theory Op_Values
  imports Reg_Backends Expr_Print
begin

text \<open>
  The values of operations (\<open>src/src/decompiler_data.py\<close>): when a value has to be cast to the type of an
  instruction, the text of an operation on two operands, and the comparison of two operands.
\<close>

section \<open>Patterns\<close>

text \<open>\<open>re.fullmatch\<close> of the patterns on ASCII text.\<close>

definition is_sign_char :: "char \<Rightarrow> bool" where
  "is_sign_char c \<longleftrightarrow> c = CHR ''+'' \<or> c = CHR ''-''"

definition drop_sign :: "string \<Rightarrow> string" where
  "drop_sign s = (case s of c # cs \<Rightarrow> if is_sign_char c then cs else s | [] \<Rightarrow> [])"

text \<open>\<open>[+-]?\d+([.,]\d+)?\<close>\<close>

definition is_number_text :: "string \<Rightarrow> bool" where
  "is_number_text s =
     (let t = drop_sign s; rest = dropWhile is_decimal t
      in takeWhile is_decimal t \<noteq> []
         \<and> (case rest of [] \<Rightarrow> True | c # cs \<Rightarrow> (c = CHR ''.'' \<or> c = CHR '','') \<and> all_decimal cs))"

text \<open>\<open>[+-]?[\d,.]+([eE][+-]?\d+)?\<close>\<close>

definition is_loose_number :: "string \<Rightarrow> bool" where
  "is_loose_number s =
     (let t = drop_sign s; p = (\<lambda>c. is_decimal c \<or> c = CHR ''.'' \<or> c = CHR '',''); rest = dropWhile p t
      in takeWhile p t \<noteq> []
         \<and> (case rest of [] \<Rightarrow> True | c # cs \<Rightarrow> (c = CHR ''e'' \<or> c = CHR ''E'') \<and> all_decimal (drop_sign cs)))"

text \<open>\<open>0x[\da-f]+\<close>\<close>

definition is_hex_text :: "string \<Rightarrow> bool" where
  "is_hex_text s = (startswith s ''0x'' \<and> drop 2 s \<noteq> [] \<and> list_all (\<lambda>c. c \<in> set hex_digits) (drop 2 s))"

definition kind_and_digits :: "string \<Rightarrow> string \<Rightarrow> bool" where
  "kind_and_digits kinds s = (case s of c # cs \<Rightarrow> c \<in> set kinds \<and> all_decimal cs | [] \<Rightarrow> False)"

definition is_type_signed :: "string \<Rightarrow> bool" where
  "is_type_signed t = kind_and_digits ''i'' t"

definition is_type_unsigned :: "string \<Rightarrow> bool" where
  "is_type_unsigned t = kind_and_digits ''ub'' t"

definition is_type_float :: "string \<Rightarrow> bool" where
  "is_type_float t = kind_and_digits ''f'' t"

text \<open>\<open>g?[ub]\d+\<close>\<close>

definition is_unsigned_or_global :: "string \<Rightarrow> bool" where
  "is_unsigned_or_global t = (is_type_unsigned t \<or> startswith t ''g'' \<and> is_type_unsigned (tl t))"

section \<open>Types\<close>

definition raw_conversions :: "(string \<times> string) list" where
  "raw_conversions = [(''char'', ''i8''), (''uchar'', ''u8''), (''short'', ''i16''), (''ushort'', ''u16''), (''half'', ''f16'')]"

definition get_raw_asm_type :: "string \<Rightarrow> string" where
  "get_raw_asm_type t =
     (let t1 = removeprefix t ''g'';
          t2 = (if t1 \<in> set vector_types then make_asm_type (butlast t1) else t1)
      in case map_of raw_conversions t2 of Some r \<Rightarrow> r | None \<Rightarrow> t2)"

record type_info =
  ti_raw :: string
  ti_size :: int
  ti_components :: int
  ti_global :: bool

definition get_type_info :: "string \<Rightarrow> type_info res" where
  "get_type_info t =
     (let v = t \<in> set vector_types; t' = (if v then make_asm_type (butlast t) else t)
      in bind_res (evaluate_size t' False) (\<lambda>(n, p).
           Inr \<lparr>ti_raw = get_raw_asm_type t', ti_size = n, ti_components = (if v then int (decimal_value (last t)) else 1),
                ti_global = startswith t ''g''\<rparr>))"

section \<open>Casts\<close>

text \<open>\<open>float(value)\<close>.\<close>

definition float_of :: "py_object \<Rightarrow> rat option" where
  "float_of v = (case v of PInt n \<Rightarrow> Some (of_int n) | PStr s \<Rightarrow> py_float (strip s))"

definition float_needs_cast :: "(rat \<Rightarrow> bool) \<Rightarrow> py_object \<Rightarrow> bool" where
  "float_needs_cast p v = (case float_of v of None \<Rightarrow> True | Some q \<Rightarrow> p q)"

definition same_kind :: "string \<Rightarrow> string \<Rightarrow> bool" where
  "same_kind f t \<longleftrightarrow> is_type_signed f \<and> is_type_signed t \<or> is_type_unsigned f \<and> is_type_unsigned t
     \<or> is_type_float f \<and> is_type_float t"

definition other_sign :: "string \<Rightarrow> string \<Rightarrow> bool" where
  "other_sign f t \<longleftrightarrow> is_type_unsigned f \<and> is_type_signed t \<or> is_type_signed f \<and> is_type_unsigned t"

definition is_integral :: "rat \<Rightarrow> bool" where
  "is_integral q \<longleftrightarrow> of_int \<lfloor>q\<rfloor> = q"

text \<open>Between integers of different signs; the last two tests cannot both fail.\<close>

definition sign_needs_cast :: "py_object \<Rightarrow> bool \<Rightarrow> bool res" where
  "sign_needs_cast v differ =
     (case v of
        PInt n \<Rightarrow> Inl TypeError
      | PStr s \<Rightarrow> bind_res (first_char s) (\<lambda>c.
          Inr (c = CHR ''-'' \<and> all_decimal (tl s) \<or> \<not> all_decimal s \<or> \<not> is_hex_text s \<or> differ)))"

text \<open>The kinds exclude each other, so that the tests of the source are alternatives.\<close>

definition typed_needs_cast :: "py_object \<Rightarrow> type_info \<Rightarrow> type_info \<Rightarrow> bool res" where
  "typed_needs_cast v f t =
     (let differ = (ti_size f > ti_size t \<or> ti_components f \<noteq> ti_components t)
      in if ti_global f \<noteq> ti_global t then Inr True
         else if same_kind (ti_raw f) (ti_raw t) then Inr differ
         else if other_sign (ti_raw f) (ti_raw t) then sign_needs_cast v differ
         else if is_type_float (ti_raw f) \<and> is_type_unsigned (ti_raw t)
         then Inr (float_needs_cast (\<lambda>q. \<not> is_integral q \<or> q < 0 \<or> differ) v)
         else if is_type_float (ti_raw f) \<and> is_type_signed (ti_raw t)
         then Inr (float_needs_cast (\<lambda>q. \<not> is_integral q \<or> differ) v)
         else Inr True)"

fun unknown_type :: "string option nest \<Rightarrow> bool" where
  "unknown_type (Leaf None) = True"
| "unknown_type (Leaf (Some t)) = (t = [])"
| "unknown_type (Nest ts) = (ts = [])"

definition untyped_needs_cast :: "py_object \<Rightarrow> string option nest \<Rightarrow> bool res" where
  "untyped_needs_cast v f =
     (case v of
        PInt n \<Rightarrow> Inl TypeError
      | PStr s \<Rightarrow>
          if is_number_text s
          then (if hd s = CHR ''-''
                then (case f of Leaf (Some t) \<Rightarrow> Inr (is_unsigned_or_global t) | _ \<Rightarrow> Inl TypeError)
                else Inr False)
          else Inr (\<not> is_hex_text s \<and> \<not> is_loose_number s))"

definition check_value_needs_cast :: "py_object \<Rightarrow> string option nest \<Rightarrow> string \<Rightarrow> bool res" where
  "check_value_needs_cast v f t =
     (if f = Leaf (Some t) then Inr False
      else if unknown_type f \<or> t = [] then untyped_needs_cast v f
      else case f of
        Leaf (Some f') \<Rightarrow>
          bind_res (get_type_info f') (\<lambda>fi. bind_res (get_type_info t) (\<lambda>ti. typed_needs_cast v fi ti))
      | _ \<Rightarrow> Inl AttributeError)"

section \<open>The text of an operation\<close>

definition check_reg_for_val :: "operand \<Rightarrow> string \<Rightarrow> (py_object \<times> bool) dec" where
  "check_reg_for_val a suffix =
     bindS (case a of
         Val s \<Rightarrow> returnS (PStr s, Leaf (Some []))
       | _ \<Rightarrow>
           bindS (lookup_register (op_name a)) (\<lambda>z. case z of
               Some r \<Rightarrow>
                 bindS (liftS (get_value (rg_content r))) (\<lambda>v. bindS (liftS (get_data_type (rg_content r))) (\<lambda>d.
                   returnS (v, d)))
             | None \<Rightarrow>
                 if is_range a
                 then case expand_register_names a of
                        [] \<Rightarrow> raiseS IndexError
                      | start # rest \<Rightarrow>
                          bindS (register_value start) (\<lambda>lo.
                          bindS (if lo = PStr ''0xa2000000'' then register_value (last (start # rest)) else returnS lo) (\<lambda>hi.
                            if is_big_value lo hi then returnS (PStr ''1e12'', Leaf (Some []))
                            else bindS (get_register start) (\<lambda>r.
                                 bindS (liftS (get_data_type (rg_content r))) (\<lambda>d. returnS (lo, d)))))
                 else raiseS NotImplementedError)) (\<lambda>(v, d).
     bindS (liftS (check_value_needs_cast v d suffix)) (\<lambda>c. returnS (v, c)))"

definition has_arithmetic :: "string \<Rightarrow> bool" where
  "has_arithmetic s = list_ex (\<lambda>c. c \<in> set ''-+*/'') s"

definition bracket_arithmetic :: "py_object \<Rightarrow> py_object res" where
  "bracket_arithmetic v =
     (case v of PInt n \<Rightarrow> Inl TypeError | PStr s \<Rightarrow> Inr (PStr (if has_arithmetic s then ''('' @ s @ '')'' else s)))"

definition prefix_object :: "string \<Rightarrow> py_object \<Rightarrow> py_object res" where
  "prefix_object p v = (case v of PInt n \<Rightarrow> Inl TypeError | PStr s \<Rightarrow> Inr (PStr (p @ s)))"

definition suffix_object :: "string \<Rightarrow> py_object \<Rightarrow> py_object res" where
  "suffix_object p v = (case v of PInt n \<Rightarrow> Inl TypeError | PStr s \<Rightarrow> Inr (PStr (s @ p)))"

definition change_vals_for_make_op :: "operand \<Rightarrow> string \<Rightarrow> string \<Rightarrow> string \<Rightarrow> py_object dec" where
  "change_vals_for_make_op a cast operation suffix =
     bindS (check_reg_for_val a suffix) (\<lambda>(v, needs_cast).
     bindS (liftS (if operation \<noteq> ''+'' \<or> cast \<noteq> [] then bracket_arithmetic v else Inr v)) (\<lambda>v1.
     bindS (if cast \<noteq> []
            then update_dec (\<lambda>dd. dd\<lparr>dd_type_conversion := AList.update (object_str v1) cast (dd_type_conversion dd)\<rparr>)
            else returnS ()) (\<lambda>_.
     bindS (liftS (if needs_cast then prefix_object cast v1 else Inr v1)) (\<lambda>v2.
       liftS (if cast \<noteq> [] \<and> CHR '')'' \<notin> set cast then suffix_object '')'' v2 else Inr v2)))))"

definition make_op_typed :: "operand \<Rightarrow> operand \<Rightarrow> string \<Rightarrow> string \<Rightarrow> string \<Rightarrow> string \<Rightarrow> string dec" where
  "make_op_typed a b operation cast0 cast1 suffix =
     bindS (change_vals_for_make_op a cast0 operation suffix) (\<lambda>v0.
     bindS (change_vals_for_make_op b cast1 operation suffix) (\<lambda>v1.
       returnS (object_str v0 @ '' '' @ operation @ '' '' @ object_str v1)))"

definition make_op :: "operand \<Rightarrow> operand \<Rightarrow> string \<Rightarrow> string \<Rightarrow> string dec" where
  "make_op a b operation suffix = make_op_typed a b operation [] [] suffix"

section \<open>Nodes of operations\<close>

definition op_node :: "expr_node option \<Rightarrow> expr_node option \<Rightarrow> expr_op \<Rightarrow> opencl_types \<Rightarrow> expr_node option dec" where
  "op_node a b x t =
     (case (a, b) of
        (Some l, Some r) \<Rightarrow> bindS (on_manager (add_operation l r x t)) (\<lambda>n. returnS (Some n))
      | _ \<Rightarrow> raiseS AttributeError)"

text \<open>The node of an operation on the nodes of two operands.\<close>

definition operation_on :: "operand \<Rightarrow> operand \<Rightarrow> string \<Rightarrow> expr_op \<Rightarrow> opencl_types \<Rightarrow> expr_node option dec" where
  "operation_on a b suffix x t =
     bindS (get_expression_node a suffix) (\<lambda>l. bindS (get_expression_node b suffix) (\<lambda>r. op_node l r x t))"

text \<open>\<open>set_reg_value\<close> for one value of a given type.\<close>

definition write_value ::
    "string \<Rightarrow> register_type option \<Rightarrow> string \<Rightarrow> expr_node option \<Rightarrow> string \<Rightarrow> string list \<Rightarrow> integrity \<Rightarrow> unit dec" where
  "write_value v t suffix n reg from_regs i =
     set_reg_value (value_request (PStr v) t (Leaf (Some suffix)) n) reg from_regs i None"

definition compare_values :: "operand \<Rightarrow> operand \<Rightarrow> operand \<Rightarrow> string \<Rightarrow> string \<Rightarrow> unit dec" where
  "compare_values d a b operation suffix =
     (let ty = make_opencl_type suffix; cast = (if ty \<noteq> ''unknown type'' then ''('' @ ty @ '')'' else []);
          from_regs = [op_name a, op_name b]
      in bindS (make_op_typed a b operation cast cast suffix) (\<lambda>v.
         bindS (liftS (opencl_from_string suffix)) (\<lambda>t.
         bindS (operation_on a b suffix (op_from_string operation) t) (\<lambda>n.
         bindS (if is_range d
                then (case get_reg_rang d of
                        [lo, hi] \<Rightarrow>
                          bindS (write_value v (Some UNKNOWN) suffix n (op_name lo) from_regs LOW_PART) (\<lambda>_.
                            write_value v (Some UNKNOWN) suffix n (op_name hi) from_regs HIGH_PART)
                      | _ \<Rightarrow> raiseS ValueError)
                else returnS ()) (\<lambda>_.
           write_value v (Some UNKNOWN) suffix n (op_name d) from_regs ENTIRE)))))"

end
