(* ===== verification/Reg_Arith.thy ===== *)
theory Reg_Arith
  imports Op_Values
begin

text \<open>
  Backend instructions that compute (\<open>src/src/instructions\<close>): comparisons, the logical operations, which also
  combine conditions, minimum, products and sums.  Each records the text of the operation, its register type
  and its expression node in the destination.

  An instruction whose suffix it does not know gives no node, and the next access to it raises
  \<open>AttributeError\<close>.  \<open>VSub\<close> stores an \<open>Integrity\<close> where the register type belongs; as it equals no register
  type, \<open>None\<close> stands for it.
\<close>

abbreviation no_node :: "'a bck" where
  "no_node \<equiv> raiseS AttributeError"

section \<open>Comparisons\<close>

definition compare_suffixes :: "string list" where
  "compare_suffixes = [''i16'', ''i32'', ''i64'', ''u16'', ''u32'', ''u64'', ''f16'', ''f32'', ''f64'']"

text \<open>The tests of \<open>VCmpLe\<close> and \<open>VCmpGt\<close> for registers in the state look for the operand instead of its name and
  never hold.\<close>

definition v_cmp :: "string \<Rightarrow> operand \<Rightarrow> operand \<Rightarrow> operand \<Rightarrow> string \<Rightarrow> unit bck" where
  "v_cmp operation d a b suffix =
     (if suffix \<notin> set compare_suffixes then no_node
      else bindS (on_regs (compare_values d a b operation suffix)) (\<lambda>_.
           if is_predicate d
           then bindS (on_regs (bindS (state_register d) val_of)) (\<lambda>v. put_condition (op_name d) (mk_exec [object_str v]))
           else returnS ()))"

definition compare_operations :: "(string \<times> string) list" where
  "compare_operations =
     [(''VCmpEq'', ''==''), (''VCmpGe'', ''>=''), (''VCmpGt'', ''>''), (''VCmpLe'', ''<=''), (''VCmpLt'', ''<''),
      (''VCmpNe'', ''!=''), (''VCmpLg'', ''!='')]"

section \<open>Logical operations\<close>

definition names_of :: "operand \<Rightarrow> operand \<Rightarrow> string list" where
  "names_of a b = [op_name a, op_name b]"

text \<open>A condition that is combined from two others, with its greatest member as value.\<close>

definition write_condition :: "operand \<Rightarrow> operand \<Rightarrow> operand \<Rightarrow> exec_cond \<Rightarrow> expr_node option \<Rightarrow> unit bck" where
  "write_condition d a b c n =
     bindS (put_condition (op_name d) c) (\<lambda>_.
     bindS (liftS (exec_top c)) (\<lambda>t.
       on_regs (set_reg_value (value_request (PStr t) (Some UNKNOWN) (Leaf (Some ''b64'')) n) (op_name d)
                  (names_of a b) ENTIRE (Some c))))"

definition any_predicate :: "operand list \<Rightarrow> bool" where
  "any_predicate xs = list_ex is_predicate xs"

text \<open>\<open>SOr\<close> and \<open>SXor\<close> on predicates: the operands change places when the second is a predicate.\<close>

definition combine_predicates ::
    "(exec_cond \<Rightarrow> exec_cond \<Rightarrow> exec_cond res) \<Rightarrow> operand \<Rightarrow> operand \<Rightarrow> operand \<Rightarrow> expr_node option \<Rightarrow> unit bck" where
  "combine_predicates f d a b n =
     (let (a', b') = (if is_predicate b then (b, a) else (a, b))
      in bindS (get_condition (op_name a')) (\<lambda>x. bindS (get_condition (op_name b')) (\<lambda>y.
         bindS (liftS (f x y)) (\<lambda>c. write_condition d a' b' c n))))"

definition logical_suffix :: "string \<Rightarrow> bool" where
  "logical_suffix s \<longleftrightarrow> s = ''b32'' \<or> s = ''b64''"

definition suffix_operation :: "operand \<Rightarrow> operand \<Rightarrow> string \<Rightarrow> expr_op \<Rightarrow> expr_node option dec" where
  "suffix_operation a b suffix x =
     bindS (get_expression_node a suffix) (\<lambda>l. bindS (get_expression_node b suffix) (\<lambda>r.
     bindS (liftS (opencl_from_string suffix)) (\<lambda>t. op_node l r x t)))"

definition s_or :: "operand \<Rightarrow> operand \<Rightarrow> operand \<Rightarrow> string \<Rightarrow> unit bck" where
  "s_or d a b suffix =
     (if \<not> logical_suffix suffix then no_node
      else bindS (on_regs (suffix_operation a b suffix O_OR)) (\<lambda>n.
           if any_predicate [d, a, b] then combine_predicates (\<lambda>x y. Inr (exec_or x y)) d a b n
           else on_regs (
             bindS (make_op a b ''||'' suffix) (\<lambda>v.
             bindS (in_state b) (\<lambda>known.
             bindS (if known then bindS (state_register b) (\<lambda>r. returnS (rg_integrity r)) else returnS ENTIRE) (\<lambda>i.
               write_value v (Some UNKNOWN) suffix n (op_name d) (names_of a b) i))))))"

text \<open>\<open>SXor\<close> passes names to \<open>make_op\<close>, which asserts that it gets operands.\<close>

definition s_xor :: "operand \<Rightarrow> operand \<Rightarrow> operand \<Rightarrow> string \<Rightarrow> unit bck" where
  "s_xor d a b suffix =
     (if \<not> logical_suffix suffix then no_node
      else bindS (on_regs (suffix_operation a b suffix O_XOR)) (\<lambda>n.
           if any_predicate [d, a, b] then combine_predicates exec_xor d a b n
           else raiseS AssertionError))"

section \<open>Conjunction\<close>

definition and_predicates :: "operand \<Rightarrow> operand \<Rightarrow> operand \<Rightarrow> string \<Rightarrow> unit bck" where
  "and_predicates d a b suffix =
     (let (a', b') = (if is_predicate a then (a, b) else (b, a))
      in bindS (get_condition (op_name a')) (\<lambda>old.
         bindS (on_regs (bindS (state_register b') val_of)) (\<lambda>v.
         let c = exec_and old (object_str v)
         in bindS (put_condition (op_name d) c) (\<lambda>_.
            bindS (on_regs (get_expression_node b' suffix)) (\<lambda>n.
            bindS (liftS (exec_top c)) (\<lambda>t.
              on_regs (set_reg_value_save (value_request (PStr t) (Some UNKNOWN) (Leaf (Some ''b64'')) n) d
                         (names_of a' b') ENTIRE (Some c))))))))"

definition set_reg_save :: "operand \<Rightarrow> string list \<Rightarrow> register \<Rightarrow> unit dec" where
  "set_reg_save d from_regs r = set_reg_value_save (request_of (rg_content r)) d from_regs (rg_integrity r) None"

text \<open>The size of the work groups is compared with the operand itself, which is no number, so that every
  conjunction with a global size raises.\<close>

definition compare_work_group_size :: "dim \<Rightarrow> 'a dec" where
  "compare_work_group_size d =
     bindS (get_dec dd_work_groups) (\<lambda>ws. case ws of
         None \<Rightarrow> raiseS TypeError
       | Some ns \<Rightarrow> if dim_index d < length ns then raiseS TypeError else raiseS IndexError)"

definition is_packed :: "register \<Rightarrow> bool" where
  "is_packed r = (case rg_content r of Comb ps \<Rightarrow> True | _ \<Rightarrow> False)"

definition copy_operand :: "operand \<Rightarrow> operand \<Rightarrow> operand \<Rightarrow> string \<Rightarrow> operand \<Rightarrow> register_type option \<Rightarrow> register \<Rightarrow> unit dec" where
  "copy_operand d a b suffix src t r =
     bindS (val_of r) (\<lambda>v. bindS (get_expression_node src suffix) (\<lambda>n.
       set_reg_value_save (value_request v t (Leaf (Some suffix)) n) d (names_of a b) (rg_integrity r) None))"

definition and_with_register :: "operand \<Rightarrow> operand \<Rightarrow> operand \<Rightarrow> string \<Rightarrow> unit dec" where
  "and_with_register d a b suffix =
     bindS (state_register b) (\<lambda>r. bindS (type_of_reg r) (\<lambda>t.
     bindS (if t = Some WORK_DIM
            then (case a of Val s \<Rightarrow> returnS (s = ''0xffff'') | _ \<Rightarrow> raiseS AttributeError)
            else returnS False) (\<lambda>work_dim.
       if work_dim then copy_operand d a b suffix b t r
       else case t of
         Some (GLOBAL_SIZE dm) \<Rightarrow> compare_work_group_size dm
       | _ \<Rightarrow>
           (case a of
              Val m \<Rightarrow>
                if is_packed r \<and> startswith m ''0x''
                then bindS (on_manager (register_and r m)) (\<lambda>r'. set_reg_save d (names_of a b) r')
                else copy_operand d a b suffix b (Some UNKNOWN) r
            | _ \<Rightarrow> copy_operand d a b suffix b (Some UNKNOWN) r))))"

definition first_register :: "operand \<Rightarrow> operand dec" where
  "first_register a = liftS (hd_res (get_reg_rang a))"

definition and_with_range :: "operand \<Rightarrow> operand \<Rightarrow> operand \<Rightarrow> string \<Rightarrow> unit dec" where
  "and_with_range d a b suffix =
     bindS (first_register a) (\<lambda>src.
     bindS (get_from_state src) (\<lambda>z.
     bindS (get_expression_node src suffix) (\<lambda>n. case z of
         None \<Rightarrow> raiseS AttributeError
       | Some r \<Rightarrow>
           bindS (val_of r) (\<lambda>v. bindS (type_of_reg r) (\<lambda>t.
             set_reg_value_save (value_request v t (Leaf (Some suffix)) n) d (names_of a b) (rg_integrity r) None)))))"

definition and_registers :: "operand \<Rightarrow> operand \<Rightarrow> operand \<Rightarrow> string \<Rightarrow> expr_node option \<Rightarrow> unit dec" where
  "and_registers d a b suffix n =
     bindS (state_register a) (\<lambda>r.
     bindS (make_op a b ''&&'' suffix) (\<lambda>v.
     bindS (type_of_reg r) (\<lambda>t.
       set_reg_value_save (value_request (PStr v) t (Leaf (Some suffix)) n) d (names_of a b) (rg_integrity r) None)))"

definition is_reg32 :: "operand \<Rightarrow> bool" where
  "is_reg32 a = (case a of Reg32 s \<Rightarrow> True | _ \<Rightarrow> False)"

definition s_and :: "operand \<Rightarrow> operand \<Rightarrow> operand \<Rightarrow> string \<Rightarrow> unit bck" where
  "s_and d a b suffix =
     (if \<not> logical_suffix suffix then no_node
      else bindS (on_regs (suffix_operation a b suffix O_AND)) (\<lambda>n.
           if any_predicate [d, a, b] then and_predicates d a b suffix
           else on_regs (
             bindS (in_state a) (\<lambda>ka. bindS (in_state b) (\<lambda>kb.
               if ka \<and> kb then and_registers d a b suffix n
               else if is_reg32 b then and_with_register d a b suffix
               else and_with_range d a b suffix)))))"

section \<open>Minimum\<close>

definition cast_text :: "bool \<Rightarrow> py_object \<Rightarrow> string res" where
  "cast_text cast v =
     (case v of PInt n \<Rightarrow> Inl TypeError | PStr s \<Rightarrow> Inr ((if cast then ''(int)'' else []) @ s))"

definition min_operand :: "operand \<Rightarrow> string \<Rightarrow> string dec" where
  "min_operand a suffix =
     bindS (state_register a) (\<lambda>r. bindS (data_of r) (\<lambda>d. bindS (val_of r) (\<lambda>v.
       liftS (cast_text (d \<noteq> Leaf (Some suffix)) v))))"

definition s_min :: "operand \<Rightarrow> operand \<Rightarrow> operand \<Rightarrow> string \<Rightarrow> unit dec" where
  "s_min d a b suffix =
     (if suffix \<noteq> ''i32'' then raiseS AttributeError
      else bindS (suffix_operation a b suffix O_MIN) (\<lambda>n.
           bindS (min_operand a suffix) (\<lambda>x. bindS (min_operand b suffix) (\<lambda>y.
             write_value (''min('' @ x @ '', '' @ y @ '')'') (Some UNKNOWN) suffix n (op_name d) (names_of a b) ENTIRE))))"

section \<open>Products\<close>

definition kind_in_state :: "operand \<Rightarrow> register_type \<Rightarrow> bool dec" where
  "kind_in_state a t =
     bindS (in_state a) (\<lambda>known.
       if known then bindS (bindS (state_register a) type_of_reg) (\<lambda>ty. returnS (ty = Some t)) else returnS False)"

definition mul_value ::
    "operand \<Rightarrow> operand \<Rightarrow> operand \<Rightarrow> string \<Rightarrow> string \<Rightarrow> opencl_types \<Rightarrow> expr_node option \<Rightarrow> expr_node option \<Rightarrow> unit dec" where
  "mul_value d a b suffix cast t l r =
     bindS (state_register b) (\<lambda>rb.
     bindS (make_op_typed a b ''*'' cast cast suffix) (\<lambda>v.
     bindS (op_node l r O_MUL t) (\<lambda>n.
       write_value v (Some UNKNOWN) suffix n (op_name d) (names_of a b) (rg_integrity rb))))"

text \<open>The comparison of an operand with the text of a magic number in \<open>VMulF32\<close> never holds.\<close>

definition v_mul_f32 :: "operand \<Rightarrow> operand \<Rightarrow> operand \<Rightarrow> string \<Rightarrow> unit dec" where
  "v_mul_f32 d a b suffix =
     bindS (get_expression_node a suffix) (\<lambda>l. bindS (get_expression_node b suffix) (\<lambda>r.
       if suffix = ''f32'' then mul_value d a b suffix ''(float)'' (OType FLOAT_T W1) l r
       else if suffix = ''i32_i24'' then mul_value d a b suffix ''(int)'' (OType INT_T W1) l r
       else if suffix = ''u32_u24'' then mul_value d a b suffix [] (OType UINT_T W1) l r
       else raiseS AttributeError))"

definition v_mac :: "operand \<Rightarrow> operand \<Rightarrow> operand \<Rightarrow> operand \<Rightarrow> string \<Rightarrow> unit dec" where
  "v_mac d a b c suffix =
     (if suffix \<noteq> ''f32'' then raiseS AttributeError
      else bindS (make_op_typed a b ''*'' ''(float)'' ''(float)'' suffix) (\<lambda>product.
           bindS (make_op_typed (Val product) c ''+'' [] ''(float)'' suffix) (\<lambda>v.
           bindS (get_expression_node a suffix) (\<lambda>x. bindS (get_expression_node b suffix) (\<lambda>y.
           bindS (get_expression_node c suffix) (\<lambda>z.
           bindS (op_node x y O_MUL (OType FLOAT_T W1)) (\<lambda>p.
           bindS (op_node p z O_PLUS (OType FLOAT_T W1)) (\<lambda>n.
             write_value v (Some UNKNOWN) suffix n (op_name d) [op_name a, op_name b, op_name c] ENTIRE))))))))"

text \<open>The steps of a division by multiplication with the reciprocal.\<close>

definition division_step :: "operand \<Rightarrow> operand \<Rightarrow> operand \<Rightarrow> string \<Rightarrow> register_type \<Rightarrow> unit dec" where
  "division_step d a b suffix t =
     bindS (state_register b) (\<lambda>r. bindS (val_of r) (\<lambda>v.
       set_reg_value (value_request v (Some t) (Leaf (Some suffix)) None) (op_name d) (names_of a b) ENTIRE None))"

definition group_times_local_size :: "operand \<Rightarrow> operand \<Rightarrow> register_type dec" where
  "group_times_local_size a b =
     (if is_reg32 a \<and> is_reg32 b
      then bindS (bindS (state_register a) type_of_reg) (\<lambda>ta. bindS (bindS (state_register b) type_of_reg) (\<lambda>tb.
             returnS (case (ta, tb) of
                (Some (LOCAL_SIZE x), Some (WORK_GROUP_ID y)) \<Rightarrow> if x = y then WORK_GROUP_ID_LOCAL_SIZE x else UNKNOWN
              | _ \<Rightarrow> UNKNOWN)))
      else returnS UNKNOWN)"

definition plain_product :: "operand \<Rightarrow> operand \<Rightarrow> operand \<Rightarrow> string \<Rightarrow> unit dec" where
  "plain_product d a b suffix =
     bindS (operation_on a b suffix O_MUL (OType INT_T W1)) (\<lambda>n.
     bindS (state_register a) (\<lambda>r.
     bindS (make_op a b ''*'' suffix) (\<lambda>v.
     bindS (group_times_local_size a b) (\<lambda>t.
       write_value v (Some t) suffix n (op_name d) (names_of a b) (rg_integrity r)))))"

definition v_mul_lo :: "operand \<Rightarrow> operand \<Rightarrow> operand \<Rightarrow> string \<Rightarrow> unit dec" where
  "v_mul_lo d a b suffix =
     (if suffix \<notin> {''u16'', ''u32'', ''i32''} then raiseS AttributeError
      else bindS (get_expression_node a suffix) (\<lambda>_. bindS (get_expression_node b suffix) (\<lambda>_.
           bindS (kind_in_state b DIVISION_PT3) (\<lambda>p3. if p3 then division_step d a b suffix DIVISION_PT4 else
           bindS (kind_in_state b DIVISION_PT4) (\<lambda>p4. if p4 then division_step d a b suffix DIVISION_PT5 else
           bindS (kind_in_state b DIVISION_PT6) (\<lambda>p6.
             if p6 then bindS (make_op a b ''/'' suffix) (\<lambda>v.
                          write_value v (Some DIVISION_PT7) suffix None (op_name d) (names_of a b) ENTIRE)
             else bindS (kind_in_state a DIVISION_PT7) (\<lambda>p7.
               if p7 then write_value [] (Some DIVISION_PASS) suffix None (op_name d) (names_of a b) ENTIRE
               else plain_product d a b suffix)))))))"

section \<open>Differences\<close>

definition v_sub :: "operand \<Rightarrow> operand \<Rightarrow> operand \<Rightarrow> string \<Rightarrow> unit dec" where
  "v_sub d a b suffix =
     bindS (get_expression_node a suffix) (\<lambda>l. bindS (get_expression_node b suffix) (\<lambda>r.
     bindS (if suffix = ''u32'' then returnS (''(ulong)'', [], OType UINT_T W1)
            else if suffix = ''f32'' then returnS (''(float)'', ''(float)'', OType FLOAT_T W1)
            else raiseS AttributeError) (\<lambda>(cast0, cast1, t).
     bindS (make_op_typed a b ''-'' cast0 cast1 suffix) (\<lambda>v.
     bindS (op_node l r O_MINUS t) (\<lambda>n.
     bindS (if is_reg32 a then bindS (state_register a) (\<lambda>_. returnS None)
            else if is_reg32 b then bindS (state_register b) (\<lambda>_. returnS None)
            else returnS (Some INT32)) (\<lambda>ty.
       write_value v ty suffix n (op_name d) (names_of a b) ENTIRE))))))"

end
