(* ===== verification/Reg_Sums.thy ===== *)
theory Reg_Sums
  imports Reg_Arith
begin

text \<open>
  Backend instructions for shifts and multiply-add (\<open>src/src/instructions\<close>).  How Python prints a float is the
  parameter \<open>fl\<close>.
\<close>

section \<open>Powers of two\<close>

text \<open>\<open>int(src0.value)\<close>; only values have a \<open>value\<close>.\<close>

definition literal_of :: "operand \<Rightarrow> string res" where
  "literal_of a = (case a of Val s \<Rightarrow> Inr s | _ \<Rightarrow> Inl AttributeError)"

definition int_of_literal :: "operand \<Rightarrow> int res" where
  "int_of_literal a =
     bind_res (literal_of a) (\<lambda>s. case int_base10 s of Some n \<Rightarrow> Inr n | None \<Rightarrow> Inl ValueError)"

text \<open>\<open>pow(2, n)\<close> is a float when \<open>n\<close> is negative.\<close>

definition power_of_two :: "int \<Rightarrow> const_value" where
  "power_of_two n = (if 0 \<le> n then CInt (2 ^ nat n) else CFloat (1 / 2 ^ nat (- n)))"

definition power_operand :: "(rat \<Rightarrow> string) \<Rightarrow> int \<Rightarrow> operand" where
  "power_operand fl n = Val (show_const fl (power_of_two n))"

definition power_node :: "int \<Rightarrow> opencl_types \<Rightarrow> expr_node option dec" where
  "power_node n t = bindS (on_manager (add_const_node (power_of_two n) t)) (\<lambda>c. returnS (Some c))"

definition set_value_of ::
    "py_object \<Rightarrow> register_type option \<Rightarrow> string \<Rightarrow> expr_node option \<Rightarrow> string \<Rightarrow> string list \<Rightarrow> integrity \<Rightarrow> unit dec" where
  "set_value_of v t suffix n reg from_regs i =
     set_reg_value (value_request v t (Leaf (Some suffix)) n) reg from_regs i None"

section \<open>Shifts\<close>

fun shifted_kind :: "register_type option \<Rightarrow> register_type option" where
  "shifted_kind (Some (WORK_GROUP_ID d)) = Some (WORK_GROUP_ID_LOCAL_SIZE d)"
| "shifted_kind t = t"

definition shift_left_32 :: "(rat \<Rightarrow> string) \<Rightarrow> operand \<Rightarrow> operand \<Rightarrow> operand \<Rightarrow> string \<Rightarrow> unit dec" where
  "shift_left_32 fl d a b suffix =
     bindS (if is_reg32 b
            then bindS (get_register (op_name b)) (\<lambda>r. bindS (val_of r) (\<lambda>v. returnS (v = PStr ''0'')))
            else returnS False) (\<lambda>zero.
     bindS (if zero then returnS (''0'', Some INT32)
            else bindS (liftS (int_of_literal a)) (\<lambda>n.
                 bindS (make_op b (power_operand fl n) ''*'' suffix) (\<lambda>v.
                 bindS (bindS (state_register b) type_of_reg) (\<lambda>t. returnS (v, shifted_kind t))))) (\<lambda>(v, t).
     bindS (get_expression_node b suffix) (\<lambda>l.
     bindS (liftS (int_of_literal a)) (\<lambda>n.
     bindS (liftS (opencl_from_string suffix)) (\<lambda>ty.
     bindS (power_node n ty) (\<lambda>r.
     bindS (op_node l r O_MUL ty) (\<lambda>e.
       write_value v t suffix e (op_name d) (names_of a b) ENTIRE)))))))"

definition pair_of :: "operand \<Rightarrow> (operand \<times> operand) res" where
  "pair_of a =
     bind_res (py_nth (get_reg_rang a) 0) (\<lambda>lo. bind_res (py_nth (get_reg_rang a) 1) (\<lambda>hi. Inr (lo, hi)))"

definition source_pair :: "operand \<Rightarrow> (operand \<times> operand) res" where
  "source_pair a =
     (case get_reg_rang a of
        [] \<Rightarrow> Inl IndexError
      | [lo, hi] \<Rightarrow> Inr (lo, hi)
      | lo # _ \<Rightarrow> Inr (lo, lo))"

text \<open>The count is a value, so that the branches of the source for a count in a register are dead.\<close>

definition shift_left_64 :: "(rat \<Rightarrow> string) \<Rightarrow> operand \<Rightarrow> operand \<Rightarrow> operand \<Rightarrow> string \<Rightarrow> unit dec" where
  "shift_left_64 fl d a b suffix =
     bindS (liftS (pair_of d)) (\<lambda>(dlo, dhi).
     bindS (liftS (source_pair b)) (\<lambda>(lo, hi).
     bindS (liftS (int_of_literal a)) (\<lambda>n.
     bindS (make_op lo (power_operand fl n) ''*'' suffix) (\<lambda>v0.
     bindS (make_op hi (power_operand fl n) ''*'' suffix) (\<lambda>v1.
     bindS (liftS (opencl_from_string suffix)) (\<lambda>ty.
     bindS (power_node n ty) (\<lambda>c.
     bindS (get_expression_node lo suffix) (\<lambda>nlo. bindS (get_expression_node hi suffix) (\<lambda>nhi.
     bindS (op_node nlo c O_MUL ty) (\<lambda>e0. bindS (op_node nhi c O_MUL ty) (\<lambda>e1.
     bindS (if is_reg32 lo then bindS (state_register lo) type_of_reg else returnS (Some INT32)) (\<lambda>t.
     let data = (if is_reg32 lo then show_const fl (power_of_two n) @ '' bytes'' else suffix)
     in bindS (write_value v0 t data e0 (op_name dlo) [op_name lo] LOW_PART) (\<lambda>_.
          write_value v1 t data e1 (op_name dhi) [op_name hi] HIGH_PART)))))))))))))"

definition v_lshlrev :: "(rat \<Rightarrow> string) \<Rightarrow> operand \<Rightarrow> operand \<Rightarrow> operand \<Rightarrow> string \<Rightarrow> unit dec" where
  "v_lshlrev fl d a b suffix =
     (if suffix = ''b16'' \<or> suffix = ''b32'' then shift_left_32 fl d a b suffix
      else if suffix = ''b64'' then shift_left_64 fl d a b suffix
      else raiseS AttributeError)"

definition first_element :: "operand \<Rightarrow> operand res" where
  "first_element a = (if is_range a then get_element a 0 else Inr a)"

definition save_value ::
    "py_object \<Rightarrow> register_type option \<Rightarrow> string option nest \<Rightarrow> expr_node option \<Rightarrow> operand \<Rightarrow> string list \<Rightarrow> integrity \<Rightarrow> unit dec" where
  "save_value v t data n d from_regs i = set_reg_value_save (value_request v t data n) d from_regs i None"

definition shift_right_default :: "(rat \<Rightarrow> string) \<Rightarrow> operand \<Rightarrow> operand \<Rightarrow> operand \<Rightarrow> string \<Rightarrow> unit dec" where
  "shift_right_default fl d a b suffix =
     bindS (liftS (int_of_literal a)) (\<lambda>n.
     bindS (make_op b (power_operand fl n) ''//'' suffix) (\<lambda>v.
     bindS (bindS (state_register b) type_of_reg) (\<lambda>t.
     bindS (get_expression_node b suffix) (\<lambda>l.
     bindS (power_node n (OType UINT_T W1)) (\<lambda>c.
     bindS (op_node l c O_DIV (OType UINT_T W1)) (\<lambda>e.
       save_value (PStr v) t (Leaf (Some suffix)) e d (names_of a b) ENTIRE))))))"

text \<open>The number of groups, when a global size is divided by the size of the work groups.\<close>

definition is_group_count :: "register_type option \<Rightarrow> operand \<Rightarrow> dim option dec" where
  "is_group_count t a =
     (case t of
        Some (GLOBAL_SIZE dm) \<Rightarrow>
          bindS (liftS (int_of_literal a)) (\<lambda>n. bindS (get_dec dd_work_groups) (\<lambda>ws. case ws of
              None \<Rightarrow> raiseS TypeError
            | Some ns \<Rightarrow> bindS (liftS (py_nth ns (dim_index dm))) (\<lambda>k.
                returnS (if power_of_two n = CInt k then Some dm else None))))
      | _ \<Rightarrow> returnS None)"

definition v_lshrrev :: "(rat \<Rightarrow> string) \<Rightarrow> operand \<Rightarrow> operand \<Rightarrow> operand \<Rightarrow> string \<Rightarrow> unit dec" where
  "v_lshrrev fl d a0 b0 suffix =
     bindS (liftS (first_element a0)) (\<lambda>a. bindS (liftS (first_element b0)) (\<lambda>b.
       if \<not> (logical_suffix suffix \<and> is_base_reg b) then raiseS AttributeError
       else if is_base_reg a then raiseS AssertionError
       else bindS (state_register b) (\<lambda>r.
            if is_packed r
            then bindS (liftS (int_of_literal a)) (\<lambda>n. bindS (on_manager (register_rshift r n)) (\<lambda>r'.
                   set_reg (op_name d) (names_of a b) r'))
            else bindS (type_of_reg r) (\<lambda>t. bindS (val_of r) (\<lambda>v.
                 if v = PStr ''0''
                 then bindS (on_manager (add_const_node (CInt 0) (OType UINT_T W1))) (\<lambda>e.
                        save_value (PStr ''0'') (Some INT32) (Leaf (Some suffix)) (Some e) d (names_of a b) ENTIRE)
                 else bindS (is_group_count t a) (\<lambda>g. case g of
                     Some dm \<Rightarrow>
                       let s = call_dim ''get_num_groups'' dm
                       in bindS (on_manager (add_register_node (NUM_GROUPS dm) (Some (CStr s)))) (\<lambda>e.
                            save_value (PStr s) t (Leaf (Some suffix)) e d (names_of a b) ENTIRE)
                   | None \<Rightarrow> shift_right_default fl d a b suffix))))))"

definition shift_right_signed_32 :: "(rat \<Rightarrow> string) \<Rightarrow> operand \<Rightarrow> operand \<Rightarrow> operand \<Rightarrow> string \<Rightarrow> unit dec" where
  "shift_right_signed_32 fl d a b suffix =
     bindS (liftS (int_of_literal a)) (\<lambda>n.
     bindS (make_op_typed b (power_operand fl n) ''/'' ''(int)'' [] suffix) (\<lambda>v.
     bindS (get_expression_node b suffix) (\<lambda>l.
     bindS (power_node n (OType UINT_T W1)) (\<lambda>c.
     bindS (op_node l c O_DIV (OType INT_T W1)) (\<lambda>e.
       write_value v (Some UNKNOWN) suffix e (op_name d) (names_of a b) ENTIRE)))))"

text \<open>The value of an expression node, as text, is zero.\<close>

definition zero_text :: "expr_node \<Rightarrow> bool" where
  "zero_text n = (case n of NConst i (CInt k) \<Rightarrow> k = 0 | NConst i (CStr s) \<Rightarrow> s = ''0'' | NVar i s \<Rightarrow> s = ''0'' | _ \<Rightarrow> False)"

definition set_object :: "py_object \<Rightarrow> reg_content \<Rightarrow> reg_content res" where
  "set_object v c =
     (case c of
        Plain p \<Rightarrow> Inr (Plain (p\<lparr>pc_value := v\<rparr>))
      | _ \<Rightarrow> (case v of PStr s \<Rightarrow> Inr (set_value s c) | PInt n \<Rightarrow> Inl TypeError))"

text \<open>A zero low half is replaced by the high half, in the register itself.\<close>

definition fill_zero_half :: "operand \<Rightarrow> operand \<Rightarrow> unit dec" where
  "fill_zero_half lo hi =
     bindS (state_register lo) (\<lambda>r. bindS (val_of r) (\<lambda>v.
       if v = PStr ''0''
       then bindS (state_register hi) (\<lambda>h. bindS (val_of h) (\<lambda>w.
            bindS (liftS (set_object w (rg_content r))) (\<lambda>c. update_register (op_name lo) (\<lambda>r. r\<lparr>rg_content := c\<rparr>))))
       else returnS ()))"

definition exact_pair :: "operand \<Rightarrow> (operand \<times> operand) res" where
  "exact_pair a = (case get_reg_rang a of [lo, hi] \<Rightarrow> Inr (lo, hi) | _ \<Rightarrow> Inl ValueError)"

definition shift_right_signed_64 :: "(rat \<Rightarrow> string) \<Rightarrow> operand \<Rightarrow> operand \<Rightarrow> operand \<Rightarrow> string \<Rightarrow> unit dec" where
  "shift_right_signed_64 fl d a b suffix =
     bindS (liftS (exact_pair d)) (\<lambda>(dlo, dhi). bindS (liftS (exact_pair b)) (\<lambda>(lo, hi).
     bindS (fill_zero_half lo hi) (\<lambda>_.
     bindS (get_expression_node lo suffix) (\<lambda>n0. case n0 of
         None \<Rightarrow> raiseS AttributeError
       | Some n0' \<Rightarrow>
           bindS (if zero_text n0' then get_expression_node hi suffix else returnS (Some n0')) (\<lambda>n.
           bindS (liftS (int_of_literal a)) (\<lambda>k.
           bindS (power_node (32 - k) (OType LONG_T W1)) (\<lambda>c.
           bindS (op_node n c O_MUL (OType LONG_T W1)) (\<lambda>e.
           bindS (make_op_typed lo (power_operand fl (32 - k)) ''*'' [] ''(long)'' suffix) (\<lambda>v.
           bindS (bindS (state_register lo) type_of_reg) (\<lambda>t.
           bindS (write_value v t suffix e (op_name dlo) [op_name lo] LOW_PART) (\<lambda>_.
             write_value v t suffix e (op_name dhi) [op_name hi] HIGH_PART)))))))))))"

definition v_ashrrev :: "(rat \<Rightarrow> string) \<Rightarrow> operand \<Rightarrow> operand \<Rightarrow> operand \<Rightarrow> string \<Rightarrow> unit dec" where
  "v_ashrrev fl d a b suffix =
     (if suffix = ''i32'' then shift_right_signed_32 fl d a b suffix
      else if suffix = ''i64'' then shift_right_signed_64 fl d a b suffix
      else raiseS AttributeError)"

section \<open>Multiply and add\<close>

datatype factor = Reg_Factor register | Int_Factor int

definition second_of_range :: "operand \<Rightarrow> operand res" where
  "second_of_range a = (if is_range a then bind_res (exact_pair a) (\<lambda>(lo, hi). Inr hi) else Inr a)"

text \<open>A register that is not in the state is \<open>None\<close>, and no arithmetic is defined on it.  The product of two
  numbers is a number, which fails at the sum with a register, or at the cast.\<close>

definition factor_of :: "operand \<Rightarrow> factor option dec" where
  "factor_of a =
     (if is_reg32 a then bindS (get_from_state a) (\<lambda>z. returnS (map_option Reg_Factor z))
      else bindS (liftS (int_of_literal a)) (\<lambda>n. returnS (Some (Int_Factor n))))"

definition times_factor :: "factor option \<Rightarrow> factor option \<Rightarrow> factor option \<Rightarrow> register dec" where
  "times_factor x y z =
     (case (x, y) of
        (Some (Reg_Factor a), Some (Reg_Factor b)) \<Rightarrow> on_manager (register_mul a b)
      | (Some (Reg_Factor a), Some (Int_Factor n)) \<Rightarrow>
          bindS (get_dec dd_work_groups) (\<lambda>sizes. on_manager (register_mul_int sizes a n))
      | (Some (Reg_Factor a), None) \<Rightarrow> raiseS NotImplementedError
      | (Some (Int_Factor m), Some (Int_Factor n)) \<Rightarrow>
          raiseS (case z of Some (Int_Factor k) \<Rightarrow> AttributeError | _ \<Rightarrow> TypeError)
      | _ \<Rightarrow> raiseS TypeError)"

definition plus_factor :: "register \<Rightarrow> factor option \<Rightarrow> register dec" where
  "plus_factor r z =
     (case z of
        Some (Reg_Factor s) \<Rightarrow> on_manager (register_add r s)
      | Some (Int_Factor n) \<Rightarrow> if n = 0 then returnS r else raiseS NotImplementedError
      | None \<Rightarrow> raiseS NotImplementedError)"

text \<open>\<open>cast_to\<close> of a register; for a packed content the text takes the place of the list.\<close>

fun set_data :: "string option nest \<Rightarrow> reg_content \<Rightarrow> reg_content" where
  "set_data d (Plain p) = Plain (p\<lparr>pc_data := d\<rparr>)"
| "set_data d (Oper c) = Oper (c\<lparr>oc_data := d\<rparr>)"
| "set_data d (Comb ps) =
     (case d of
        Leaf (Some s) \<Rightarrow> Comb (map (\<lambda>(ch, p). p\<lparr>pc_data := Leaf (Some [ch])\<rparr>) (zip s ps))
      | Nest ds \<Rightarrow> Comb (map (\<lambda>(d, p). p\<lparr>pc_data := d\<rparr>) (zip ds ps))
      | Leaf None \<Rightarrow> Comb [])"

definition register_cast_to :: "string option nest \<Rightarrow> register \<Rightarrow> register" where
  "register_cast_to d r = r\<lparr>rg_content := set_data d (rg_content r)\<rparr>"

definition v_mad :: "operand \<Rightarrow> operand \<Rightarrow> operand \<Rightarrow> operand \<Rightarrow> string \<Rightarrow> unit dec" where
  "v_mad d a0 b0 c0 suffix =
     bindS (liftS (second_of_range a0)) (\<lambda>a. bindS (liftS (second_of_range b0)) (\<lambda>b.
     bindS (liftS (second_of_range c0)) (\<lambda>c.
     bindS (liftS (exact_pair d)) (\<lambda>(dlo, dhi).
     bindS (factor_of a) (\<lambda>x. bindS (factor_of b) (\<lambda>y. bindS (factor_of c) (\<lambda>z.
     bindS (times_factor x y z) (\<lambda>p. bindS (plus_factor p z) (\<lambda>s.
     let r = (register_cast_to (Leaf (Some (if suffix = ''u64_u32'' then ''u64'' else ''i64''))) s)\<lparr>rg_integrity := LOW_PART\<rparr>;
         from_regs = [op_name a, op_name b, op_name c]
     in bindS (set_reg_save dlo from_regs r) (\<lambda>_. set_reg_save dhi from_regs r))))))))))"

end
