(* ===== verification/Reg_Adds.thy ===== *)
theory Reg_Adds
  imports Reg_Sums
begin

text \<open>
  Backend instructions for sums (\<open>v_add.py\<close>, \<open>v_addc.py\<close>), which recognise pointers with offsets and the global
  identifiers.
\<close>

section \<open>Sizes in bytes\<close>

text \<open>\<open>_byte_data_size\<close>: the number of a data type such as \<open>4 bytes\<close>.\<close>

definition byte_data_size :: "string option nest \<Rightarrow> int option res" where
  "byte_data_size d =
     (case d of
        Leaf (Some s) \<Rightarrow>
          if endswith s '' bytes''
          then (case int_base10 (hd (split_blanks s)) of Some n \<Rightarrow> Inr (Some n) | None \<Rightarrow> Inl ValueError)
          else Inr None
      | _ \<Rightarrow> Inr None)"

definition combine_byte_data_type :: "string option nest \<Rightarrow> string option nest \<Rightarrow> string option nest res" where
  "combine_byte_data_type a b =
     bind_res (byte_data_size a) (\<lambda>x. bind_res (byte_data_size b) (\<lambda>y.
       Inr (case (x, y) of
          (None, None) \<Rightarrow> a
        | (None, Some n) \<Rightarrow> b
        | (Some m, None) \<Rightarrow> a
        | (Some m, Some n) \<Rightarrow> Leaf (Some (show_int (min m n) @ '' bytes'')))))"

section \<open>Pointers with offsets\<close>

text \<open>\<open>evaluate_size(data_type, only_size=True)\<close>; a missing type, or a list of types, is no text.\<close>

definition size_of_data :: "string option nest \<Rightarrow> int res" where
  "size_of_data d = (case d of Leaf (Some s) \<Rightarrow> bind_res (evaluate_size s True) (\<lambda>(n, p). Inr n) | _ \<Rightarrow> Inl TypeError)"

definition object_operand :: "py_object \<Rightarrow> operand res" where
  "object_operand v = (case v of PStr s \<Rightarrow> Inr (Val s) | PInt n \<Rightarrow> Inl TypeError)"

definition offset_text :: "operand \<Rightarrow> operand \<Rightarrow> int \<Rightarrow> string \<Rightarrow> string dec" where
  "offset_text base offset bytes suffix =
     bindS (make_op offset (Val (show_int bytes)) ''/'' suffix) (\<lambda>q. make_op base (Val q) ''+'' suffix)"

definition pointer_offset_node :: "expr_node option \<Rightarrow> expr_node option \<Rightarrow> int \<Rightarrow> string \<Rightarrow> expr_node option dec" where
  "pointer_offset_node base offset bytes suffix =
     bindS (liftS (opencl_from_string suffix)) (\<lambda>t. case (base, offset) of
         (Some l, Some r) \<Rightarrow> bindS (on_manager (add_offset_div_data_size_node l r bytes t)) (\<lambda>n. returnS (Some n))
       | _ \<Rightarrow> raiseS AttributeError)"

definition pointer_hint :: "opencl_types \<Rightarrow> qualifier \<Rightarrow> type_hint" where
  "pointer_hint t q = (mk_hint t)\<lparr>qualifier := q, is_pointer := True\<rparr>"

text \<open>The sum of a pointer and an offset: value, data type, register type and node; \<open>Inl\<close> the data type
  when the first operand is none of the three kinds of pointers, or has no size.\<close>

type_synonym pointer_sum = "string option nest + string \<times> string option nest \<times> register_type \<times> expr_node option"

definition argument_plus :: "register \<Rightarrow> operand \<Rightarrow> operand \<Rightarrow> string \<Rightarrow> pointer_sum dec" where
  "argument_plus r start b suffix =
     bindS (val_of r) (\<lambda>v. bindS (liftS (object_operand v)) (\<lambda>base.
     bindS (get_dec dd_type_params) (\<lambda>tp.
     bindS (case map_of tp (''*'' @ op_name base) of
              Some ty \<Rightarrow> if ty \<noteq> [] then returnS (Leaf (Some (make_asm_type ty))) else data_of r
            | None \<Rightarrow> data_of r) (\<lambda>d.
     bindS (liftS (size_of_data d)) (\<lambda>bytes.
     bindS (offset_text base b bytes suffix) (\<lambda>s.
     bindS (get_expression_node start suffix) (\<lambda>x. bindS (get_expression_node b suffix) (\<lambda>y.
     bindS (pointer_offset_node x y bytes suffix) (\<lambda>n.
       returnS (Inr (s, d, ADDRESS_KERNEL_ARGUMENT, n)))))))))))"

definition local_plus :: "register \<Rightarrow> operand \<Rightarrow> string \<Rightarrow> pointer_sum dec" where
  "local_plus r b suffix =
     bindS (val_of r) (\<lambda>v. bindS (liftS (object_operand v)) (\<lambda>base.
     bindS (offset_text base b 4 suffix) (\<lambda>s.
     bindS (on_manager (add_variable_node (op_name base) (pointer_hint (OType UINT_T W1) Q_LOCAL))) (\<lambda>x.
     bindS (get_expression_node b suffix) (\<lambda>y.
     bindS (pointer_offset_node (Some x) y 4 suffix) (\<lambda>n.
       returnS (Inr (s, Leaf (Some ''u32''), LOCAL_DATA_POINTER, n))))))))"

definition global_plus :: "register \<Rightarrow> operand \<Rightarrow> operand \<Rightarrow> string \<Rightarrow> pointer_sum dec" where
  "global_plus r start1 b suffix =
     bindS (if is_base_reg b then bindS (state_register start1) data_of else returnS (Leaf (Some ''u32''))) (\<lambda>d.
     bindS (val_of r) (\<lambda>v.
     bindS (liftS (byte_data_size d)) (\<lambda>z. case z of
         None \<Rightarrow> returnS (Inl d)
       | Some bytes \<Rightarrow>
           bindS (liftS (object_operand v)) (\<lambda>base.
           bindS (offset_text base b bytes suffix) (\<lambda>s.
           bindS (liftS (opencl_from_string suffix)) (\<lambda>t.
           bindS (on_manager (add_variable_node (op_name base) (pointer_hint t Q_CONST))) (\<lambda>x.
           bindS (get_expression_node b suffix) (\<lambda>y.
           bindS (pointer_offset_node (Some x) y bytes suffix) (\<lambda>n.
             returnS (Inr (s, d, GLOBAL_DATA_POINTER, n))))))))))) "

definition pointer_plus :: "operand \<Rightarrow> operand \<Rightarrow> operand \<Rightarrow> operand \<Rightarrow> string \<Rightarrow> pointer_sum dec" where
  "pointer_plus a b start0 start1 suffix =
     (if \<not> is_base_reg a then returnS (Inl (Leaf (Some ''u32'')))
      else bindS (state_register start0) (\<lambda>r. bindS (type_of_reg r) (\<lambda>t.
           if t = Some ADDRESS_KERNEL_ARGUMENT then argument_plus r start0 b suffix
           else if t = Some LOCAL_DATA_POINTER then local_plus r b suffix
           else if t = Some GLOBAL_DATA_POINTER then global_plus r start1 b suffix
           else returnS (Inl (Leaf (Some ''u32''))))))"

section \<open>Sums of identifiers\<close>

datatype sum_kind = Global_Id dim | Group_Item_Id dim | Group_Offset dim | Other_Sum

text \<open>The patterns of each dimension; they hold in either order.\<close>

definition sum_patterns :: "(register_type \<times> register_type \<times> sum_kind) list" where
  "sum_patterns =
     concat (map (\<lambda>x.
       [(WORK_GROUP_ID_LOCAL_SIZE_OFFSET x, WORK_ITEM_ID x, Global_Id x),
        (GLOBAL_OFFSET x, WORK_GROUP_ID_WORK_ITEM_ID x, Global_Id x),
        (WORK_GROUP_ID_LOCAL_SIZE x, WORK_ITEM_ID x, Group_Item_Id x),
        (WORK_GROUP_ID_LOCAL_SIZE x, GLOBAL_OFFSET x, Group_Offset x)]) dims)"

definition sum_kind_of :: "register_type option \<Rightarrow> register_type option \<Rightarrow> sum_kind" where
  "sum_kind_of s t =
     (case find (\<lambda>(p, q, k). s = Some p \<and> t = Some q \<or> t = Some p \<and> s = Some q) sum_patterns of
        Some (p, q, k) \<Rightarrow> k | None \<Rightarrow> Other_Sum)"

definition constant_node :: "register_type \<Rightarrow> expr_node option dec" where
  "constant_node t =
     (case constant_values t of
        None \<Rightarrow> raiseS KeyError
      | Some row \<Rightarrow> on_manager (add_register_node t (Some (CStr (cv_text row)))))"

definition add_sub_operation :: "register_type \<Rightarrow> register_type \<Rightarrow> expr_node option dec" where
  "add_sub_operation s t =
     bindS (constant_node s) (\<lambda>l. bindS (constant_node t) (\<lambda>r. op_node l r O_MINUS (OType UINT_T W1)))"

definition sum_of_nodes :: "operand \<Rightarrow> operand \<Rightarrow> string \<Rightarrow> expr_node option dec" where
  "sum_of_nodes a b suffix =
     bindS (get_expression_node a suffix) (\<lambda>l. bindS (get_expression_node b suffix) (\<lambda>r.
       op_node l r O_PLUS (OType UINT_T W1)))"

text \<open>Value, data type, register type and node of the sum of two registers.\<close>

definition sum_of_registers ::
    "operand \<Rightarrow> operand \<Rightarrow> string \<Rightarrow> string \<Rightarrow> string option nest \<Rightarrow>
     (string \<times> string option nest \<times> register_type \<times> expr_node option) dec" where
  "sum_of_registers a b suffix v d =
     bindS (bindS (state_register a) type_of_reg) (\<lambda>s. bindS (bindS (state_register b) type_of_reg) (\<lambda>t.
       case sum_kind_of s t of
         Global_Id x \<Rightarrow>
           bindS (on_manager (add_register_node (GLOBAL_ID x) (Some (CStr (call_dim ''get_global_id'' x))))) (\<lambda>n.
             returnS (call_dim ''get_global_id'' x, d, GLOBAL_ID x, n))
       | Group_Item_Id x \<Rightarrow>
           bindS (add_sub_operation (GLOBAL_ID x) (GLOBAL_OFFSET x)) (\<lambda>n.
             returnS (call_dim ''get_global_id'' x @ '' - '' @ call_dim ''get_global_offset'' x, d,
                      WORK_GROUP_ID_WORK_ITEM_ID x, n))
       | Group_Offset x \<Rightarrow>
           bindS (sum_of_nodes a b suffix) (\<lambda>n. returnS (v, d, WORK_GROUP_ID_LOCAL_SIZE_OFFSET x, n))
       | Other_Sum \<Rightarrow>
           bindS (bindS (state_register a) data_of) (\<lambda>da. bindS (bindS (state_register b) data_of) (\<lambda>db.
           bindS (liftS (combine_byte_data_type da db)) (\<lambda>d'.
           bindS (sum_of_nodes a b suffix) (\<lambda>n. returnS (v, d', UNKNOWN, n)))))))"

definition uint_const :: "operand \<Rightarrow> expr_node option dec" where
  "uint_const a =
     bindS (liftS (literal_of a)) (\<lambda>s.
     bindS (on_manager (add_const_node (CStr s) (OType UINT_T W1))) (\<lambda>n. returnS (Some n)))"

text \<open>The sum when at most one operand is a register.\<close>

definition sum_with_value :: "operand \<Rightarrow> operand \<Rightarrow> operand \<Rightarrow> operand \<Rightarrow> string \<Rightarrow> (register_type \<times> expr_node option) dec" where
  "sum_with_value a b start0 start1 suffix =
     bindS (if is_base_reg a
            then bindS (in_state a) (\<lambda>known. if known then get_expression_node start0 suffix else raiseS AssertionError)
            else if is_base_reg b
            then bindS (in_state start1) (\<lambda>known. if known then uint_const start0 else raiseS AssertionError)
            else uint_const start0) (\<lambda>l.
     bindS (if is_base_reg a then uint_const start1
            else if is_base_reg b then get_expression_node start1 suffix
            else uint_const start1) (\<lambda>r.
     bindS (op_node l r O_PLUS (OType UINT_T W1)) (\<lambda>n.
       returnS (if is_base_reg a \<or> is_base_reg b then UNKNOWN else INT32, n))))"

definition v_add_int :: "operand \<Rightarrow> operand \<Rightarrow> operand \<Rightarrow> string \<Rightarrow> unit dec" where
  "v_add_int d a b suffix =
     bindS (make_op_typed a b ''+'' ''(ulong)'' ''(ulong)'' suffix) (\<lambda>v.
     bindS (first_register a) (\<lambda>start0. bindS (first_register b) (\<lambda>start1.
     bindS (pointer_plus a b start0 start1 suffix) (\<lambda>p. case p of
         Inr (s, data, t, n) \<Rightarrow> save_value (PStr s) (Some t) data n d (names_of a b) ENTIRE
       | Inl data \<Rightarrow>
           if is_base_reg a \<and> is_base_reg b
           then bindS (state_register start1) (\<lambda>r1.
                bindS (sum_of_registers start0 start1 suffix v data) (\<lambda>(s, data', t, n).
                  save_value (PStr s) (Some t) data' n d (names_of a b) (rg_integrity r1)))
           else bindS (sum_with_value a b start0 start1 suffix) (\<lambda>(t, n).
                  save_value (PStr v) (Some t) data n d (names_of a b) ENTIRE)))))"

text \<open>\<open>most_common_type\<close> on data types, one of which may be missing.\<close>

definition common_data_type :: "string option nest \<Rightarrow> string option nest \<Rightarrow> string option nest res" where
  "common_data_type a b =
     (let width = (\<lambda>d. case d of
            Leaf (Some s) \<Rightarrow> evaluate_size s False | Leaf None \<Rightarrow> Inr (-1, -1) | Nest ds \<Rightarrow> Inl TypeError)
      in bind_res (width a) (\<lambda>x. bind_res (width b) (\<lambda>y.
           Inr (if fst x > fst y \<or> fst x = fst y \<and> snd x > snd y then a else b))))"

definition v_add_double :: "operand \<Rightarrow> operand \<Rightarrow> operand \<Rightarrow> string \<Rightarrow> unit dec" where
  "v_add_double d a b suffix =
     bindS (liftS (exact_pair a)) (\<lambda>(x, _). bindS (liftS (exact_pair b)) (\<lambda>(y, _).
     bindS (state_register x) (\<lambda>rx. bindS (data_of rx) (\<lambda>dx.
     bindS (state_register y) (\<lambda>ry. bindS (data_of ry) (\<lambda>dy.
     bindS (liftS (common_data_type dx dy)) (\<lambda>data.
     bindS (type_of_reg ry) (\<lambda>t.
     bindS (get_expression_node x suffix) (\<lambda>l. bindS (get_expression_node y suffix) (\<lambda>r.
     bindS (val_of ry) (\<lambda>vy. bindS (val_of rx) (\<lambda>vx.
     bindS (if vy = vx then returnS (vy, r)
            else bindS (make_op_typed x y ''+'' ''(double)'' ''(double)'' suffix) (\<lambda>v.
                 bindS (op_node l r O_PLUS (OType DOUBLE_T W1)) (\<lambda>n. returnS (PStr v, n)))) (\<lambda>(v, n).
       save_value v t data n d (names_of a b) ENTIRE)))))))))))))"

definition v_add :: "operand \<Rightarrow> operand \<Rightarrow> operand \<Rightarrow> string \<Rightarrow> unit dec" where
  "v_add d a b suffix =
     (if suffix = ''u32'' \<or> suffix = ''u64'' then v_add_int d a b suffix
      else if suffix = ''f64'' then v_add_double d a b suffix
      else raiseS AttributeError)"

section \<open>Sums with carry\<close>

definition add_zero :: "register \<Rightarrow> expr_node option \<Rightarrow> (py_object \<times> register_type option \<times> integrity \<times> expr_node option) dec" where
  "add_zero r n = bindS (val_of r) (\<lambda>v. bindS (type_of_reg r) (\<lambda>t. returnS (v, t, rg_integrity r, n)))"

definition addc_registers ::
    "operand \<Rightarrow> operand \<Rightarrow> string \<Rightarrow> string \<Rightarrow> expr_node option \<Rightarrow> expr_node option \<Rightarrow>
     (py_object \<times> register_type option \<times> integrity \<times> expr_node option) dec" where
  "addc_registers a b suffix v l r =
     bindS (state_register b) (\<lambda>rb. bindS (val_of rb) (\<lambda>vb.
       if vb = PStr ''0'' then bindS (state_register a) (\<lambda>ra. add_zero ra l)
       else bindS (state_register a) (\<lambda>ra. bindS (val_of ra) (\<lambda>va.
            if va = PStr ''0'' then add_zero rb r
            else bindS (type_of_reg ra) (\<lambda>ta. bindS (type_of_reg rb) (\<lambda>tb.
                 if ta = Some ADDRESS_KERNEL_ARGUMENT \<and> tb = Some (GLOBAL_ID DX)
                 then bindS (on_manager (add_register_node (GLOBAL_ID DX) None)) (\<lambda>g.
                      bindS (liftS (opencl_from_string suffix)) (\<lambda>t.
                      bindS (op_node l g O_PLUS t) (\<lambda>n.
                        returnS (PStr (object_str va @ ''[get_global_id(0)]''), Some ADDRESS_KERNEL_ARGUMENT_ELEMENT,
                                 rg_integrity rb, n))))
                 else returnS (PStr v, Some UNKNOWN, rg_integrity rb, None)))))))"

definition addc_kind :: "operand \<Rightarrow> operand \<Rightarrow> register_type option dec" where
  "addc_kind a b =
     bindS (if is_reg32 a then bindS (state_register a) type_of_reg else returnS (Some INT32)) (\<lambda>t.
       if is_reg32 b then bindS (state_register b) type_of_reg else returnS t)"

definition v_addc :: "operand \<Rightarrow> operand \<Rightarrow> operand \<Rightarrow> string \<Rightarrow> unit dec" where
  "v_addc d a b suffix =
     (if suffix \<noteq> ''u32'' then raiseS AttributeError
      else bindS (make_op_typed a b ''+'' ''(ulong)'' ''(ulong)'' suffix) (\<lambda>v.
           bindS (get_expression_node a suffix) (\<lambda>l. bindS (get_expression_node b suffix) (\<lambda>r.
           bindS (if is_reg32 a \<and> is_reg32 b then addc_registers a b suffix v l r
                  else bindS (addc_kind a b) (\<lambda>t. returnS (PStr v, t, ENTIRE, None))) (\<lambda>(v', t, i, n).
           bindS (case n of
                Some e \<Rightarrow> returnS (Some e)
              | None \<Rightarrow> bindS (liftS (opencl_from_string suffix)) (\<lambda>ty. op_node l r O_PLUS ty)) (\<lambda>n'.
             set_value_of v' t suffix n' (op_name d) (names_of a b) i))))))"

end
