(* ===== verification/Reg_Select.thy ===== *)
theory Reg_Select
  imports Reg_Adds
begin

text \<open>
  Backend instructions for selection, conversion, bit fields and permutation (\<open>src/src/instructions\<close>).
\<close>

section \<open>Selection\<close>

definition type_suffix_of :: "string \<Rightarrow> string option nest" where
  "type_suffix_of s = Leaf (Some s)"

text \<open>\<open>DecompilerData.make_var\<close>.\<close>

definition make_var :: "string \<Rightarrow> string \<Rightarrow> string option nest \<Rightarrow> unit dec" where
  "make_var ver variable data =
     update_dec (\<lambda>dd. dd\<lparr>dd_num_of_var := dd_num_of_var dd + 1,
       dd_variables := AList.update ver variable (dd_variables dd),
       dd_names_of_vars := AList.update variable data (dd_names_of_vars dd)\<rparr>)"

definition next_variable :: "string dec" where
  "next_variable = get_dec (\<lambda>dd. ''var'' @ show_nat (dd_num_of_var dd))"

text \<open>The destination gets a variable of the common type of both operands.\<close>

definition select_variable :: "operand \<Rightarrow> operand \<Rightarrow> operand \<Rightarrow> string \<Rightarrow> unit dec" where
  "select_variable d a b suffix =
     bindS next_variable (\<lambda>v0.
     bindS (kind_in_state d KERNEL_ARGUMENT_ELEMENT) (\<lambda>element.
     let variable = (if element then ''*'' @ v0 else v0)
     in bindS (get_expression_node a suffix) (\<lambda>l. bindS (get_expression_node b suffix) (\<lambda>r. case (l, r) of
          (Some x, Some y) \<Rightarrow>
            bindS (liftS (node_common_type x y)) (\<lambda>h.
            bindS (on_manager (add_variable_node variable (hint_set_is_const h False))) (\<lambda>n.
            bindS (save_value (PStr variable) (Some PROGRAM_PARAM) (type_suffix_of suffix) (Some n) d (names_of a b) ENTIRE) (\<lambda>_.
            bindS (state_register d) (\<lambda>rd. make_var (version rd) variable (type_suffix_of suffix)))))
        | _ \<Rightarrow> raiseS AssertionError))))"

definition select_operand :: "operand \<Rightarrow> operand \<Rightarrow> operand \<Rightarrow> string \<Rightarrow> register_type \<Rightarrow> unit dec" where
  "select_operand d a b suffix t =
     bindS (state_register b) (\<lambda>r. bindS (val_of r) (\<lambda>v. bindS (get_expression_node b suffix) (\<lambda>n.
       save_value v (Some t) (type_suffix_of suffix) n d (names_of a b) ENTIRE)))"

definition value_in_state :: "operand \<Rightarrow> py_object \<Rightarrow> bool dec" where
  "value_in_state a v =
     bindS (in_state a) (\<lambda>known.
       if known then bindS (bindS (state_register a) val_of) (\<lambda>w. returnS (w = v)) else returnS False)"

definition v_cndmask :: "operand \<Rightarrow> operand \<Rightarrow> operand \<Rightarrow> operand \<Rightarrow> string \<Rightarrow> unit dec" where
  "v_cndmask d a b c suffix =
     (if suffix \<noteq> ''b32'' then raiseS AttributeError
      else bindS (kind_in_state b DIVISION_PT8) (\<lambda>p8. if p8 then select_operand d a b suffix DIVISION_PT9 else
           bindS (kind_in_state b DIVISION_PT10) (\<lambda>p10. if p10 then select_operand d a b suffix UNKNOWN else
           bindS (kind_in_state c DIVISION_PASS) (\<lambda>pass.
             if pass
             then save_value (PStr []) (Some DIVISION_PASS) (type_suffix_of suffix) None d (names_of a b) ENTIRE
             else bindS (value_in_state c (PStr ''0'')) (\<lambda>zero.
                  if zero
                  then bindS (get_expression_node a suffix) (\<lambda>n.
                         save_value (PStr (op_name a)) (Some UNKNOWN) (type_suffix_of suffix) n d (names_of a b) ENTIRE)
                  else select_variable d a b suffix)))))"

section \<open>Conversion\<close>

definition conversions :: "string list" where
  "conversions =
     [''f32_u32'', ''f64_i32'', ''f64_u32'', ''i32_f64'', ''u32_f64'', ''u32_f32'', ''i32_f32'', ''f32_i32'']"

definition v_cvt :: "operand \<Rightarrow> operand \<Rightarrow> string \<Rightarrow> unit dec" where
  "v_cvt d a suffix =
     bindS (first_register d) (\<lambda>to. bindS (first_register a) (\<lambda>src.
       if suffix \<notin> set conversions then raiseS AttributeError
       else bindS (kind_in_state a DIVISION_PT2) (\<lambda>p2.
         if p2
         then bindS (state_register a) (\<lambda>r. bindS (val_of r) (\<lambda>v. bindS (get_expression_node a suffix) (\<lambda>n.
                set_value_of v (Some DIVISION_PT3) suffix n (op_name d) [op_name a] ENTIRE)))
         else let asm = drop 4 suffix
              in bindS (get_expression_node src suffix) (\<lambda>n. case n of
                   Some (NVar i s) \<Rightarrow>
                     bindS (liftS (opencl_from_string asm)) (\<lambda>t.
                     bindS (on_manager (cast_node (NVar i s) t)) (\<lambda>n'.
                     bindS (state_register src) (\<lambda>r. bindS (val_of r) (\<lambda>v.
                     bindS (update_dec (\<lambda>dd. dd\<lparr>dd_names_of_vars :=
                              AList.update (object_str v) (Leaf (Some asm)) (dd_names_of_vars dd)\<rparr>)) (\<lambda>_.
                     bindS (type_of_reg r) (\<lambda>ty.
                       set_value_of (PStr (''('' @ make_opencl_type (take 3 suffix) @ '')'' @ object_str v)) ty asm
                         (Some n') (op_name to) [] ENTIRE))))))
                 | Some _ \<Rightarrow> raiseS AssertionError
                 | None \<Rightarrow> raiseS AttributeError))))"

section \<open>Bit fields\<close>

text \<open>The name recorded for a field of an argument; an empty name counts as missing.\<close>

definition bfe_name :: "operand \<Rightarrow> string \<Rightarrow> string option dec" where
  "bfe_name a selector =
     bindS (bindS (state_register a) val_of) (\<lambda>v.
     bindS (get_dec (\<lambda>dd. map_of (dd_bfe_offsets dd) (v, selector))) (\<lambda>z.
       returnS (case z of Some s \<Rightarrow> if s \<noteq> [] then Some s else None | None \<Rightarrow> None)))"

definition write_field :: "operand \<Rightarrow> string \<Rightarrow> string \<Rightarrow> register_type \<Rightarrow> expr_node option \<Rightarrow> unit dec" where
  "write_field d suffix v t n = write_value v (Some t) suffix n (op_name d) [] ENTIRE"

definition s_bfe :: "operand \<Rightarrow> operand \<Rightarrow> operand \<Rightarrow> string \<Rightarrow> unit dec" where
  "s_bfe d a b suffix =
     (case b of
        Val selector \<Rightarrow>
          if suffix = ''u32''
          then (if selector = ''0x20010''
                then bindS (on_manager (add_register_node WORK_DIM (Some (CStr ''get_work_dim()'')))) (\<lambda>n.
                       write_field d suffix ''get_work_dim()'' WORK_DIM n)
                else if selector = ''0x100010''
                then bindS (on_manager (add_register_node (LOCAL_SIZE DY) (Some (CStr ''get_local_size(1)'')))) (\<lambda>n.
                       write_field d suffix ''get_local_size(1)'' (LOCAL_SIZE DY) n)
                else bindS (bfe_name a selector) (\<lambda>z. case z of
                    None \<Rightarrow> raiseS NotImplementedError
                  | Some name \<Rightarrow>
                      bindS (get_dec (\<lambda>dd. get_variable_info name (dd_manager dd))) (\<lambda>n. case n of
                          None \<Rightarrow> raiseS AttributeError
                        | Some m \<Rightarrow> write_field d suffix name KERNEL_ARGUMENT_VALUE (Some m))))
          else if suffix = ''i32''
          then bindS (bfe_name a selector) (\<lambda>z. case z of
                   None \<Rightarrow> returnS ()
                 | Some name \<Rightarrow>
                     bindS (get_dec (\<lambda>dd. get_variable_node name (dd_manager dd))) (\<lambda>n.
                       write_field d suffix name KERNEL_ARGUMENT_VALUE n))
          else raiseS AttributeError
      | _ \<Rightarrow> raiseS AssertionError)"

section \<open>Permutation\<close>

text \<open>\<open>data_type in vector_type_dict\<close>; a list is not hashable.\<close>

definition is_vector_data :: "string option nest \<Rightarrow> bool res" where
  "is_vector_data d =
     (case d of Leaf (Some s) \<Rightarrow> Inr (s \<in> set vector_types) | Leaf None \<Rightarrow> Inr False | Nest ds \<Rightarrow> Inl TypeError)"

text \<open>The name of a vector is cut to its first character, and the number of its elements is a text for the
  first operand and a number for the second.\<close>

definition permuted_type :: "string option nest \<Rightarrow> string option nest \<Rightarrow> string option nest res" where
  "permuted_type a b =
     bind_res (is_vector_data a) (\<lambda>va. bind_res (is_vector_data b) (\<lambda>vb.
       let name = (\<lambda>v d. case d of Leaf (Some s) \<Rightarrow> Leaf (Some (if v then take 1 s else s)) | _ \<Rightarrow> d)
       in if name vb b = name va a
          then (if va then Inl TypeError
                else let n = (case b of Leaf (Some s) \<Rightarrow> if vb then int (decimal_value (last s)) else 1 | _ \<Rightarrow> 1);
                         text = (case name vb b of Leaf (Some s) \<Rightarrow> s | _ \<Rightarrow> ''None'')
                     in Inr (Leaf (Some (text @ show_int (n + 1)))))
          else Inr b))"

definition v_perm :: "operand \<Rightarrow> operand \<Rightarrow> operand \<Rightarrow> operand \<Rightarrow> string \<Rightarrow> unit dec" where
  "v_perm d a b c suffix =
     (if suffix \<noteq> ''b32'' then raiseS AttributeError
      else bindS (bindS (state_register c) val_of) (\<lambda>selector.
        if selector \<noteq> PStr ''0x2010004'' then returnS ()
        else bindS (state_register a) (\<lambda>ra. bindS (val_of ra) (\<lambda>va.
             bindS (state_register b) (\<lambda>rb. bindS (val_of rb) (\<lambda>vb.
             bindS (get_expression_node a suffix) (\<lambda>l. bindS (get_expression_node b suffix) (\<lambda>r. case (l, r) of
                 (Some x, Some y) \<Rightarrow>
                   bindS (on_manager (add_permute_node x y)) (\<lambda>n.
                   bindS (data_of ra) (\<lambda>da. bindS (data_of rb) (\<lambda>db.
                   bindS (liftS (permuted_type da db)) (\<lambda>data.
                     set_reg_value (value_request (PStr (object_str va @ '', '' @ object_str vb)) (Some KERNEL_ARGUMENT_VALUE)
                                      data (Some n)) (op_name d) [] ENTIRE None))))
               | _ \<Rightarrow> raiseS AttributeError))))))))"

end
