(* ===== verification/Reg_Memory.thy ===== *)
theory Reg_Memory
  imports Reg_Select
begin

text \<open>
  Arguments and memory: storing the description of an argument (\<open>src/src/kernel_params.py\<close>), loading it into
  registers (\<open>src/src/upload.py\<close>), and the backend instructions for loads, stores, global and local memory
  (\<open>src/src/instructions/smem\<close>, \<open>flat\<close>, \<open>ds\<close>, \<open>ir_special\<close>).

  The contents of arguments are keyed by their offsets, for which the source takes the hexadecimal text.
  Contents are values here: two halves that are loaded from one argument do not share it.
\<close>

section \<open>The contents of arguments\<close>

definition hex_text :: "int \<Rightarrow> string" where
  "hex_text n = (if n < 0 then ''-'' @ show_hex (nat (- n)) else show_hex (nat n))"

definition hex_tail :: "int \<Rightarrow> string" where
  "hex_tail n = drop 2 (hex_text n)"

definition exact_types :: "(string \<times> register_type) list" where
  "exact_types =
     map (\<lambda>d. (call_dim ''get_global_offset'' d, GLOBAL_OFFSET d)) dims
     @ [(''get_local_size(0)'', LOCAL_SIZE DX), (''get_local_size(2)'', LOCAL_SIZE DZ)]
     @ map (\<lambda>d. (call_dim ''get_global_size'' d, GLOBAL_SIZE d)) dims"

definition argument_kind :: "string \<Rightarrow> register_type" where
  "argument_kind s =
     (case map_of exact_types s of
        Some t \<Rightarrow> t
      | None \<Rightarrow>
          if startswith s ''*'' then ADDRESS_KERNEL_ARGUMENT
          else if startswith s ''general_setup'' then GENERAL_SETUP else UNKNOWN)"

definition contents_of :: "string \<Rightarrow> decompiler \<Rightarrow> (int \<times> plain_content) list option" where
  "contents_of base dd = map_of (dd_contents dd) base"

text \<open>\<open>get_bfe_offset\<close>: the name of a small argument under the value of the word it lies in and the selector that
  extracts it.\<close>

definition bfe_text :: "int \<Rightarrow> int \<Rightarrow> string" where
  "bfe_text bytes shift =
     (let tail = hex_tail (shift * 8) in hex_text (bytes * 8) @ replicate (4 - length tail) CHR ''0'' @ tail)"

definition get_bfe_offset :: "string \<Rightarrow> int \<Rightarrow> kernel_argument \<Rightarrow> string \<Rightarrow> unit dec" where
  "get_bfe_offset name offset a base =
     bindS (liftS (basic_size a)) (\<lambda>b.
     let start = offset - offset mod 4
     in bindS (get_dec (contents_of base)) (\<lambda>z.
        case Option.bind z (\<lambda>cs. map_of cs start) of
          None \<Rightarrow> raiseS KeyError
        | Some c \<Rightarrow>
            bindS (update_dec (\<lambda>dd. dd\<lparr>dd_bfe_offsets :=
                     AList.update (pc_value c, bfe_text b (offset - start)) name (dd_bfe_offsets dd)\<rparr>)) (\<lambda>_.
            bindS (on_manager (add_kernel_argument a offset)) (\<lambda>_. returnS ()))))"

definition argument_content :: "string \<Rightarrow> kernel_argument \<Rightarrow> int \<Rightarrow> expr_node option \<Rightarrow> plain_content" where
  "argument_content v a bytes n =
     \<lparr>pc_value = PStr v, pc_type = Some (argument_kind (arg_name a)), pc_size = Leaf bytes,
      pc_data = Leaf (Some (make_asm_type (type_name a))), pc_sign = Some POSITIVE, pc_node = n\<rparr>"

definition put_content :: "string \<Rightarrow> int \<Rightarrow> plain_content \<Rightarrow> decompiler \<Rightarrow> decompiler" where
  "put_content base offset c dd =
     dd\<lparr>dd_contents := AList.update base
          (AList.update offset c (case contents_of base dd of Some cs \<Rightarrow> cs | None \<Rightarrow> [])) (dd_contents dd)\<rparr>"

definition process_arg :: "int \<Rightarrow> kernel_argument \<Rightarrow> string \<Rightarrow> unit dec" where
  "process_arg offset a base =
     bindS (liftS (is_vector_arg a)) (\<lambda>vec.
     bindS (liftS (if vec then get_vector_element_by_offset a offset else Inr (removeprefix (arg_name a) ''*''))) (\<lambda>v.
     bindS (if offset mod 4 = 0
            then bindS (liftS (basic_size a)) (\<lambda>b. bindS (on_manager (add_kernel_argument a offset)) (\<lambda>n.
                   update_dec (put_content base offset (argument_content v a b n))))
            else returnS ()) (\<lambda>_.
       if contains (type_name a) ''short'' \<or> contains (type_name a) ''char''
       then get_bfe_offset v offset a base else returnS ())))"

text \<open>\<open>range(0, stop, step)\<close>.\<close>

definition py_range :: "int \<Rightarrow> int \<Rightarrow> int list res" where
  "py_range stop step =
     (if step = 0 then Inl ValueError
      else Inr (map (\<lambda>k. int k * step) [0..<nat (if 0 < step then (stop + step - 1) div step else (- stop - step - 1) div (- step))]))"

text \<open>\<open>StoreInMem\<close>.\<close>

definition stored_argument :: "string \<Rightarrow> string \<Rightarrow> int \<Rightarrow> int \<Rightarrow> bool \<Rightarrow> kernel_argument" where
  "stored_argument ty name offset bytes c =
     \<lparr>type_name = ty, arg_name = name, arg_offset = offset, arg_size = bytes, arg_hidden = False, arg_const = c,
      declared_size = None\<rparr>"

definition store_in_mem :: "operand \<Rightarrow> operand \<Rightarrow> operand \<Rightarrow> operand \<Rightarrow> unit dec" where
  "store_in_mem d ty name offset =
     bindS (liftS (literal_of ty)) (\<lambda>t. bindS (liftS (literal_of name)) (\<lambda>s.
     bindS (liftS (literal_of offset)) (\<lambda>_.
     bindS (update_dec (\<lambda>dd. dd\<lparr>dd_type_params := AList.update s t (dd_type_params dd)\<rparr>)) (\<lambda>_.
     bindS (get_dec dd_arguments) (\<lambda>as.
     bindS (liftS (int_of_literal offset)) (\<lambda>o'.
     bindS (liftS (evaluate_size (make_asm_type t) False)) (\<lambda>(n, p).
     let a = stored_argument t s o' (if startswith s ''*'' then 8 else n)
               (case find (\<lambda>x. arg_name x = s) as of Some x \<Rightarrow> arg_const x | None \<Rightarrow> False)
     in bindS (liftS (is_vector_arg a)) (\<lambda>vec.
          if \<not> vec then process_arg o' a (op_name d)
          else bindS (liftS (basic_size a)) (\<lambda>b. bindS (liftS (py_range (arg_size a) b)) (\<lambda>shifts.
               bindS (mapS (\<lambda>k. process_arg (o' + k) a (op_name d)) shifts) (\<lambda>_. returnS ())))))))))))"

section \<open>Loading arguments\<close>

text \<open>\<open>upload_kernel_param\<close>; where no argument starts, the one before is loaded again.\<close>

definition load_register :: "string \<Rightarrow> integrity \<Rightarrow> plain_content \<Rightarrow> unit dec" where
  "load_register name i c = set_reg_make_version name (new_register i (Plain c) (Leaf DEFAULT_REGISTER_SIZE))"

definition content_bytes :: "plain_content \<Rightarrow> int res" where
  "content_bytes c = leaf_of (pc_size c)"

fun load_params :: "string \<Rightarrow> plain_content option \<Rightarrow> int \<Rightarrow> string list \<Rightarrow> unit dec" where
  "load_params base prev offset [] = returnS ()"
| "load_params base prev offset (name # rest) =
     bindS (get_dec (contents_of base)) (\<lambda>z. case z of
         None \<Rightarrow> raiseS KeyError
       | Some cs \<Rightarrow>
           (case (case map_of cs offset of Some c \<Rightarrow> Some c | None \<Rightarrow> prev) of
              None \<Rightarrow> returnS ()
            | Some c \<Rightarrow>
                bindS (liftS (content_bytes c)) (\<lambda>b.
                  if b \<le> 4
                  then bindS (load_register name ENTIRE c) (\<lambda>_. load_params base (Some c) (offset + 4) rest)
                  else if b = 8
                  then (case rest of
                          [] \<Rightarrow> load_register name ENTIRE c
                        | high # rest' \<Rightarrow>
                            bindS (load_register name LOW_PART c) (\<lambda>_.
                            bindS (load_register high HIGH_PART c) (\<lambda>_.
                            bindS (if contains name ''|lo'' then load_register (replace_text ''|lo'' [] name) ENTIRE c
                                   else returnS ()) (\<lambda>_.
                              load_params base (Some c) (offset + 8) rest'))))
                  else returnS ())))"

definition upload_kernel_param :: "int \<Rightarrow> operand \<Rightarrow> operand \<Rightarrow> unit dec" where
  "upload_kernel_param offset d base = load_params (op_name base) None offset (expand_register_names d)"

definition global_data_element :: "py_object \<Rightarrow> string res" where
  "global_data_element v =
     (case v of
        PInt n \<Rightarrow> Inl TypeError
      | PStr s \<Rightarrow>
          Inr (if \<not> contains s '' + '' then s @ ''[0]''
               else (case split_str '' + '' s of
                       p # rest \<Rightarrow> p @ ''['' @ join '' + '' rest @ '']'' | [] \<Rightarrow> [])))"

definition loaded_global_data_integrity :: "nat \<Rightarrow> nat \<Rightarrow> integrity" where
  "loaded_global_data_integrity k n =
     (if n = 1 then ENTIRE else if k = 0 then LOW_PART else if k = n - 1 then HIGH_PART else ENTIRE)"

definition upload_global_data_pointer :: "operand \<Rightarrow> operand \<Rightarrow> unit dec" where
  "upload_global_data_pointer d src =
     (let names = expand_register_names d
      in bindS (liftS (hd_res (expand_register_names src))) (\<lambda>start.
         bindS (get_register start) (\<lambda>r. bindS (data_of r) (\<lambda>data. bindS (val_of r) (\<lambda>v.
         bindS (liftS (global_data_element v)) (\<lambda>s.
         bindS (liftS (get_node (rg_content r))) (\<lambda>n.
         let write = (\<lambda>name i. set_reg_make_version name (new_register i
               (Plain (default_plain (PStr s) (Some GLOBAL_DATA_POINTER) (Some POSITIVE) data n)) (Leaf DEFAULT_REGISTER_SIZE)))
         in bindS (mapS (\<lambda>(k, name). write name (loaded_global_data_integrity k (length names))) (enumerate 0 names)) (\<lambda>_.
              if 1 < length names then write (op_name d) ENTIRE else returnS ())))))))) "

section \<open>Scalar loads\<close>

definition load_suffixes :: "string list" where
  "load_suffixes = [''dword'', ''dwordx2'', ''dwordx4'', ''dwordx8'', ''b32'', ''b64'', ''b128'']"

text \<open>The value of the base is added when it is a number.\<close>

definition s_load :: "operand \<Rightarrow> operand \<Rightarrow> operand \<Rightarrow> string \<Rightarrow> unit dec" where
  "s_load d base offset suffix =
     bindS (liftS (literal_of offset)) (\<lambda>o'.
     bindS (first_register base) (\<lambda>start.
     bindS (state_register start) (\<lambda>r.
       if suffix \<notin> set load_suffixes then raiseS AttributeError
       else bindS (val_of r) (\<lambda>v. case v of
           PInt n \<Rightarrow> raiseS AttributeError
         | PStr s \<Rightarrow>
             bindS (if all_decimal s then bindS (liftS (int_base16 o')) (\<lambda>k. returnS (Some (k + int (read_nat 0 s))))
                    else returnS None) (\<lambda>sum.
             bindS (type_of_reg r) (\<lambda>t.
               if t = Some ARGUMENTS_POINTER
               then bindS (case sum of Some k \<Rightarrow> returnS k | None \<Rightarrow> liftS (int_base16 o')) (\<lambda>k.
                      upload_kernel_param k d base)
               else if t = Some GLOBAL_DATA_POINTER then upload_global_data_pointer d base
               else returnS ()))))))"

section \<open>Global and local memory\<close>

text \<open>The three registers of a pointer.\<close>

definition write_pointer :: "operand \<Rightarrow> string \<Rightarrow> register_type \<Rightarrow> expr_node \<Rightarrow> unit dec" where
  "write_pointer d v t n =
     bindS (liftS (exact_pair d)) (\<lambda>(lo, hi).
     bindS (write_value v (Some t) ''b64'' (Some n) (op_name lo) [] LOW_PART) (\<lambda>_.
     bindS (write_value v (Some t) ''b64'' (Some n) (op_name hi) [] HIGH_PART) (\<lambda>_.
       write_value v (Some t) ''b64'' (Some n) (op_name d) [] ENTIRE)))"

definition register_global_data :: "string \<Rightarrow> string list \<Rightarrow> decompiler \<Rightarrow> decompiler" where
  "register_global_data name vs dd =
     dd\<lparr>dd_global_data := AList.update name vs (dd_global_data dd),
        dd_type_gdata := AList.update name
          (case map_of (dd_type_gdata dd) name of Some t \<Rightarrow> t | None \<Rightarrow> ''undefined_type'') (dd_type_gdata dd)\<rparr>"

definition global_memory :: "operand \<Rightarrow> operand list \<Rightarrow> unit dec" where
  "global_memory d values =
     bindS (liftS (mapE literal_of values)) (\<lambda>vs.
     bindS (update_dec (register_global_data (op_name d) vs)) (\<lambda>_.
     bindS (on_manager (add_variable_node (op_name d) (pointer_hint (OType UINT_T W1) Q_CONST))) (\<lambda>n.
       write_pointer d (op_name d) GLOBAL_DATA_POINTER n)))"

text \<open>\<open>check_lds_vars\<close>.\<close>

definition check_lds_vars :: "int \<Rightarrow> string \<Rightarrow> unit dec" where
  "check_lds_vars offset suffix =
     bindS (get_dec (\<lambda>dd. (map_of (dd_lds_vars dd) offset, dd_lds_number dd))) (\<lambda>(z, k). case z of
         Some n \<Rightarrow> returnS ()
       | None \<Rightarrow>
           bindS (liftS (opencl_from_string (''u'' @ tl suffix))) (\<lambda>t.
           bindS (on_manager (add_variable_node (''*lds'' @ show_nat k) ((mk_hint t)\<lparr>qualifier := Q_LOCAL\<rparr>))) (\<lambda>n.
             update_dec (\<lambda>dd. dd\<lparr>dd_lds_vars := AList.update offset n (dd_lds_vars dd), dd_lds_number := k + 1\<rparr>))))"

definition local_memory :: "operand \<Rightarrow> operand \<Rightarrow> unit dec" where
  "local_memory d bytes =
     bindS (liftS (literal_of bytes)) (\<lambda>_.
     bindS (get_dec dd_local_size) (\<lambda>offset.
     bindS (liftS (int_of_literal bytes)) (\<lambda>b.
     bindS (update_dec (\<lambda>dd. dd\<lparr>dd_local_size := dd_local_size dd + b\<rparr>)) (\<lambda>_.
     bindS (check_lds_vars offset ''b32'') (\<lambda>_.
     bindS (get_dec (\<lambda>dd. map_of (dd_lds_vars dd) offset)) (\<lambda>z. case z of
         None \<Rightarrow> raiseS KeyError
       | Some n \<Rightarrow> write_pointer d (var_name_of n) LOCAL_DATA_POINTER n))))))"

end
