(* ===== verification/Reg_Flat.thy ===== *)
theory Reg_Flat
  imports Reg_Memory
begin

text \<open>
  Backend instructions for vector loads and stores and for local data (\<open>src/src/instructions/flat\<close>, \<open>ds\<close>), and
  the effect of every backend instruction on the registers of its node.
\<close>

section \<open>Flat loads\<close>

text \<open>\<open>make_new_type_without_modifier\<close> drops the first character of every type with a \<open>g\<close> in it.\<close>

definition new_type_without_modifier :: "string option nest \<Rightarrow> string option nest res" where
  "new_type_without_modifier d =
     (case d of
        Leaf None \<Rightarrow> Inl TypeError
      | Leaf (Some s) \<Rightarrow> Inr (Leaf (Some (if CHR ''g'' \<in> set s then tl s else s)))
      | Nest ds \<Rightarrow> Inr (if Leaf (Some ''g'') \<in> set ds then Nest (tl ds) else Nest ds))"

definition hint_of_register :: "register \<Rightarrow> type_hint dec" where
  "hint_of_register r =
     bindS (liftS (get_node (rg_content r))) (\<lambda>n. case n of
         Some e \<Rightarrow> returnS (node_hint e) | None \<Rightarrow> raiseS AttributeError)"

definition loaded_hint :: "type_hint \<Rightarrow> type_hint" where
  "loaded_hint h0 =
     (let h = (if is_pointer h0 \<and> \<not> is_address h0 then mk_hint (opencl_type h0) else h0)
      in if is_const h then hint_set_is_const h False else h)"

text \<open>Name, data type and hint of one loaded element; a vector is loaded by its components, whose number is the
  last character of the suffix.\<close>

definition load_element ::
    "string \<Rightarrow> string \<Rightarrow> nat \<Rightarrow> string \<times> string option nest \<Rightarrow> type_hint \<Rightarrow>
     (string \<times> string option nest \<times> type_hint \<times> nat) res" where
  "load_element suffix variable k rd h =
     bind_res (is_vector_data (snd rd)) (\<lambda>vec.
       case snd rd of
         Leaf (Some s) \<Rightarrow>
           if \<not> vec then Inr (fst rd, snd rd, h, k)
           else if is_decimal (last suffix)
           then bind_res (hint_set_components h (int (decimal_value (last suffix)))) (\<lambda>h'.
                  Inr (variable @ ''___s'' @ show_nat k, Leaf (Some (butlast s @ [last suffix])), h', k + 1))
           else bind_res (hint_set_components h 1) (\<lambda>h'.
                  Inr (fst rd, Leaf (Some (make_asm_type (butlast s))), h', k + 1))
       | _ \<Rightarrow> Inr (fst rd, snd rd, h, k))"

fun load_elements ::
    "operand \<Rightarrow> string \<Rightarrow> string \<Rightarrow> register_type \<Rightarrow> nat \<Rightarrow> string \<times> string option nest \<Rightarrow> operand list \<Rightarrow>
     string option nest dec" where
  "load_elements src suffix variable t k rd [] = returnS (snd rd)"
| "load_elements src suffix variable t k rd (d # ds) =
     bindS (state_register src) (\<lambda>r. bindS (hint_of_register r) (\<lambda>h0.
     bindS (liftS (load_element suffix variable k rd (loaded_hint h0))) (\<lambda>(name, data, h, k').
     bindS (on_manager (add_variable_node name h)) (\<lambda>n.
     bindS (on_manager (put_variable (var_name_of n) (set_hint h n))) (\<lambda>_.
     bindS (set_reg_value (value_request (PStr name) (Some t) data (Some (set_hint h n))) (op_name d) [] ENTIRE None) (\<lambda>_.
       load_elements src suffix variable t k' (name, data) ds))))))"

definition flat_load_suffixes :: "string list" where
  "flat_load_suffixes = [''dword'', ''dwordx2'', ''dwordx4'']"

definition flat_load :: "operand \<Rightarrow> operand \<Rightarrow> operand \<Rightarrow> string \<Rightarrow> unit dec" where
  "flat_load d addr offset suffix =
     bindS (liftS (literal_of offset)) (\<lambda>_.
     bindS (first_register d) (\<lambda>start. bindS (first_register addr) (\<lambda>src.
       if suffix \<notin> set flat_load_suffixes then raiseS AttributeError
       else bindS next_variable (\<lambda>variable.
            bindS (state_register src) (\<lambda>r. bindS (data_of r) (\<lambda>data0.
            bindS (liftS (new_type_without_modifier data0)) (\<lambda>data.
            bindS (val_of r) (\<lambda>v.
            bindS (update_dec (\<lambda>dd. dd\<lparr>dd_var_value := AList.update variable v (dd_var_value dd)\<rparr>)) (\<lambda>_.
            bindS (type_of_reg r) (\<lambda>ty.
            bindS (load_elements src suffix variable
                     (if ty = Some ADDRESS_KERNEL_ARGUMENT then KERNEL_ARGUMENT_PTR else KERNEL_ARGUMENT_ELEMENT)
                     0 (variable, data) (get_reg_rang d)) (\<lambda>data'.
            bindS (state_register start) (\<lambda>rd. bindS (val_of rd) (\<lambda>w.
              make_var (version rd) (object_str w) data')))))))))))))"

section \<open>Flat stores\<close>

definition flat_store_suffixes :: "string list" where
  "flat_store_suffixes = [''dword'', ''dwordx2'', ''dwordx4'', ''byte'', ''short'', ''b32'', ''b64'', ''b8'', ''u8'']"

text \<open>The number of stored registers is the last digit of the suffix, so that it is 2 for \<open>b32\<close>.\<close>

definition stored_count :: "string \<Rightarrow> nat" where
  "stored_count suffix = (if is_decimal (last suffix) then decimal_value (last suffix) else 1)"

definition mentions_bytes :: "string option nest \<Rightarrow> bool" where
  "mentions_bytes d =
     (case d of Leaf None \<Rightarrow> False | Leaf (Some s) \<Rightarrow> contains s ''bytes'' | Nest ds \<Rightarrow> Leaf (Some ''bytes'') \<in> set ds)"

fun leftmost :: "expr_node \<Rightarrow> expr_node" where
  "leftmost (NOp i x l r) = leftmost l"
| "leftmost (NNot i c) = leftmost c"
| "leftmost n = n"

definition name_of_node :: "expr_node \<Rightarrow> string option" where
  "name_of_node n = (case n of NVar i s \<Rightarrow> Some s | NConst i (CStr s) \<Rightarrow> Some s | _ \<Rightarrow> None)"

definition update_stored_type :: "string option \<Rightarrow> expr_node option \<Rightarrow> unit dec" where
  "update_stored_type name n =
     (case n of
        None \<Rightarrow> raiseS AttributeError
      | Some e \<Rightarrow>
          (case name of
             None \<Rightarrow> returnS ()
           | Some s \<Rightarrow> bindS (on_manager (update_variable_type s (node_hint e))) (\<lambda>_. returnS ())))"

definition name_variable :: "string \<Rightarrow> string option nest \<Rightarrow> unit dec" where
  "name_variable s d = update_dec (\<lambda>dd. dd\<lparr>dd_names_of_vars := AList.update s d (dd_names_of_vars dd)\<rparr>)"

text \<open>A value whose type is only known by its size takes the type of the address.\<close>

definition store_sized :: "operand \<Rightarrow> operand \<Rightarrow> string \<Rightarrow> unit dec" where
  "store_sized src to suffix =
     bindS (state_register to) (\<lambda>rt. bindS (data_of rt) (\<lambda>dt.
     bindS (update_register (op_name src) (register_cast_to dt)) (\<lambda>_.
     bindS (state_register src) (\<lambda>rs. bindS (val_of rs) (\<lambda>v.
     bindS (bindS (state_register to) data_of) (\<lambda>dt'.
     bindS (name_variable (object_str v) dt') (\<lambda>_.
     bindS (liftS (get_node (rg_content rs))) (\<lambda>n. case n of
         None \<Rightarrow> raiseS AttributeError
       | Some e \<Rightarrow> bindS (get_expression_node to suffix) (\<lambda>nt. update_stored_type (name_of_node (leftmost e)) nt)))))))))"

text \<open>A cast in front of the value is dropped.\<close>

definition without_cast :: "py_object \<Rightarrow> string res" where
  "without_cast v =
     (case v of
        PInt n \<Rightarrow> Inl TypeError
      | PStr s \<Rightarrow> bind_res (first_char s) (\<lambda>c.
          Inr (if c = CHR ''('' then (if CHR '')'' \<in> set s then tl (dropWhile (\<lambda>c. c \<noteq> CHR '')'') s) else s) else s)))"

definition store_scalar :: "operand \<Rightarrow> operand \<Rightarrow> string \<Rightarrow> unit dec" where
  "store_scalar src to suffix =
     bindS (state_register src) (\<lambda>rs. bindS (val_of rs) (\<lambda>v0. bindS (liftS (without_cast v0)) (\<lambda>v.
     bindS (get_dec (\<lambda>dd. map_of (dd_names_of_vars dd) v)) (\<lambda>z. case z of
         None \<Rightarrow>
           bindS (bindS (state_register to) data_of) (\<lambda>dt.
           bindS (liftS (new_type_without_modifier dt)) (\<lambda>d.
           bindS (update_register (op_name src) (register_cast_to d)) (\<lambda>_.
           bindS (bindS (state_register src) data_of) (\<lambda>d'.
           bindS (name_variable v d') (\<lambda>_.
           bindS (get_expression_node to suffix) (\<lambda>n. update_stored_type (Some v) n))))))
       | Some _ \<Rightarrow>
           bindS (data_of rs) (\<lambda>d. bindS (name_variable v d) (\<lambda>_.
           bindS (get_expression_node src suffix) (\<lambda>n. update_stored_type (Some v) n)))))))"

definition store_register :: "operand \<Rightarrow> operand \<Rightarrow> string \<Rightarrow> unit dec" where
  "store_register to src suffix =
     bindS (bindS (state_register src) data_of) (\<lambda>d.
       if mentions_bytes d then store_sized src to suffix
       else bindS (liftS (is_vector_data d)) (\<lambda>vs.
            if vs then returnS ()
            else bindS (bindS (state_register to) data_of) (\<lambda>dt. bindS (liftS (is_vector_data dt)) (\<lambda>vt.
                 if vt then returnS () else store_scalar src to suffix))))"

text \<open>The address is a pair of registers, so that the branch of the source for a single one is dead.\<close>

definition flat_store :: "operand \<Rightarrow> operand \<Rightarrow> string \<Rightarrow> unit dec" where
  "flat_store addr data suffix =
     bindS (liftS (exact_pair addr)) (\<lambda>(to, _).
     bindS (first_register data) (\<lambda>_.
       if suffix \<notin> set flat_store_suffixes then raiseS AttributeError
       else bindS (mapS (\<lambda>src. store_register to src suffix) (take (stored_count suffix) (get_reg_rang data))) (\<lambda>_.
              returnS ())))"

section \<open>Local data\<close>

text \<open>The registers of local data are named by the text of their address.\<close>

definition address_text :: "(rat \<Rightarrow> string) \<Rightarrow> operand \<Rightarrow> string \<Rightarrow> (string \<times> expr_node) dec" where
  "address_text fl addr suffix =
     bindS (get_expression_node addr suffix) (\<lambda>n. case n of
         None \<Rightarrow> raiseS AttributeError
       | Some e \<Rightarrow> bindS (liftS (expression_to_string fl e empty_hint)) (\<lambda>s. returnS (s, e)))"

definition ds_read :: "(rat \<Rightarrow> string) \<Rightarrow> operand \<Rightarrow> operand \<Rightarrow> string \<Rightarrow> unit dec" where
  "ds_read fl d addr suffix =
     (if suffix \<noteq> ''b32'' \<and> suffix \<noteq> ''b64'' then raiseS AttributeError
      else bindS (address_text fl addr suffix) (\<lambda>(name, e).
           bindS (lookup_register name) (\<lambda>z.
           bindS (case z of
                Some r \<Rightarrow> type_of_reg r
              | None \<Rightarrow> if suffix = ''b32'' then returnS (Some UNKNOWN) else raiseS KeyError) (\<lambda>t.
             set_value_of (PStr name) t (''u'' @ tl suffix) (Some e) (op_name d) [] ENTIRE))))"

definition ds_write :: "(rat \<Rightarrow> string) \<Rightarrow> operand \<Rightarrow> operand \<Rightarrow> string \<Rightarrow> unit dec" where
  "ds_write fl addr data suffix =
     (if suffix \<noteq> ''b32'' then raiseS AttributeError
      else bindS (address_text fl addr suffix) (\<lambda>(name, e).
           bindS (state_register data) (\<lambda>r. bindS (val_of r) (\<lambda>v. bindS (type_of_reg r) (\<lambda>t.
           bindS (get_expression_node data suffix) (\<lambda>n.
             set_value_of v t (''u'' @ tl suffix) n name [] ENTIRE))))))"

definition ds_add :: "(rat \<Rightarrow> string) \<Rightarrow> operand \<Rightarrow> operand \<Rightarrow> string \<Rightarrow> unit dec" where
  "ds_add fl addr data suffix =
     bindS (address_text fl addr suffix) (\<lambda>(name, e).
       if suffix \<noteq> ''u32'' then raiseS AttributeError
       else bindS (bindS (get_register name) val_of) (\<lambda>v. bindS (bindS (state_register data) val_of) (\<lambda>w.
            bindS (operation_on (Val name) data suffix O_PLUS (OType UINT_T W1)) (\<lambda>n.
              write_value (object_str v @ '' + '' @ object_str w) (Some UNKNOWN) suffix n name [] ENTIRE))))"

end
