(* ===== verification/Reg_Step.thy ===== *)
theory Reg_Step
  imports Reg_Flat
begin

text \<open>
  What every backend instruction does to the registers of its node.  With this step and with the merging of
  versions (\<open>find_max_and_prev_versions\<close>), the construction of the graph (theory \<open>Mask_CFG\<close>) runs on the registers
  themselves.
\<close>

section \<open>Dispatch\<close>

type_synonym backend_method = "operand list \<Rightarrow> string \<Rightarrow> unit bck"

definition nothing :: backend_method where
  "nothing ops suffix = returnS ()"

definition one_operand :: "(operand \<Rightarrow> string \<Rightarrow> unit bck) \<Rightarrow> backend_method" where
  "one_operand f ops suffix = (case ops of a # _ \<Rightarrow> f a suffix | _ \<Rightarrow> raiseS IndexError)"

definition two_operands :: "(operand \<Rightarrow> operand \<Rightarrow> string \<Rightarrow> unit bck) \<Rightarrow> backend_method" where
  "two_operands f ops suffix = (case ops of a # b # _ \<Rightarrow> f a b suffix | _ \<Rightarrow> raiseS IndexError)"

definition three_operands :: "(operand \<Rightarrow> operand \<Rightarrow> operand \<Rightarrow> string \<Rightarrow> unit bck) \<Rightarrow> backend_method" where
  "three_operands f ops suffix = (case ops of a # b # c # _ \<Rightarrow> f a b c suffix | _ \<Rightarrow> raiseS IndexError)"

definition four_operands :: "(operand \<Rightarrow> operand \<Rightarrow> operand \<Rightarrow> operand \<Rightarrow> string \<Rightarrow> unit bck) \<Rightarrow> backend_method" where
  "four_operands f ops suffix = (case ops of a # b # c # d # _ \<Rightarrow> f a b c d suffix | _ \<Rightarrow> raiseS IndexError)"

definition on2 :: "(operand \<Rightarrow> operand \<Rightarrow> string \<Rightarrow> unit dec) \<Rightarrow> backend_method" where
  "on2 f = two_operands (\<lambda>a b s. on_regs (f a b s))"

definition on3 :: "(operand \<Rightarrow> operand \<Rightarrow> operand \<Rightarrow> string \<Rightarrow> unit dec) \<Rightarrow> backend_method" where
  "on3 f = three_operands (\<lambda>a b c s. on_regs (f a b c s))"

definition on4 :: "(operand \<Rightarrow> operand \<Rightarrow> operand \<Rightarrow> operand \<Rightarrow> string \<Rightarrow> unit dec) \<Rightarrow> backend_method" where
  "on4 f = four_operands (\<lambda>a b c d s. on_regs (f a b c d s))"

text \<open>\<open>VMad\<close> does not use its second operand.\<close>

definition on_mad :: backend_method where
  "on_mad ops suffix = (case ops of d # _ # a # b # c # _ \<Rightarrow> on_regs (v_mad d a b c suffix) | _ \<Rightarrow> raiseS IndexError)"

definition on_global :: backend_method where
  "on_global ops suffix = (case ops of d # vs \<Rightarrow> on_regs (global_memory d vs) | [] \<Rightarrow> raiseS IndexError)"

text \<open>\<open>Unmask\<close> and \<open>SEndpgm\<close> reset the condition of the mask.\<close>

definition reset_mask :: backend_method where
  "reset_mask ops suffix = on_regs (update_register ''$MASK'' (\<lambda>r. r\<lparr>rg_exec := Some exec_default\<rparr>))"

definition backend_table :: "(rat \<Rightarrow> string) \<Rightarrow> (string \<times> backend_method) list" where
  "backend_table fl =
     map (\<lambda>(c, x). (c, three_operands (v_cmp x))) compare_operations
     @ [(''SAnd'', three_operands s_and), (''SOr'', three_operands s_or), (''SXor'', three_operands s_xor),
        (''SMin'', on3 s_min), (''VMulF32'', on3 v_mul_f32), (''VMac'', on4 v_mac), (''VMulLo'', on3 v_mul_lo),
        (''VMulHi'', on3 v_mul_lo), (''VSub'', on3 v_sub), (''VMad'', on_mad), (''VLshlrev'', on3 (v_lshlrev fl)),
        (''VLshrrev'', on3 (v_lshrrev fl)), (''VAshrrev'', on3 (v_ashrrev fl)), (''VAdd'', on3 v_add),
        (''VAddc'', on3 v_addc), (''VCndmask'', on4 v_cndmask), (''VCvt'', on2 v_cvt), (''SBfe'', on3 s_bfe),
        (''VPerm'', on4 v_perm), (''SMov'', two_operands s_mov), (''SNot'', two_operands s_not),
        (''InitReg'', on2 (\<lambda>d s suffix. bindS (liftS (literal_of s)) (init_reg (op_name d)))),
        (''InitPred'', one_operand (\<lambda>d suffix. init_pred d)),
        (''MemoryAllocation'', one_operand (\<lambda>d suffix. on_regs (init_ptr d ARGUMENTS_POINTER))),
        (''StoreInMem'', on4 (\<lambda>d t n o' suffix. store_in_mem d t n o')),
        (''GlobalMemory'', on_global), (''LocalMemory'', on2 (\<lambda>d n suffix. local_memory d n)),
        (''SLoad'', on3 s_load), (''FlatLoad'', on3 flat_load), (''FlatStore'', on2 flat_store),
        (''DsRead'', on2 (ds_read fl)), (''DsWrite'', on2 (ds_write fl)), (''DsAdd'', on2 (ds_add fl)),
        (''UseMask'', one_operand use_mask), (''Unmask'', reset_mask), (''SEndpgm'', reset_mask), (''Label'', nothing),
        (''SBranch'', nothing), (''SCbranchVccz'', nothing), (''SCbranchVccnz'', nothing), (''SNop'', nothing),
        (''SWaitcnt'', nothing)]"

definition backend_fill :: "(rat \<Rightarrow> string) \<Rightarrow> backend \<Rightarrow> unit bck" where
  "backend_fill fl b =
     (case map_of (backend_table fl) (b_class b) of
        Some f \<Rightarrow> f (b_ops b) (b_suffix b) | None \<Rightarrow> raiseS KeyError)"

definition register_step :: "(rat \<Rightarrow> string) \<Rightarrow> (kernel_state, decompiler) reg_step" where
  "register_step fl b st ed =
     bind_res (backend_fill fl b (st, fst ed, snd ed)) (\<lambda>(u, st', er, dd). Inr (st', er, dd))"

text \<open>\<open>set_config_data\<close>: the arguments that are not hidden, the size of the work groups, and the register of the mask in
  the initial state.\<close>

definition set_config_data :: "kernel_argument list \<Rightarrow> int list option \<Rightarrow> decompiler \<Rightarrow> (kernel_state \<times> decompiler) res" where
  "set_config_data args sizes dd =
     bind_res (init_predicate ''$MASK''
        ([], dd\<lparr>dd_arguments := filter (\<lambda>a. \<not> arg_hidden a) args, dd_work_groups := sizes, dd_local_size := 0,
               dd_contents := []\<rparr>)) (\<lambda>(u, s). Inr s)"

end
