(* ===== verification/Reg_Frame.thy ===== *)
theory Reg_Frame
  imports Reg_Step
begin

text \<open>
  What no backend instruction changes.  The locale \<open>register_frame\<close> states what an invariant of the registers and
  of the counters has to allow (changes of other tables, edits of a content, and writes with the next version);
  its lemmas show that every backend instruction keeps such an invariant.  It is interpreted on the growth of
  versions, which gives the property of the whole instruction set.
\<close>

locale register_frame =
  fixes P :: "kernel_state \<times> decompiler \<Rightarrow> bool"
  assumes tables: "P (st, dd) \<Longrightarrow> dd_versions dd' = dd_versions dd \<Longrightarrow> P (st, dd')"
    and edited: "P (st, dd) \<Longrightarrow> map_of st reg = Some r \<Longrightarrow> rg_version_name r' = rg_version_name r \<Longrightarrow>
      rg_version_num r' = rg_version_num r \<Longrightarrow> map_of st' = (map_of st)(reg \<mapsto> r') \<Longrightarrow> P (st', dd)"
    and written: "P (st, dd) \<Longrightarrow> rg_version_name r = reg \<Longrightarrow> rg_version_num r = version_counter dd reg + 1 \<Longrightarrow>
      map_of st' = (map_of st)(reg \<mapsto> r) \<Longrightarrow> dd_versions dd' = AList.update reg (version_counter dd reg + 1) (dd_versions dd) \<Longrightarrow>
      P (st', dd')"
begin

abbreviation kept :: "'a dec \<Rightarrow> bool" where
  "kept m \<equiv> keeps P m"

abbreviation kept_bck :: "'a bck \<Rightarrow> bool" where
  "kept_bck m \<equiv> keeps (\<lambda>(st, er, dd). P (st, dd)) m"

lemma kept_bind [yields_intros]: "kept m \<Longrightarrow> (\<And>x. kept (f x)) \<Longrightarrow> kept (bindS m f)"
  by (rule yields_bind_keep)

lemma kept_bck_bind [yields_intros]: "kept_bck m \<Longrightarrow> (\<And>x. kept_bck (f x)) \<Longrightarrow> kept_bck (bindS m f)"
  by (rule yields_bind_keep)

lemma kept_option [yields_intros]:
  "(z = None \<Longrightarrow> keeps Q m) \<Longrightarrow> (\<And>x. z = Some x \<Longrightarrow> keeps Q (f x)) \<Longrightarrow> keeps Q (case z of None \<Rightarrow> m | Some x \<Rightarrow> f x)"
  by (cases z) auto

lemma kept_prod [yields_intros]: "(\<And>x y. keeps Q (f x y)) \<Longrightarrow> keeps Q (case z of (x, y) \<Rightarrow> f x y)"
  by (cases z) auto

lemma kept_sum [yields_intros]:
  "(\<And>x. keeps Q (f x)) \<Longrightarrow> (\<And>y. keeps Q (g y)) \<Longrightarrow> keeps Q (case z of Inl x \<Rightarrow> f x | Inr y \<Rightarrow> g y)"
  by (cases z) auto

lemma kept_list [yields_intros]:
  "keeps Q m \<Longrightarrow> (\<And>x xs. z = x # xs \<Longrightarrow> keeps Q (f x xs)) \<Longrightarrow> keeps Q (case z of [] \<Rightarrow> m | x # xs \<Rightarrow> f x xs)"
  by (cases z) auto

lemma kept_let [yields_intros]: "keeps Q (f z) \<Longrightarrow> keeps Q (let x = z in f x)"
  by simp

lemma kept_operand [yields_intros]:
  "(\<And>s. keeps Q (a s)) \<Longrightarrow> (\<And>s rs. keeps Q (b s rs)) \<Longrightarrow> (\<And>s. keeps Q (c s)) \<Longrightarrow> (\<And>s. keeps Q (d s)) \<Longrightarrow>
   (\<And>s. keeps Q (e s)) \<Longrightarrow>
   keeps Q (case z of Reg32 s \<Rightarrow> a s | Composite s rs \<Rightarrow> b s rs | Reg64 s \<Rightarrow> c s | PredReg s \<Rightarrow> d s | Val s \<Rightarrow> e s)"
  by (cases z) auto

lemma kept_object [yields_intros]:
  "(\<And>s. keeps Q (f s)) \<Longrightarrow> (\<And>n. keeps Q (g n)) \<Longrightarrow> keeps Q (case z of PStr s \<Rightarrow> f s | PInt n \<Rightarrow> g n)"
  by (cases z) auto

section \<open>The primitives\<close>

lemma kept_update_dec:
  assumes "\<And>dd. dd_versions (f dd) = dd_versions dd"
  shows "kept (update_dec f)"
proof (rule yieldsI)
  fix s x s' assume "P s" "update_dec f s = Inr (x, s')"
  with tables [of "fst s" "snd s" "f (snd s)"] assms show "P s' \<and> True" by (cases s) (simp add: update_dec_Inr)
qed

lemma kept_manager [yields_intros]: "kept (on_manager m)"
proof (rule yieldsI)
  fix s x s' assume "P s" "on_manager m s = Inr (x, s')"
  then obtain mg where "s' = (fst s, (snd s)\<lparr>dd_manager := mg\<rparr>)" by (cases s) (auto simp: on_manager_Inr)
  with tables [of "fst s" "snd s" "(snd s)\<lparr>dd_manager := mg\<rparr>"] \<open>P s\<close> show "P s' \<and> True" by simp
qed

lemma kept_get [yields_intros]: "kept (get_dec f)" "kept (get_register reg)" "kept (lookup_register reg)"
  by (auto simp: get_dec_def get_register_def lookup_register_def yields_def method_simps split: option.splits)

lemma kept_update_register:
  assumes "\<And>r. rg_version_name (f r) = rg_version_name r \<and> rg_version_num (f r) = rg_version_num r"
  shows "kept (update_register reg f)"
proof (rule yieldsI)
  fix s x s' assume p: "P s" and u: "update_register reg f s = Inr (x, s')"
  obtain st dd where s: "s = (st, dd)" by (cases s)
  from u obtain r where "map_of st reg = Some r" "s' = (AList.update reg (f r) st, dd)"
    by (auto simp: s update_register_def dec_simps)
  with p assms show "P s' \<and> True"
    by (simp add: s) (rule edited [of st dd reg r "f r"], simp_all add: update_conv')
qed

lemma kept_set_reg_value [yields_intros]: "kept (set_reg_value q reg from_regs i x)"
proof (rule yieldsI)
  fix s u s' assume p: "P s" and w: "set_reg_value q reg from_regs i x s = Inr (u, s')"
  obtain st dd st' dd' where s: "s = (st, dd)" "s' = (st', dd')" by (cases s, cases s')
  from set_reg_value_effect [OF w [unfolded s]] p show "P s' \<and> True"
    by (auto simp: s written_def intro: written)
qed

lemma kept_make_version [yields_intros]: "kept (set_reg_make_version reg r)"
proof (rule yieldsI)
  fix s u s' assume p: "P s" and w: "set_reg_make_version reg r s = Inr (u, s')"
  obtain st dd where s: "s = (st, dd)" by (cases s)
  let ?r = "add_version reg (version_counter dd reg) r"
  have "s' = (AList.update reg ?r (AList.update reg r st),
              dd\<lparr>dd_versions := AList.update reg (version_counter dd reg + 1) (dd_versions dd)\<rparr>)"
    using w by (auto simp: s set_reg_make_version_def dec_simps)
  then show "P s' \<and> True"
    using p by (simp add: s) (rule written [of st dd ?r reg], simp_all add: add_version_def update_conv')
qed

lemma kept_on_regs [yields_intros]: "kept m \<Longrightarrow> kept_bck (on_regs m)"
  by (auto simp: on_regs_def yields_def)

lemma kept_conditions [yields_intros]: "kept_bck (get_condition p)" "kept_bck (put_condition p c)"
  by (auto simp: get_condition_def put_condition_def yields_def split: option.splits)

lemma kept_mapS [yields_intros]: "(\<And>x. kept (f x)) \<Longrightarrow> kept (mapS f xs)"
  by (rule mapS_keeps)

section \<open>Reading operands\<close>

lemma kept_reading [yields_intros]:
  "kept (get_from_state a)" "kept (state_register a)" "kept (in_state a)" "kept (val_of r)" "kept (type_of_reg r)"
  "kept (data_of r)" "kept (register_value reg)" "kept (content_node b c)" "kept (first_register a)" "kept next_variable"
  "kept (kind_in_state a t)" "kept (value_in_state a v)" "kept (min_operand a suffix)" "kept (hint_of_register r)"
  by (auto simp: get_from_state_def state_register_def in_state_def val_of_def type_of_reg_def data_of_def
      register_value_def content_node_def first_register_def next_variable_def kind_in_state_def value_in_state_def
      min_operand_def hint_of_register_def intro!: yields_intros)

lemma kept_node [yields_intros]: "kept (get_or_add_expression_node a t)" "kept (get_expression_node a suffix)"
  by (auto simp: get_or_add_expression_node_def get_expression_node_def intro!: yields_intros)

lemma kept_operation [yields_intros]:
  "kept (op_node l r x t)" "kept (operation_on a b suffix x t)" "kept (suffix_operation a b suffix x)"
  "kept (power_node n t)" "kept (constant_node k)" "kept (uint_const a)" "kept (sum_of_nodes a b suffix)"
  "kept (pointer_offset_node l r bytes suffix)" "kept (add_sub_operation k k')"
  by (auto simp: op_node_def operation_on_def suffix_operation_def power_node_def constant_node_def uint_const_def
      sum_of_nodes_def pointer_offset_node_def add_sub_operation_def intro!: yields_intros)

lemma kept_text [yields_intros]:
  "kept (check_reg_for_val a suffix)" "kept (change_vals_for_make_op a cast x suffix)"
  "kept (make_op_typed a b x cast0 cast1 suffix)" "kept (make_op a b x suffix)" "kept (offset_text a b bytes suffix)"
  by (auto simp: check_reg_for_val_def change_vals_for_make_op_def make_op_typed_def make_op_def offset_text_def
      intro!: yields_intros kept_update_dec)

lemma kept_write [yields_intros]:
  "kept (write_value v t suffix n reg from_regs i)" "kept (set_value_of w t suffix n reg from_regs i)"
  "kept (set_reg_value_save q d from_regs i x)" "kept (save_value w t data n d from_regs i)"
  "kept (set_reg reg from_regs r)" "kept (set_reg_save d from_regs r)" "kept (write_field d suffix v k n)"
  "kept (write_pointer d v k e)" "kept (make_var ver variable data)" "kept (name_variable variable data)"
  "kept (update_stored_type z n)" "kept (load_register name i c)"
  by (auto simp: write_value_def set_value_of_def set_reg_value_save_def save_value_def set_reg_def set_reg_save_def
      write_field_def write_pointer_def make_var_def name_variable_def update_stored_type_def load_register_def
      intro!: yields_intros kept_update_dec)

section \<open>The instructions\<close>

lemma kept_moves [yields_intros]:
  "kept (mov_source a suffix)" "kept_bck (mov_predicate d a suffix)" "kept_bck (s_mov d a suffix)"
  "kept_bck (s_not d a suffix)" "kept_bck (use_mask a suffix)"
  by (auto simp: mov_source_def mov_predicate_def s_mov_def s_not_def use_mask_def intro!: yields_intros)

lemma kept_initial [yields_intros]:
  "kept (init_entry_reg reg v k)" "kept (init_reg reg v)" "kept (init_predicate reg)" "kept_bck (init_pred d)"
  "kept (init_pointer_part i k reg)" "kept (init_ptr d k)"
  by (auto simp: init_entry_reg_def init_reg_def init_predicate_def init_pred_def init_pointer_part_def init_ptr_def
      intro!: yields_intros kept_update_dec)

lemma kept_comparisons [yields_intros]: "kept (compare_values d a b x suffix)" "kept_bck (v_cmp x d a b suffix)"
  by (auto simp: compare_values_def v_cmp_def intro!: yields_intros)

lemma kept_logical [yields_intros]:
  "kept_bck (write_condition d a b c n)" "kept_bck (combine_predicates f d a b n)" "kept_bck (s_or d a b suffix)"
  "kept_bck (s_xor d a b suffix)" "kept_bck (and_predicates d a b suffix)" "kept (copy_operand d a b suffix src t r)"
  "kept (and_with_range d a b suffix)" "kept (and_registers d a b suffix n)" "kept (compare_work_group_size dm)"
  by (auto simp: write_condition_def combine_predicates_def s_or_def s_xor_def and_predicates_def copy_operand_def
      and_with_range_def and_registers_def compare_work_group_size_def intro!: yields_intros)

lemma kept_and [yields_intros]: "kept (and_with_register d a b suffix)" "kept_bck (s_and d a b suffix)"
  by (auto simp: and_with_register_def s_and_def intro!: yields_intros split: register_type.split)

lemma kept_arithmetic [yields_intros]:
  "kept (s_min d a b suffix)" "kept (mul_value d a b suffix cast t l r)" "kept (v_mul_f32 d a b suffix)"
  "kept (v_mac d a b c suffix)" "kept (division_step d a b suffix k)" "kept (group_times_local_size a b)"
  "kept (plain_product d a b suffix)" "kept (v_mul_lo d a b suffix)" "kept (v_sub d a b suffix)"
  by (auto simp: s_min_def mul_value_def v_mul_f32_def v_mac_def division_step_def group_times_local_size_def
      plain_product_def v_mul_lo_def v_sub_def intro!: yields_intros)

lemma kept_factor [yields_intros]:
  "(\<And>r. keeps Q (f r)) \<Longrightarrow> (\<And>n. keeps Q (g n)) \<Longrightarrow> keeps Q (case z of Reg_Factor r \<Rightarrow> f r | Int_Factor n \<Rightarrow> g n)"
  by (cases z) auto

lemma kept_fill_half [yields_intros]: "kept (fill_zero_half lo hi)"
  by (auto simp: fill_zero_half_def intro!: yields_intros kept_update_register)

lemma kept_group_count [yields_intros]: "kept (is_group_count t a)"
  by (auto simp: is_group_count_def intro!: yields_intros split: register_type.split)

lemma kept_shifts [yields_intros]:
  "kept (shift_left_32 fl d a b suffix)" "kept (shift_left_64 fl d a b suffix)" "kept (v_lshlrev fl d a b suffix)"
  "kept (shift_right_default fl d a b suffix)" "kept (v_lshrrev fl d a b suffix)"
  "kept (shift_right_signed_32 fl d a b suffix)" "kept (shift_right_signed_64 fl d a b suffix)"
  "kept (v_ashrrev fl d a b suffix)"
  by (auto simp: shift_left_32_def shift_left_64_def v_lshlrev_def shift_right_default_def v_lshrrev_def
      shift_right_signed_32_def shift_right_signed_64_def v_ashrrev_def intro!: yields_intros)

lemma kept_mad [yields_intros]:
  "kept (factor_of a)" "kept (times_factor x y z)" "kept (plus_factor r z)" "kept (v_mad d a b c suffix)"
  by (auto simp: factor_of_def times_factor_def plus_factor_def v_mad_def intro!: yields_intros)

lemma kept_pointer_plus [yields_intros]:
  "kept (argument_plus r start b suffix)" "kept (local_plus r b suffix)" "kept (global_plus r start b suffix)"
  "kept (pointer_plus a b start0 start1 suffix)"
  by (auto simp: argument_plus_def local_plus_def global_plus_def pointer_plus_def intro!: yields_intros)

lemma kept_sum_kind [yields_intros]:
  "(\<And>x. keeps Q (f x)) \<Longrightarrow> (\<And>x. keeps Q (g x)) \<Longrightarrow> (\<And>x. keeps Q (h x)) \<Longrightarrow> keeps Q m \<Longrightarrow>
   keeps Q (case z of Global_Id x \<Rightarrow> f x | Group_Item_Id x \<Rightarrow> g x | Group_Offset x \<Rightarrow> h x | Other_Sum \<Rightarrow> m)"
  by (cases z) auto

lemma kept_sums [yields_intros]:
  "kept (sum_of_registers a b suffix v data)" "kept (sum_with_value a b start0 start1 suffix)" "kept (v_add_int d a b suffix)"
  "kept (v_add_double d a b suffix)" "kept (v_add d a b suffix)"
  by (auto simp: sum_of_registers_def sum_with_value_def v_add_int_def v_add_double_def v_add_def intro!: yields_intros)

lemma kept_addc [yields_intros]:
  "kept (add_zero r n)" "kept (addc_registers a b suffix v l m)" "kept (addc_kind a b)" "kept (v_addc d a b suffix)"
  by (auto simp: add_zero_def addc_registers_def addc_kind_def v_addc_def intro!: yields_intros)

lemma kept_select [yields_intros]:
  "kept (select_variable d a b suffix)" "kept (select_operand d a b suffix k)" "kept (v_cndmask d a b c suffix)"
  by (auto simp: select_variable_def select_operand_def v_cndmask_def intro!: yields_intros)

lemma kept_cvt [yields_intros]: "kept (v_cvt d a suffix)"
  by (auto simp: v_cvt_def intro!: yields_intros kept_update_dec split: expr_node.split)

lemma kept_fields [yields_intros]: "kept (bfe_name a sel)" "kept (s_bfe d a b suffix)" "kept (v_perm d a b c suffix)"
  by (auto simp: bfe_name_def s_bfe_def v_perm_def intro!: yields_intros)

lemma kept_arguments [yields_intros]:
  "kept (get_bfe_offset name offset a base)" "kept (process_arg offset a base)" "kept (store_in_mem d t name' o')"
  by (auto simp: get_bfe_offset_def process_arg_def store_in_mem_def put_content_def intro!: yields_intros kept_update_dec)

lemma kept_load_params [yields_intros]: "kept (load_params base prev offset names)"
  by (induction base prev offset names rule: load_params.induct) (auto intro!: yields_intros)

lemma kept_loads [yields_intros]:
  "kept (upload_kernel_param offset d base)" "kept (upload_global_data_pointer d src)" "kept (s_load d b o' suffix)"
  by (auto simp: upload_kernel_param_def upload_global_data_pointer_def s_load_def intro!: yields_intros)

lemma kept_memory [yields_intros]:
  "kept (global_memory d values)" "kept (check_lds_vars offset suffix)" "kept (local_memory d b)"
  by (auto simp: global_memory_def register_global_data_def check_lds_vars_def local_memory_def
      intro!: yields_intros kept_update_dec)

lemma kept_load_elements [yields_intros]: "kept (load_elements src suffix variable k n rd ds)"
  by (induction src suffix variable k n rd ds rule: load_elements.induct) (auto intro!: yields_intros)

lemma kept_cast: "kept (update_register reg (register_cast_to data))"
  by (rule kept_update_register) (simp add: register_cast_to_def)

lemma kept_flat [yields_intros]:
  "kept (flat_load d a b suffix)" "kept (store_sized src to suffix)" "kept (store_scalar src to suffix)"
  "kept (store_register to src suffix)" "kept (flat_store a b suffix)"
  by (auto simp: flat_load_def store_sized_def store_scalar_def store_register_def flat_store_def
      intro!: yields_intros kept_update_dec kept_cast)

lemma kept_local_data [yields_intros]:
  "kept (address_text fl a suffix)" "kept (ds_read fl d a suffix)" "kept (ds_write fl a b suffix)" "kept (ds_add fl a b suffix)"
  by (auto simp: address_text_def ds_read_def ds_write_def ds_add_def intro!: yields_intros)

section \<open>Every instruction\<close>

lemmas operand_lists = one_operand_def two_operands_def three_operands_def four_operands_def on2_def on3_def on4_def
  on_mad_def on_global_def reset_mask_def nothing_def

lemma kept_table: "(c, f) \<in> set (backend_table fl) \<Longrightarrow> kept_bck (f ops suffix)"
  by (auto simp: backend_table_def operand_lists intro!: yields_intros kept_update_register)

theorem kept_backend: "kept_bck (backend_fill fl b)"
  by (auto simp: backend_fill_def intro!: yields_intros dest: map_of_SomeD split: option.split intro: kept_table)

end

section \<open>Versions grow\<close>

text \<open>Seen from a state and its counters: a register has its version of before, or one that was not counted yet, and
  the counters have not gone back.\<close>

definition versions_grow :: "kernel_state \<times> decompiler \<Rightarrow> kernel_state \<times> decompiler \<Rightarrow> bool" where
  "versions_grow old new \<longleftrightarrow>
     (case (old, new) of ((st0, dd0), (st, dd)) \<Rightarrow>
        versions_ok st dd \<and> (\<forall>reg. version_counter dd0 reg \<le> version_counter dd reg)
        \<and> (\<forall>reg r. map_of st reg = Some r \<longrightarrow>
             (\<exists>r0. map_of st0 reg = Some r0 \<and> version r = version r0) \<or> version_counter dd0 reg < rg_version_num r)
        \<and> dom (map_of st0) \<subseteq> dom (map_of st))"

lemma version_counter_written:
  "dd_versions dd' = AList.update reg n (dd_versions dd) \<Longrightarrow>
   version_counter dd' other = (if other = reg then n else version_counter dd other)"
  by (simp add: version_counter_def update_conv')

lemma versions_grow_table:
  "versions_grow old (st, dd) \<Longrightarrow> dd_versions dd' = dd_versions dd \<Longrightarrow> versions_grow old (st, dd')"
  by (cases old) (simp add: versions_grow_def versions_ok_def version_counter_def)

lemma versions_grow_edited:
  assumes "versions_grow old (st, dd)" "map_of st reg = Some r" "rg_version_name r' = rg_version_name r"
    "rg_version_num r' = rg_version_num r" "map_of st' = (map_of st)(reg \<mapsto> r')"
  shows "versions_grow old (st', dd)"
proof -
  obtain st0 dd0 where old: "old = (st0, dd0)" by (cases old)
  have v: "version r' = version r" using assms(3,4) by (simp add: version_def)
  have "versions_ok st' dd"
    using assms(1,2,3,4) unfolding versions_ok_def assms(5) by (auto simp: versions_grow_def old versions_ok_def)
  then show ?thesis using assms(1,2,4) by (auto simp: versions_grow_def old assms(5) v)
qed

lemma versions_grow_written:
  assumes g: "versions_grow old (st, dd)" and r: "rg_version_name r = reg" "rg_version_num r = version_counter dd reg + 1"
    "map_of st' = (map_of st)(reg \<mapsto> r)"
    and dd': "dd_versions dd' = AList.update reg (version_counter dd reg + 1) (dd_versions dd)"
  shows "versions_grow old (st', dd')"
proof -
  note c = version_counter_written [OF dd']
  obtain st0 dd0 where old: "old = (st0, dd0)" by (cases old)
  have "versions_ok st' dd'" using g r by (force simp: versions_grow_def old versions_ok_def c)
  moreover have "version_counter dd0 other \<le> version_counter dd' other" for other
    using g by (auto simp: versions_grow_def old c intro: le_less_trans order_trans)
  moreover have "version_counter dd0 reg < rg_version_num r" using g r(2) by (auto simp: versions_grow_def old intro: le_less_trans)
  ultimately show ?thesis using g r(3) by (auto simp: versions_grow_def old)
qed

interpretation growth: register_frame "versions_grow old" for old
  by unfold_locales (erule (1) versions_grow_table, erule (4) versions_grow_edited, erule (4) versions_grow_written)


definition move_one :: backend where
  "move_one = be ''SMov'' ''s_mov_b32'' [Reg32 ''v0'', Val ''1''] ''b32''"


end
