(* ===== verification/Print_Node.thy ===== *)
theory Print_Node
  imports Reg_Step
begin

text \<open>
  The text of a node (\<open>src/src/node_processor.py\<close> and \<open>to_print\<close> of the classes under \<open>src/src/instructions\<close>).  The
  printer does not remember which class filled a node: it finds class and suffix again from the opcode.
  Printing may add nodes to the expression manager, so it runs on the registers of the node and the decompiler.
\<close>

section \<open>From the opcode to the class\<close>

definition instruction_table :: "(string \<times> string) list" where
  "instruction_table =
     [(''s_alloc'', ''MemoryAllocation''), (''s_store'', ''StoreInMem''), (''s_init'', ''InitReg''),
      (''s_init_global'', ''GlobalMemory''), (''s_ipred'', ''InitPred''), (''ds_add'', ''DsAdd''), (''ds_read'', ''DsRead''),
      (''ds_write'', ''DsWrite''), (''s_local'', ''LocalMemory''), (''change_mask'', ''UseMask''), (''unmask'', ''Unmask''),
      (''flat_load'', ''FlatLoad''), (''flat_store'', ''FlatStore''), (''s_add'', ''SAdd''), (''s_addc'', ''SAddc''),
      (''s_and'', ''SAnd''), (''s_bfe'', ''SBfe''), (''s_branch'', ''SBranch''), (''s_br'', ''SCbranchVccnz''),
      (''s_nbr'', ''SCbranchVccz''), (''s_endpgm'', ''SEndpgm''), (''s_load'', ''SLoad''), (''s_min'', ''SMin''),
      (''s_mov'', ''SMov''), (''s_mul'', ''SMul''), (''s_not'', ''SNot''), (''s_nop'', ''SNop''), (''s_or'', ''SOr''),
      (''s_waitcnt'', ''SWaitcnt''), (''v_add'', ''VAdd''), (''v_addc'', ''VAddc''), (''v_ashrrev'', ''VAshrrev''),
      (''v_cmp_eq'', ''VCmpEq''), (''v_cmp_ne'', ''VCmpNe''), (''v_cmp_ge'', ''VCmpGe''), (''v_cmp_gt'', ''VCmpGt''),
      (''v_cmp_lg'', ''VCmpLg''), (''v_cmp_lt'', ''VCmpLt''), (''v_cndmask'', ''VCndmask''), (''v_cvt'', ''VCvt''),
      (''v_lshlrev'', ''VLshlrev''), (''v_lshrrev'', ''VLshrrev''), (''v_mac'', ''VMac''), (''v_mul_i32_i24'', ''VMulF32''),
      (''v_mul_f32'', ''VMulF32''), (''v_mul_hi'', ''VMulLo''), (''v_mul_lo'', ''VMulLo''), (''v_mov'', ''VMov''),
      (''v_perm'', ''VPerm''), (''v_readfirstlane'', ''VMov''), (''v_sub'', ''VSub''), (''v_subb'', ''VSub''),
      (''s_mul_hi'', ''VMulLo''), (''s_waitcnt_decptr'', ''SWaitcnt''), (''s_waitcnt_depctr'', ''SWaitcnt''),
      (''s_xor'', ''SXor''), (''v_add_co'', ''VAdd''), (''v_add_co_ci'', ''VAddc''), (''v_cmp_le'', ''VCmpLe''),
      (''v_mad'', ''VMad''), (''v_mul_u32_u24'', ''VMulF32''), (''v_sub_co'', ''VSub''), (''v_sub_co_ci'', ''VSub'')]"

definition suffix_parts :: "string list" where
  "suffix_parts =
     [''b8'', ''b16'', ''b32'', ''b64'', ''b128'', ''u8'', ''u16'', ''u24'', ''u32'', ''u64'', ''i4'', ''i8'', ''i16'', ''i24'', ''i32'',
      ''i64'', ''f16'', ''f32'', ''f64'', ''byte'', ''ubyte'', ''ubyte0'', ''ubyte1'', ''ubyte2'', ''ubyte3'', ''sbyte'', ''ushort'',
      ''sshort'', ''short'', ''dword'', ''dwordx2'', ''dwordx4'', ''dwordx8'', ''dwordx16'']"

fun split_suffix :: "string \<Rightarrow> string \<Rightarrow> string list \<Rightarrow> string \<times> string" where
  "split_suffix base suffix [] = (base, suffix)"
| "split_suffix base suffix (p # ps) =
     (if p \<in> set suffix_parts then split_suffix base (if suffix \<noteq> [] then suffix @ ''_'' @ p else p) ps
      else split_suffix (base @ ''_'' @ p) suffix ps)"

definition decode_instruction :: "string \<Rightarrow> (string \<times> string) option res" where
  "decode_instruction opcode =
     (case split_char CHR ''_'' opcode of
        prefix # base # parts \<Rightarrow>
          let (base', suffix) = split_suffix base [] parts
          in (case map_of instruction_table (prefix @ ''_'' @ base') of
                Some c \<Rightarrow> Inr (Some (c, suffix))
              | None \<Rightarrow> Inr (map_option (\<lambda>c. (c, suffix)) (map_of instruction_table opcode)))
      | _ \<Rightarrow> Inl IndexError)"

definition printer_of :: "string \<Rightarrow> (string \<times> string) option res" where
  "printer_of opcode =
     (case opcode of
        [] \<Rightarrow> Inl IndexError
      | c # _ \<Rightarrow>
          if c = CHR ''.'' then Inr (Some (''Label'', []))
          else if opcode = ''s_endpgm'' then Inr (Some (''SEndpgm'', []))
          else decode_instruction opcode)"

section \<open>Text\<close>

text \<open>\<open>s.find(p)\<close>, and the slice \<open>s[a:b]\<close> with bounds that may be negative.\<close>

definition text_find :: "string \<Rightarrow> string \<Rightarrow> int" where
  "text_find s p =
     (case find (\<lambda>k. startswith (drop k s) p) [0..<Suc (length s)] of Some k \<Rightarrow> int k | None \<Rightarrow> -1)"

definition slice_bound :: "string \<Rightarrow> int \<Rightarrow> nat" where
  "slice_bound s k = nat (if k < 0 then max 0 (int (length s) + k) else min (int (length s)) k)"

definition text_slice :: "string \<Rightarrow> int \<Rightarrow> int \<Rightarrow> string" where
  "text_slice s a b = take (slice_bound s b - slice_bound s a) (drop (slice_bound s a) s)"

definition last_but :: "nat \<Rightarrow> string \<Rightarrow> char res" where
  "last_but k s = (if k < length s then Inr (s ! (length s - 1 - k)) else Inl IndexError)"

section \<open>Reading the node and its first parent\<close>

text \<open>The first parent: its instruction and its registers.\<close>

type_synonym first_parent = "(string \<times> kernel_state) option"

definition parent_instruction :: "first_parent \<Rightarrow> string res" where
  "parent_instruction z = (case z of Some (i, st) \<Rightarrow> Inr i | None \<Rightarrow> Inl IndexError)"

definition in_parent :: "first_parent \<Rightarrow> 'a dec \<Rightarrow> 'a dec" where
  "in_parent z m = (\<lambda>(st, dd). case z of
     None \<Rightarrow> Inl IndexError
   | Some (i, pst) \<Rightarrow> bind_res (m (pst, dd)) (\<lambda>(x, (_, dd')). Inr (x, (st, dd'))))"

definition node_or_raise :: "py_error \<Rightarrow> expr_node option \<Rightarrow> expr_node dec" where
  "node_or_raise e n = (case n of None \<Rightarrow> raiseS e | Some x \<Rightarrow> returnS x)"

definition register_node :: "operand \<Rightarrow> expr_node option dec" where
  "register_node a = bindS (state_register a) (\<lambda>r. liftS (get_node (rg_content r)))"

definition known_node :: "operand \<Rightarrow> expr_node dec" where
  "known_node a = bindS (register_node a) (node_or_raise AttributeError)"

text \<open>\<open>expression_to_string\<close> of the manager; a missing node fails its assertion.\<close>

definition node_text :: "(rat \<Rightarrow> string) \<Rightarrow> expr_node option \<Rightarrow> string dec" where
  "node_text fl n = bindS (node_or_raise AssertionError n) (\<lambda>e. liftS (expression_to_string fl e empty_hint))"

definition operand_text :: "(rat \<Rightarrow> string) \<Rightarrow> operand \<Rightarrow> string \<Rightarrow> string dec" where
  "operand_text fl a suffix = bindS (get_expression_node a suffix) (node_text fl)"

section \<open>Branches, masks and barriers\<close>

definition print_vccz :: "(rat \<Rightarrow> string) \<Rightarrow> operand list \<Rightarrow> string \<Rightarrow> string dec" where
  "print_vccz fl ops suffix = bindS (liftS (py_nth ops 0)) (\<lambda>a. operand_text fl a suffix)"

definition print_vccnz :: "(rat \<Rightarrow> string) \<Rightarrow> operand list \<Rightarrow> string \<Rightarrow> string dec" where
  "print_vccnz fl ops suffix =
     bindS (liftS (py_nth ops 0)) (\<lambda>a.
     bindS (get_expression_node a suffix) (\<lambda>n.
     bindS (node_or_raise AttributeError n) (\<lambda>e.
     bindS (on_manager (add_logical_not_node e)) (\<lambda>e'. node_text fl (Some e')))))"

definition print_use_mask :: "(rat \<Rightarrow> string) \<Rightarrow> string \<Rightarrow> string dec" where
  "print_use_mask fl suffix = operand_text fl (PredReg ''$MASK'') suffix"

definition print_waitcnt :: "first_parent \<Rightarrow> string dec" where
  "print_waitcnt z =
     bindS (liftS (parent_instruction z)) (\<lambda>i.
       returnS (if contains i ''ds'' then ''barrier(CLK_LOCAL_MEM_FENCE)'' else []))"

section \<open>Selection\<close>

definition try_get_reg :: "operand \<Rightarrow> register dec" where
  "try_get_reg a =
     (if \<not> is_base_reg a then raiseS AssertionError
      else bindS (lookup_register (op_name a)) (\<lambda>z. case z of
          Some r \<Rightarrow> returnS r
        | None \<Rightarrow>
            if \<not> is_range a then raiseS NotImplementedError
            else bindS (liftS (exact_pair a)) (\<lambda>(lo, hi).
                 bindS (lookup_register (op_name lo)) (\<lambda>x. bindS (lookup_register (op_name hi)) (\<lambda>y.
                   case (x, y) of
                     (Some r, _) \<Rightarrow> returnS r
                   | (None, Some r) \<Rightarrow> returnS r
                   | _ \<Rightarrow> raiseS NotImplementedError)))))"

text \<open>\<open>node.value == 0\<close>; the value of a ternary is a node, which has no equality with a number.\<close>

definition is_zero_node :: "expr_node \<Rightarrow> bool res" where
  "is_zero_node n =
     (case n of
        NConst i (CInt k) \<Rightarrow> Inr (k = 0)
      | NConst i (CFloat q) \<Rightarrow> Inr (q = 0)
      | NTernary i c l r \<Rightarrow> Inl AttributeError
      | _ \<Rightarrow> Inr False)"

text \<open>The text of \<open>node.value\<close> when it is a member of an enumeration, or a node, is the parameter \<open>vt\<close>.\<close>

definition value_text :: "(rat \<Rightarrow> string) \<Rightarrow> (expr_node \<Rightarrow> string) \<Rightarrow> expr_node \<Rightarrow> string" where
  "value_text fl vt n = (case n of NConst i v \<Rightarrow> show_const fl v | NVar i s \<Rightarrow> s | _ \<Rightarrow> vt n)"

text \<open>The operands are read in the parent, where they have not been overwritten yet.\<close>

definition selected_text :: "(rat \<Rightarrow> string) \<Rightarrow> first_parent \<Rightarrow> operand \<Rightarrow> string \<Rightarrow> string dec" where
  "selected_text fl z a suffix =
     (if is_reg32 a
      then bindS (in_parent z (bindS (state_register a) val_of)) (\<lambda>_.
           bindS (in_parent z (get_expression_node a suffix)) (node_text fl))
      else returnS (op_name a))"

definition print_cndmask ::
    "(rat \<Rightarrow> string) \<Rightarrow> (expr_node \<Rightarrow> string) \<Rightarrow> first_parent \<Rightarrow> operand list \<Rightarrow> string \<Rightarrow> string dec" where
  "print_cndmask fl vt z ops suffix =
     (case ops of
        d # a # b # c # _ \<Rightarrow>
          if suffix \<noteq> ''b32'' then returnS []
          else bindS (try_get_reg d) (\<lambda>rd. bindS (try_get_reg c) (\<lambda>rc.
               bindS (type_of_reg rd) (\<lambda>td.
                 if td = Some DIVISION_PT9 \<or> td = Some DIVISION_PASS then returnS []
                 else bindS (type_of_reg rc) (\<lambda>tc.
                   if tc = Some DIVISION_PASS then returnS []
                   else bindS (bindS (liftS (get_node (rg_content rd))) (node_or_raise AttributeError)) (\<lambda>nd.
                        bindS (liftS (is_zero_node nd)) (\<lambda>zero.
                          if zero then returnS []
                          else bindS (liftS (get_node (rg_content rc))) (\<lambda>nc.
                               bindS (node_text fl nc) (\<lambda>s.
                               bindS (selected_text fl z b suffix) (\<lambda>y. bindS (selected_text fl z a suffix) (\<lambda>x.
                               let cond = (case nc of Some (NTernary i p q r) \<Rightarrow> ''('' @ s @ '')'' | _ \<Rightarrow> s)
                               in returnS (value_text fl vt nd @ '' = '' @ cond @ '' ? '' @ x @ '' : '' @ y)))))))))))
      | _ \<Rightarrow> raiseS IndexError)"

section \<open>Local data\<close>

definition print_ds_write :: "(rat \<Rightarrow> string) \<Rightarrow> operand list \<Rightarrow> string \<Rightarrow> string dec" where
  "print_ds_write fl ops suffix =
     (if suffix \<noteq> ''b32'' then returnS []
      else bindS (liftS (py_nth ops 0)) (\<lambda>addr.
           bindS (operand_text fl addr suffix) (\<lambda>name.
           bindS (operand_text fl (Val name) suffix) (\<lambda>v. returnS (name @ '' = '' @ v)))))"

definition print_ds_add :: "(rat \<Rightarrow> string) \<Rightarrow> operand list \<Rightarrow> string \<Rightarrow> string dec" where
  "print_ds_add fl ops suffix =
     bindS (liftS (py_nth ops 0)) (\<lambda>addr. bindS (liftS (py_nth ops 1)) (\<lambda>data.
     bindS (operand_text fl addr suffix) (\<lambda>name.
       if suffix \<noteq> ''u32'' then returnS []
       else bindS (operand_text fl data suffix) (\<lambda>v. returnS (name @ '' += '' @ v)))))"

section \<open>Vector loads\<close>

definition rat_trunc :: "rat \<Rightarrow> int" where
  "rat_trunc q = (if q < 0 then - \<lfloor>- q\<rfloor> else \<lfloor>q\<rfloor>)"

text \<open>The element where a loaded part of a vector starts: the text of the index ends with an offset and its divisor.\<close>

definition first_component :: "string \<Rightarrow> int \<Rightarrow> int \<Rightarrow> int res" where
  "first_component output vector_bytes element_bytes =
     (let element = text_slice output (text_find output ''['' + 1) (text_find output '']'');
          offset = text_slice element (text_find element '' + '' + 4) (-1)
      in case map int_base10 (split_char CHR ''/'' offset) of
           [Some n, Some d] \<Rightarrow>
             if d = 0 \<or> element_bytes = 0 then Inl ZeroDivisionError
             else Inr (rat_trunc (of_int n / of_int d * of_int vector_bytes / of_int element_bytes))
         | _ \<Rightarrow> Inl ValueError)"

definition get_output_for_different_vector_types :: "string \<Rightarrow> type_hint \<Rightarrow> type_hint \<Rightarrow> string res" where
  "get_output_for_different_vector_types output vh oh =
     (let plus = text_find output '' + ''
      in bind_res (if plus \<noteq> -1
                   then bind_res (hint_set_components vh 1) (\<lambda>eh.
                        bind_res (first_component output (hint_size_bytes oh) (hint_size_bytes eh)) (\<lambda>k.
                          Inr (k, text_slice output 0 plus @ '']'')))
                   else Inr (0, output)) (\<lambda>(k, s).
         let n = (if hint_is_vector vh then hint_components vh else 1)
         in Inr (s @ ''___s'' @ concat (map (\<lambda>j. show_int (k + int j)) [0..<nat n]))))"

definition drop_component :: "string \<Rightarrow> string res" where
  "drop_component s =
     bind_res (last_but 1 s) (\<lambda>c.
       if c \<noteq> CHR ''s'' then Inr s
       else bind_res (last_but 0 s) (\<lambda>d. Inr (if is_decimal d then text_slice s 0 (-5) else s)))"

definition load_text :: "(rat \<Rightarrow> string) \<Rightarrow> expr_node \<Rightarrow> operand \<Rightarrow> string dec" where
  "load_text fl n start =
     bindS (node_text fl (Some n)) (\<lambda>s.
       if CHR ''['' \<in> set s then returnS s
       else bindS (known_node start) (\<lambda>e.
            returnS (if opencl_type (node_hint e) \<noteq> opencl_type (node_hint n)
                     then ''*('' @ hint_str (node_hint n) @ '')('' @ s @ '')'' else ''*'' @ s)))"

definition print_flat_load :: "(rat \<Rightarrow> string) \<Rightarrow> first_parent \<Rightarrow> operand list \<Rightarrow> string \<Rightarrow> string dec" where
  "print_flat_load fl z ops suffix =
     bindS (liftS (py_nth ops 0)) (\<lambda>d. bindS (liftS (py_nth ops 1)) (\<lambda>addr.
     bindS (first_register d) (\<lambda>start. bindS (first_register addr) (\<lambda>src.
       if suffix \<notin> set flat_load_suffixes then returnS []
       else bindS (if op_name start = op_name src then in_parent z (register_node src) else register_node src) (\<lambda>n0.
            bindS (node_or_raise AssertionError n0) (\<lambda>n.
            bindS (load_text fl n start) (\<lambda>output.
            bindS (known_node start) (\<lambda>v.
            bindS (node_text fl (Some v)) (\<lambda>name.
              if hint_is_vector (node_hint n)
              then bindS (liftS (drop_component name)) (\<lambda>name'.
                   bindS (if opencl_type (node_hint n) \<noteq> opencl_type (node_hint v)
                          then liftS (get_output_for_different_vector_types output (node_hint v) (node_hint n))
                          else returnS output) (\<lambda>output'.
                     returnS (name' @ '' = '' @ output')))
              else returnS (name @ '' = '' @ output)))))))))) "

section \<open>Vector stores\<close>

definition print_store_suffixes :: "string list" where
  "print_store_suffixes = [''dword'', ''dwordx2'', ''dwordx4'', ''byte'', ''short'', ''b32'', ''b64'', ''b8'']"

definition named_type :: "string option nest \<Rightarrow> opencl_types res" where
  "named_type d =
     (case d of Leaf (Some s) \<Rightarrow> bind_res (hint_from_string s) (\<lambda>h. Inr (opencl_type h)) | _ \<Rightarrow> Inl AttributeError)"

text \<open>An address with an index stops being an address, in the node of the register itself.\<close>

definition clear_address :: "operand \<Rightarrow> expr_node \<Rightarrow> expr_node dec" where
  "clear_address a n =
     (let n' = set_hint ((node_hint n)\<lparr>is_address := False\<rparr>) n
      in bindS (in_state a) (\<lambda>known.
         bindS (if known
                then bindS (state_register a) (\<lambda>r. bindS (liftS (set_node n' (rg_content r))) (\<lambda>c.
                       update_register (op_name a) (\<lambda>r. r\<lparr>rg_content := c\<rparr>)))
                else returnS ()) (\<lambda>_. returnS n')))"

definition store_target :: "(rat \<Rightarrow> string) \<Rightarrow> operand \<Rightarrow> string \<Rightarrow> (string \<times> expr_node) dec" where
  "store_target fl to suffix =
     bindS (bindS (get_expression_node to suffix) (node_or_raise AssertionError)) (\<lambda>n.
     bindS (node_text fl (Some n)) (\<lambda>s.
       if CHR ''['' \<in> set s
       then bindS (clear_address to n) (\<lambda>n'. bindS (node_text fl (Some n')) (\<lambda>s'. returnS (s', n')))
       else bindS (get_dec (\<lambda>dd. map_of (dd_names_of_vars dd) s)) (\<lambda>z.
            bindS (case z of None \<Rightarrow> returnS False
                   | Some d \<Rightarrow> bindS (liftS (named_type d)) (\<lambda>t. returnS (t \<noteq> opencl_type (node_hint n)))) (\<lambda>cast.
              returnS (if cast then ''*('' @ hint_str (node_hint n) @ '')('' @ s @ '')'' else ''*'' @ s, n)))))"

text \<open>A register that is not in the state of the node is not in the initial state either, from which all states come.\<close>

definition store_source :: "(rat \<Rightarrow> string) \<Rightarrow> operand \<Rightarrow> operand list \<Rightarrow> operand \<Rightarrow> operand \<Rightarrow> expr_node \<Rightarrow> string dec" where
  "store_source fl to parts from from1 n =
     bindS (get_from_state from) (\<lambda>z. case z of
         None \<Rightarrow> raiseS KeyError
       | Some r \<Rightarrow>
           bindS (val_of r) (\<lambda>v.
           bindS (if v = PStr ''0'' then bindS (get_from_state from1) (\<lambda>y. returnS (y \<noteq> None)) else returnS False) (\<lambda>high.
             if high then bindS (register_node from1) (node_text fl)
             else if hint_is_vector (node_hint n)
             then bindS (mapS known_node parts) (\<lambda>ns.
                  bindS (on_manager (add_permute_node_from_list ns)) (\<lambda>p.
                  bindS (known_node to) (\<lambda>t.
                  bindS (node_or_raise AssertionError p) (\<lambda>e.
                    liftS (expression_to_string fl e (mk_hint (opencl_type (node_hint t))))))))
             else bindS (register_node from) (node_text fl))))"

definition print_flat_store :: "(rat \<Rightarrow> string) \<Rightarrow> operand list \<Rightarrow> string \<Rightarrow> string dec" where
  "print_flat_store fl ops suffix =
     bindS (liftS (py_nth ops 0)) (\<lambda>addr. bindS (liftS (py_nth ops 1)) (\<lambda>data.
     bindS (liftS (exact_pair addr)) (\<lambda>(to, _).
     bindS (first_register data) (\<lambda>from.
       if suffix \<notin> set print_store_suffixes then returnS []
       else bindS (store_target fl to suffix) (\<lambda>(s, n).
            bindS (store_source fl to (get_reg_rang data) from (last (get_reg_rang data)) n) (\<lambda>v.
              returnS (s @ '' = '' @ v)))))))"

section \<open>Every class\<close>

text \<open>The other classes print nothing.\<close>

definition print_backend ::
    "(rat \<Rightarrow> string) \<Rightarrow> (expr_node \<Rightarrow> string) \<Rightarrow> first_parent \<Rightarrow> string \<Rightarrow> operand list \<Rightarrow> string \<Rightarrow> string dec" where
  "print_backend fl vt z c ops suffix =
     (if c = ''SCbranchVccz'' then print_vccz fl ops suffix
      else if c = ''SCbranchVccnz'' then print_vccnz fl ops suffix
      else if c = ''UseMask'' then print_use_mask fl suffix
      else if c = ''SWaitcnt'' then print_waitcnt z
      else if c = ''VCndmask'' then print_cndmask fl vt z ops suffix
      else if c = ''DsWrite'' then print_ds_write fl ops suffix
      else if c = ''DsAdd'' then print_ds_add fl ops suffix
      else if c = ''FlatLoad'' then print_flat_load fl z ops suffix
      else if c = ''FlatStore'' then print_flat_store fl ops suffix
      else returnS [])"

text \<open>\<open>to_opencl\<close>; an opcode without a class gives no text.\<close>

definition to_opencl ::
    "(rat \<Rightarrow> string) \<Rightarrow> (expr_node \<Rightarrow> string) \<Rightarrow> first_parent \<Rightarrow> string \<Rightarrow> operand list \<Rightarrow> string option dec" where
  "to_opencl fl vt z opcode ops =
     bindS (liftS (printer_of opcode)) (\<lambda>p. case p of
         None \<Rightarrow> returnS None
       | Some (c, suffix) \<Rightarrow> bindS (print_backend fl vt z c ops suffix) (\<lambda>s. returnS (Some s)))"

section \<open>The printer finds the class that filled the node\<close>

text \<open>What the lowerings emit besides labels: class, opcode and suffix.\<close>

definition emitted :: "(string \<times> string \<times> string) list" where
  "emitted =
     [(''VAdd'', ''v_add_f64'', ''f64''), (''VAdd'', ''v_add_u32'', ''u64''), (''VAdd'', ''v_add_u32'', ''u32''),
      (''VAddc'', ''v_addc_u32'', ''u32''), (''VSub'', ''v_sub_f32'', ''f32''), (''VSub'', ''v_sub_u32'', ''u32''),
      (''VSub'', ''v_subb_u32'', ''u32''), (''VMulF32'', ''v_mul_i32_i24'', ''i32_i24''), (''VMulF32'', ''v_mul_f32'', ''f32''),
      (''VMac'', ''v_mac_f32'', ''f32''), (''VMulLo'', ''v_mul_lo_i32'', ''u32''), (''VMulLo'', ''v_mul_lo_u32'', ''u32''),
      (''VMulHi'', ''v_mul_hi_u32'', ''u32''), (''VMulHi'', ''v_mul_hi_i32'', ''i32''), (''VMulHi'', ''s_mul_hi_u32'', ''u32''),
      (''VMad'', ''v_mad_i64_i32'', ''i64_i32''), (''VMad'', ''v_mad_u64_u32'', ''u64_u32''), (''SMov'', ''s_mov_b32'', ''b32''),
      (''SMov'', ''s_mov_b64'', ''b64''), (''SAnd'', ''s_and_b32'', ''b32''), (''SAnd'', ''s_and_b64'', ''b64''),
      (''SOr'', ''s_or_b32'', ''b32''), (''SOr'', ''s_or_b64'', ''b64''), (''SXor'', ''s_xor_b32'', ''b32''),
      (''SXor'', ''s_xor_b64'', ''b64''), (''SNot'', ''s_not_b64'', ''b64''), (''VCmpEq'', ''v_cmp_eq_i32'', ''i32''),
      (''VCmpNe'', ''v_cmp_ne_i32'', ''i32''), (''VCmpLt'', ''v_cmp_lt_i32'', ''i32''), (''VCmpLe'', ''v_cmp_le_i32'', ''i32''),
      (''VCmpGt'', ''v_cmp_gt_i32'', ''i32''), (''VCmpGe'', ''v_cmp_ge_i32'', ''i32''), (''VCndmask'', ''v_cndmask_b32'', ''b32''),
      (''SMin'', ''s_min_i32'', ''i32''), (''VLshlrev'', ''v_lshlrev_b64'', ''b64''), (''VLshlrev'', ''v_lshlrev_b32'', ''b32''),
      (''VLshrrev'', ''v_lshrrev_b64'', ''b64''), (''VLshrrev'', ''v_lshrrev_b32'', ''b32''), (''VAshrrev'', ''v_ashrrev_i64'', ''i64''),
      (''VAshrrev'', ''v_ashrrev_i32'', ''i32''), (''VCvt'', ''v_cvt_i32_f32'', ''i32_f32''), (''VCvt'', ''v_cvt_i32_f64'', ''i32_f64''),
      (''VCvt'', ''v_cvt_f32_i32'', ''f32_i32''), (''VCvt'', ''v_cvt_f64_u32'', ''f64_u32''), (''VCvt'', ''v_cvt_f64_i32'', ''f64_i32''),
      (''SBfe'', ''s_bfe_i32'', ''i32''), (''SBfe'', ''s_bfe_u32'', ''u32''), (''VPerm'', ''v_perm_b32'', ''b32''),
      (''SWaitcnt'', ''s_waitcnt'', []), (''SEndpgm'', ''s_endpgm'', []), (''SNop'', ''s_nop'', []), (''SCbranchVccnz'', ''s_br'', []),
      (''SCbranchVccz'', ''s_nbr'', []), (''SBranch'', ''s_branch'', []), (''UseMask'', ''change_mask'', []),
      (''Unmask'', ''unmask'', []), (''InitReg'', ''s_init'', []), (''GlobalMemory'', ''s_init_global'', []),
      (''InitPred'', ''s_ipred'', []), (''LocalMemory'', ''s_local'', []), (''DsWrite'', ''ds_write_b32'', ''b32''),
      (''DsRead'', ''ds_read_b32'', ''b32''), (''DsAdd'', ''ds_add_u32'', ''u32''), (''MemoryAllocation'', ''s_alloc'', []),
      (''StoreInMem'', ''s_store'', [])]
     @ concat (map (\<lambda>s. [(''SLoad'', ''s_load_'' @ s, s), (''FlatLoad'', ''flat_load_'' @ s, s), (''FlatStore'', ''flat_store_'' @ s, s)])
                 [''byte'', ''short'', ''dword'', ''dwordx2'', ''dwordx4''])"

definition as_emitted :: "backend \<Rightarrow> bool" where
  "as_emitted b \<longleftrightarrow> (b_class b, b_opcode b, b_suffix b) \<in> set emitted"

lemma as_emitted_be [simp]: "as_emitted (be c x ops s) \<longleftrightarrow> (c, x, s) \<in> set emitted"
  by (simp add: as_emitted_def be_def)

lemma memory_suffixes: "memory_suffix_for_bits n = Inr s \<Longrightarrow> s \<in> {''byte'', ''short'', ''dword'', ''dwordx2'', ''dwordx4''}"
  by (auto simp: memory_suffix_for_bits_def split: option.splits if_splits)

lemma emitted_memory:
  "memory_suffix_for_bits n = Inr s \<Longrightarrow>
   (''SLoad'', ''s_load_'' @ s, s) \<in> set emitted \<and> (''FlatLoad'', ''flat_load_'' @ s, s) \<in> set emitted
   \<and> (''FlatStore'', ''flat_store_'' @ s, s) \<in> set emitted"
  using memory_suffixes [of n s] unfolding emitted_def by auto

lemma emit_load_emitted: "emit_load flat n ops = Inr b \<Longrightarrow> as_emitted b"
  using emitted_memory [of n] by (auto simp: emit_load_def load_backend_def load_name_def)

lemma emit_store_emitted: "emit_store t ops = Inr b \<Longrightarrow> as_emitted b"
  using emitted_memory by (auto simp: emit_store_def)

lemma unpack_from_emitted: "b \<in> set (unpack_from w p k ds) \<Longrightarrow> as_emitted b"
  by (induction ds arbitrary: k) (auto simp: unpack_one_def emitted_def)

lemma copy_parts_emitted: "b \<in> set (copy_parts ds ss) \<Longrightarrow> as_emitted b"
  by (induction ds ss rule: copy_parts.induct) (auto simp: emitted_def)

lemma lower_typed_load_emitted: "lower_typed_load flat i = Inr bs \<Longrightarrow> b \<in> set bs \<Longrightarrow> as_emitted b"
  by (cases "i_access i"; cases "i_tmps i") (auto simp: lower_typed_load_def Let_def dest: emit_load_emitted unpack_from_emitted)

lemma lower_store_emitted: "lower_store i = Inr bs \<Longrightarrow> b \<in> set bs \<Longrightarrow> as_emitted b"
  by (auto simp: lower_store_def dest: emit_store_emitted)

lemma lower_typed_store_emitted: "lower_typed_store i = Inr bs \<Longrightarrow> b \<in> set bs \<Longrightarrow> as_emitted b"
  by (auto simp: lower_typed_store_def Let_def emitted_def split: option.splits list.splits if_splits
      dest: emit_store_emitted copy_parts_emitted lower_store_emitted)

definition emits :: "(instr \<Rightarrow> backend list res) \<Rightarrow> bool" where
  "emits low \<longleftrightarrow> (\<forall>i bs b. low i = Inr bs \<longrightarrow> b \<in> set bs \<longrightarrow> b_class b = ''Label'' \<or> as_emitted b)"

lemma emits_by_width: "(c, x64, s64) \<in> set emitted \<Longrightarrow> (c, x32, s32) \<in> set emitted \<Longrightarrow> emits (by_width c x64 s64 x32 s32)"
  by (auto simp: emits_def by_width_def)

lemma emits_one: "(\<And>i. (c, x i, s i) \<in> set emitted) \<Longrightarrow> emits (one c x s)"
  by (auto simp: emits_def one_def)

lemmas class_models = add_class_def addc_class_def sub_class_def subrev_class_def mul24_class_def mulf_class_def
  macf32_class_def mullo_class_def mulhi_class_def mulwide_class_def mad_class_def mov_class_def logical_class_def
  not_class_def compare_class_def cselect_class_def irmin_class_def lshlrev_class_def lshrrev_class_def ashrrev_class_def
  cvt32to64_class_def cvt16to32_class_def cvt64to32_class_def cvt_float_class_def cvt_f32_i32_class_def cvt_f64_i32_class_def
  cvt_i32_f32_class_def cvt_u32_f64_class_def cvt_i32_f64_class_def bfe_class_def permute32_class_def barrier_class_def
  endpgm_class_def ignore_class_def label_class_def branch_class_def branchnot_class_def jump_class_def changemask_class_def
  unmask_class_def initreg_class_def initglobal_class_def initpredicate_class_def localmemory_class_def localstore_class_def
  localload_class_def localadd_class_def memalloc_class_def memstore_class_def load_class_def store_class_def with_type_def
  typed_load_class_def typed_store_class_def typed_class_def plain_class_def control_def

lemma emits_functions:
  "emits lower_sub" "emits lower_mul_lo" "emits lower_mad" "emits lower_cvt32to64" "emits lower_localadd"
  "emits (lower_load flat)" "emits (lower_typed_load flat)" "emits lower_store" "emits lower_typed_store"
  by (auto simp: emits_def lower_sub_def emitted_def split: if_splits)
    (auto simp: emits_def lower_mul_lo_def emitted_def split: if_splits,
     auto simp: emits_def lower_mad_def mad_opcode_def mad_suffix_def emitted_def split: list.splits if_splits,
     auto simp: emits_def lower_cvt32to64_def emitted_def split: if_splits,
     auto simp: emits_def lower_localadd_def emitted_def split: list.splits,
     auto simp: emits_def lower_load_def dest: emit_load_emitted lower_typed_load_emitted lower_store_emitted
       lower_typed_store_emitted)

lemma emits_class: "emits (cm_lower (class_of c))"
proof (cases c)
  case (C_Compare k)
  show ?thesis
    unfolding C_Compare by (cases k) (auto simp: class_of_def class_models emitted_def intro!: emits_one)
next
  case C_Cvt64To32
  then show ?thesis by (auto simp: class_of_def class_models emits_def emitted_def)
qed (simp_all add: class_of_def class_models emits_functions,
     ((rule emits_one, simp add: emitted_def) | (rule emits_by_width; simp add: emitted_def)
      | simp add: emits_def emitted_def mad_opcode_def mad_suffix_def be_def as_emitted_def)+)

text \<open>What the printer finds for an opcode: the class that filled the node, where \<open>VMulHi\<close> is a subclass that changes
  nothing, and the suffix, which differs from the filled one only for sums and products of integers.\<close>

definition found_again :: "string \<times> string \<times> string \<Rightarrow> bool" where
  "found_again = (\<lambda>(c, x, s).
     if c = ''Unmask'' then printer_of x = Inl IndexError
     else case printer_of x of
            Inr (Some (c', s')) \<Rightarrow> (c' = c \<or> c = ''VMulHi'' \<and> c' = ''VMulLo'') \<and> (s' = s \<or> c \<in> {''VAdd'', ''VMulLo''})
          | _ \<Rightarrow> False)"

lemma emitted_found_again: "list_all found_again emitted"
  by code_simp

lemma to_opencl_found:
  assumes "found_again (c, x, s)" "c \<noteq> ''Unmask''"
  shows "to_opencl fl vt z x ops = bindS (print_backend fl vt z c ops s) (\<lambda>t. returnS (Some t))"
proof -
  from assms obtain c' s' where p: "printer_of x = Inr (Some (c', s'))" "c' = c \<or> c = ''VMulHi'' \<and> c' = ''VMulLo''"
    "s' = s \<or> c \<in> {''VAdd'', ''VMulLo''}"
    unfolding found_again_def by (cases "printer_of x"; cases "projr (printer_of x)") (simp_all del: list.inject split: prod.splits)
  from p(2) consider "c' = c" "s' = s" | "c' = c" "c \<in> {''VAdd'', ''VMulLo''}" | "c = ''VMulHi''" "c' = ''VMulLo''"
    using p(3) by blast
  then have "print_backend fl vt z c' ops s' = print_backend fl vt z c ops s"
    by cases (auto simp: print_backend_def)
  then show ?thesis by (simp add: to_opencl_def p(1) liftS_def bindS_def)
qed


definition sample_branch :: instr where
  "sample_branch = \<lparr>i_class = C_Branch, i_opcode = ''bra'', i_type = T_NONE, i_ops = [PredReg ''p'', Val ''L''], i_pred = None,
     i_neg = False, i_access = None, i_tmps = []\<rparr>"


end
