(* ===== verification/Region_Graph.thy ===== *)
theory Region_Graph
  imports CFG_Nodes
begin

text \<open>
  From the graph of nodes to the graph of regions, and its reduction
  (\<open>src/src/regions/region.py\<close>, \<open>src/src/region_type.py\<close>, \<open>src/src/regions/functions_for_regions.py\<close>).  A first
  pass groups straight runs of nodes into linear regions and makes a region of its own for every branch and join.
  A second pass walks over the regions and replaces the shapes of \<open>if\<close> and \<open>if\<close>-\<open>else\<close> by one region each.

  Regions are shared objects that are rewired in place: they live in a list, a reference is a position, and a position
  that does not exist raises.
\<close>

section \<open>Regions\<close>

datatype region_type =
    BASIC | LINEAR | IF_STATEMENT | IF_ELSE_STATEMENT | LOOP | START_LOOP | BACK_EDGE | BREAK_REGION
  | CONTINUE_REGION | RETURN_REGION | UNROLLED_LOOP

text \<open>A region starts and ends at a node of the program or at an inner region.\<close>

datatype region_point = At_Node nat | At_Region nat

record region =
  rn_type :: region_type
  rn_start :: region_point
  rn_end :: region_point
  rn_parents :: "nat list"
  rn_children :: "nat list"

record regions =
  rs_heap :: "region list"
  rs_starts :: "nat \<Rightarrow> nat option"
  rs_ends :: "nat \<Rightarrow> nat option"

type_synonym 'a on_regions = "(regions, 'a) action"

definition no_regions :: regions where
  "no_regions = \<lparr>rs_heap = [], rs_starts = Map.empty, rs_ends = Map.empty\<rparr>"

definition fresh_region :: "region_type \<Rightarrow> region_point \<Rightarrow> region" where
  "fresh_region t p = \<lparr>rn_type = t, rn_start = p, rn_end = p, rn_parents = [], rn_children = []\<rparr>"

definition new_region :: "region_type \<Rightarrow> region_point \<Rightarrow> nat on_regions" where
  "new_region t p = (\<lambda>s. Inr (length (rs_heap s), s\<lparr>rs_heap := rs_heap s @ [fresh_region t p]\<rparr>))"

definition region_of :: "nat \<Rightarrow> region on_regions" where
  "region_of r = (\<lambda>s. if r < length (rs_heap s) then Inr (rs_heap s ! r, s) else Inl AttributeError)"

definition edit_region :: "nat \<Rightarrow> (region \<Rightarrow> region res) \<Rightarrow> unit on_regions" where
  "edit_region r f =
     bindS (region_of r) (\<lambda>x. bindS (liftS (f x)) (\<lambda>y. modifyS (\<lambda>s. s\<lparr>rs_heap := (rs_heap s)[r := y]\<rparr>)))"

definition edit_children :: "nat \<Rightarrow> (nat list \<Rightarrow> nat list res) \<Rightarrow> unit on_regions" where
  "edit_children r f = edit_region r (\<lambda>x. bind_res (f (rn_children x)) (\<lambda>cs. Inr (x\<lparr>rn_children := cs\<rparr>)))"

definition edit_parents :: "nat \<Rightarrow> (nat list \<Rightarrow> nat list res) \<Rightarrow> unit on_regions" where
  "edit_parents r f = edit_region r (\<lambda>x. bind_res (f (rn_parents x)) (\<lambda>ps. Inr (x\<lparr>rn_parents := ps\<rparr>)))"

definition region_add_child :: "nat \<Rightarrow> nat \<Rightarrow> unit on_regions" where
  "region_add_child r c = edit_children r (\<lambda>cs. Inr (cs @ [c]))"

definition region_add_parent :: "nat \<Rightarrow> nat \<Rightarrow> unit on_regions" where
  "region_add_parent r p = edit_parents r (\<lambda>ps. Inr (ps @ [p]))"

definition set_region_end :: "nat \<Rightarrow> region_point \<Rightarrow> unit on_regions" where
  "set_region_end r p = edit_region r (\<lambda>x. Inr (x\<lparr>rn_end := p\<rparr>))"

text \<open>\<open>list.index\<close> followed by an assignment, and \<open>list.remove\<close>.\<close>

definition index_of :: "nat \<Rightarrow> nat list \<Rightarrow> nat res" where
  "index_of x xs = (if x \<in> set xs then Inr (length (takeWhile (\<lambda>y. y \<noteq> x) xs)) else Inl ValueError)"

definition replace_item :: "nat \<Rightarrow> nat \<Rightarrow> nat list \<Rightarrow> nat list res" where
  "replace_item old new xs = bind_res (index_of old xs) (\<lambda>i. Inr (xs[i := new]))"

definition remove_item :: "nat \<Rightarrow> nat list \<Rightarrow> nat list res" where
  "remove_item x xs = (if x \<in> set xs then Inr (remove1 x xs) else Inl ValueError)"

section \<open>Grouping nodes into regions\<close>

definition set_starts_regions :: "nat \<Rightarrow> nat \<Rightarrow> unit on_regions" where
  "set_starts_regions n r = modifyS (\<lambda>s. s\<lparr>rs_starts := (rs_starts s)(n \<mapsto> r)\<rparr>)"

definition set_ends_regions :: "nat \<Rightarrow> nat \<Rightarrow> unit on_regions" where
  "set_ends_regions n r = modifyS (\<lambda>s. s\<lparr>rs_ends := (rs_ends s)(n \<mapsto> r)\<rparr>)"

definition region_at_key :: "nat option \<Rightarrow> nat on_regions" where
  "region_at_key z = (case z of None \<Rightarrow> raiseS KeyError | Some r \<Rightarrow> returnS r)"

definition starts_region :: "nat \<Rightarrow> nat on_regions" where
  "starts_region n = bindS (getS (\<lambda>s. rs_starts s n)) region_at_key"

definition ends_region :: "nat \<Rightarrow> nat on_regions" where
  "ends_region n = bindS (getS (\<lambda>s. rs_ends s n)) region_at_key"

text \<open>A region of one node.\<close>

definition node_region :: "region_type \<Rightarrow> nat \<Rightarrow> nat on_regions" where
  "node_region t n =
     bindS (new_region t (At_Node n)) (\<lambda>r.
     bindS (set_starts_regions n r) (\<lambda>_. bindS (set_ends_regions n r) (\<lambda>_. returnS r)))"

definition connect_regions :: "nat \<Rightarrow> nat \<Rightarrow> unit on_regions" where
  "connect_regions p c = bindS (region_add_child p c) (\<lambda>_. region_add_parent c p)"

text \<open>The region that ends at a parent; when the parent ends no region, the one that ends at the first child of the
  first parent.\<close>

definition parent_region :: "('s, 'g) world \<Rightarrow> nat \<Rightarrow> nat \<Rightarrow> nat on_regions" where
  "parent_region w n p =
     bindS (getS (\<lambda>s. rs_ends s p)) (\<lambda>z. case z of
         Some r \<Rightarrow> returnS r
       | None \<Rightarrow>
           bindS (liftS (py_nth (nd_parents (node_at w n)) 0)) (\<lambda>p0.
           bindS (liftS (py_nth (nd_children (node_at w p0)) 0)) ends_region))"

fun link_parents :: "('s, 'g) world \<Rightarrow> nat list \<Rightarrow> nat \<Rightarrow> nat \<Rightarrow> nat list \<Rightarrow> unit on_regions" where
  "link_parents w visited n r [] = returnS ()"
| "link_parents w visited n r (p # ps) =
     bindS (if p \<in> set visited then bindS (parent_region w n p) (\<lambda>q. connect_regions q r) else returnS ())
       (\<lambda>_. link_parents w visited n r ps)"

text \<open>A node with one parent and at most one child extends the linear region that ends at its parent.\<close>

definition extend_linear :: "nat \<Rightarrow> nat \<Rightarrow> nat on_regions" where
  "extend_linear n p =
     bindS (ends_region p) (\<lambda>q. bindS (region_of q) (\<lambda>x.
       if rn_type x = LINEAR
       then bindS (modifyS (\<lambda>s. s\<lparr>rs_ends := (rs_ends s)(p := None)\<rparr>)) (\<lambda>_.
            bindS (set_region_end q (At_Node n)) (\<lambda>_. bindS (set_ends_regions n q) (\<lambda>_. returnS q)))
       else bindS (node_region LINEAR n) (\<lambda>r.
            bindS (ends_region p) (\<lambda>q. bindS (connect_regions q r) (\<lambda>_. returnS r)))))"

text \<open>The region of a node that is visited for the first time.  A join whose parents have not all been visited is put
  off (\<open>None\<close>); the last of them queues it again.\<close>

definition visit_node :: "('s, 'g) world \<Rightarrow> nat list \<Rightarrow> nat \<Rightarrow> nat option on_regions" where
  "visit_node w visited n =
     (let ps = nd_parents (node_at w n); cs = nd_children (node_at w n) in
      if n \<in> set (w_loops w) \<or> n \<in> set (w_back_edges w)
      then bindS (node_region (if n \<in> set (w_loops w) then START_LOOP else BACK_EDGE) n) (\<lambda>r.
           bindS (link_parents w visited n r ps) (\<lambda>_. returnS (Some r)))
      else if length ps = 1 \<and> length cs \<le> 1
      then bindS (extend_linear n (hd ps)) (\<lambda>r. returnS (Some r))
      else bindS (node_region BASIC n) (\<lambda>r.
           if \<exists>p \<in> set ps. p \<notin> set visited then returnS None
           else bindS (link_parents w visited n r ps) (\<lambda>_. returnS (Some r))))"

text \<open>Edges to children that already have a region; the others are queued.\<close>

fun link_children :: "nat list \<Rightarrow> nat \<Rightarrow> nat list \<Rightarrow> unit on_regions" where
  "link_children visited r [] = returnS ()"
| "link_children visited r (c # cs) =
     bindS (if c \<in> set visited then bindS (starts_region c) (\<lambda>q. connect_regions r q) else returnS ())
       (\<lambda>_. link_children visited r cs)"

definition new_children :: "('s, 'g) world \<Rightarrow> nat list \<Rightarrow> nat \<Rightarrow> nat list" where
  "new_children w visited n = filter (\<lambda>c. c \<notin> set visited) (nd_children (node_at w n))"

text \<open>The loop over the queue returns the visited nodes.  Nodes that do not exist, which no graph of the program
  refers to, raise.\<close>

lemma card_unvisited:
  fixes n m :: nat
  shows "n < m \<Longrightarrow> n \<notin> set visited \<Longrightarrow> card ({..<m} - set (visited @ [n])) < card ({..<m} - set visited)"
  by (rule psubset_card_mono) auto

function region_queue :: "('s, 'g) world \<Rightarrow> nat list \<Rightarrow> nat list \<Rightarrow> nat list on_regions" where
  "region_queue w visited [] = returnS visited"
| "region_queue w visited (n # q) =
     (if length (w_nodes w) \<le> n then raiseS AttributeError
      else if n \<in> set visited then region_queue w visited q
      else bindS (visit_node w (visited @ [n]) n) (\<lambda>z. case z of
          None \<Rightarrow> region_queue w visited q
        | Some r \<Rightarrow>
            bindS (link_children (visited @ [n]) r (nd_children (node_at w n))) (\<lambda>_.
              region_queue w (visited @ [n]) (q @ new_children w (visited @ [n]) n))))"
  by pat_completeness auto
termination
  by (relation "measures [\<lambda>(w, visited, q). card ({..<length (w_nodes w)} - set visited), \<lambda>(w, visited, q). length q]")
    (auto simp: card_unvisited simp del: set_append)

declare region_queue.simps [simp del]

text \<open>\<open>make_region_graph_from_cfg\<close>; the first node is the empty one in front of the program.\<close>

definition make_region_graph_from_cfg :: "('s, 'g) world \<Rightarrow> nat list on_regions" where
  "make_region_graph_from_cfg w =
     bindS (node_region LINEAR 0) (\<lambda>_.
     bindS (liftS (py_nth (nd_children (node_at w 0)) 0)) (\<lambda>c. region_queue w [0] [c]))"

section \<open>Rewiring\<close>

definition add_parent_and_child :: "nat \<Rightarrow> nat option \<Rightarrow> nat \<Rightarrow> nat \<Rightarrow> nat \<Rightarrow> unit on_regions" where
  "add_parent_and_child prior next r prev_child prev_parent =
     bindS (edit_children prior (replace_item prev_child r)) (\<lambda>_.
     bindS (region_add_parent r prior) (\<lambda>_. case next of
         None \<Rightarrow> returnS ()
       | Some n \<Rightarrow> bindS (edit_parents n (replace_item prev_parent r)) (\<lambda>_. region_add_child r n)))"

definition child_begins_with :: "regions \<Rightarrow> nat \<Rightarrow> nat \<Rightarrow> bool" where
  "child_begins_with s a b = (case rn_children (rs_heap s ! a) of [] \<Rightarrow> False | c # _ \<Rightarrow> c = b)"

definition check_if :: "nat \<Rightarrow> regions \<Rightarrow> bool" where
  "check_if r s =
     (rn_type (rs_heap s ! r) = BASIC \<and>
      (case rn_children (rs_heap s ! r) of [a, b] \<Rightarrow> child_begins_with s a b \<or> child_begins_with s b a | _ \<Rightarrow> False))"

definition check_if_else :: "nat \<Rightarrow> regions \<Rightarrow> bool" where
  "check_if_else r s =
     (rn_type (rs_heap s ! r) = BASIC \<and>
      (case rn_children (rs_heap s ! r) of
         [a, b] \<Rightarrow> (case rn_children (rs_heap s ! b) of [] \<Rightarrow> False | c # _ \<Rightarrow> child_begins_with s a c)
       | _ \<Rightarrow> False))"

text \<open>An empty region in front of a join that also has other parents.\<close>

definition create_new_region :: "nat \<Rightarrow> nat \<Rightarrow> nat \<Rightarrow> nat on_regions" where
  "create_new_region p q n =
     bindS (edit_children p (remove_item n)) (\<lambda>_. bindS (edit_children q (remove_item n)) (\<lambda>_.
     bindS (region_of n) (\<lambda>x. bindS (liftS (index_of p (rn_parents x))) (\<lambda>k.
     bindS (new_region LINEAR (rn_start x)) (\<lambda>m.
     bindS (edit_parents n (\<lambda>ps. Inr (ps[k := m]))) (\<lambda>_. bindS (edit_parents n (remove_item q)) (\<lambda>_.
     bindS (region_add_child p m) (\<lambda>_. bindS (region_add_child q m) (\<lambda>_.
     bindS (region_add_parent m p) (\<lambda>_. bindS (region_add_parent m q) (\<lambda>_.
     bindS (region_add_child m n) (\<lambda>_. returnS m))))))))))))"

text \<open>\<open>join_regions\<close>: the new region takes the place of \<open>old\<close> below the first parent of \<open>prior\<close>, or is the root.\<close>

definition hang_below :: "nat \<Rightarrow> nat \<Rightarrow> nat \<Rightarrow> nat on_regions" where
  "hang_below prior old new =
     bindS (region_of prior) (\<lambda>b. case rn_parents b of
         [] \<Rightarrow> returnS new
       | p # _ \<Rightarrow> bindS (edit_children p (replace_item old new)) (\<lambda>_.
                  bindS (region_add_parent new p) (\<lambda>_. returnS prior)))"

definition take_over_child :: "nat \<Rightarrow> nat \<Rightarrow> unit on_regions" where
  "take_over_child n all =
     bindS (region_of n) (\<lambda>x. case rn_children x of
         [] \<Rightarrow> returnS ()
       | c # _ \<Rightarrow> bindS (edit_parents c (replace_item n all)) (\<lambda>_. region_add_child all c))"

definition span_region :: "nat \<Rightarrow> nat \<Rightarrow> nat on_regions" where
  "span_region a b =
     bindS (new_region LINEAR (At_Region a)) (\<lambda>m. bindS (set_region_end m (At_Region b)) (\<lambda>_. returnS m))"

definition join_after_linear :: "nat \<Rightarrow> nat \<Rightarrow> nat option \<Rightarrow> nat on_regions" where
  "join_after_linear prior cur next =
     bindS (span_region prior cur) (\<lambda>m. bindS (hang_below prior prior m) (\<lambda>result. case next of
         None \<Rightarrow> returnS result
       | Some n \<Rightarrow>
           bindS (edit_parents n (replace_item cur m)) (\<lambda>_. bindS (region_add_child m n) (\<lambda>_.
           bindS (region_of n) (\<lambda>x. bindS (region_of cur) (\<lambda>c.
             if rn_type x \<noteq> BASIC \<and> length (rn_parents c) = 1
             then bindS (span_region prior n) (\<lambda>all. bindS (hang_below prior m all) (\<lambda>result.
                  bindS (take_over_child n all) (\<lambda>_. returnS result)))
             else returnS result))))))"

text \<open>The test \<open>next_region != RegionType.BASIC\<close> compares a region with a type and always holds.\<close>

definition join_after_basic :: "nat \<Rightarrow> nat \<Rightarrow> nat option \<Rightarrow> nat on_regions" where
  "join_after_basic prior cur next =
     (case next of
        None \<Rightarrow> returnS prior
      | Some n \<Rightarrow>
          bindS (region_of cur) (\<lambda>c.
            if length (rn_parents c) = 1
            then bindS (span_region cur n) (\<lambda>all.
                 bindS (edit_children prior (replace_item cur all)) (\<lambda>_. bindS (region_add_parent all prior) (\<lambda>_.
                 bindS (take_over_child n all) (\<lambda>_. returnS prior))))
            else returnS prior))"

definition join_regions :: "nat \<Rightarrow> nat \<Rightarrow> nat option \<Rightarrow> nat on_regions" where
  "join_regions prior cur next =
     bindS (region_of prior) (\<lambda>b.
       if rn_type b \<noteq> BASIC then join_after_linear prior cur next else join_after_basic prior cur next)"

section \<open>Reduction of \<open>if\<close> and \<open>if\<close>-\<open>else\<close>\<close>

definition first_parent_region :: "nat \<Rightarrow> nat on_regions" where
  "first_parent_region r = bindS (region_of r) (\<lambda>x. liftS (py_nth (rn_parents x) 0))"

definition first_child_region :: "nat \<Rightarrow> nat option on_regions" where
  "first_child_region r =
     bindS (region_of r) (\<lambda>x. returnS (case rn_children x of [] \<Rightarrow> None | c # _ \<Rightarrow> Some c))"

definition two_children :: "nat \<Rightarrow> (nat \<times> nat) on_regions" where
  "two_children r =
     bindS (region_of r) (\<lambda>x. case rn_children x of a # b # _ \<Rightarrow> returnS (a, b) | _ \<Rightarrow> raiseS IndexError)"

definition number_of_parents :: "nat \<Rightarrow> nat on_regions" where
  "number_of_parents r = bindS (region_of r) (\<lambda>x. returnS (length (rn_parents x)))"

text \<open>The finished region \<open>r\<close>, which replaces \<open>cur\<close> and ends at \<open>e\<close>, is joined with its neighbours.\<close>

definition install_region :: "nat \<Rightarrow> nat \<Rightarrow> nat \<Rightarrow> nat \<Rightarrow> nat on_regions" where
  "install_region prior r cur e =
     bindS (set_region_end r (At_Region e)) (\<lambda>_. bindS (first_child_region e) (\<lambda>next.
     bindS (add_parent_and_child prior next r cur e) (\<lambda>_. join_regions prior r next)))"

definition process_if_statement_region :: "nat \<Rightarrow> nat on_regions" where
  "process_if_statement_region cur =
     bindS (new_region IF_STATEMENT (At_Region cur)) (\<lambda>r. bindS (two_children cur) (\<lambda>(a, b).
     bindS (number_of_parents a) (\<lambda>pa. bindS (number_of_parents b) (\<lambda>pb.
     let child0 = (if pa = 1 then a else b); child1 = (if 1 < pb then b else a) in
     bindS (first_parent_region cur) (\<lambda>prior. bindS (number_of_parents child1) (\<lambda>p1.
     bindS (if 2 < p1 then create_new_region cur child0 child1 else returnS child1) (\<lambda>e.
       install_region prior r cur e)))))))"

definition process_if_else_statement_region :: "nat \<Rightarrow> nat on_regions" where
  "process_if_else_statement_region cur =
     bindS (new_region IF_ELSE_STATEMENT (At_Region cur)) (\<lambda>r. bindS (two_children cur) (\<lambda>(a, b).
     bindS (bindS (first_child_region a) (\<lambda>z. case z of None \<Rightarrow> raiseS IndexError | Some j \<Rightarrow> returnS j)) (\<lambda>j.
     bindS (number_of_parents j) (\<lambda>pj.
     bindS (if 2 < pj then create_new_region a b j else returnS j) (\<lambda>e.
     bindS (first_parent_region cur) (\<lambda>prior. install_region prior r cur e))))))"

text \<open>What is done with a region after its children.\<close>

definition finish_region :: "nat \<Rightarrow> nat \<Rightarrow> nat on_regions" where
  "finish_region r result =
     bindS (region_of r) (\<lambda>x.
       if rn_type x = LOOP
       then bindS (first_parent_region r) (\<lambda>p. bindS (liftS (py_nth (rn_children x) 0)) (\<lambda>c. join_regions p r (Some c)))
       else bindS (getS (check_if r)) (\<lambda>one. bindS (getS (check_if_else r)) (\<lambda>two.
              if rn_type x \<noteq> LINEAR \<and> one then process_if_statement_region r
              else if rn_type x \<noteq> LINEAR \<and> two then process_if_else_statement_region r
              else returnS result)))"

text \<open>
  \<open>process_region_graph_dfs\<close> at position \<open>k\<close> of the children of \<open>r\<close>: they are read again at every step, because the
  walk below one child may rewire them.  Fuel bounds the depth of the recursion; \<open>None\<close> means that it did not suffice.
\<close>

fun region_dfs :: "nat \<Rightarrow> nat \<Rightarrow> nat \<Rightarrow> nat \<Rightarrow> nat list \<Rightarrow> regions \<Rightarrow> (nat \<times> nat list \<times> regions) res option" where
  "region_dfs 0 r k result visited s = None"
| "region_dfs (Suc f) r k result visited s =
     (case drop k (rn_children (rs_heap s ! r)) of
        [] \<Rightarrow> Some (bind_res (finish_region r result s) (\<lambda>(x, s'). Inr (x, visited, s')))
      | c # _ \<Rightarrow>
          if length (rs_heap s) \<le> c then Some (Inl AttributeError)
          else if c \<in> set visited then region_dfs f r (Suc k) result visited s
          else (case region_dfs f c 0 c (c # visited) s of
                  None \<Rightarrow> None
                | Some (Inl e) \<Rightarrow> Some (Inl e)
                | Some (Inr (x, visited', s')) \<Rightarrow> region_dfs f r (Suc k) x visited' s'))"

definition process_region_graph_dfs :: "nat \<Rightarrow> nat \<Rightarrow> regions \<Rightarrow> (nat \<times> nat list \<times> regions) res option" where
  "process_region_graph_dfs f r s = region_dfs f r 0 r [r] s"

end
