(* ===== verification/Region_Cover.thy ===== *)
theory Region_Cover
  imports Region_Graph Mask_CFG
begin

text \<open>
  Which nodes the region graph contains.  The nodes of a graph built by the decompiler are numbered in the order of
  their creation, and apart from jumps back to a label every edge goes from an earlier node to a later one
  (\<open>down_edges\<close>).  From this follows that grouping nodes into regions raises nothing and forgets no node, provided
  every node also has a parent before it.
\<close>

section \<open>Edges lead down\<close>

definition down_edges :: "('s, 'g) world \<Rightarrow> bool" where
  "down_edges w \<longleftrightarrow>
     (\<forall>n < length (w_nodes w). n \<notin> set (w_loops w) \<longrightarrow> (\<forall>p \<in> set (nd_parents (node_at w n)). p < n))"

lemma down_edgesI:
  "(\<And>n p. n < length (w_nodes w) \<Longrightarrow> n \<notin> set (w_loops w) \<Longrightarrow> p \<in> set (nd_parents (node_at w n)) \<Longrightarrow> p < n) \<Longrightarrow> down_edges w"
  by (auto simp: down_edges_def)

lemma down_edgesD:
  "down_edges w \<Longrightarrow> n < length (w_nodes w) \<Longrightarrow> n \<notin> set (w_loops w) \<Longrightarrow> p \<in> set (nd_parents (node_at w n)) \<Longrightarrow> p < n"
  by (auto simp: down_edges_def)

lemma down_edges_same:
  assumes "down_edges w" "length (w_nodes w') = length (w_nodes w)" "w_loops w' = w_loops w"
    and "\<And>k. k < length (w_nodes w) \<Longrightarrow> nd_parents (node_at w' k) = nd_parents (node_at w k)"
  shows "down_edges w'"
  using assms by (auto intro!: down_edgesI dest: down_edgesD)

lemma down_edges_state: "down_edges w \<Longrightarrow> keeps_edges f \<Longrightarrow> down_edges (upd_node n f w)"
  by (rule down_edges_same [of w]) (simp_all add: node_at_def nth_upd_node keeps_edges_def)

lemma down_edges_fields [simp]:
  "down_edges (w\<lparr>w_exec_registers := er\<rparr>) = down_edges w" "down_edges (w\<lparr>w_rest := g\<rparr>) = down_edges w"
  "down_edges (w\<lparr>w_to_node := t\<rparr>) = down_edges w" "down_edges (w\<lparr>w_from_node := f\<rparr>) = down_edges w"
  "down_edges (w\<lparr>w_back_edges := b\<rparr>) = down_edges w"
  by (simp_all add: down_edges_def)

lemma down_edges_loops: "down_edges w \<Longrightarrow> set (w_loops w) \<subseteq> set l \<Longrightarrow> down_edges (w\<lparr>w_loops := l\<rparr>)"
  by (auto simp: down_edges_def)

lemma loops_link [simp]: "w_loops (link p c w) = w_loops w" "w_back_edges (link p c w) = w_back_edges w"
  by (simp_all add: link_def add_child_def add_parent_def)

lemma down_edges_link:
  assumes "down_edges w" "p < length (w_nodes w)" "c < length (w_nodes w)" "p < c \<or> c \<in> set (w_loops w)"
  shows "down_edges (link p c w)"
  using assms nth_link(2) [OF assms(2,3)]
  by (intro down_edgesI) (auto simp: node_at_def dest!: down_edgesD [OF assms(1), unfolded node_at_def] split: if_splits)

lemma down_edges_attach:
  "down_edges w \<Longrightarrow> n < length (w_nodes w) \<Longrightarrow> set ps \<subseteq> {..<n} \<Longrightarrow>
     down_edges (attach n ps w) \<and> w_loops (attach n ps w) = w_loops w"
proof (induction ps arbitrary: w)
  case (Cons p ps)
  from Cons.IH [of "link p n w"] Cons.prems down_edges_link [of w p n] show ?case by (simp add: attach_def)
qed (simp add: attach_def)

lemma down_edges_join_all:
  "down_edges w \<Longrightarrow> n < length (w_nodes w) \<Longrightarrow> set ps \<subseteq> {..<n} \<Longrightarrow> down_edges (foldl (\<lambda>w p. join_waiting n p w) w ps)"
proof (induction ps arbitrary: w)
  case (Cons p ps)
  have "down_edges (join_waiting n p w)" "length (w_nodes (join_waiting n p w)) = length (w_nodes w)"
    using Cons.prems by (auto simp: join_waiting_def Let_def keeps_edges_def intro!: down_edges_state down_edges_link)
  with Cons show ?case by simp
qed simp

lemma down_edges_label:
  assumes "down_edges w" "n < length (w_nodes w)" "\<And>l ps. w_from_node w l = Some ps \<Longrightarrow> set ps \<subseteq> {..<n}"
  shows "down_edges (fill_label n w)"
proof (cases "w_from_node w (nd_instruction (node_at w n))")
  case (Some ps)
  from assms(1,2) assms(3) [OF Some] Some show ?thesis
    by (simp add: fill_label_def Let_def down_edges_join_all)
qed (use assms in \<open>simp add: fill_label_def Let_def\<close>)

lemma down_edges_branch:
  assumes "down_edges w" "world_ok w" "n < length (w_nodes w)"
  shows "down_edges (fill_branch n w)"
proof (cases "w_to_node w (op_name (last (nd_operands (node_at w n))))")
  case (Some m)
  then have m: "m < length (w_nodes w)" by (rule labels_okD(1) [OF world_okD(3) [OF assms(2)]])
  have "down_edges (link n m (w\<lparr>w_loops := w_loops w @ [m]\<rparr>))"
    using assms m by (auto intro!: down_edges_link down_edges_loops)
  moreover have "(link n m w)\<lparr>w_loops := w_loops w @ [m], w_back_edges := b\<rparr>
      = (link n m (w\<lparr>w_loops := w_loops w @ [m]\<rparr>))\<lparr>w_back_edges := b\<rparr>" for b
    by (simp add: link_def add_child_def add_parent_def upd_node_def)
  ultimately show ?thesis using Some by (simp add: fill_branch_def Let_def)
qed (use assms in \<open>simp add: fill_branch_def Let_def\<close>)

lemma emit_backend_down:
  assumes down: "down_edges w" and ok: "world_ok w" and ps: "set ps \<subseteq> {..<length (w_nodes w)}"
    and r: "emit_backend reg_step b st ps w = Inr (n, w')"
  shows "down_edges w'"
proof -
  obtain w1 where w1: "new_node b st w = (n, w1)" and f: "fill_node reg_step b n (attach n ps w1) = Inr w'"
    using r by (auto simp: emit_backend_def split: prod.splits)
  have 1: "world_ok w1" "n = length (w_nodes w)" "length (w_nodes w1) = Suc (length (w_nodes w))"
    using new_node_ok [OF ok w1] by auto
  have d1: "down_edges w1"
    using w1 down by (auto simp: new_node_def down_edges_def node_at_def nth_append less_Suc_eq)
  have waits: "w_from_node w1 = w_from_node w" using w1 by (auto simp: new_node_def)
  let ?a = "attach n ps w1"
  have 2: "world_ok ?a" "down_edges ?a"
    using attach_ok [OF 1(1), of n ps] down_edges_attach [OF d1, of n ps] ps 1 by (auto simp: subset_iff less_Suc_eq)
  obtain s er g where s: "(if is_control_backend b
        then fill_control b n ((upd_node n (\<lambda>x. x\<lparr>nd_state := s\<rparr>) ?a)\<lparr>w_rest := g\<rparr>)
        else Inr ((upd_node n (\<lambda>x. x\<lparr>nd_state := s\<rparr>) ?a)\<lparr>w_rest := g, w_exec_registers := er\<rparr>)) = Inr w'"
    using f by (auto simp: fill_node_def Let_def)
  let ?w2 = "(upd_node n (\<lambda>x. x\<lparr>nd_state := s\<rparr>) ?a)\<lparr>w_rest := g\<rparr>"
  have w2: "world_ok ?w2" "down_edges ?w2" "n < length (w_nodes ?w2)"
    using 1 2 by (simp_all add: world_ok_state down_edges_state keeps_edges_def)
  have waiting: "set ps \<subseteq> {..<n}" if "w_from_node ?w2 l = Some ps" for l ps
    using that labels_okD(2) [OF world_okD(3) [OF ok]] waits 1 by auto
  show ?thesis
  proof (cases "is_control_backend b")
    case True
    with s have "fill_control b n ?w2 = Inr w'" by simp
    with w2 down_edges_label [OF w2(2,3) waiting] down_edges_branch [OF w2(2,1,3)] show ?thesis
      by (auto simp: fill_control_def set_exec_def keeps_edges_def intro!: down_edges_state
          split: if_splits option.splits)
  next
    case False
    with s w2 show ?thesis by auto
  qed
qed

lemma emit_backends_down:
  assumes "down_edges w" "world_ok w" "set ps \<subseteq> {..<length (w_nodes w)}" "emit_backends reg_step bs st ps w = Inr (n, w')"
  shows "down_edges w'"
  using assms
proof (induction reg_step bs st ps w rule: emit_backends.induct)
  case (2 reg_step b st ps w)
  then show ?case by (auto intro: emit_backend_down)
next
  case (3 reg_step b c bs st ps w)
  then obtain m w1 where m: "emit_backend reg_step b st ps w = Inr (m, w1)"
    and rest: "emit_backends reg_step (c # bs) (state_of w1 m) [m] w1 = Inr (n, w')" by auto
  have "down_edges w1" by (rule emit_backend_down [OF "3.prems"(1-3) m])
  moreover have "world_ok w1" "m < length (w_nodes w1)" using emit_backend_ok [OF "3.prems"(2,3) m] by auto
  ultimately show ?case using "3.IH" [OF m refl _ _ _ rest] by simp
qed simp

lemma down_edges_merge:
  assumes "down_edges w" "merge_parents merge n w = Inr w'"
  shows "down_edges w'"
proof (cases "1 < length (nd_parents (node_at w n))")
  case True
  then obtain s g where "w' = (upd_node n (\<lambda>x. x\<lparr>nd_state := s\<rparr>) w)\<lparr>w_rest := g\<rparr>"
    using assms(2) by (auto simp: merge_parents_def)
  then show ?thesis using down_edges_state [OF assms(1)] by (simp add: keeps_edges_def)
qed (use assms in \<open>simp add: merge_parents_def\<close>)

lemma cfg_step_down:
  assumes ok: "cfg_ok d" and down: "down_edges (d_world d)" and r: "cfg_step reg_step merge i d = Inr d'"
  shows "down_edges (d_world d')"
proof -
  obtain p n w where p: "plan i d = Inr p"
    and f: "to_fill_node reg_step i (state_of (d_world d) (pl_state p)) (pl_parents p) (d_world d) = Inr (n, w)"
    and m: "merge_parents merge n w = Inr (d_world d')"
    using r by (auto simp: cfg_step_def)
  have "set (pl_parents p) \<subseteq> {..<length (w_nodes (d_world d))}" using plan_is_ok [OF ok p] by (simp add: plan_ok_def)
  then have "down_edges w"
    using f emit_backends_down [OF down] ok unfolding to_fill_node_def cfg_ok_def
    by (cases "lower_instr i") (auto simp only: bind_res_simps)
  then show ?thesis by (rule down_edges_merge [OF _ m])
qed

lemma cfg_run_down:
  "cfg_ok d \<Longrightarrow> down_edges (d_world d) \<Longrightarrow> cfg_run reg_step merge is d = Inr d' \<Longrightarrow> down_edges (d_world d')"
proof (induction "is" arbitrary: d)
  case (Cons i "is")
  then obtain d1 where d1: "cfg_step reg_step merge i d = Inr d1" and rest: "cfg_run reg_step merge is d1 = Inr d'"
    by auto
  show ?case by (rule Cons.IH [OF cfg_step_ok [OF Cons.prems(1) d1] cfg_step_down [OF Cons.prems(1,2) d1] rest])
qed simp

lemma cfg_edges_down: "build_cfg reg_step merge k s g = Inr d \<Longrightarrow> down_edges (d_world d)"
  by (rule cfg_run_down [OF start_ok]) (auto simp: build_cfg_def start_decompilation_def down_edges_def node_at_def)


section \<open>What stays true while nodes are grouped\<close>

text \<open>A straight run of nodes, which is entered only at its first node and left only at its last one.\<close>

inductive straight :: "('s, 'g) world \<Rightarrow> nat \<Rightarrow> nat \<Rightarrow> bool" for w a where
  straight_here: "straight w a a"
| straight_next: "straight w a b \<Longrightarrow> nd_children (node_at w b) = [c] \<Longrightarrow> nd_parents (node_at w c) = [b] \<Longrightarrow> straight w a c"

definition covers :: "('s, 'g) world \<Rightarrow> regions \<Rightarrow> nat \<Rightarrow> nat \<Rightarrow> bool" where
  "covers w s n r \<longleftrightarrow> r < length (rs_heap s)
     \<and> (\<exists>a b. rn_start (rs_heap s ! r) = At_Node a \<and> rn_end (rs_heap s ! r) = At_Node b \<and> straight w a n \<and> straight w n b)"

definition ends_well :: "('s, 'g) world \<Rightarrow> regions \<Rightarrow> nat \<Rightarrow> nat \<Rightarrow> bool" where
  "ends_well w s p r \<longleftrightarrow> r < length (rs_heap s) \<and> rn_end (rs_heap s ! r) = At_Node p
     \<and> (\<exists>a. rn_start (rs_heap s ! r) = At_Node a \<and> straight w a p)
     \<and> (rn_type (rs_heap s ! r) = LINEAR \<longrightarrow> length (nd_children (node_at w p)) \<le> 1)"

definition jump_node :: "('s, 'g) world \<Rightarrow> nat \<Rightarrow> bool" where
  "jump_node w n \<longleftrightarrow> n \<in> set (w_loops w) \<or> n \<in> set (w_back_edges w)"

definition end_known :: "('s, 'g) world \<Rightarrow> nat list \<Rightarrow> regions \<Rightarrow> nat \<Rightarrow> bool" where
  "end_known w V s p \<longleftrightarrow> (\<exists>r. rs_ends s p = Some r \<and> ends_well w s p r)
     \<or> rs_ends s p = None \<and> (\<exists>c \<in> set V. nd_children (node_at w p) = [c] \<and> nd_parents (node_at w c) = [p])"

definition start_known :: "regions \<Rightarrow> nat \<Rightarrow> bool" where
  "start_known s p \<longleftrightarrow> (\<exists>r. rs_starts s p = Some r \<and> r < length (rs_heap s))"

definition grouped :: "('s, 'g) world \<Rightarrow> nat list \<Rightarrow> regions \<Rightarrow> bool" where
  "grouped w V s \<longleftrightarrow> (\<forall>n \<in> set V. n < length (w_nodes w) \<and> end_known w V s n \<and> (\<exists>r. covers w s n r)
     \<and> (jump_node w n \<longrightarrow> start_known s n) \<and> (jump_node w n \<or> set (nd_parents (node_at w n)) \<subseteq> set V))"

lemma groupedD:
  assumes "grouped w V s" "n \<in> set V"
  shows "n < length (w_nodes w)" "end_known w V s n" "\<exists>r. covers w s n r" "jump_node w n \<Longrightarrow> start_known s n"
    "jump_node w n \<or> set (nd_parents (node_at w n)) \<subseteq> set V"
  using assms by (auto simp: grouped_def)

text \<open>Edges between regions do not matter for this.\<close>

definition shape :: "regions \<Rightarrow> (region_type \<times> region_point \<times> region_point) list \<times> (nat \<Rightarrow> nat option) \<times> (nat \<Rightarrow> nat option)" where
  "shape s = (map (\<lambda>x. (rn_type x, rn_start x, rn_end x)) (rs_heap s), rs_starts s, rs_ends s)"

lemma shapeD:
  assumes "shape s' = shape s"
  shows "length (rs_heap s') = length (rs_heap s)" "rs_starts s' = rs_starts s" "rs_ends s' = rs_ends s"
    "r < length (rs_heap s) \<Longrightarrow> rn_type (rs_heap s' ! r) = rn_type (rs_heap s ! r)"
    "r < length (rs_heap s) \<Longrightarrow> rn_start (rs_heap s' ! r) = rn_start (rs_heap s ! r)"
    "r < length (rs_heap s) \<Longrightarrow> rn_end (rs_heap s' ! r) = rn_end (rs_heap s ! r)"
proof -
  from assms have m: "map (\<lambda>x. (rn_type x, rn_start x, rn_end x)) (rs_heap s') =
      map (\<lambda>x. (rn_type x, rn_start x, rn_end x)) (rs_heap s)"
    and "rs_starts s' = rs_starts s" "rs_ends s' = rs_ends s"
    by (simp_all add: shape_def)
  then show l: "length (rs_heap s') = length (rs_heap s)" "rs_starts s' = rs_starts s" "rs_ends s' = rs_ends s"
    using map_eq_imp_length_eq by auto
  have "(rn_type (rs_heap s' ! r), rn_start (rs_heap s' ! r), rn_end (rs_heap s' ! r)) =
      (rn_type (rs_heap s ! r), rn_start (rs_heap s ! r), rn_end (rs_heap s ! r))" if "r < length (rs_heap s)"
    using arg_cong [OF m, of "\<lambda>xs. xs ! r"] that l by simp
  then show "r < length (rs_heap s) \<Longrightarrow> rn_type (rs_heap s' ! r) = rn_type (rs_heap s ! r)"
    "r < length (rs_heap s) \<Longrightarrow> rn_start (rs_heap s' ! r) = rn_start (rs_heap s ! r)"
    "r < length (rs_heap s) \<Longrightarrow> rn_end (rs_heap s' ! r) = rn_end (rs_heap s ! r)"
    by simp_all
qed

lemma shape_same:
  assumes "shape s' = shape s"
  shows "covers w s' n r = covers w s n r" "ends_well w s' p r = ends_well w s p r" "start_known s' p = start_known s p"
  using shapeD [OF assms] by (auto simp: covers_def ends_well_def start_known_def)

lemma grouped_shape:
  assumes "shape s' = shape s" "grouped w V s"
  shows "grouped w V s'"
  using assms(2) by (simp only: grouped_def end_known_def shapeD(3) [OF assms(1)] shape_same [OF assms(1)])

lemma edit_region_ok:
  "r < length (rs_heap s) \<Longrightarrow> f (rs_heap s ! r) = Inr y \<Longrightarrow> edit_region r f s = Inr ((), s\<lparr>rs_heap := (rs_heap s)[r := y]\<rparr>)"
  by (simp add: edit_region_def region_of_def method_simps)

lemma shape_edit:
  "r < length (rs_heap s) \<Longrightarrow> (rn_type y, rn_start y, rn_end y) = (rn_type x, rn_start x, rn_end x) \<Longrightarrow> x = rs_heap s ! r \<Longrightarrow>
     shape (s\<lparr>rs_heap := (rs_heap s)[r := y]\<rparr>) = shape s"
  by (auto simp: shape_def map_update list_update_same_conv)

lemma connect_regions_ok:
  assumes "p < length (rs_heap s)" "c < length (rs_heap s)"
  shows "\<exists>s'. connect_regions p c s = Inr ((), s') \<and> shape s' = shape s"
proof -
  let ?s1 = "s\<lparr>rs_heap := (rs_heap s)[p := (rs_heap s ! p)\<lparr>rn_children := rn_children (rs_heap s ! p) @ [c]\<rparr>]\<rparr>"
  let ?s2 = "?s1\<lparr>rs_heap := (rs_heap ?s1)[c := (rs_heap ?s1 ! c)\<lparr>rn_parents := rn_parents (rs_heap ?s1 ! c) @ [p]\<rparr>]\<rparr>"
  have "region_add_child p c s = Inr ((), ?s1)"
    using assms by (simp add: region_add_child_def edit_children_def edit_region_ok)
  moreover have "region_add_parent c p ?s1 = Inr ((), ?s2)"
    using assms by (subst region_add_parent_def, subst edit_parents_def, subst edit_region_ok) simp_all
  moreover have "shape ?s1 = shape s" "shape ?s2 = shape ?s1"
    using assms by (intro shape_edit [OF _ _ refl]; simp)+
  ultimately show ?thesis by (simp add: connect_regions_def method_simps)
qed

definition with_region :: "region_type \<Rightarrow> nat \<Rightarrow> regions \<Rightarrow> regions" where
  "with_region t n s =
     s\<lparr>rs_heap := rs_heap s @ [fresh_region t (At_Node n)],
       rs_starts := (rs_starts s)(n \<mapsto> length (rs_heap s)), rs_ends := (rs_ends s)(n \<mapsto> length (rs_heap s))\<rparr>"

lemma node_region_ok: "node_region t n s = Inr (length (rs_heap s), with_region t n s)"
  by (simp add: node_region_def new_region_def set_starts_regions_def set_ends_regions_def with_region_def method_simps)

lemma with_region_simps [simp]:
  "length (rs_heap (with_region t n s)) = Suc (length (rs_heap s))"
  "rs_starts (with_region t n s) = (rs_starts s)(n \<mapsto> length (rs_heap s))"
  "rs_ends (with_region t n s) = (rs_ends s)(n \<mapsto> length (rs_heap s))"
  "r < length (rs_heap s) \<Longrightarrow> rs_heap (with_region t n s) ! r = rs_heap s ! r"
  "rs_heap (with_region t n s) ! length (rs_heap s) = fresh_region t (At_Node n)"
  by (simp_all add: with_region_def nth_append)

lemma with_region_keeps:
  "covers w s m r \<Longrightarrow> covers w (with_region t n s) m r"
  "ends_well w s m r \<Longrightarrow> ends_well w (with_region t n s) m r"
  "start_known s m \<Longrightarrow> start_known (with_region t n s) m"
  "end_known w V s m \<Longrightarrow> m \<noteq> n \<Longrightarrow> end_known w V (with_region t n s) m"
  unfolding end_known_def start_known_def
  by (auto simp: covers_def ends_well_def intro: exI [of _ "length (rs_heap s)"])

lemma grouped_with_region: "grouped w V s \<Longrightarrow> n \<notin> set V \<Longrightarrow> grouped w V (with_region t n s)"
  unfolding grouped_def by (metis with_region_keeps(1,3,4))

lemma end_known_mono: "end_known w V s m \<Longrightarrow> set V \<subseteq> set V' \<Longrightarrow> end_known w V' s m"
  by (auto simp: end_known_def)

lemma grouped_snoc:
  assumes g: "grouped w V s" and n: "n < length (w_nodes w)" "end_known w (V @ [n]) s n" "covers w s n r"
    and j: "jump_node w n \<Longrightarrow> start_known s n" "jump_node w n \<or> set (nd_parents (node_at w n)) \<subseteq> set (V @ [n])"
  shows "grouped w (V @ [n]) s"
proof -
  have "m < length (w_nodes w) \<and> end_known w (V @ [n]) s m \<and> (\<exists>r. covers w s m r) \<and> (jump_node w m \<longrightarrow> start_known s m)
      \<and> (jump_node w m \<or> set (nd_parents (node_at w m)) \<subseteq> set (V @ [n]))" if "m \<in> set V" for m
    using groupedD [OF g that] end_known_mono [of w V s m "V @ [n]"] by auto
  with n j show ?thesis unfolding grouped_def by auto
qed

lemma grouped_new_node:
  assumes g: "grouped w V s" and n: "n \<notin> set V" "n < length (w_nodes w)"
    and t: "t = LINEAR \<Longrightarrow> length (nd_children (node_at w n)) \<le> 1"
    and ps: "jump_node w n \<or> set (nd_parents (node_at w n)) \<subseteq> set (V @ [n])"
  shows "grouped w (V @ [n]) (with_region t n s)"
proof (rule grouped_snoc [OF grouped_with_region [OF g n(1)] n(2) _ _ _ ps])
  have "ends_well w (with_region t n s) n (length (rs_heap s))"
    using t by (auto simp: ends_well_def fresh_region_def intro: straight_here)
  then show "end_known w (V @ [n]) (with_region t n s) n" by (simp add: end_known_def)
  show "covers w (with_region t n s) n (length (rs_heap s))"
    by (auto simp: covers_def fresh_region_def intro: straight_here)
  show "start_known (with_region t n s) n" by (simp add: start_known_def)
qed

lemma link_parents_ok:
  assumes "r < length (rs_heap s)" "\<And>p. p \<in> set ps \<Longrightarrow> p \<in> set V \<Longrightarrow> \<exists>q < length (rs_heap s). rs_ends s p = Some q"
  shows "\<exists>s'. link_parents w V n r ps s = Inr ((), s') \<and> shape s' = shape s"
  using assms
proof (induction ps arbitrary: s)
  case (Cons p ps)
  show ?case
  proof (cases "p \<in> set V")
    case True
    then obtain q where q: "q < length (rs_heap s)" "rs_ends s p = Some q" using Cons.prems(2) [of p] by auto
    obtain s1 where s1: "connect_regions q r s = Inr ((), s1)" "shape s1 = shape s"
      using connect_regions_ok [OF q(1) Cons.prems(1)] by blast
    have "\<exists>s'. link_parents w V n r ps s1 = Inr ((), s') \<and> shape s' = shape s1"
      using Cons.prems by (intro Cons.IH) (simp_all add: shapeD [OF s1(2)])
    with True q s1 show ?thesis by (auto simp: parent_region_def method_simps)
  next
    case False
    with Cons.IH [OF Cons.prems(1)] Cons.prems(2) show ?thesis by (simp add: method_simps)
  qed
qed (simp add: method_simps)

lemma link_children_ok:
  assumes "r < length (rs_heap s)" "\<And>c. c \<in> set cs \<Longrightarrow> c \<in> set V \<Longrightarrow> start_known s c"
  shows "\<exists>s'. link_children V r cs s = Inr ((), s') \<and> shape s' = shape s"
  using assms
proof (induction cs arbitrary: s)
  case (Cons c cs)
  show ?case
  proof (cases "c \<in> set V")
    case True
    then obtain q where q: "q < length (rs_heap s)" "rs_starts s c = Some q"
      using Cons.prems(2) [of c] by (auto simp: start_known_def)
    obtain s1 where s1: "connect_regions r q s = Inr ((), s1)" "shape s1 = shape s"
      using connect_regions_ok [OF Cons.prems(1) q(1)] by blast
    have "\<exists>s'. link_children V r cs s1 = Inr ((), s') \<and> shape s' = shape s1"
      using Cons.prems by (intro Cons.IH) (simp_all add: start_known_def shapeD [OF s1(2)])
    with True q s1 show ?thesis by (auto simp: starts_region_def region_at_key_def method_simps)
  next
    case False
    with Cons.IH [OF Cons.prems(1)] Cons.prems(2) show ?thesis by (simp add: method_simps)
  qed
qed (simp add: method_simps)


section \<open>One node\<close>

lemma edge_iff:
  "world_ok w \<Longrightarrow> p < length (w_nodes w) \<Longrightarrow> c < length (w_nodes w) \<Longrightarrow>
     c \<in> set (nd_children (node_at w p)) \<longleftrightarrow> p \<in> set (nd_parents (node_at w c))"
  by (metis count_list_0_iff edges_match_def node_at_def world_okD(1))

lemma visited_parent_ends:
  assumes ok: "world_ok w" and g: "grouped w V s" and n: "n \<notin> set V" "n < length (w_nodes w)"
    and p: "p \<in> set V" "p \<in> set (nd_parents (node_at w n))"
  obtains q where "rs_ends s p = Some q" "ends_well w s p q"
proof -
  have "n \<in> set (nd_children (node_at w p))" using edge_iff [OF ok groupedD(1) [OF g p(1)] n(2)] p(2) by simp
  with groupedD(2) [OF g p(1)] n(1) that show ?thesis by (auto simp: end_known_def)
qed

lemma link_visited:
  assumes ok: "world_ok w" and g: "grouped w V s" and n: "n \<notin> set V" "n < length (w_nodes w)"
    and t: "t = LINEAR \<Longrightarrow> length (nd_children (node_at w n)) \<le> 1"
    and ps: "jump_node w n \<or> set (nd_parents (node_at w n)) \<subseteq> set (V @ [n])"
  shows "\<exists>s'. link_parents w (V @ [n]) n (length (rs_heap s)) (nd_parents (node_at w n)) (with_region t n s) = Inr ((), s')
       \<and> length (rs_heap s) < length (rs_heap s') \<and> grouped w (V @ [n]) s'"
proof -
  have "\<exists>q < length (rs_heap (with_region t n s)). rs_ends (with_region t n s) p = Some q"
    if "p \<in> set (nd_parents (node_at w n))" "p \<in> set (V @ [n])" for p
  proof (cases "p = n")
    case False
    with that obtain q where "rs_ends s p = Some q" "ends_well w s p q"
      using visited_parent_ends [OF ok g n, of p] by auto
    with False show ?thesis by (auto simp: ends_well_def)
  qed simp
  then obtain s' where "link_parents w (V @ [n]) n (length (rs_heap s)) (nd_parents (node_at w n)) (with_region t n s) = Inr ((), s')"
    "shape s' = shape (with_region t n s)"
    using link_parents_ok [of "length (rs_heap s)" "with_region t n s" "nd_parents (node_at w n)" "V @ [n]" w n] by auto
  with grouped_shape [OF _ grouped_new_node [OF g n t ps]] shapeD(1) [of s'] show ?thesis by auto
qed

lemma straight_into: "straight w a p \<Longrightarrow> nd_children (node_at w p) = [n] \<Longrightarrow> nd_parents (node_at w n) = [p] \<Longrightarrow> straight w a n"
  by (rule straight_next)

text \<open>The linear region \<open>q\<close> that ends at \<open>p\<close> is extended to \<open>n\<close>.\<close>

definition extended :: "nat \<Rightarrow> nat \<Rightarrow> nat \<Rightarrow> regions \<Rightarrow> regions" where
  "extended q p n s =
     s\<lparr>rs_heap := (rs_heap s)[q := (rs_heap s ! q)\<lparr>rn_end := At_Node n\<rparr>], rs_ends := (rs_ends s)(p := None, n \<mapsto> q)\<rparr>"

lemma extend_linear_run:
  assumes "rs_ends s p = Some q" "q < length (rs_heap s)"
  shows "extend_linear n p s =
     (if rn_type (rs_heap s ! q) = LINEAR then Inr (q, extended q p n s)
      else bindS (node_region LINEAR n) (\<lambda>r. bindS (ends_region p) (\<lambda>q. bindS (connect_regions q r) (\<lambda>_. returnS r))) s)"
  using assms
  by (simp add: extend_linear_def ends_region_def region_at_key_def region_of_def set_region_end_def edit_region_def
      set_ends_regions_def extended_def method_simps)

lemma extended_keeps:
  assumes q: "ends_well w s p q" "rs_ends s p = Some q" and e: "nd_children (node_at w p) = [n]" "nd_parents (node_at w n) = [p]"
    and n: "n \<notin> set V" and p: "p \<in> set V"
  shows "covers w s m r \<Longrightarrow> covers w (extended q p n s) m r"
    and "end_known w V s m \<Longrightarrow> m \<in> set V \<Longrightarrow> end_known w (V @ [n]) (extended q p n s) m"
proof -
  have q': "q < length (rs_heap s)" "rn_end (rs_heap s ! q) = At_Node p" using q by (auto simp: ends_well_def)
  show "covers w (extended q p n s) m r" if "covers w s m r"
    using that q' e by (cases "r = q") (auto simp: covers_def extended_def intro: straight_into)
  show "end_known w (V @ [n]) (extended q p n s) m" if m: "end_known w V s m" "m \<in> set V"
  proof (cases "m = p")
    case True
    with e n p show ?thesis by (auto simp: end_known_def extended_def)
  next
    case False
    have "ends_well w (extended q p n s) m r" if "ends_well w s m r" for r
      using that False q' by (cases "r = q") (auto simp: ends_well_def extended_def)
    moreover have "rs_ends (extended q p n s) m = rs_ends s m" using False m(2) n by (auto simp: extended_def)
    ultimately show ?thesis using m(1) by (auto simp: end_known_def)
  qed
qed

lemma grouped_extended:
  assumes g: "grouped w V s" and n: "n \<notin> set V" "n < length (w_nodes w)" "\<not> jump_node w n"
    and q: "ends_well w s p q" "rs_ends s p = Some q" and p: "p \<in> set V"
    and e: "nd_children (node_at w p) = [n]" "nd_parents (node_at w n) = [p]" "length (nd_children (node_at w n)) \<le> 1"
  shows "grouped w (V @ [n]) (extended q p n s)"
proof -
  obtain a where a: "rn_start (rs_heap s ! q) = At_Node a" "straight w a p" "q < length (rs_heap s)"
    using q(1) by (auto simp: ends_well_def)
  have s: "straight w a n" by (rule straight_into [OF a(2) e(1,2)])
  have "ends_well w (extended q p n s) n q" using a s e by (auto simp: ends_well_def extended_def)
  then have 1: "end_known w (V @ [n]) (extended q p n s) n" by (auto simp: end_known_def extended_def)
  have 2: "covers w (extended q p n s) n q" using a s by (auto simp: covers_def extended_def intro: straight_here)
  have "m < length (w_nodes w) \<and> end_known w (V @ [n]) (extended q p n s) m \<and> (\<exists>r. covers w (extended q p n s) m r)
      \<and> (jump_node w m \<longrightarrow> start_known (extended q p n s) m)
      \<and> (jump_node w m \<or> set (nd_parents (node_at w m)) \<subseteq> set (V @ [n]))" if m: "m \<in> set V" for m
    using groupedD [OF g m] extended_keeps [OF q e(1,2) n(1) p] m
    by (auto simp: start_known_def extended_def)
  with 1 2 n e p show ?thesis unfolding grouped_def by auto
qed


definition visited_well :: "('s, 'g) world \<Rightarrow> nat list \<Rightarrow> nat \<Rightarrow> nat option \<Rightarrow> regions \<Rightarrow> bool" where
  "visited_well w V n z s \<longleftrightarrow> (case z of
       None \<Rightarrow> grouped w V s \<and> n \<notin> set (w_loops w) \<and> \<not> set (nd_parents (node_at w n)) \<subseteq> set (V @ [n])
     | Some r \<Rightarrow> r < length (rs_heap s) \<and> grouped w (V @ [n]) s)"

lemma extend_linear_well:
  assumes ok: "world_ok w" and g: "grouped w V s" and n: "n \<notin> set V" "n < length (w_nodes w)" "\<not> jump_node w n"
    and p: "p \<in> set V" and e: "nd_parents (node_at w n) = [p]" "length (nd_children (node_at w n)) \<le> 1"
  shows "\<exists>r s'. extend_linear n p s = Inr (r, s') \<and> visited_well w V n (Some r) s'"
proof -
  obtain q where q: "rs_ends s p = Some q" "ends_well w s p q"
    using visited_parent_ends [OF ok g n(1,2) p] e by auto
  have q': "q < length (rs_heap s)" using q(2) by (simp add: ends_well_def)
  have c: "n \<in> set (nd_children (node_at w p))" using edge_iff [OF ok groupedD(1) [OF g p] n(2)] e by simp
  show ?thesis
  proof (cases "rn_type (rs_heap s ! q) = LINEAR")
    case True
    with q(2) have "length (nd_children (node_at w p)) \<le> 1" by (simp add: ends_well_def)
    with c have "nd_children (node_at w p) = [n]" by (cases "nd_children (node_at w p)") auto
    with grouped_extended [OF g n q(2,1) p _ e] True q' q(1) show ?thesis
      by (auto simp: extend_linear_run visited_well_def extended_def)
  next
    case False
    have "p \<noteq> n" using p n by blast
    let ?s1 = "with_region LINEAR n s" and ?r = "length (rs_heap s)"
    obtain s' where s': "connect_regions q ?r ?s1 = Inr ((), s')" "shape s' = shape ?s1"
      using connect_regions_ok [of q ?s1 ?r] q' by auto
    have "grouped w (V @ [n]) ?s1" using grouped_new_node [OF g n(1,2)] e p by auto
    with grouped_shape [OF s'(2)] shapeD(1) [OF s'(2)]
    have "visited_well w V n (Some ?r) s'" by (simp add: visited_well_def)
    moreover have "extend_linear n p s = Inr (?r, s')"
      using False \<open>p \<noteq> n\<close> q(1) s'(1) by (simp add: extend_linear_run [OF q(1) q'] node_region_ok
          ends_region_def region_at_key_def method_simps)
    ultimately show ?thesis by blast
  qed
qed

lemma visit_node_well:
  assumes ok: "world_ok w" and g: "grouped w V s" and n: "n \<notin> set V" "n < length (w_nodes w)"
    and p: "\<exists>p \<in> set V. p \<in> set (nd_parents (node_at w n))"
  shows "\<exists>z s'. visit_node w (V @ [n]) n s = Inr (z, s') \<and> visited_well w V n z s'"
proof -
  let ?ps = "nd_parents (node_at w n)"
  consider (jump) "jump_node w n" | (linear) "\<not> jump_node w n" "length ?ps = 1" "length (nd_children (node_at w n)) \<le> 1"
    | (late) "\<not> jump_node w n" "\<not> (length ?ps = 1 \<and> length (nd_children (node_at w n)) \<le> 1)" "\<exists>p \<in> set ?ps. p \<notin> set (V @ [n])"
    | (basic) "\<not> jump_node w n" "\<not> (length ?ps = 1 \<and> length (nd_children (node_at w n)) \<le> 1)" "set ?ps \<subseteq> set (V @ [n])"
    by blast
  then show ?thesis
  proof cases
    case jump
    obtain t where t: "t = (if n \<in> set (w_loops w) then START_LOOP else BACK_EDGE)" "t \<noteq> LINEAR" by simp
    from link_visited [OF ok g n, of t] t(2) jump show ?thesis
      by (auto simp: visit_node_def jump_node_def visited_well_def node_region_ok t(1) Let_def method_simps)
  next
    case linear
    then obtain q where q: "?ps = [q]" by (cases ?ps) auto
    with p have "q \<in> set V" by auto
    from extend_linear_well [OF ok g n linear(1) this q linear(3)] linear q show ?thesis
      by (fastforce simp: visit_node_def jump_node_def Let_def method_simps)
  next
    case late
    then have "visit_node w (V @ [n]) n s = Inr (None, with_region BASIC n s)"
      by (auto simp: visit_node_def jump_node_def Let_def node_region_ok method_simps)
    with grouped_with_region [OF g n(1), of BASIC] late show ?thesis
      by (auto simp: visited_well_def jump_node_def)
  next
    case basic
    then have "visit_node w (V @ [n]) n s =
        bindS (link_parents w (V @ [n]) n (length (rs_heap s)) ?ps) (\<lambda>_. returnS (Some (length (rs_heap s)))) (with_region BASIC n s)"
      by (auto simp: visit_node_def jump_node_def Let_def node_region_ok method_simps)
    with link_visited [OF ok g n, of BASIC] basic show ?thesis
      by (auto simp: visited_well_def method_simps)
  qed
qed

section \<open>The queue\<close>

text \<open>A child of a visited node is visited or queued, or it is a join that waits for another parent.\<close>

definition awaits :: "('s, 'g) world \<Rightarrow> nat list \<Rightarrow> nat \<Rightarrow> bool" where
  "awaits w V c \<longleftrightarrow> c \<notin> set (w_loops w) \<and> \<not> set (nd_parents (node_at w c)) \<subseteq> set V"

definition exploring :: "('s, 'g) world \<Rightarrow> nat list \<Rightarrow> nat list \<Rightarrow> bool" where
  "exploring w V q \<longleftrightarrow> distinct V \<and> 0 \<in> set V
     \<and> (\<forall>n \<in> set q. n < length (w_nodes w) \<and> (\<exists>p \<in> set V. p \<in> set (nd_parents (node_at w n))))
     \<and> (\<forall>p \<in> set V. \<forall>c \<in> set (nd_children (node_at w p)). c \<in> set V \<or> c \<in> set q \<or> awaits w V c)"

lemma exploring_skip: "exploring w V (n # q) \<Longrightarrow> n \<in> set V \<or> awaits w V n \<Longrightarrow> exploring w V q"
  unfolding exploring_def by auto

lemma exploring_visit:
  assumes ok: "world_ok w" and V: "set V \<subseteq> {..<length (w_nodes w)}" and x: "exploring w V (n # q)"
    and n: "n \<notin> set V" "n < length (w_nodes w)"
  shows "exploring w (V @ [n]) (q @ new_children w (V @ [n]) n)"
proof -
  have child: "c < length (w_nodes w) \<and> n \<in> set (nd_parents (node_at w c))" if "c \<in> set (nd_children (node_at w n))" for c
    using world_okD(2) [OF ok n(2)] that edge_iff [OF ok n(2)] by (auto simp: refs_below_def node_at_def)
  have "c \<in> set (V @ [n]) \<or> c \<in> set (q @ new_children w (V @ [n]) n) \<or> awaits w (V @ [n]) c"
    if p: "p \<in> set (V @ [n])" and c: "c \<in> set (nd_children (node_at w p))" for p c
  proof (cases "c \<in> set (V @ [n]) \<or> c \<in> set q")
    case False
    show ?thesis
    proof (cases "n \<in> set (nd_parents (node_at w c)) \<and> c < length (w_nodes w)")
      case True
      with edge_iff [OF ok n(2)] have "c \<in> set (nd_children (node_at w n))" by blast
      with False show ?thesis by (simp add: new_children_def)
    next
      case no_edge: False
      with c p child have "p \<in> set V" by auto
      with x c False have "awaits w V c" by (auto simp: exploring_def)
      moreover have "c < length (w_nodes w)"
        using world_okD(2) [OF ok, of p] V \<open>p \<in> set V\<close> c by (auto simp: refs_below_def node_at_def)
      ultimately show ?thesis using no_edge by (auto simp: awaits_def)
    qed
  qed auto
  with x n child show ?thesis unfolding exploring_def new_children_def by auto
qed


lemma child_started:
  assumes ok: "world_ok w" and down: "down_edges w" and g: "grouped w V s" "grouped w (V @ [n]) s'"
    and n: "n \<notin> set V" "n < length (w_nodes w)" and c: "c \<in> set (nd_children (node_at w n))" "c \<in> set (V @ [n])"
  shows "start_known s' c"
proof (cases "jump_node w c")
  case True
  with groupedD(4) [OF g(2) c(2)] show ?thesis .
next
  case False
  have "c < length (w_nodes w)" using groupedD(1) [OF g(2) c(2)] .
  then have p: "n \<in> set (nd_parents (node_at w c))" using edge_iff [OF ok n(2)] c(1) by blast
  show ?thesis
  proof (cases "c = n")
    case True
    with p False down_edgesD [OF down n(2)] show ?thesis by (auto simp: jump_node_def)
  next
    case False
    with c(2) have "c \<in> set V" by simp
    from groupedD(5) [OF g(1) this] \<open>\<not> jump_node w c\<close> p n(1) show ?thesis by blast
  qed
qed

lemma region_queue_well:
  assumes "world_ok w" "down_edges w" "grouped w V s" "exploring w V q"
  shows "\<exists>V' s'. region_queue w V q s = Inr (V', s') \<and> grouped w V' s' \<and> exploring w V' []"
  using assms
proof (induction w V q arbitrary: s rule: region_queue.induct)
  case (1 w V)
  then show ?case by (simp add: region_queue.simps method_simps)
next
  case (2 w V n q)
  have n: "n < length (w_nodes w)" and p: "\<exists>p \<in> set V. p \<in> set (nd_parents (node_at w n))"
    using "2.prems"(4) by (auto simp: exploring_def)
  have V: "set V \<subseteq> {..<length (w_nodes w)}" using groupedD(1) [OF "2.prems"(3)] by auto
  show ?case
  proof (cases "n \<in> set V")
    case True
    with "2.IH"(1) [OF _ True "2.prems"(1-3)] exploring_skip [OF "2.prems"(4)] n show ?thesis
      by (simp add: region_queue.simps)
  next
    case False
    obtain z s1 where v: "visit_node w (V @ [n]) n s = Inr (z, s1)" and z: "visited_well w V n z s1"
      using visit_node_well [OF "2.prems"(1,3) False n p] by blast
    show ?thesis
    proof (cases z)
      case None
      have "awaits w V n" using z None by (auto simp: visited_well_def awaits_def)
      then have "exploring w V q" by (auto intro: exploring_skip [OF "2.prems"(4)])
      moreover have "grouped w V s1" using z None by (simp add: visited_well_def)
      ultimately show ?thesis
        using "2.IH"(2) [OF _ False "2.prems"(1,2)] n v None False by (simp add: region_queue.simps method_simps)
    next
      case (Some r)
      have g1: "grouped w (V @ [n]) s1" "r < length (rs_heap s1)" using z Some by (simp_all add: visited_well_def)
      obtain s2 where l: "link_children (V @ [n]) r (nd_children (node_at w n)) s1 = Inr ((), s2)" "shape s2 = shape s1"
        using link_children_ok [OF g1(2), of "nd_children (node_at w n)" "V @ [n]"]
          child_started [OF "2.prems"(1-3) g1(1) False n] by blast
      have "exploring w (V @ [n]) (q @ new_children w (V @ [n]) n)"
        by (rule exploring_visit [OF "2.prems"(1) V "2.prems"(4) False n])
      then show ?thesis
        using "2.IH"(3) [OF _ False "2.prems"(1,2) grouped_shape [OF l(2) g1(1)]] n v Some l(1) False
        by (simp add: region_queue.simps method_simps)
    qed
  qed
qed

section \<open>No node is forgotten\<close>

text \<open>Every node but the first has a parent above it: the program has no dead code, and its loops are entered from
  above.\<close>

definition entered_from_above :: "('s, 'g) world \<Rightarrow> bool" where
  "entered_from_above w \<longleftrightarrow> (\<forall>n \<in> {1..<length (w_nodes w)}. \<exists>p \<in> set (nd_parents (node_at w n)). p < n)"

lemma explored_all:
  assumes ok: "world_ok w" and down: "down_edges w" and above: "entered_from_above w" and x: "exploring w V []"
    and n: "n < length (w_nodes w)"
  shows "n \<in> set V"
  using n
proof (induction n rule: less_induct)
  case (less n)
  show ?case
  proof (cases "n = 0")
    case True
    with x show ?thesis by (simp add: exploring_def)
  next
    case False
    then obtain p where p: "p \<in> set (nd_parents (node_at w n))" "p < n"
      using above less.prems by (auto simp: entered_from_above_def dest: bspec [of _ _ n])
    then have "p \<in> set V" using less by simp
    moreover have "n \<in> set (nd_children (node_at w p))" using edge_iff [OF ok _ less.prems, of p] p less.prems by simp
    ultimately consider "n \<in> set V" | "awaits w V n" using x by (auto simp: exploring_def)
    then show ?thesis
    proof cases
      case 2
      then obtain p' where p': "p' \<in> set (nd_parents (node_at w n))" "p' \<notin> set V" "n \<notin> set (w_loops w)"
        by (auto simp: awaits_def)
      with down_edgesD [OF down less.prems] have "p' < n" by blast
      with p' less show ?thesis by auto
    qed simp
  qed
qed

lemma grouped_first:
  assumes "world_ok w" "nd_children (node_at w 0) = [c]" "down_edges w" "0 < length (w_nodes w)"
  shows "grouped w [0] (with_region LINEAR 0 no_regions)" "exploring w [0] [c]"
proof -
  have "grouped w [] no_regions" by (simp add: grouped_def)
  moreover have "jump_node w 0 \<or> set (nd_parents (node_at w 0)) \<subseteq> set ([] @ [0])"
    using down_edgesD [OF assms(3,4)] by (auto simp: jump_node_def)
  ultimately show "grouped w [0] (with_region LINEAR 0 no_regions)"
    using grouped_new_node [of w "[]" no_regions 0 LINEAR] assms by simp
  have "c < length (w_nodes w)"
    using world_okD(2) [OF assms(1,4)] assms(2) by (auto simp: refs_below_def node_at_def)
  with edge_iff [OF assms(1,4)] assms(2) show "exploring w [0] [c]" by (auto simp: exploring_def)
qed

text \<open>
  C36: no code is lost when the graph is grouped into regions.  Let the graph be built from any program, with a single
  first instruction, and let every other node have a parent above it.  Then \<open>make_region_graph_from_cfg\<close> raises
  nothing, it visits every node of the graph once, and every node lies on the straight run of nodes, entered only at
  its start and left only at its end, of some region.
\<close>

theorem every_node_gets_a_region:
  assumes "build_cfg reg_step merge k s g = Inr d" and "entered_from_above (d_world d)"
    and "nd_children (node_at (d_world d) 0) = [c]"
  shows "\<exists>visited rs. make_region_graph_from_cfg (d_world d) no_regions = Inr (visited, rs)
    \<and> distinct visited \<and> set visited = {..<length (w_nodes (d_world d))}
    \<and> (\<forall>n < length (w_nodes (d_world d)). \<exists>r. covers (d_world d) rs n r)"
proof -
  let ?w = "d_world d"
  have ok: "world_ok ?w" "0 < length (w_nodes ?w)"
    using cfg_run_ok [OF start_ok assms(1) [unfolded build_cfg_def]] by (auto simp: cfg_ok_def)
  have down: "down_edges ?w" by (rule cfg_edges_down [OF assms(1)])
  obtain V rs where r: "region_queue ?w [0] [c] (with_region LINEAR 0 no_regions) = Inr (V, rs)" "grouped ?w V rs" "exploring ?w V []"
    using region_queue_well [OF ok(1) down grouped_first [OF ok(1) assms(3) down ok(2)]] by blast
  have "make_region_graph_from_cfg ?w no_regions = Inr (V, rs)"
    using r(1) assms(3) by (simp add: make_region_graph_from_cfg_def node_region_ok no_regions_def method_simps)
  moreover have "set V = {..<length (w_nodes ?w)}"
    using explored_all [OF ok(1) down assms(2) r(3)] groupedD(1) [OF r(2)] by auto
  moreover have "distinct V" using r(3) by (simp add: exploring_def)
  ultimately show ?thesis using groupedD(3) [OF r(2)] by blast
qed


definition branching_kernel :: kernel where
  "branching_kernel =
     (new_kernel ''k'' None Map.empty)
       \<lparr>k_instrs := [plain_instr C_Mov [PredReg ''p'', Val ''a''], plain_instr C_Mov [PredReg ''q'', Val ''!(a)''],
                     plain_instr C_ChangeMask [PredReg ''p''], plain_instr C_Mov [PredReg ''x'', Val ''1''],
                     plain_instr C_ChangeMask [PredReg ''q''], plain_instr C_Mov [PredReg ''x'', Val ''2''],
                     plain_instr C_Unmask [], plain_instr C_EndPgm []]\<rparr>"

lemma branching_kernel_cfg:
  "case build_cfg mark_registers no_merge branching_kernel () () of
     Inr d \<Rightarrow> map nd_children (w_nodes (d_world d)) = [[1], [2], [3], [4, 5], [7], [6], [7], [8], []]
              \<and> entered_from_above (d_world d)
   | Inl e \<Rightarrow> False"
  by code_simp

theorem every_node_gets_a_region_witness:
  "\<exists>d visited rs. build_cfg mark_registers no_merge branching_kernel () () = Inr d
     \<and> make_region_graph_from_cfg (d_world d) no_regions = Inr (visited, rs) \<and> set visited = {..<9}"
proof -
  obtain d where d: "build_cfg mark_registers no_merge branching_kernel () () = Inr d"
    "map nd_children (w_nodes (d_world d)) = [[1], [2], [3], [4, 5], [7], [6], [7], [8], []]" "entered_from_above (d_world d)"
    using branching_kernel_cfg by (auto split: sum.splits)
  have l: "length (w_nodes (d_world d)) = 9" using arg_cong [OF d(2), of length] by simp
  have "map nd_children (w_nodes (d_world d)) ! 0 = [1]" unfolding d(2) by simp
  then have "nd_children (node_at (d_world d) 0) = [1]" using l by (simp add: node_at_def)
  from every_node_gets_a_region [OF d(1,3) this] d(1) l show ?thesis by auto
qed

text \<open>
  A loop that is entered at its condition, behind its body, is not entered from above: the body waits for the jump back,
  the condition for the end of the body.  Both are put off until the queue is empty, and the program loses them and
  everything behind them.
\<close>

definition rotated_loop :: kernel where
  "rotated_loop =
     (new_kernel ''k'' None Map.empty)
       \<lparr>k_instrs := [plain_instr C_Jump [Val ''.C''], plain_instr C_Label [Val ''.B''], plain_instr C_Mov [PredReg ''x'', Val ''1''],
                     plain_instr C_Label [Val ''.C''], plain_instr C_Branch [PredReg ''p'', Val ''.B''], plain_instr C_EndPgm []]\<rparr>"

lemma rotated_loop_lost:
  "case build_cfg no_registers no_merge rotated_loop () () of
     Inr d \<Rightarrow> map nd_children (w_nodes (d_world d)) = [[1], [4], [3], [4], [5], [2, 6], []]
              \<and> (case make_region_graph_from_cfg (d_world d) no_regions of Inr (visited, rs) \<Rightarrow> visited = [0, 1] | Inl e \<Rightarrow> False)
   | Inl e \<Rightarrow> False"
  by code_simp

end
