(* ===== verification/Region_Reduce.thy ===== *)
theory Region_Reduce
  imports Region_Graph
begin

text \<open>
  The walk that reduces the graph of regions comes to an end.  It rewires the lists it walks over and makes new
  regions on its way; but only a region of a branch or of a loop is replaced, once, by at most four new regions, which
  are themselves of other kinds.
\<close>

section \<open>What an operation can add\<close>

definition heavy :: "region \<Rightarrow> bool" where
  "heavy x \<longleftrightarrow> rn_type x = BASIC \<or> rn_type x = LOOP"

definition total_children :: "regions \<Rightarrow> nat" where
  "total_children s = sum_list (map (\<lambda>x. length (rn_children x)) (rs_heap s))"

text \<open>At most \<open>j\<close> new regions, none of them of a branch or loop, and at most \<open>k\<close> new entries in lists of children.\<close>

definition grows :: "nat \<Rightarrow> nat \<Rightarrow> regions \<Rightarrow> regions \<Rightarrow> bool" where
  "grows j k s s' \<longleftrightarrow> (\<exists>xs. map heavy (rs_heap s') = map heavy (rs_heap s) @ xs \<and> length xs \<le> j \<and> True \<notin> set xs)
     \<and> total_children s' \<le> total_children s + k"

definition adds :: "nat \<Rightarrow> nat \<Rightarrow> 'a on_regions \<Rightarrow> bool" where
  "adds j k m \<longleftrightarrow> (\<forall>s x s'. m s = Inr (x, s') \<longrightarrow> grows j k s s')"

named_theorems adds_intros \<open>what operations on regions add\<close>

lemma grows_trans: "grows j k s s' \<Longrightarrow> grows j' k' s' s'' \<Longrightarrow> grows (j + j') (k + k') s s''"
  by (fastforce simp: grows_def)

lemma grows_refl: "grows 0 0 s s"
  by (simp add: grows_def)

lemma grows_mono: "grows j k s s' \<Longrightarrow> j \<le> j' \<Longrightarrow> k \<le> k' \<Longrightarrow> grows j' k' s s'"
  by (fastforce simp: grows_def)

lemma adds_mono: "adds j k m \<Longrightarrow> j \<le> j' \<Longrightarrow> k \<le> k' \<Longrightarrow> adds j' k' m"
  unfolding adds_def by (blast intro: grows_mono)

lemma adds_pure [adds_intros]: "adds j k (returnS x)" "adds j k (raiseS e)" "adds j k (liftS z)" "adds j k (getS g)"
  "adds j k (region_of r)"
  by (auto simp: adds_def region_of_def method_simps split: if_splits intro: grows_mono [OF grows_refl])

lemma adds_bind:
  assumes "adds j k m" "\<And>x. adds j' k' (f x)"
  shows "adds (j + j') (k + k') (bindS m f)"
  unfolding adds_def
proof (intro allI impI)
  fix s y s''
  assume "bindS m f s = Inr (y, s'')"
  then obtain x s' where "m s = Inr (x, s')" "f x s' = Inr (y, s'')" by (auto simp: method_simps)
  with assms show "grows (j + j') (k + k') s s''" unfolding adds_def by (blast intro: grows_trans)
qed

lemma adds_then [adds_intros]:
  assumes "adds j0 k0 m" "\<And>x. adds (j - j0) (k - k0) (f x)" "j0 \<le> j" "k0 \<le> k"
  shows "adds j k (bindS m f)"
  using adds_bind [OF assms(1,2)] assms(3,4) by simp

lemma adds_look [adds_intros]:
  assumes "adds 0 0 m" "\<And>x. adds j k (f x)"
  shows "adds j k (bindS m f)"
  using adds_bind [OF assms] by simp

lemma adds_if [adds_intros]: "(b \<Longrightarrow> adds j k m) \<Longrightarrow> (\<not> b \<Longrightarrow> adds j k n) \<Longrightarrow> adds j k (if b then m else n)"
  by simp

lemma sum_list_update_le:
  "r < length xs \<Longrightarrow> f y \<le> f (xs ! r) + k \<Longrightarrow> sum_list (map f (xs[r := y])) \<le> sum_list (map f xs) + (k :: nat)"
proof (induction xs arbitrary: r)
  case (Cons x xs)
  then show ?case by (cases r) (auto simp: add.assoc)
qed simp

lemma adds_edit:
  assumes "\<And>x y. f x = Inr y \<Longrightarrow> rn_type y = rn_type x \<and> length (rn_children y) \<le> length (rn_children x) + k"
  shows "adds 0 k (edit_region r f)"
  unfolding adds_def
proof (intro allI impI)
  fix s x s'
  assume e: "edit_region r f s = Inr (x, s')"
  then obtain y where y: "r < length (rs_heap s)" "f (rs_heap s ! r) = Inr y" "s' = s\<lparr>rs_heap := (rs_heap s)[r := y]\<rparr>"
    by (auto simp: edit_region_def region_of_def method_simps split: if_splits)
  have "map heavy (rs_heap s') = map heavy (rs_heap s)"
    using y assms [OF y(2)] by (simp add: map_update heavy_def list_update_same_conv)
  with y assms [OF y(2)] show "grows 0 k s s'"
    by (simp add: grows_def total_children_def sum_list_update_le)
qed

lemma length_replace_item: "replace_item a b xs = Inr ys \<Longrightarrow> length ys = length xs"
  by (auto simp: replace_item_def)

lemma length_remove_item: "remove_item a xs = Inr ys \<Longrightarrow> length ys \<le> length xs"
  by (auto simp: remove_item_def length_remove1 split: if_splits)

lemma adds_edits [adds_intros]:
  "adds 0 0 (edit_children r (replace_item a b))" "adds 0 0 (edit_children r (remove_item a))" "adds 0 0 (edit_parents r f)"
  "adds 0 1 (region_add_child r c)" "adds 0 0 (region_add_parent r p)" "adds 0 0 (set_region_end r e)"
  by (auto simp: edit_children_def edit_parents_def region_add_child_def region_add_parent_def set_region_end_def
      dest!: length_replace_item length_remove_item intro!: adds_edit)

lemma adds_new [adds_intros]: "t \<noteq> BASIC \<Longrightarrow> t \<noteq> LOOP \<Longrightarrow> adds 1 0 (new_region t p)"
  by (auto simp: adds_def new_region_def grows_def heavy_def fresh_region_def total_children_def)

lemma adds_span [adds_intros]: "adds 1 0 (span_region a b)"
  unfolding span_region_def by (intro adds_then [OF adds_new] adds_intros) simp_all

lemma adds_option [adds_intros]:
  "adds j k m \<Longrightarrow> (\<And>x. adds j k (f x)) \<Longrightarrow> adds j k (case z of None \<Rightarrow> m | Some x \<Rightarrow> f x)"
  by (cases z) auto

lemma adds_list [adds_intros]:
  "adds j k m \<Longrightarrow> (\<And>x xs. adds j k (f x xs)) \<Longrightarrow> adds j k (case z of [] \<Rightarrow> m | x # xs \<Rightarrow> f x xs)"
  by (cases z) auto

lemma adds_hang [adds_intros]: "adds 0 0 (hang_below b old new)"
  unfolding hang_below_def by (intro adds_intros)

lemma adds_take_over [adds_intros]: "adds 0 1 (take_over_child n all)"
  unfolding take_over_child_def by (intro adds_intros)

lemma adds_parent_and_child [adds_intros]: "adds 0 1 (add_parent_and_child p n r c q)"
  unfolding add_parent_and_child_def by (intro adds_intros)


lemma adds_join_linear [adds_intros]: "adds 2 2 (join_after_linear p c n)"
proof -
  have a: "adds 1 1 (bindS (span_region p m) (\<lambda>a. bindS (hang_below p l a) (\<lambda>z. bindS (take_over_child m a) (\<lambda>_. returnS z))))"
    for l m
    by (intro adds_then [OF adds_span] adds_look [OF adds_hang] adds_then [OF adds_take_over] adds_pure) simp_all
  have b: "adds 1 2 (bindS (edit_parents x (replace_item c m)) (\<lambda>_. bindS (region_add_child m x) (\<lambda>_.
      bindS (region_of x) (\<lambda>y. bindS (region_of c) (\<lambda>d.
        if rn_type y \<noteq> BASIC \<and> length (rn_parents d) = 1
        then bindS (span_region p x) (\<lambda>a. bindS (hang_below p m a) (\<lambda>z. bindS (take_over_child x a) (\<lambda>_. returnS z)))
        else returnS e)))))" for x m e
    by (intro adds_look [OF adds_edits(3)] adds_then [OF adds_edits(4)] adds_look [OF adds_pure(5)] adds_if
        adds_mono [OF a] adds_pure) simp_all
  show ?thesis
    unfolding join_after_linear_def
    by (intro adds_then [OF adds_span] adds_look [OF adds_hang] adds_option adds_pure adds_mono [OF b]) simp_all
qed

lemma adds_join_basic [adds_intros]: "adds 1 1 (join_after_basic p c n)"
  unfolding join_after_basic_def
  by (intro adds_option adds_look [OF adds_pure(5)] adds_if adds_then [OF adds_span] adds_look [OF adds_edits(1)]
      adds_look [OF adds_edits(5)] adds_then [OF adds_take_over] adds_pure) simp_all

lemma adds_join [adds_intros]: "adds 2 2 (join_regions p c n)"
  unfolding join_regions_def
  by (intro adds_look [OF adds_pure(5)] adds_if adds_join_linear adds_mono [OF adds_join_basic]) simp_all

lemma adds_create [adds_intros]: "adds 1 3 (create_new_region p q n)"
  unfolding create_new_region_def
  by (intro adds_look [OF adds_edits(2)] adds_look [OF adds_pure(5)] adds_look [OF adds_pure(3)] adds_then [OF adds_new]
      adds_look [OF adds_edits(3)] adds_then [OF adds_edits(4)] adds_look [OF adds_edits(5)] adds_pure) simp_all

lemma adds_lookups [adds_intros]:
  "adds 0 0 (first_parent_region r)" "adds 0 0 (first_child_region r)" "adds 0 0 (two_children r)" "adds 0 0 (number_of_parents r)"
  unfolding first_parent_region_def first_child_region_def two_children_def number_of_parents_def
  by (intro adds_intros)+

lemma adds_install: "adds 2 3 (install_region p r c e)"
  unfolding install_region_def
  by (intro adds_look [OF adds_edits(6)] adds_look [OF adds_lookups(2)] adds_then [OF adds_parent_and_child] adds_mono [OF adds_join])
    simp_all

lemma adds_new_or: "adds 1 3 (if b then create_new_region p q n else returnS m)"
  by (intro adds_if adds_create adds_pure)

lemma adds_if_statement: "adds 4 6 (process_if_statement_region r)"
  unfolding process_if_statement_region_def Let_def split_def
  by (intro adds_then [OF adds_new] adds_look [OF adds_lookups(1)] adds_look [OF adds_lookups(3)] adds_look [OF adds_lookups(4)]
      adds_then [OF adds_new_or] adds_mono [OF adds_install]) simp_all

lemma adds_if_else_statement: "adds 4 6 (process_if_else_statement_region r)"
proof -
  have j: "adds 0 0 (bindS (first_child_region a) (\<lambda>z. case z of None \<Rightarrow> raiseS IndexError | Some j \<Rightarrow> returnS j))" for a
    by (intro adds_look [OF adds_lookups(2)] adds_option adds_pure)
  show ?thesis
    unfolding process_if_else_statement_region_def split_def
    by (intro adds_then [OF adds_new] adds_look [OF adds_lookups(1)] adds_look [OF adds_lookups(3)] adds_look [OF adds_lookups(4)]
        adds_look [OF j] adds_then [OF adds_new_or] adds_mono [OF adds_install]) simp_all
qed

section \<open>The walk\<close>

definition finish_cost :: "bool \<Rightarrow> nat \<Rightarrow> nat" where
  "finish_cost b k = (if b then k else 0)"

lemma finish_grows:
  assumes "finish_region r x s = Inr (y, s')"
  shows "grows (finish_cost (heavy (rs_heap s ! r)) 4) (finish_cost (heavy (rs_heap s ! r)) 6) s s'"
proof -
  have r: "r < length (rs_heap s)" using assms by (auto simp: finish_region_def region_of_def method_simps split: if_splits)
  let ?t = "rn_type (rs_heap s ! r)"
  show ?thesis
  proof (cases "?t = LOOP")
    case True
    have "adds 2 2 (bindS (first_parent_region r) (\<lambda>p. bindS (liftS (py_nth cs 0)) (\<lambda>c. join_regions p r (Some c))))" for cs
      by (intro adds_look [OF adds_lookups(1)] adds_look [OF adds_pure(3)] adds_join)
    then have "grows 2 2 s s'" using assms True r unfolding adds_def
      by (simp add: finish_region_def region_of_def bindS_def getS_def)
    with True show ?thesis by (auto simp: finish_cost_def heavy_def intro: grows_mono)
  next
    case False
    show ?thesis
    proof (cases "?t = BASIC")
      case True
      have "grows 4 6 s s' \<or> grows 0 0 s s'"
        using assms True False r adds_if_statement [of r] adds_if_else_statement [of r] grows_refl
        unfolding adds_def by (auto simp: finish_region_def region_of_def bindS_def getS_def returnS_def split: if_splits)
      with True show ?thesis by (auto simp: finish_cost_def heavy_def intro: grows_mono)
    next
      case no_basic: False
      with assms False r have "s' = s"
        by (auto simp: finish_region_def region_of_def check_if_def check_if_else_def method_simps split: if_splits)
      then show ?thesis by (simp add: grows_mono [OF grows_refl])
    qed
  qed
qed

definition unvisited :: "nat list \<Rightarrow> regions \<Rightarrow> nat set" where
  "unvisited V s = {..<length (rs_heap s)} - set V"

definition heavies :: "nat list \<Rightarrow> regions \<Rightarrow> nat" where
  "heavies V s = card {r \<in> unvisited V s. heavy (rs_heap s ! r)}"

definition to_visit :: "nat list \<Rightarrow> regions \<Rightarrow> nat" where
  "to_visit V s = card (unvisited V s) + 4 * heavies V s"

definition to_walk :: "nat list \<Rightarrow> regions \<Rightarrow> nat" where
  "to_walk V s = total_children s + 6 * heavies V s"

lemma finite_unvisited [simp]: "finite (unvisited V s)"
  by (simp add: unvisited_def)

lemma growsD:
  assumes "grows j k s s'"
  shows "length (rs_heap s) \<le> length (rs_heap s')" "r < length (rs_heap s) \<Longrightarrow> heavy (rs_heap s' ! r) = heavy (rs_heap s ! r)"
    "card (unvisited V s') \<le> card (unvisited V s) + j" "heavies V s' = heavies V s" "total_children s' \<le> total_children s + k"
proof -
  obtain xs where xs: "map heavy (rs_heap s') = map heavy (rs_heap s) @ xs" "length xs \<le> j" "True \<notin> set xs"
    and t: "total_children s' \<le> total_children s + k" using assms by (auto simp: grows_def)
  have l: "length (rs_heap s') = length (rs_heap s) + length xs" using arg_cong [OF xs(1), of length] by simp
  have h: "heavy (rs_heap s' ! i) = (if i < length (rs_heap s) then heavy (rs_heap s ! i) else xs ! (i - length (rs_heap s)))"
    if "i < length (rs_heap s')" for i
    using arg_cong [OF xs(1), of "\<lambda>ys. ys ! i"] that l by (auto simp: nth_append)
  show "length (rs_heap s) \<le> length (rs_heap s')" "total_children s' \<le> total_children s + k" using l t by auto
  show "heavy (rs_heap s' ! r) = heavy (rs_heap s ! r)" if "r < length (rs_heap s)" using h [of r] l that by simp
  have "unvisited V s' \<subseteq> unvisited V s \<union> {length (rs_heap s)..<length (rs_heap s')}" by (auto simp: unvisited_def)
  then have "card (unvisited V s') \<le> card (unvisited V s) + card {length (rs_heap s)..<length (rs_heap s')}"
    by (meson card_Un_le card_mono finite_UnI finite_atLeastLessThan finite_unvisited le_trans)
  with l xs(2) show "card (unvisited V s') \<le> card (unvisited V s) + j" by simp
  have new: "\<not> heavy (rs_heap s' ! i)" if "i < length (rs_heap s')" "\<not> i < length (rs_heap s)" for i
  proof -
    have "xs ! (i - length (rs_heap s)) \<in> set xs" using that l by (intro nth_mem) auto
    with h [OF that(1)] that(2) xs(3) show ?thesis by auto
  qed
  have "i < length (rs_heap s') \<and> heavy (rs_heap s' ! i) \<longleftrightarrow> i < length (rs_heap s) \<and> heavy (rs_heap s ! i)" for i
    using h [of i] new [of i] l by (cases "i < length (rs_heap s)") auto
  then have "{i. i \<notin> set V \<and> i < length (rs_heap s') \<and> heavy (rs_heap s' ! i)} =
      {i. i \<notin> set V \<and> i < length (rs_heap s) \<and> heavy (rs_heap s ! i)}" by simp
  moreover have "{r \<in> unvisited V t. heavy (rs_heap t ! r)} = {i. i \<notin> set V \<and> i < length (rs_heap t) \<and> heavy (rs_heap t ! i)}" for t
    by (auto simp: unvisited_def)
  ultimately have "{r \<in> unvisited V s'. heavy (rs_heap s' ! r)} = {r \<in> unvisited V s. heavy (rs_heap s ! r)}"
    by simp
  then show "heavies V s' = heavies V s" by (simp add: heavies_def)
qed

lemma visit_counts:
  assumes "c < length (rs_heap s)" "c \<notin> set V"
  shows "to_visit V s = Suc (to_visit (c # V) s + finish_cost (heavy (rs_heap s ! c)) 4)"
    "to_walk V s = to_walk (c # V) s + finish_cost (heavy (rs_heap s ! c)) 6"
proof -
  have u: "unvisited V s = insert c (unvisited (c # V) s)" "c \<notin> unvisited (c # V) s" using assms by (auto simp: unvisited_def)
  have "{r \<in> unvisited V s. heavy (rs_heap s ! r)} =
      (if heavy (rs_heap s ! c) then insert c {r \<in> unvisited (c # V) s. heavy (rs_heap s ! r)}
       else {r \<in> unvisited (c # V) s. heavy (rs_heap s ! r)})"
    using u by auto
  then have h: "heavies V s = heavies (c # V) s + (if heavy (rs_heap s ! c) then 1 else 0)"
    using u(2) by (simp add: heavies_def)
  have "card (unvisited V s) = Suc (card (unvisited (c # V) s))" using u by simp
  with h show "to_visit V s = Suc (to_visit (c # V) s + finish_cost (heavy (rs_heap s ! c)) 4)"
    "to_walk V s = to_walk (c # V) s + finish_cost (heavy (rs_heap s ! c)) 6"
    by (simp_all add: to_visit_def to_walk_def finish_cost_def)
qed

lemma children_le_total: "r < length (rs_heap s) \<Longrightarrow> length (rn_children (rs_heap s ! r)) \<le> total_children s"
  unfolding total_children_def by (rule member_le_sum_list) auto


lemma region_dfs_ends:
  assumes "to_visit V s * (T + 2) + (T + 1 - k) \<le> f" "k \<le> T" "r < length (rs_heap s)"
    and "to_walk V s + finish_cost (heavy (rs_heap s ! r)) 6 \<le> T"
  shows "\<exists>res. region_dfs f r k x V s = Some res \<and> (\<forall>y V' s'. res = Inr (y, V', s') \<longrightarrow>
      to_visit V' s' \<le> to_visit V s + finish_cost (heavy (rs_heap s ! r)) 4
      \<and> to_walk V' s' \<le> to_walk V s + finish_cost (heavy (rs_heap s ! r)) 6
      \<and> length (rs_heap s) \<le> length (rs_heap s')
      \<and> (\<forall>i < length (rs_heap s). heavy (rs_heap s' ! i) = heavy (rs_heap s ! i)))"
  using assms
proof (induction f arbitrary: r k x V s)
  case 0
  then show ?case by simp
next
  case (Suc f)
  show ?case
  proof (cases "drop k (rn_children (rs_heap s ! r))")
    case Nil
    show ?thesis
    proof (cases "finish_region r x s")
      case (Inr a)
      obtain y s' where "finish_region r x s = Inr (y, s')" using Inr by (cases a) simp
      with growsD [OF finish_grows [OF this]] Nil show ?thesis by (auto simp: to_visit_def to_walk_def)
    qed (simp add: Nil)
  next
    case (Cons c cs)
    then have "k < length (rn_children (rs_heap s ! r))" by (metis drop_all list.distinct(1) not_less)
    with children_le_total [OF Suc.prems(3)] Suc.prems(4) have k: "Suc k \<le> T" by (simp add: to_walk_def)
    show ?thesis
    proof (cases "length (rs_heap s) \<le> c \<or> c \<in> set V")
      case True
      have "to_visit V s * (T + 2) + (T + 1 - Suc k) \<le> f" using Suc.prems(1) k by linarith
      from Suc.IH [OF this k Suc.prems(3,4), of x] True Cons show ?thesis by auto
    next
      case False
      then have c: "c < length (rs_heap s)" "c \<notin> set V" by auto
      note n = visit_counts [OF c]
      have "to_visit (c # V) s * (T + 2) + (T + 2) \<le> to_visit V s * (T + 2)" using n(1) by (simp add: algebra_simps)
      then have f: "to_visit (c # V) s * (T + 2) + (T + 1 - 0) \<le> f" using Suc.prems(1,2) by linarith
      obtain res where res: "region_dfs f c 0 c (c # V) s = Some res"
        and after: "\<And>y V' s'. res = Inr (y, V', s') \<Longrightarrow>
          to_visit V' s' \<le> to_visit (c # V) s + finish_cost (heavy (rs_heap s ! c)) 4
          \<and> to_walk V' s' \<le> to_walk (c # V) s + finish_cost (heavy (rs_heap s ! c)) 6
          \<and> length (rs_heap s) \<le> length (rs_heap s')
          \<and> (\<forall>i < length (rs_heap s). heavy (rs_heap s' ! i) = heavy (rs_heap s ! i))"
        using Suc.IH [OF f _ c(1), of c] n(2) Suc.prems(4) by auto
      show ?thesis
      proof (cases res)
        case (Inl e)
        with Cons False res show ?thesis by simp
      next
        case (Inr a)
        then obtain y V' s' where a: "res = Inr (y, V', s')" by (cases a) auto
        note b = after [OF a]
        have h: "heavy (rs_heap s' ! r) = heavy (rs_heap s ! r)" using b Suc.prems(3) by blast
        have v: "Suc (to_visit V' s') \<le> to_visit V s" using b n(1) by simp
        then have "Suc (to_visit V' s') * (T + 2) \<le> to_visit V s * (T + 2)" by (rule mult_le_mono1)
        then have f': "to_visit V' s' * (T + 2) + (T + 1 - Suc k) \<le> f" using Suc.prems(1) by (simp add: algebra_simps)
        have w: "to_walk V' s' + finish_cost (heavy (rs_heap s' ! r)) 6 \<le> T" using b n(2) h Suc.prems(4) by simp
        have r: "r < length (rs_heap s')" using b Suc.prems(3) by simp
        obtain res' where res': "region_dfs f r (Suc k) y V' s' = Some res'"
          and after': "\<And>z V'' s''. res' = Inr (z, V'', s'') \<Longrightarrow>
            to_visit V'' s'' \<le> to_visit V' s' + finish_cost (heavy (rs_heap s' ! r)) 4
            \<and> to_walk V'' s'' \<le> to_walk V' s' + finish_cost (heavy (rs_heap s' ! r)) 6
            \<and> length (rs_heap s') \<le> length (rs_heap s'')
            \<and> (\<forall>i < length (rs_heap s'). heavy (rs_heap s'' ! i) = heavy (rs_heap s' ! i))"
          using Suc.IH [OF f' k r w, of y] by auto
        have "to_visit V'' s'' \<le> to_visit V s + finish_cost (heavy (rs_heap s ! r)) 4
            \<and> to_walk V'' s'' \<le> to_walk V s + finish_cost (heavy (rs_heap s ! r)) 6
            \<and> length (rs_heap s) \<le> length (rs_heap s'')
            \<and> (\<forall>i < length (rs_heap s). heavy (rs_heap s'' ! i) = heavy (rs_heap s ! i))"
          if "res' = Inr (z, V'', s'')" for z V'' s''
        proof -
          note d = after' [OF that]
          have "heavy (rs_heap s'' ! i) = heavy (rs_heap s ! i)" if "i < length (rs_heap s)" for i
            using b d that by simp
          with b d h v n(2) show ?thesis by simp
        qed
        with Cons False res a res' show ?thesis by auto
      qed
    qed
  qed
qed

definition region_fuel :: "regions \<Rightarrow> nat" where
  "region_fuel s =
     (let T = total_children s + 6 * length (rs_heap s) in 5 * length (rs_heap s) * (T + 2) + T + 1)"

lemma region_dfs_more_fuel: "region_dfs f r k x V s = Some res \<Longrightarrow> f \<le> f' \<Longrightarrow> region_dfs f' r k x V s = Some res"
proof (induction f arbitrary: f' r k x V s res)
  case (Suc f)
  obtain g where g: "f' = Suc g" "f \<le> g" using Suc.prems(2) by (cases f') auto
  show ?case
  proof (cases "drop k (rn_children (rs_heap s ! r))")
    case Nil
    with Suc.prems(1) g show ?thesis by simp
  next
    case (Cons c cs)
    show ?thesis
    proof (cases "length (rs_heap s) \<le> c \<or> c \<in> set V")
      case True
      with Cons Suc.prems(1) g Suc.IH [OF _ g(2), of r "Suc k" x V s res] show ?thesis by (auto split: if_splits)
    next
      case False
      then obtain res1 where 1: "region_dfs f c 0 c (c # V) s = Some res1"
        using Suc.prems(1) Cons by (auto split: option.splits)
      with Suc.IH [OF 1 g(2)] Suc.prems(1) Cons False g Suc.IH [OF _ g(2)] show ?thesis
        by (auto split: sum.splits)
    qed
  qed
qed simp

text \<open>
  C37: the reduction of the regions ends, although it makes new regions and rewires the lists it walks over.  On every
  graph of regions the recursion below any region is over after a depth bounded by the number of regions and edges at
  the start; a greater depth changes nothing.
\<close>

theorem region_reduction_ends:
  assumes "r < length (rs_heap s)"
  shows "\<exists>res. process_region_graph_dfs (region_fuel s) r s = Some res
    \<and> (\<forall>f \<ge> region_fuel s. process_region_graph_dfs f r s = Some res)"
proof -
  let ?n = "length (rs_heap s)"
  let ?T = "total_children s + 6 * ?n"
  note v = visit_counts [OF assms, of "[]"]
  have u: "unvisited [] s = {..<?n}" by (simp add: unvisited_def)
  have "heavies [] s \<le> ?n"
    unfolding heavies_def using card_mono [of "unvisited [] s" "{r \<in> unvisited [] s. heavy (rs_heap s ! r)}"] u by auto
  then have 0: "to_visit [] s \<le> 5 * ?n" "to_walk [] s \<le> ?T" using u by (simp_all add: to_visit_def to_walk_def)
  then have w: "to_walk [r] s + finish_cost (heavy (rs_heap s ! r)) 6 \<le> ?T" using v by simp
  have "to_visit [r] s \<le> 5 * ?n" using v 0 by simp
  then have "to_visit [r] s * (?T + 2) \<le> 5 * ?n * (?T + 2)" by (rule mult_le_mono1)
  then have f: "to_visit [r] s * (?T + 2) + (?T + 1 - 0) \<le> region_fuel s" by (simp add: region_fuel_def Let_def)
  obtain res where "process_region_graph_dfs (region_fuel s) r s = Some res"
    using region_dfs_ends [OF f _ assms w, of r] by (auto simp: process_region_graph_dfs_def)
  then show ?thesis by (auto simp: process_region_graph_dfs_def intro: region_dfs_more_fuel)
qed


text \<open>A branch with two arms between a start and an end: the walk replaces its regions by one.\<close>

definition two_arms :: regions where
  "two_arms = no_regions\<lparr>rs_heap :=
     [\<lparr>rn_type = LINEAR, rn_start = At_Node 0, rn_end = At_Node 0, rn_parents = [], rn_children = [1]\<rparr>,
      \<lparr>rn_type = BASIC, rn_start = At_Node 1, rn_end = At_Node 1, rn_parents = [0], rn_children = [2, 3]\<rparr>,
      \<lparr>rn_type = LINEAR, rn_start = At_Node 2, rn_end = At_Node 2, rn_parents = [1], rn_children = [4]\<rparr>,
      \<lparr>rn_type = LINEAR, rn_start = At_Node 3, rn_end = At_Node 3, rn_parents = [1], rn_children = [4]\<rparr>,
      \<lparr>rn_type = BASIC, rn_start = At_Node 4, rn_end = At_Node 4, rn_parents = [2, 3], rn_children = []\<rparr>]\<rparr>"

lemma two_arms_reduced:
  "case process_region_graph_dfs 20 0 two_arms of
     Some (Inr (r, visited, s)) \<Rightarrow> r = 6 \<and> rn_start (rs_heap s ! 6) = At_Region 0 \<and> rn_end (rs_heap s ! 6) = At_Region 5
       \<and> rn_type (rs_heap s ! 5) = IF_ELSE_STATEMENT
   | _ \<Rightarrow> False"
  by code_simp

theorem region_reduction_ends_witness:
  "\<exists>res. process_region_graph_dfs (region_fuel two_arms) 0 two_arms = Some res \<and> process_region_graph_dfs 1000 0 two_arms = Some res"
proof -
  have "region_fuel two_arms = 961"
    by (simp add: region_fuel_def two_arms_def no_regions_def total_children_def Let_def)
  with region_reduction_ends [of 0 two_arms] show ?thesis by (auto simp: two_arms_def)
qed

end
