(* ===== verification/Region_Loops.thy ===== *)
theory Region_Loops
  imports Region_Graph Version_Join Reg_Arith
begin

text \<open>
  Loops in the graph of regions (\<open>src/src/regions/functions_for_regions.py\<close>): the search for the regions that jump back,
  the regions made of the loops that are found, and the variables for registers that change from one round to the next.
  The registers of the nodes are only read.  The loops of the code that may run on are given fuel; \<open>None\<close> means that it
  did not suffice.
\<close>

record loop_tables =
  lt_regions :: regions
  lt_dec :: decompiler
  lt_variables :: "string \<Rightarrow> string option"
  lt_nodes :: "nat \<Rightarrow> string option"

type_synonym 'a on_loops = "(loop_tables, 'a) action"
type_synonym 'a fueled = "loop_tables \<Rightarrow> ('a \<times> loop_tables) res option"
type_synonym program = "(kernel_state, decompiler) world"

definition on_reg :: "'a on_regions \<Rightarrow> 'a on_loops" where
  "on_reg m = (\<lambda>t. bind_res (m (lt_regions t)) (\<lambda>(x, s). Inr (x, t\<lparr>lt_regions := s\<rparr>)))"

definition on_decompiler :: "(decompiler \<Rightarrow> decompiler) \<Rightarrow> unit on_loops" where
  "on_decompiler f = modifyS (\<lambda>t. t\<lparr>lt_dec := f (lt_dec t)\<rparr>)"

definition in_manager :: "'a mgr \<Rightarrow> 'a on_loops" where
  "in_manager m = (\<lambda>t. bind_res (m (dd_manager (lt_dec t))) (\<lambda>(x, mg). Inr (x, t\<lparr>lt_dec := (lt_dec t)\<lparr>dd_manager := mg\<rparr>\<rparr>)))"

definition bindF :: "'a fueled \<Rightarrow> ('a \<Rightarrow> 'b fueled) \<Rightarrow> 'b fueled" where
  "bindF m f = (\<lambda>t. case m t of
     None \<Rightarrow> None | Some (Inl e) \<Rightarrow> Some (Inl e) | Some (Inr (x, t')) \<Rightarrow> f x t')"

definition fueled :: "'a on_loops \<Rightarrow> 'a fueled" where
  "fueled m = (\<lambda>t. Some (m t))"

section \<open>Registers of nodes\<close>

definition known_in :: "program \<Rightarrow> nat \<Rightarrow> operand \<Rightarrow> bool" where
  "known_in w n a = (map_of (nd_state (node_at w n)) (op_name a) \<noteq> None)"

definition named_register :: "program \<Rightarrow> nat \<Rightarrow> string \<Rightarrow> register res" where
  "named_register w n name = (case map_of (nd_state (node_at w n)) name of None \<Rightarrow> Inl KeyError | Some r \<Rightarrow> Inr r)"

text \<open>\<open>get_from_state(reg).version\<close>.\<close>

definition version_in :: "program \<Rightarrow> nat \<Rightarrow> operand \<Rightarrow> string res" where
  "version_in w n a =
     (if \<not> is_base_reg a then Inl AssertionError
      else case map_of (nd_state (node_at w n)) (op_name a) of None \<Rightarrow> Inl AttributeError | Some r \<Rightarrow> Inr (version r))"

definition version_in_parent :: "program \<Rightarrow> nat \<Rightarrow> operand \<Rightarrow> string res" where
  "version_in_parent w n a = bind_res (py_nth (nd_parents (node_at w n)) 0) (\<lambda>p. version_in w p a)"

section \<open>Variables of a loop\<close>

text \<open>The variable of an earlier version is used again, otherwise there is a new one with the type of the register.\<close>

definition new_loop_variable :: "program \<Rightarrow> nat \<Rightarrow> string \<Rightarrow> string on_loops" where
  "new_loop_variable w n name =
     bindS (getS (\<lambda>t. ''var'' @ show_nat (dd_num_of_var (lt_dec t)))) (\<lambda>variable.
     bindS (liftS (named_register w n name)) (\<lambda>r.
     bindS (liftS (get_node (rg_content r))) (\<lambda>z. case z of
         None \<Rightarrow> raiseS AttributeError
       | Some node \<Rightarrow>
           let h = hint_set_is_const (node_hint node) False
           in if opencl_type h = OUnknown then raiseS AssertionError
              else bindS (in_manager (add_variable_node variable h)) (\<lambda>_.
                   bindS (on_decompiler (\<lambda>dd. dd\<lparr>dd_num_of_var := dd_num_of_var dd + 1\<rparr>)) (\<lambda>_. returnS variable)))))"

definition loop_variable :: "program \<Rightarrow> nat \<Rightarrow> string \<Rightarrow> string \<Rightarrow> string on_loops" where
  "loop_variable w n name prev =
     bindS (getS (\<lambda>t. lt_variables t prev)) (\<lambda>z. case z of
         Some v \<Rightarrow> if v \<noteq> [] then returnS v else new_loop_variable w n name
       | None \<Rightarrow> new_loop_variable w n name)"

definition make_var_for_loop :: "program \<Rightarrow> nat \<Rightarrow> string \<Rightarrow> string \<Rightarrow> string \<Rightarrow> unit on_loops" where
  "make_var_for_loop w n name ver prev =
     bindS (loop_variable w n name prev) (\<lambda>variable.
     bindS (liftS (named_register w n name)) (\<lambda>r.
     bindS (liftS (get_data_type (rg_content r))) (\<lambda>d.
     bindS (modifyS (\<lambda>t. t\<lparr>lt_variables := (lt_variables t)(ver \<mapsto> variable), lt_nodes := (lt_nodes t)(n \<mapsto> ver)\<rparr>)) (\<lambda>_.
     bindS (on_decompiler (\<lambda>dd. dd\<lparr>dd_checked := AList.update prev variable (dd_checked dd),
              dd_names_of_vars := AList.update variable d (dd_names_of_vars dd),
              dd_variables := AList.update prev variable (dd_variables dd)\<rparr>)) (\<lambda>_.
     bindS (liftS (get_reg_type (rg_content r))) (\<lambda>ty.
       if ty = Some ADDRESS_KERNEL_ARGUMENT
       then on_decompiler (\<lambda>dd. dd\<lparr>dd_address_params := List.insert variable (dd_address_params dd)\<rparr>)
       else returnS ()))))))"

text \<open>What the walk over the nodes of a loop has seen: versions that were read, the versions every written version was
  made from, and the node that wrote it.\<close>

record loop_walk =
  lw_used :: "string list"
  lw_sources :: "string \<Rightarrow> string list option"
  lw_writer :: "string \<Rightarrow> nat option"
  lw_written :: "string option"

definition instruction_at :: "program \<Rightarrow> nat \<Rightarrow> string" where
  "instruction_at w n = nd_instruction (node_at w n)"

definition writes_memory :: "string \<Rightarrow> bool" where
  "writes_memory s = (startswith s ''flat_store'' \<or> startswith s ''global_store'')"

text \<open>Comparisons and stores write no register.\<close>

definition only_reads :: "string \<Rightarrow> bool" where
  "only_reads s = (contains s ''cmp'' \<or> writes_memory s)"

definition version_register :: "string \<Rightarrow> string" where
  "version_register v = (if CHR ''#'' \<in> set v then takeWhile (\<lambda>c. c \<noteq> CHR ''#'') v else butlast v)"

definition check_source :: "program \<Rightarrow> nat \<Rightarrow> operand \<Rightarrow> string \<Rightarrow> nat \<Rightarrow> string \<Rightarrow> unit on_loops" where
  "check_source w n a v writer source =
     bindS (liftS (named_register w n (version_register source))) (\<lambda>r.
       if source = version r then returnS ()
       else bindS (liftS (if only_reads (instruction_at w n) then Inr v else version_in_parent w n a)) (\<lambda>prev.
            make_var_for_loop w writer (version_register source) v prev))"

fun check_sources :: "program \<Rightarrow> nat \<Rightarrow> operand \<Rightarrow> string \<Rightarrow> nat \<Rightarrow> string list \<Rightarrow> unit on_loops" where
  "check_sources w n a v writer [] = returnS ()"
| "check_sources w n a v writer (x # xs) =
     bindS (check_source w n a v writer x) (\<lambda>_. check_sources w n a v writer xs)"

definition check_changes_in_reg :: "program \<Rightarrow> operand \<Rightarrow> loop_walk \<Rightarrow> nat \<Rightarrow> unit on_loops" where
  "check_changes_in_reg w a lw n =
     (if \<not> is_base_reg a then raiseS AssertionError
      else bindS (liftS (version_in w n a)) (\<lambda>v. case lw_sources lw v of
          None \<Rightarrow> returnS ()
        | Some [] \<Rightarrow> returnS ()
        | Some xs \<Rightarrow> (case lw_writer lw v of
              None \<Rightarrow> raiseS KeyError | Some writer \<Rightarrow> check_sources w n a v writer xs)))"

text \<open>\<open>first_reg_version[: k + 1] + str(int(first_reg_version[k + 1 :]) - 1)\<close>.\<close>

definition previous_version :: "string \<Rightarrow> string res" where
  "previous_version v =
     bind_res (version_number v) (\<lambda>i.
       Inr ((if CHR ''#'' \<in> set v then takeWhile (\<lambda>c. c \<noteq> CHR ''#'') v @ ''#'' else []) @ show_int (i - 1)))"

text \<open>Operand number \<open>k\<close> of a node whose first operand names the register \<open>first\<close>.\<close>

definition read_version :: "program \<Rightarrow> nat \<Rightarrow> operand \<Rightarrow> operand \<Rightarrow> string res" where
  "read_version w n first a =
     (if op_name a = op_name first \<and> \<not> only_reads (instruction_at w n) then version_in_parent w n a else version_in w n a)"

definition note_source :: "string \<Rightarrow> loop_walk \<Rightarrow> loop_walk res" where
  "note_source v lw =
     (case lw_written lw of
        None \<Rightarrow> Inl KeyError
      | Some x \<Rightarrow> (case lw_sources lw x of
            None \<Rightarrow> Inl KeyError | Some vs \<Rightarrow> Inr (lw\<lparr>lw_sources := (lw_sources lw)(x \<mapsto> vs @ [v])\<rparr>)))"

definition loop_read :: "program \<Rightarrow> nat \<Rightarrow> operand \<Rightarrow> operand \<Rightarrow> loop_walk \<Rightarrow> loop_walk on_loops" where
  "loop_read w n first a lw =
     bindS (liftS (read_version w n first a)) (\<lambda>v.
     let lw1 = lw\<lparr>lw_used := List.insert v (lw_used lw)\<rparr>
     in if only_reads (instruction_at w n) then bindS (check_changes_in_reg w a lw1 n) (\<lambda>_. returnS lw1)
        else if op_name a = op_name first then returnS lw1
        else bindS (liftS (note_source v lw1)) (\<lambda>lw2. bindS (check_changes_in_reg w a lw2 n) (\<lambda>_. returnS lw2)))"

definition loop_write :: "program \<Rightarrow> nat \<Rightarrow> operand \<Rightarrow> loop_walk \<Rightarrow> loop_walk on_loops" where
  "loop_write w n a lw =
     (case lw_written lw of
        None \<Rightarrow> raiseS AttributeError
      | Some v \<Rightarrow>
          bindS (liftS (previous_version v)) (\<lambda>prev.
          bindS (if prev \<in> set (lw_used lw) then make_var_for_loop w n (op_name a) v prev else returnS ()) (\<lambda>_. returnS lw)))"

definition loop_operand :: "program \<Rightarrow> nat \<Rightarrow> operand \<Rightarrow> nat \<Rightarrow> operand \<Rightarrow> loop_walk \<Rightarrow> loop_walk on_loops" where
  "loop_operand w n first k operand lw =
     bindS (liftS (hd_res (get_reg_rang operand))) (\<lambda>a.
       if \<not> known_in w n a then returnS lw
       else if only_reads (instruction_at w n) \<or> 0 < k then loop_read w n first a lw
       else loop_write w n a lw)"

fun loop_operands :: "program \<Rightarrow> nat \<Rightarrow> operand \<Rightarrow> (nat \<times> operand) list \<Rightarrow> loop_walk \<Rightarrow> loop_walk on_loops" where
  "loop_operands w n first [] lw = returnS lw"
| "loop_operands w n first ((k, a) # ops) lw =
     bindS (loop_operand w n first k a lw) (loop_operands w n first ops)"

text \<open>The operands that are read come before the first one, which is written.\<close>

definition loop_node :: "program \<Rightarrow> nat \<Rightarrow> loop_walk \<Rightarrow> loop_walk on_loops" where
  "loop_node w n lw =
     (case nd_operands (node_at w n) of
        [] \<Rightarrow> returnS lw
      | d # rest \<Rightarrow>
          bindS (liftS (hd_res (get_reg_rang d))) (\<lambda>first.
          bindS (if \<not> only_reads (instruction_at w n) \<and> known_in w n first
                 then bindS (liftS (version_in w n first)) (\<lambda>v. returnS
                   (lw\<lparr>lw_sources := (lw_sources lw)(v \<mapsto> []), lw_writer := (lw_writer lw)(v \<mapsto> n), lw_written := Some v\<rparr>))
                 else returnS lw) (\<lambda>lw1.
            loop_operands w n first (enumerate 1 rest @ [(0, d)]) lw1)))"

fun walk_loop :: "program \<Rightarrow> nat \<Rightarrow> nat \<Rightarrow> region_point \<Rightarrow> loop_walk \<Rightarrow> loop_walk fueled" where
  "walk_loop w 0 n e lw = (\<lambda>t. None)"
| "walk_loop w (Suc f) n e lw =
     (if At_Node n = e then fueled (returnS lw)
      else bindF (fueled (loop_node w n lw)) (\<lambda>lw1.
           bindF (fueled (liftS (py_nth (nd_children (node_at w n)) 0))) (\<lambda>c. walk_loop w f c e lw1)))"

section \<open>Regions of loops\<close>

definition child_region :: "nat \<Rightarrow> nat \<Rightarrow> nat on_regions" where
  "child_region r k = bindS (region_of r) (\<lambda>x. liftS (py_nth (rn_children x) k))"

definition check_loop :: "nat \<Rightarrow> nat \<Rightarrow> bool on_regions" where
  "check_loop a b =
     bindS (region_of a) (\<lambda>x. case rn_children x of
         [c] \<Rightarrow> bindS (region_of c) (\<lambda>y. returnS (rn_children y = [b]))
       | _ \<Rightarrow> returnS False)"

text \<open>The attributes of a region that starts at an inner region are not those of a node.\<close>

definition start_node :: "nat \<Rightarrow> nat on_regions" where
  "start_node r = bindS (region_of r) (\<lambda>x. case rn_start x of At_Node n \<Rightarrow> returnS n | At_Region q \<Rightarrow> raiseS AttributeError)"

definition loop_region :: "nat \<Rightarrow> nat \<Rightarrow> unit on_regions" where
  "loop_region a b =
     bindS (new_region LOOP (At_Region a)) (\<lambda>r. bindS (set_region_end r (At_Region b)) (\<lambda>_.
     bindS (first_parent_region a) (\<lambda>p. bindS (child_region b 1) (\<lambda>next. add_parent_and_child p (Some next) r a b))))"

definition start_walk :: loop_walk where
  "start_walk = \<lparr>lw_used = [], lw_sources = Map.empty, lw_writer = Map.empty, lw_written = None\<rparr>"

definition process_loop :: "program \<Rightarrow> nat \<Rightarrow> nat \<Rightarrow> nat \<Rightarrow> unit fueled" where
  "process_loop w f a b =
     bindF (fueled (on_reg (bindS (loop_region a b) (\<lambda>_. bindS (start_node a) (\<lambda>n. bindS (region_of b) (\<lambda>y.
       returnS (n, rn_start y))))))) (\<lambda>(n, e).
     bindF (walk_loop w f n e start_walk) (\<lambda>lw. fueled (returnS ())))"

definition remove_region_connect :: "nat \<Rightarrow> nat \<Rightarrow> unit on_regions" where
  "remove_region_connect p c = bindS (edit_children p (remove_item c)) (\<lambda>_. edit_parents c (remove_item p))"

definition set_region_type :: "nat \<Rightarrow> region_type \<Rightarrow> unit on_regions" where
  "set_region_type r t = edit_region r (\<lambda>x. Inr (x\<lparr>rn_type := t\<rparr>))"

definition unvisited_children :: "nat \<Rightarrow> nat list \<Rightarrow> nat list on_regions" where
  "unvisited_children r visited = bindS (region_of r) (\<lambda>x. returnS (filter (\<lambda>c. c \<notin> set visited) (rn_children x)))"

text \<open>\<open>preprocess_if_and_if_else\<close> queues children.  At an \<open>if\<close> it takes the region that the reduction returns for a triple,
  which raises.\<close>

definition preprocess_if_and_if_else :: "nat \<Rightarrow> nat list \<Rightarrow> nat list \<Rightarrow> nat list on_regions" where
  "preprocess_if_and_if_else r visited q =
     bindS (region_of r) (\<lambda>x. bindS (getS (check_if r)) (\<lambda>one. bindS (getS (check_if_else r)) (\<lambda>two.
       if rn_type x \<noteq> LINEAR \<and> one then bindS (process_if_statement_region r) (\<lambda>_. raiseS TypeError)
       else if rn_type x \<noteq> LINEAR \<and> two then bindS (process_if_else_statement_region r) (\<lambda>_. raiseS TypeError)
       else bindS (unvisited_children r visited) (\<lambda>cs. returnS (q @ cs)))))"

text \<open>A branch out of the loop becomes a \<open>break\<close>.  The result is the new queue, and whether the walk starts over.\<close>

definition break_region :: "nat \<Rightarrow> nat \<Rightarrow> nat list \<Rightarrow> nat list \<Rightarrow> (bool \<times> nat list) on_regions" where
  "break_region r after visited q =
     bindS (two_children r) (\<lambda>(a, b).
     bindS (set_region_type r BREAK_REGION) (\<lambda>_.
     bindS (remove_region_connect r after) (\<lambda>_.
     bindS (first_parent_region r) (\<lambda>p.
     bindS (join_regions p r (Some (if b = after then a else b))) (\<lambda>_.
     bindS (region_of r) (\<lambda>x.
     bindS (unvisited_children r visited) (\<lambda>cs. returnS (rn_children x = [], q @ cs))))))))"

definition is_break :: "nat \<Rightarrow> nat \<Rightarrow> bool on_regions" where
  "is_break r after =
     bindS (region_of r) (\<lambda>x. returnS (rn_type x = BASIC \<and> length (rn_children x) = 2 \<and> after \<in> set (rn_children x)))"

fun process_control_structures_in_loop ::
    "program \<Rightarrow> nat \<Rightarrow> nat \<Rightarrow> nat \<Rightarrow> nat \<Rightarrow> nat list \<Rightarrow> nat list \<Rightarrow> unit fueled" where
  "process_control_structures_in_loop w 0 a b after visited q = (\<lambda>t. None)"
| "process_control_structures_in_loop w (Suc f) a b after visited q =
     bindF (fueled (on_reg (child_region a 0))) (\<lambda>c.
       if c = after then fueled (returnS ())
       else case q of
         [] \<Rightarrow> fueled (raiseS IndexError)
       | r # rest \<Rightarrow>
           if r \<in> set visited then process_control_structures_in_loop w f a b after visited rest
           else bindF (fueled (on_reg (check_loop a b))) (\<lambda>simple.
                if simple then process_loop w f a b
                else bindF (fueled (on_reg (is_break r after))) (\<lambda>leaves.
                  if leaves
                  then bindF (fueled (on_reg (break_region r after (r # visited) rest))) (\<lambda>(again, q1).
                         if again then process_control_structures_in_loop w f a b after [] [a]
                         else process_control_structures_in_loop w f a b after (r # visited) q1)
                  else bindF (fueled (on_reg (preprocess_if_and_if_else r (r # visited) rest))) (\<lambda>q1.
                         process_control_structures_in_loop w f a b after (r # visited) q1))))"

definition loop_with_control :: "program \<Rightarrow> nat \<Rightarrow> nat \<Rightarrow> nat \<Rightarrow> unit fueled" where
  "loop_with_control w f a b =
     bindF (fueled (on_reg (child_region b 1))) (\<lambda>after. process_control_structures_in_loop w f a b after [] [a])"

section \<open>The search for loops\<close>

text \<open>The jump back at \<open>cur\<close> is compared with the labels of the open loops, innermost first; what it passes on the way
  is a \<open>continue\<close>, or an outer loop.  The state of the search: the current loop, the start region of the search, the
  open loops, the start of the loop that was found.\<close>

record loop_search =
  sr_loop :: "nat option"
  sr_start :: nat
  sr_open :: "nat list"
  sr_found :: "nat option"

definition back_label :: "program \<Rightarrow> nat \<Rightarrow> operand on_regions" where
  "back_label w r = bindS (start_node r) (\<lambda>n. liftS (py_nth (nd_operands (node_at w n)) 1))"

definition loop_label :: "program \<Rightarrow> nat \<Rightarrow> string on_regions" where
  "loop_label w r = bindS (start_node r) (\<lambda>n. returnS (instruction_at w n))"

text \<open>The open loops are a stack with its top at the end; here the list is reversed.\<close>

fun match_loops :: "program \<Rightarrow> nat \<Rightarrow> nat list \<Rightarrow> loop_search \<Rightarrow> loop_search on_regions" where
  "match_loops w cur [] sr = returnS (sr\<lparr>sr_open := []\<rparr>)"
| "match_loops w cur (r # rs) sr =
     bindS (region_of r) (\<lambda>x.
       if rn_type x = BACK_EDGE
       then bindS (set_region_type r CONTINUE_REGION) (\<lambda>_. bindS (first_parent_region r) (\<lambda>p. bindS (child_region r 0) (\<lambda>c.
            bindS (join_regions p r (Some c)) (\<lambda>_. match_loops w cur rs sr))))
       else bindS (back_label w cur) (\<lambda>a. bindS (loop_label w r) (\<lambda>l.
            if op_name a = l then match_loops w cur rs (sr\<lparr>sr_found := Some r, sr_loop := None\<rparr>)
            else returnS (sr\<lparr>sr_start := r, sr_loop := Some r, sr_open := rev (r # rs)\<rparr>))))"

text \<open>Without a loop that was found, \<open>check_loop\<close> asks \<open>None\<close> for its children.  There is a current loop exactly when there
  are open ones, so that a current loop is always assigned.\<close>

definition get_one_loop_region :: "program \<Rightarrow> nat \<Rightarrow> nat \<Rightarrow> loop_search \<Rightarrow> nat \<Rightarrow> loop_search fueled" where
  "get_one_loop_region w f cur sr region_end =
     bindF (fueled (on_reg (match_loops w cur (rev (sr_open sr)) sr))) (\<lambda>sr1. case sr_found sr1 of
         None \<Rightarrow> fueled (raiseS AttributeError)
       | Some a \<Rightarrow>
           bindF (fueled (on_reg (check_loop a region_end))) (\<lambda>simple.
           bindF (if simple then process_loop w f a region_end else loop_with_control w f a region_end) (\<lambda>_.
             fueled (returnS sr1))))"

text \<open>The test whether a jump back belongs to the current loop compares an operand with a text and fails, but its two
  sides are evaluated.\<close>

definition back_edge_test :: "program \<Rightarrow> nat \<Rightarrow> nat option \<Rightarrow> bool on_regions" where
  "back_edge_test w cur z =
     bindS (back_label w cur) (\<lambda>a. case z of
         None \<Rightarrow> raiseS AttributeError
       | Some l \<Rightarrow> bindS (loop_label w l) (\<lambda>s. returnS False))"

definition search_region :: "program \<Rightarrow> nat \<Rightarrow> nat \<Rightarrow> loop_search \<Rightarrow> loop_search fueled" where
  "search_region w f r sr =
     bindF (fueled (on_reg (region_of r))) (\<lambda>x.
       if rn_type x = BACK_EDGE
       then bindF (fueled (on_reg (back_edge_test w r (sr_loop sr)))) (\<lambda>own.
              if own then fueled (returnS (sr\<lparr>sr_open := sr_open sr @ [r]\<rparr>))
              else get_one_loop_region w f r (sr\<lparr>sr_found := sr_loop sr\<rparr>) r)
       else if rn_type x = START_LOOP
       then fueled (returnS (sr\<lparr>sr_loop := Some r, sr_open := sr_open sr @ [r]\<rparr>))
       else fueled (returnS sr))"

fun search_loops :: "program \<Rightarrow> nat \<Rightarrow> nat \<Rightarrow> nat list \<Rightarrow> nat list \<Rightarrow> loop_search \<Rightarrow> loop_search fueled" where
  "search_loops w f 0 visited q sr = (\<lambda>t. None)"
| "search_loops w f (Suc g) visited q sr =
     (case q of
        [] \<Rightarrow> fueled (returnS sr)
      | r # rest \<Rightarrow>
          if r \<in> set visited then search_loops w f g visited rest sr
          else bindF (search_region w f r sr) (\<lambda>sr1.
               bindF (fueled (on_reg (unvisited_children r (r # visited)))) (\<lambda>cs.
                 search_loops w f g (r # visited) (rest @ cs) sr1)))"

text \<open>A loop that is still open at the end.\<close>

definition close_search :: "program \<Rightarrow> nat \<Rightarrow> loop_search \<Rightarrow> unit fueled" where
  "close_search w f sr =
     (if sr_open sr = [] then fueled (returnS ())
      else let r = last (sr_open sr)
           in bindF (get_one_loop_region w f r (sr\<lparr>sr_open := butlast (sr_open sr), sr_found := None\<rparr>) r) (\<lambda>_. fueled (returnS ())))"

definition find_loops :: "program \<Rightarrow> nat \<Rightarrow> unit fueled" where
  "find_loops w f =
     bindF (fueled (on_reg (bindS (liftS (py_nth (w_loops w) 0)) (\<lambda>n. bindS (starts_region n) (\<lambda>r.
       bindS (child_region r 0) (\<lambda>c. returnS (r, c))))))) (\<lambda>(r, c).
     bindF (search_loops w f f [r] [c] \<lparr>sr_loop = Some r, sr_start = r, sr_open = [r], sr_found = None\<rparr>) (close_search w f))"

section \<open>\<open>process_region_graph\<close>\<close>

definition fueled_dfs :: "nat \<Rightarrow> nat \<Rightarrow> nat fueled" where
  "fueled_dfs f r = (\<lambda>t. case process_region_graph_dfs f r (lt_regions t) of
     None \<Rightarrow> None
   | Some (Inl e) \<Rightarrow> Some (Inl e)
   | Some (Inr (x, visited, s)) \<Rightarrow> Some (Inr (x, t\<lparr>lt_regions := s\<rparr>)))"

definition process_region_graph :: "program \<Rightarrow> nat \<Rightarrow> nat fueled" where
  "process_region_graph w f =
     bindF (if w_loops w \<noteq> [] then find_loops w f else fueled (returnS ())) (\<lambda>_.
     bindF (fueled (on_reg (starts_region 0))) (fueled_dfs f))"


section \<open>Registers that change from round to round\<close>

lemma on_decompiler_Inr: "on_decompiler f t = Inr (u, t') \<longleftrightarrow> t' = t\<lparr>lt_dec := f (lt_dec t)\<rparr>"
  by (auto simp: on_decompiler_def method_simps)

lemma in_manager_Inr:
  "in_manager m t = Inr (x, t') \<longleftrightarrow>
     (\<exists>mg. m (dd_manager (lt_dec t)) = Inr (x, mg) \<and> t' = t\<lparr>lt_dec := (lt_dec t)\<lparr>dd_manager := mg\<rparr>\<rparr>)"
  by (auto simp: in_manager_def)

lemmas loop_simps = on_decompiler_Inr in_manager_Inr method_simps

lemma loop_variable_name:
  assumes "loop_variable w n name prev t = Inr (variable, t')"
  shows "lt_variables t prev = Some variable \<and> variable \<noteq> [] \<or> variable = ''var'' @ show_nat (dd_num_of_var (lt_dec t))"
  using assms
  by (auto simp: loop_variable_def new_loop_variable_def loop_simps Let_def split: option.splits if_splits)

definition shares_variable :: "loop_tables \<Rightarrow> nat \<Rightarrow> string \<Rightarrow> string \<Rightarrow> string \<Rightarrow> bool" where
  "shares_variable t n v prev variable \<longleftrightarrow> lt_nodes t n = Some v \<and> lt_variables t v = Some variable
     \<and> map_of (dd_variables (lt_dec t)) prev = Some variable \<and> map_of (dd_checked (lt_dec t)) prev = Some variable"

lemma make_var_for_loop_shares:
  assumes "make_var_for_loop w n name v prev t = Inr (u, t')"
  shows "\<exists>variable. shares_variable t' n v prev variable
    \<and> (lt_variables t prev = Some variable \<and> variable \<noteq> [] \<or> variable = ''var'' @ show_nat (dd_num_of_var (lt_dec t)))"
proof -
  obtain variable t1 where v: "loop_variable w n name prev t = Inr (variable, t1)"
    and r: "bindS (liftS (named_register w n name)) (\<lambda>r.
     bindS (liftS (get_data_type (rg_content r))) (\<lambda>d.
     bindS (modifyS (\<lambda>t. t\<lparr>lt_variables := (lt_variables t)(v \<mapsto> variable), lt_nodes := (lt_nodes t)(n \<mapsto> v)\<rparr>)) (\<lambda>_.
     bindS (on_decompiler (\<lambda>dd. dd\<lparr>dd_checked := AList.update prev variable (dd_checked dd),
              dd_names_of_vars := AList.update variable d (dd_names_of_vars dd),
              dd_variables := AList.update prev variable (dd_variables dd)\<rparr>)) (\<lambda>_.
     bindS (liftS (get_reg_type (rg_content r))) (\<lambda>ty.
       if ty = Some ADDRESS_KERNEL_ARGUMENT
       then on_decompiler (\<lambda>dd. dd\<lparr>dd_address_params := List.insert variable (dd_address_params dd)\<rparr>)
       else returnS ()))))) t1 = Inr (u, t')"
    using assms unfolding make_var_for_loop_def by (auto simp: bindS_Inr)
  have "shares_variable t' n v prev variable"
    using r by (auto simp: shares_variable_def loop_simps update_conv' split: if_splits)
  with loop_variable_name [OF v] show ?thesis by blast
qed

lemma loop_operands_append:
  "loop_operands w n first (xs @ ys) lw = bindS (loop_operands w n first xs lw) (loop_operands w n first ys)"
proof (induction xs arbitrary: lw)
  case (Cons x xs)
  have "loop_operands w n first (xs @ ys) = (\<lambda>lw. bindS (loop_operands w n first xs lw) (loop_operands w n first ys))"
    by (rule ext) (rule Cons.IH)
  then show ?case by (cases x) (simp add: bindS_assoc)
qed simp

lemma loop_read_written: "loop_read w n first a lw t = Inr (lw', t') \<Longrightarrow> lw_written lw' = lw_written lw"
  by (auto simp: loop_read_def note_source_def Let_def loop_simps split: if_splits option.splits)

lemma loop_operands_written:
  "loop_operands w n first (enumerate (Suc k) ops) lw t = Inr (lw', t') \<Longrightarrow> lw_written lw' = lw_written lw"
proof (induction ops arbitrary: k lw t)
  case (Cons a ops)
  then obtain lw1 t1 where 1: "loop_operand w n first (Suc k) a lw t = Inr (lw1, t1)"
    "loop_operands w n first (enumerate (Suc (Suc k)) ops) lw1 t1 = Inr (lw', t')"
    by (auto simp: method_simps)
  have "lw_written lw1 = lw_written lw"
    using 1(1) loop_read_written by (auto simp: loop_operand_def loop_simps split: if_splits)
  with Cons.IH [OF 1(2)] show ?case by simp
qed (simp add: method_simps)

text \<open>
  C38: a register that a loop reads and then overwrites becomes a variable.  When the walk over the loop has processed a
  node that writes a new version of a register, and the version before it has been read in the loop by then, the node is
  marked as one that assigns a variable, and one variable stands for both versions: the node assigns it at the end of a
  round, and whoever reads the earlier version at the beginning of the next round reads it.
\<close>

theorem loop_register_gets_variable:
  assumes "loop_node w n lw t = Inr (lw', t')" and "nd_operands (node_at w n) = d # rest"
    and "get_reg_rang d = first # others" and "\<not> only_reads (instruction_at w n)" and "known_in w n first"
    and "version_in w n first = Inr v" and "previous_version v = Inr prev" and "prev \<in> set (lw_used lw')"
  shows "\<exists>variable. shares_variable t' n v prev variable"
proof -
  let ?lw1 = "lw\<lparr>lw_sources := (lw_sources lw)(v \<mapsto> []), lw_writer := (lw_writer lw)(v \<mapsto> n), lw_written := Some v\<rparr>"
  have "loop_operands w n first (enumerate 1 rest @ [(0, d)]) ?lw1 t = Inr (lw', t')"
    using assms by (simp add: loop_node_def hd_res_def method_simps)
  then obtain lw2 t2 where 2: "loop_operands w n first (enumerate (Suc 0) rest) ?lw1 t = Inr (lw2, t2)"
    and w: "loop_operand w n first 0 d lw2 t2 = Inr (lw', t')"
    by (auto simp: loop_operands_append method_simps)
  have "lw_written lw2 = Some v" using loop_operands_written [OF 2] by simp
  with w assms have "lw2 = lw'" "\<exists>u. make_var_for_loop w n (op_name first) v prev t2 = Inr (u, t')"
    by (auto simp: loop_operand_def loop_write_def hd_res_def method_simps split: if_splits)
  with make_var_for_loop_shares show ?thesis by blast
qed


text \<open>A counter: its version 0 comes from before the node, which writes version 1.\<close>

definition counter_register :: "int \<Rightarrow> register" where
  "counter_register k =
     (new_register ENTIRE (Plain (plain (PStr ''i'') UNKNOWN 32 (Some ''u32'') (Some (NVar (mk_info 0 (mk_hint (OType UINT_T W1))) ''i''))))
        (Leaf 32))\<lparr>rg_version_name := ''i'', rg_version_num := k\<rparr>"

definition counter_node :: "nat list \<Rightarrow> int \<Rightarrow> kernel_state cfg_node" where
  "counter_node ps k =
     \<lparr>nd_instruction = ''v_add_u32'', nd_operands = [Reg32 ''i'', Reg32 ''i'', Val ''1''], nd_parents = ps, nd_children = [],
      nd_exec = exec_default, nd_state = [(''i'', counter_register k)]\<rparr>"

definition counter_program :: program where
  "counter_program =
     \<lparr>w_nodes = [counter_node [] 0, counter_node [0] 1], w_exec_registers = Map.empty, w_to_node = Map.empty,
      w_from_node = Map.empty, w_loops = [], w_back_edges = [], w_rest = reset_decompiler init_manager\<rparr>"

definition no_tables :: loop_tables where
  "no_tables =
     \<lparr>lt_regions = no_regions, lt_dec = reset_decompiler (reset_manager ''k'' init_manager), lt_variables = Map.empty, lt_nodes = Map.empty\<rparr>"

lemma counter_step:
  "case loop_node counter_program 1 start_walk no_tables of
     Inr (lw, t) \<Rightarrow> lw_used lw = [''i#0''] \<and> lt_variables t ''i#1'' = Some ''var0'' | Inl e \<Rightarrow> False"
  by code_simp

theorem loop_register_gets_variable_witness:
  "\<exists>lw t. loop_node counter_program 1 start_walk no_tables = Inr (lw, t) \<and> shares_variable t 1 ''i#1'' ''i#0'' ''var0''"
proof -
  obtain lw t where r: "loop_node counter_program 1 start_walk no_tables = Inr (lw, t)" "lw_used lw = [''i#0'']"
    "lt_variables t ''i#1'' = Some ''var0''"
    using counter_step by (auto split: sum.splits)
  have "\<exists>variable. shares_variable t 1 ''i#1'' ''i#0'' variable"
  proof (rule loop_register_gets_variable [OF r(1)])
    show "nd_operands (node_at counter_program 1) = Reg32 ''i'' # [Reg32 ''i'', Val ''1'']" "get_reg_rang (Reg32 ''i'') = Reg32 ''i'' # []"
      "known_in counter_program 1 (Reg32 ''i'')" "version_in counter_program 1 (Reg32 ''i'') = Inr ''i#1''"
      "previous_version ''i#1'' = Inr ''i#0''" "\<not> only_reads (instruction_at counter_program 1)"
      by code_simp+
  qed (simp add: r(2))
  with r show ?thesis by (auto simp: shares_variable_def)
qed

section \<open>Which loops are reduced\<close>

definition sample_node :: "string \<Rightarrow> operand list \<Rightarrow> nat list \<Rightarrow> nat list \<Rightarrow> kernel_state cfg_node" where
  "sample_node i ops ps cs =
     \<lparr>nd_instruction = i, nd_operands = ops, nd_parents = ps, nd_children = cs, nd_exec = exec_default, nd_state = []\<rparr>"

definition sample_program :: "nat list \<Rightarrow> nat list \<Rightarrow> kernel_state cfg_node list \<Rightarrow> program" where
  "sample_program loops back ns =
     \<lparr>w_nodes = ns, w_exec_registers = Map.empty, w_to_node = Map.empty, w_from_node = Map.empty, w_loops = loops,
      w_back_edges = back, w_rest = reset_decompiler init_manager\<rparr>"

text \<open>The regions of a program, with the region that starts at the label of its loop.\<close>

definition sample_regions :: "nat \<Rightarrow> nat \<Rightarrow> region list \<Rightarrow> loop_tables" where
  "sample_regions label r rs = no_tables\<lparr>lt_regions := \<lparr>rs_heap = rs, rs_starts = [0 \<mapsto> 0, label \<mapsto> r], rs_ends = Map.empty\<rparr>\<rparr>"

definition node_of_region :: "region_type \<Rightarrow> nat \<Rightarrow> nat list \<Rightarrow> nat list \<Rightarrow> region" where
  "node_of_region t n ps cs = \<lparr>rn_type = t, rn_start = At_Node n, rn_end = At_Node n, rn_parents = ps, rn_children = cs\<rparr>"

definition before_loop :: region where
  "before_loop = (node_of_region LINEAR 0 [] [1])\<lparr>rn_end := At_Node 1\<rparr>"

definition reduced_to :: "(nat \<times> loop_tables) res option \<Rightarrow> (nat \<times> region list) res option" where
  "reduced_to z = map_option (map_sum id (\<lambda>(r, t). (r, rs_heap (lt_regions t)))) z"

text \<open>A straight loop that ends with a conditional jump becomes a loop region between its neighbours.\<close>

definition straight_loop :: program where
  "straight_loop = sample_program [2] [4]
     [sample_node [] [] [] [1], sample_node ''s_nop'' [] [0] [2], sample_node ''.L'' [] [1, 4] [3],
      sample_node ''s_nop'' [] [2] [4], sample_node ''s_br'' [PredReg ''p'', Val ''.L''] [3] [2, 5], sample_node ''s_endpgm'' [] [4] []]"

definition straight_loop_regions :: loop_tables where
  "straight_loop_regions = sample_regions 2 1
     [before_loop, node_of_region START_LOOP 2 [0, 3] [2], node_of_region LINEAR 3 [1] [3],
      node_of_region BACK_EDGE 4 [2] [1, 4], node_of_region LINEAR 5 [3] []]"

lemma straight_loop_reduced:
  "case reduced_to (process_region_graph straight_loop 20 straight_loop_regions) of
     Some (Inr (r, rs)) \<Rightarrow> rn_type (rs ! r) = LINEAR \<and> rn_start (rs ! r) = At_Region 0 \<and> rn_end (rs ! r) = At_Region 4
       \<and> rn_children (rs ! 0) = [5] \<and> rn_children (rs ! 5) = [4]
       \<and> rn_type (rs ! 5) = LOOP \<and> rn_start (rs ! 5) = At_Region 1 \<and> rn_end (rs ! 5) = At_Region 3
   | _ \<Rightarrow> False"
  by code_simp


text \<open>A loop that jumps back without a condition has no second operand to compare; a branch inside a loop makes the
  reduction unpack a region; a jump out of a loop leaves its start region with the old children, and the queue runs
  empty.\<close>

definition endless_loop :: program where
  "endless_loop = sample_program [2] [4]
     [sample_node [] [] [] [1], sample_node ''s_nop'' [] [0] [2], sample_node ''.L'' [] [1, 4] [3],
      sample_node ''s_nop'' [] [2] [4], sample_node ''s_branch'' [Val ''.L''] [3] [2]]"

definition endless_loop_regions :: loop_tables where
  "endless_loop_regions = sample_regions 2 1
     [before_loop, node_of_region START_LOOP 2 [0, 3] [2], node_of_region LINEAR 3 [1] [3], node_of_region BACK_EDGE 4 [2] [1]]"

definition branch_in_loop :: program where
  "branch_in_loop = sample_program [2] [6]
     [sample_node [] [] [] [1], sample_node ''s_nop'' [] [0] [2], sample_node ''.L'' [] [1, 6] [3],
      sample_node ''s_br'' [PredReg ''p'', Val ''.M''] [2] [4, 5], sample_node ''s_nop'' [] [3] [5], sample_node ''.M'' [] [4, 3] [6],
      sample_node ''s_br'' [PredReg ''p'', Val ''.L''] [5] [2, 7], sample_node ''s_endpgm'' [] [6] []]"

definition branch_in_loop_regions :: loop_tables where
  "branch_in_loop_regions = sample_regions 2 1
     [before_loop, node_of_region START_LOOP 2 [0, 5] [2], node_of_region BASIC 3 [1] [3, 4], node_of_region LINEAR 4 [2] [4],
      node_of_region BASIC 5 [3, 2] [5], node_of_region BACK_EDGE 6 [4] [1, 6], node_of_region LINEAR 7 [5] []]"

definition break_in_loop :: program where
  "break_in_loop = sample_program [2] [5]
     [sample_node [] [] [] [1], sample_node ''s_nop'' [] [0] [2], sample_node ''.L'' [] [1, 5] [3],
      sample_node ''s_br'' [PredReg ''p'', Val ''.M''] [2] [4, 6], sample_node ''s_nop'' [] [3] [5],
      sample_node ''s_br'' [PredReg ''p'', Val ''.L''] [4] [2, 6], sample_node ''.M'' [] [5, 3] [7], sample_node ''s_endpgm'' [] [6] []]"

definition break_in_loop_regions :: loop_tables where
  "break_in_loop_regions = sample_regions 2 1
     [before_loop, node_of_region START_LOOP 2 [0, 5] [2], node_of_region BASIC 3 [1] [3, 6], node_of_region LINEAR 4 [2] [5],
      node_of_region BASIC 6 [] [], node_of_region BACK_EDGE 5 [3] [1, 6], node_of_region BASIC 6 [5, 2] [7],
      node_of_region LINEAR 7 [6] []]"

lemma other_loops_raise:
  "reduced_to (process_region_graph endless_loop 20 endless_loop_regions) = Some (Inl IndexError)"
  "reduced_to (process_region_graph branch_in_loop 20 branch_in_loop_regions) = Some (Inl TypeError)"
  "reduced_to (process_region_graph break_in_loop 20 break_in_loop_regions) = Some (Inl IndexError)"
  by code_simp+

end
