(* ===== verification/Print_Text.thy ===== *)
theory Print_Text
  imports Print_Node
begin

text \<open>
  What is written to the output (\<open>write\<close> and \<open>simplify_opencl_statement\<close> of \<open>src/src/decompiler_data.py\<close>): the text of
  every index between brackets is simplified by sympy, a parameter, with the conversions that the decompiler remembers
  taken out and put back.  Data of a program that is printed as text: definitions of global arrays and of the kernel.
\<close>

section \<open>Text\<close>

text \<open>\<open>s.find(p, k)\<close> and \<open>s.replace(old, new)\<close>; an empty \<open>old\<close> is found before every character and at the end.\<close>

definition text_find_from :: "string \<Rightarrow> string \<Rightarrow> nat \<Rightarrow> int" where
  "text_find_from s p k =
     (case find (\<lambda>i. startswith (drop i s) p) [k..<Suc (length s)] of Some i \<Rightarrow> int i | None \<Rightarrow> -1)"

definition py_replace :: "string \<Rightarrow> string \<Rightarrow> string \<Rightarrow> string" where
  "py_replace old new s = (if old = [] then new @ concat (map (\<lambda>c. c # new) s) else replace_text old new s)"

lemma find_Some_in: "find P xs = Some x \<Longrightarrow> x \<in> set xs \<and> P x"
  by (induction xs) (auto split: if_splits)

lemma text_find_from_char: "text_find_from s [c] k = -1 \<or> int k \<le> text_find_from s [c] k \<and> text_find_from s [c] k < int (length s)"
proof (cases "find (\<lambda>i. startswith (drop i s) [c]) [k..<Suc (length s)]")
  case (Some i)
  from find_Some_in [OF Some] have "k \<le> i" "drop i s \<noteq> []" by (auto simp: startswith_def)
  with Some show ?thesis by (simp add: text_find_from_def del: upt_Suc)
qed (simp add: text_find_from_def del: upt_Suc)

section \<open>Simplification of indices\<close>

definition conversions_in :: "(string \<times> string) list \<Rightarrow> string \<Rightarrow> (string \<times> string) list" where
  "conversions_in cs s = filter (\<lambda>(key, d). contains s (d @ key)) cs"

text \<open>The conversions in front of an index are removed for sympy, and put back before what they converted.\<close>

definition simplify_index :: "(string \<Rightarrow> string) \<Rightarrow> (string \<times> string) list \<Rightarrow> string \<Rightarrow> string" where
  "simplify_index sympy known s =
     (let cs = conversions_in known s;
          s1 = fold (\<lambda>(key, d). py_replace d []) cs s;
          s2 = (if s1 \<noteq> [] then sympy s1 else s1)
      in fold (\<lambda>(key, d) t. if contains t key then py_replace key (d @ key) t else t) cs s2)"

text \<open>\<open>start_open\<close> and \<open>start_close\<close> are the last brackets found, at first \<open>0\<close>; \<open>find\<close> may give \<open>-1\<close> for the closing one.\<close>

function simplify_indices ::
    "(string \<Rightarrow> string) \<Rightarrow> (string \<times> string) list \<Rightarrow> string \<Rightarrow> nat \<Rightarrow> int \<Rightarrow> string \<Rightarrow> string" where
  "simplify_indices sympy cs line start_open start_close new_line =
     (let op = text_find_from line ''['' (Suc start_open);
          cl = text_find_from line '']'' (nat (start_close + 1))
      in if op = -1
         then (if start_close \<noteq> 0 then new_line @ text_slice line (start_close + 1) (int (length line)) else line)
         else simplify_indices sympy cs line (nat op) cl
                (new_line @ text_slice line (if start_close = 0 then 0 else start_close + 1) (op + 1)
                  @ simplify_index sympy cs (text_slice line (op + 1) cl) @ '']''))"
  by pat_completeness auto
termination
proof (relation "measure (\<lambda>(sympy, cs, line, a, b, new_line). length line - a)", goal_cases)
  case (2 sympy cs line a b new_line op cl)
  with text_find_from_char [of line "CHR ''[''" "Suc a"] show ?case by auto
qed simp

declare simplify_indices.simps [simp del]

definition simplify_opencl_statement :: "(string \<Rightarrow> string) \<Rightarrow> (string \<times> string) list \<Rightarrow> string \<Rightarrow> string" where
  "simplify_opencl_statement sympy cs line = simplify_indices sympy cs line 0 0 []"

text \<open>\<open>write\<close>; \<open>raw\<close> says that the flag of the command line is \<open>ONLY_CLRX\<close>.\<close>

definition written_text :: "bool \<Rightarrow> (string \<Rightarrow> string) \<Rightarrow> (string \<times> string) list \<Rightarrow> string \<Rightarrow> string" where
  "written_text raw sympy cs s =
     (if raw \<or> contains s ''Not resolved yet. '' then s
      else replace_text ''___'' ''.'' (simplify_opencl_statement sympy cs s))"

lemma no_index_unchanged: "CHR ''['' \<notin> set (tl line) \<Longrightarrow> simplify_opencl_statement sympy cs line = line"
proof -
  assume a: "CHR ''['' \<notin> set (tl line)"
  have "\<not> startswith (drop i line) ''[''" if "1 \<le> i" for i
  proof
    assume "startswith (drop i line) ''[''"
    then obtain r where "drop i line = CHR ''['' # r" by (auto dest: startswithE)
    then have "CHR ''['' \<in> set (drop i line)" by simp
    moreover have "set (drop i line) \<subseteq> set (tl line)" using that by (cases line) (auto simp: drop_Cons' dest: in_set_dropD)
    ultimately show False using a by blast
  qed
  then have "find (\<lambda>i. startswith (drop i line) ''['') [Suc 0..<Suc (length line)] = None"
    by (auto simp: find_None_iff)
  then have "text_find_from line ''['' (Suc 0) = -1" by (simp only: text_find_from_def option.case)
  then show ?thesis by (simp add: simplify_opencl_statement_def simplify_indices.simps [of sympy cs line 0 0])
qed

text \<open>An index that contains an index is cut at the first closing bracket, and its end is printed twice, whatever sympy
  makes of it.\<close>

lemma nested_index_garbled: "simplify_opencl_statement id [] ''a[b[0]]'' = ''a[b[0]0]]''"
  by code_simp


section \<open>Flat indices\<close>

lemma find_append: "find P (xs @ ys) = (case find P xs of None \<Rightarrow> find P ys | Some x \<Rightarrow> Some x)"
  by (induction xs) auto

lemma no_char_from: "c \<notin> set (drop k s) \<Longrightarrow> k \<le> i \<Longrightarrow> \<not> startswith (drop i s) [c]"
  by (metis append_Cons drop_drop in_set_dropD le_add_diff_inverse2 list.set_intros(1) startswithE)

lemma text_find_none: "c \<notin> set (drop k s) \<Longrightarrow> text_find_from s [c] k = -1"
proof -
  assume c: "c \<notin> set (drop k s)"
  have "find (\<lambda>i. startswith (drop i s) [c]) [k..<Suc (length s)] = None"
    unfolding find_None_iff using no_char_from [OF c] by auto
  then show ?thesis by (simp only: text_find_from_def option.case)
qed

lemma text_find_first:
  assumes "c \<notin> set (drop k xs)" "k \<le> length xs"
  shows "text_find_from (xs @ c # ys) [c] k = int (length xs)"
proof -
  let ?s = "xs @ c # ys"
  have none: "find (\<lambda>i. startswith (drop i ?s) [c]) [k..<length xs] = None"
    unfolding find_None_iff
  proof
    assume "\<exists>i. i \<in> set [k..<length xs] \<and> startswith (drop i ?s) [c]"
    then obtain i where i: "k \<le> i" "i < length xs" "startswith (drop i ?s) [c]" by auto
    then have "drop i xs \<noteq> []" by simp
    then obtain d ds where d: "drop i xs = d # ds" by (cases "drop i xs") auto
    with i have "c = d" by (auto simp: startswith_def)
    moreover have "set (drop i xs) \<subseteq> set (drop k xs)" using i(1) by (rule set_drop_subset_set_drop)
    ultimately show False using d assms(1) by auto
  qed
  have "[k..<Suc (length ?s)] = [k..<length xs] @ length xs # [Suc (length xs)..<Suc (length ?s)]"
    using assms(2) upt_add_eq_append [of k "length xs" "Suc (Suc (length ys))"]
    by (simp add: upt_rec [of "length xs" "Suc (Suc (length xs + length ys))"] del: upt_Suc)
  then have "find (\<lambda>i. startswith (drop i ?s) [c]) [k..<Suc (length ?s)] = Some (length xs)"
    using none by (simp add: find_append startswith_def)
  then show ?thesis by (simp only: text_find_from_def option.case)
qed

lemma text_slice_nat: "a \<le> b \<Longrightarrow> b \<le> length s \<Longrightarrow> text_slice s (int a) (int b) = take (b - a) (drop a s)"
  by (simp add: text_slice_def slice_bound_def)

definition no_brackets :: "string \<Rightarrow> bool" where
  "no_brackets s \<longleftrightarrow> CHR ''['' \<notin> set s \<and> CHR '']'' \<notin> set s"

definition indexed :: "(string \<times> string) list \<Rightarrow> string" where
  "indexed xs = concat (map (\<lambda>(a, i). a @ ''['' @ i @ '']'') xs)"

definition simplified_indices :: "(string \<Rightarrow> string) \<Rightarrow> (string \<times> string) list \<Rightarrow> (string \<times> string) list \<Rightarrow> string" where
  "simplified_indices sympy cs xs = indexed (map (\<lambda>(a, i). (a, simplify_index sympy cs i)) xs)"

text \<open>One index is passed: the text before it, from the last closing bracket on, is \<open>a\<close>.\<close>

lemma simplify_indices_step:
  fixes pre a i rest :: string and close :: int
  assumes no: "no_brackets a" "no_brackets i" and k: "CHR ''['' \<notin> set (drop (Suc k) pre)" "Suc k \<le> length (pre @ a)"
    and close: "close = int (length pre) - 1 \<and> pre \<noteq> [] \<and> close \<noteq> 0 \<or> close = 0 \<and> pre = [] \<and> a \<noteq> []"
  shows "simplify_indices sympy cs (pre @ a @ ''['' @ i @ '']'' @ rest) k close new =
    simplify_indices sympy cs (pre @ a @ ''['' @ i @ '']'' @ rest) (length (pre @ a)) (int (length (pre @ a @ ''['' @ i)))
      (new @ a @ ''['' @ simplify_index sympy cs i @ '']'')"
proof -
  let ?line = "pre @ a @ ''['' @ i @ '']'' @ rest"
  have "CHR ''['' \<notin> set (drop (Suc k) (pre @ a))" using k(1) no(1) by (auto simp: no_brackets_def dest: in_set_dropD)
  from text_find_first [OF this k(2), of "i @ '']'' @ rest"]
  have op: "text_find_from ?line ''['' (Suc k) = int (length (pre @ a))" by simp
  have "CHR '']'' \<notin> set (drop (nat (close + 1)) (pre @ a @ ''['' @ i))"
    using close no by (auto simp: no_brackets_def dest: in_set_dropD)
  moreover have "nat (close + 1) \<le> length (pre @ a @ ''['' @ i)" using close by auto
  ultimately have cl: "text_find_from ?line '']'' (nat (close + 1)) = int (length (pre @ a @ ''['' @ i))"
    using text_find_first [of "CHR '']''" "nat (close + 1)" "pre @ a @ ''['' @ i" rest] by simp
  have before: "text_slice ?line (if close = 0 then 0 else close + 1) (int (length (pre @ a)) + 1) = a @ ''[''"
  proof (cases "close = 0")
    case True
    with close have "pre = []" by auto
    with True text_slice_nat [of 0 "Suc (length a)" ?line] show ?thesis by (simp add: add.commute)
  next
    case False
    with close have c: "close + 1 = int (length pre)" by auto
    have "text_slice ?line (int (length pre)) (int (Suc (length (pre @ a)))) = a @ ''[''"
      by (subst text_slice_nat) auto
    with False c show ?thesis by (simp add: add.commute)
  qed
  have index: "text_slice ?line (int (length (pre @ a)) + 1) (int (length (pre @ a @ ''['' @ i))) = i"
    using text_slice_nat [of "Suc (length (pre @ a))" "length (pre @ a @ ''['' @ i)" ?line] by (simp add: add.commute)
  show ?thesis
    by (subst simplify_indices.simps) (simp only: Let_def op cl before index nat_int, simp)
qed

lemma simplify_indices_flat:
  assumes "\<forall>(a, i) \<in> set xs. no_brackets a \<and> no_brackets i" "no_brackets z" "CHR ''['' \<notin> set (drop (Suc k) pre)"
    and "Suc k \<le> length pre" "1 < length pre"
  shows "simplify_indices sympy cs (pre @ indexed xs @ z) k (int (length pre) - 1) new = new @ simplified_indices sympy cs xs @ z"
  using assms
proof (induction xs arbitrary: pre k new)
  case Nil
  have "CHR ''['' \<notin> set (drop (Suc k) (pre @ z))" using Nil by (auto simp: no_brackets_def dest: in_set_dropD)
  from text_find_none [OF this] Nil(5) text_slice_nat [of "length pre" "length (pre @ z)" "pre @ z"] show ?case
    by (subst simplify_indices.simps) (simp add: indexed_def simplified_indices_def Let_def)
next
  case (Cons x xs)
  obtain a i where x: "x = (a, i)" by (cases x)
  let ?pre = "pre @ a @ ''['' @ i @ '']''"
  have step: "simplify_indices sympy cs (pre @ a @ ''['' @ i @ '']'' @ indexed xs @ z) k (int (length pre) - 1) new =
      simplify_indices sympy cs (pre @ a @ ''['' @ i @ '']'' @ indexed xs @ z) (length (pre @ a)) (int (length (pre @ a @ ''['' @ i)))
      (new @ a @ ''['' @ simplify_index sympy cs i @ '']'')"
    using Cons.prems x by (intro simplify_indices_step) auto
  have "CHR ''['' \<notin> set (drop (Suc (length (pre @ a))) ?pre)" using Cons.prems(1) x by (auto simp: no_brackets_def)
  from Cons.IH [OF _ Cons.prems(2) this, of "new @ a @ ''['' @ simplify_index sympy cs i @ '']''"] Cons.prems(1)
  have "simplify_indices sympy cs (?pre @ indexed xs @ z) (length (pre @ a)) (int (length ?pre) - 1)
      (new @ a @ ''['' @ simplify_index sympy cs i @ '']'') =
      (new @ a @ ''['' @ simplify_index sympy cs i @ '']'') @ simplified_indices sympy cs xs @ z"
    by simp
  with step x show ?case by (simp add: indexed_def simplified_indices_def)
qed



end
