(* ===== verification/Code_Print.thy ===== *)
theory Code_Print
  imports Region_Loops Print_Text Register_Types
begin

text \<open>
  Printing of a program (\<open>src/src/code_printer.py\<close>, \<open>get_function_definition\<close> of \<open>src/src/decompiler_data.py\<close>): global
  data, the head of the kernel, its variables and local arrays, and the statements along the reduced regions.  A node
  prints its own statement and assigns the variables that stand for the versions it writes.
\<close>

section \<open>The state of the printer\<close>

text \<open>What the printer is given: how Python prints numbers and enumeration members, sympy, the unpacking of binary
  data (\<open>struct\<close>), the flag of the command line, the processor and the name of the program.\<close>

record print_env =
  pe_float :: "rat \<Rightarrow> string"
  pe_value :: "expr_node \<Rightarrow> string"
  pe_sympy :: "string \<Rightarrow> string"
  pe_unpack :: "string \<Rightarrow> string \<Rightarrow> string res"
  pe_raw :: bool
  pe_gpu :: "string option"
  pe_name :: string

text \<open>A run of unrolled statements that was folded into a loop stands before the first child of a node.\<close>

record unrolled_loop =
  ul_before :: string
  ul_first :: int
  ul_last :: int
  ul_step :: string
  ul_inside :: string

record printer =
  pt_world :: program
  pt_regions :: regions
  pt_variables :: "string \<Rightarrow> string option"
  pt_nodes :: "nat \<Rightarrow> string option"
  pt_unrolled :: "nat \<Rightarrow> unrolled_loop option"
  pt_out :: string

type_synonym 'a printing = "(printer, 'a) action"

definition pt_dec :: "printer \<Rightarrow> decompiler" where
  "pt_dec p = w_rest (pt_world p)"

definition write_out :: "print_env \<Rightarrow> string \<Rightarrow> unit printing" where
  "write_out env s =
     modifyS (\<lambda>p. p\<lparr>pt_out := pt_out p @ written_text (pe_raw env) (pe_sympy env) (dd_type_conversion (pt_dec p)) s\<rparr>)"

text \<open>An action on the registers of a node and the decompiler.\<close>

definition at_node :: "nat \<Rightarrow> 'a dec \<Rightarrow> 'a printing" where
  "at_node n m = (\<lambda>p. bind_res (m (nd_state (node_at (pt_world p) n), pt_dec p)) (\<lambda>(x, st, dd).
     Inr (x, p\<lparr>pt_world := (upd_node n (\<lambda>y. y\<lparr>nd_state := st\<rparr>) (pt_world p))\<lparr>w_rest := dd\<rparr>\<rparr>)))"

definition first_parent_of :: "program \<Rightarrow> nat \<Rightarrow> first_parent" where
  "first_parent_of w n =
     (case nd_parents (node_at w n) of [] \<Rightarrow> None | p # _ \<Rightarrow> Some (instruction_at w p, nd_state (node_at w p)))"

definition opencl_of :: "print_env \<Rightarrow> nat \<Rightarrow> string option printing" where
  "opencl_of env n =
     bindS (getS pt_world) (\<lambda>w.
       at_node n (to_opencl (pe_float env) (pe_value env) (first_parent_of w n) (instruction_at w n) (nd_operands (node_at w n))))"

section \<open>Nodes\<close>

text \<open>The variable of a register that changes from one round of a loop to the next.\<close>

definition make_output_for_loop_vars :: "print_env \<Rightarrow> nat \<Rightarrow> string \<Rightarrow> string \<Rightarrow> unit printing" where
  "make_output_for_loop_vars env n key indent =
     bindS (getS pt_variables) (\<lambda>vs. case vs key of
         None \<Rightarrow> raiseS KeyError
       | Some v \<Rightarrow>
           bindS (getS (\<lambda>p. get_variable_node v (dd_manager (pt_dec p)))) (\<lambda>vn.
           bindS (at_node n (bindS (get_register (version_register key)) (\<lambda>r. liftS (get_node (rg_content r))))) (\<lambda>z.
           case vn of
             None \<Rightarrow> raiseS AttributeError
           | Some x \<Rightarrow> (case z of
                 None \<Rightarrow> raiseS AssertionError
               | Some e \<Rightarrow> bindS (liftS (expression_to_string (pe_float env) e (node_hint x))) (\<lambda>s.
                           write_out env (indent @ v @ '' = '' @ s @ '';'' @ [CHR 0x0A]))))))"

definition cmp_printed :: "print_env \<Rightarrow> string \<Rightarrow> bool" where
  "cmp_printed env instruction =
     (\<not> contains instruction ''cmp'' \<or> (case pe_gpu env of None \<Rightarrow> False | Some g \<Rightarrow> startswith g ''gfx''))"

definition is_own_value :: "string \<Rightarrow> py_object \<Rightarrow> bool" where
  "is_own_value v x = (x = PStr v)"

text \<open>\<open>val.strip()\<close> is not empty; only text has this method.\<close>

definition not_blank :: "py_object \<Rightarrow> bool res" where
  "not_blank x = (case x of PStr s \<Rightarrow> Inr (strip s \<noteq> []) | PInt i \<Rightarrow> Inl AttributeError)"

definition assign_version :: "print_env \<Rightarrow> nat \<Rightarrow> string \<Rightarrow> operand \<Rightarrow> unit printing" where
  "assign_version env n indent reg =
     bindS (getS (\<lambda>p. map_of (nd_state (node_at (pt_world p) n)) (op_name reg))) (\<lambda>z. case z of
         None \<Rightarrow> returnS ()
       | Some r \<Rightarrow>
           bindS (getS (\<lambda>p. map_of (dd_variables (pt_dec p)) (version r))) (\<lambda>y. case y of
               None \<Rightarrow> returnS ()
             | Some var \<Rightarrow>
                 bindS (at_node n (val_of r)) (\<lambda>x.
                   if is_own_value var x then returnS ()
                   else bindS (liftS (not_blank x)) (\<lambda>filled.
                     bindS (getS (\<lambda>p. instruction_at (pt_world p) n)) (\<lambda>i.
                     if \<not> filled \<or> \<not> cmp_printed env i then returnS ()
                     else bindS (getS (\<lambda>p. get_variable_node var (dd_manager (pt_dec p)))) (\<lambda>vn. case vn of
                         None \<Rightarrow> raiseS AttributeError
                       | Some v \<Rightarrow>
                           bindS (liftS (get_node (rg_content r))) (\<lambda>m. case m of
                               None \<Rightarrow> raiseS AssertionError
                             | Some e \<Rightarrow>
                                 bindS (liftS (expression_to_string (pe_float env) e ((node_hint v)\<lparr>opencl_type := OUnknown\<rparr>))) (\<lambda>s.
                                   write_out env (indent @ var @ '' = '' @ s @ '';'' @ [CHR 0x0A])))))))))"

fun assign_versions :: "print_env \<Rightarrow> nat \<Rightarrow> string \<Rightarrow> operand list \<Rightarrow> unit printing" where
  "assign_versions env n indent [] = returnS ()"
| "assign_versions env n indent (r # rs) = bindS (assign_version env n indent r) (\<lambda>_. assign_versions env n indent rs)"

definition is_loop_node :: "printer \<Rightarrow> nat \<Rightarrow> bool" where
  "is_loop_node p n = (case pt_nodes p n of None \<Rightarrow> False | Some k \<Rightarrow> k \<noteq> [])"

text \<open>The registers whose variables are assigned.  The test whether the tuple of registers is a range never holds, so the
  register of a whole range is not among them.\<close>

definition written_registers :: "operand list \<Rightarrow> operand list" where
  "written_registers ops =
     (case ops of [] \<Rightarrow> [] | a # _ \<Rightarrow> if is_reg32 a \<or> is_range a then get_reg_rang a else [])"

definition print_own_statement :: "print_env \<Rightarrow> nat \<Rightarrow> string \<Rightarrow> unit printing" where
  "print_own_statement env n indent =
     bindS (opencl_of env n) (\<lambda>text. bindS (getS (\<lambda>p. pt_nodes p n)) (\<lambda>z.
       case z of
         Some key \<Rightarrow>
           if key \<noteq> [] then make_output_for_loop_vars env n key indent
           else (case text of None \<Rightarrow> returnS () | Some s \<Rightarrow>
                  if s \<noteq> [] then write_out env (indent @ s @ '';'' @ [CHR 0x0A]) else returnS ())
       | None \<Rightarrow> (case text of None \<Rightarrow> returnS () | Some s \<Rightarrow>
                  if s \<noteq> [] then write_out env (indent @ s @ '';'' @ [CHR 0x0A]) else returnS ())))"

definition print_node :: "print_env \<Rightarrow> nat \<Rightarrow> string \<Rightarrow> unit printing" where
  "print_node env n indent =
     bindS (print_own_statement env n indent) (\<lambda>_.
     bindS (getS (\<lambda>p. is_loop_node p n)) (\<lambda>loop_node.
     bindS (getS (\<lambda>p. nd_operands (node_at (pt_world p) n))) (\<lambda>ops.
       if loop_node then returnS () else assign_versions env n indent (written_registers ops))))"

definition print_unrolled :: "print_env \<Rightarrow> unrolled_loop \<Rightarrow> unit printing" where
  "print_unrolled env u =
     bindS (write_out env (''    int acc = '' @ ul_before u @ '';'' @ [CHR 0x0A])) (\<lambda>_.
     bindS (write_out env (''    for (int i = '' @ show_int (ul_first u) @ ''; i '' @ (if ul_first u < ul_last u then ''<='' else ''>='')
              @ '' '' @ show_int (ul_last u) @ ''; '' @ ul_step u @ '') {'' @ [CHR 0x0A])) (\<lambda>_.
     bindS (write_out env (''        acc = '' @ ul_inside u @ '';'' @ [CHR 0x0A])) (\<lambda>_.
       write_out env (''    }'' @ [CHR 0x0A]))))"

section \<open>Regions\<close>

type_synonym 'a print_fuel = "printer \<Rightarrow> ('a \<times> printer) res option"

definition bindP :: "'a print_fuel \<Rightarrow> ('a \<Rightarrow> 'b print_fuel) \<Rightarrow> 'b print_fuel" where
  "bindP m f = (\<lambda>t. case m t of
     None \<Rightarrow> None | Some (Inl e) \<Rightarrow> Some (Inl e) | Some (Inr (x, t')) \<Rightarrow> f x t')"

definition ready :: "'a printing \<Rightarrow> 'a print_fuel" where
  "ready m = (\<lambda>t. Some (m t))"

definition in_regions :: "'a on_regions \<Rightarrow> 'a printing" where
  "in_regions m = (\<lambda>p. bind_res (m (pt_regions p)) (\<lambda>(x, s). Inr (x, p)))"

definition first_child_node :: "nat \<Rightarrow> nat printing" where
  "first_child_node n = bindS (getS (\<lambda>p. nd_children (node_at (pt_world p) n))) (\<lambda>cs. liftS (py_nth cs 0))"

text \<open>The nodes of a linear region, from its start to its end along the first children.\<close>

fun print_run :: "print_env \<Rightarrow> nat \<Rightarrow> nat \<Rightarrow> region_point \<Rightarrow> string \<Rightarrow> unit print_fuel" where
  "print_run env 0 n e indent = (\<lambda>p. None)"
| "print_run env (Suc f) n e indent =
     bindP (ready (print_node env n indent)) (\<lambda>_.
       if e = At_Node n then ready (returnS ())
       else bindP (ready (first_child_node n)) (\<lambda>c. bindP (ready (getS (\<lambda>p. pt_unrolled p n))) (\<lambda>z.
            bindP (ready (case z of None \<Rightarrow> returnS () | Some u \<Rightarrow> print_unrolled env u)) (\<lambda>_.
              print_run env f c e indent))))"

text \<open>The empty node in front of the program, and a change of the mask at the start, are skipped.\<close>

definition run_start :: "nat \<Rightarrow> nat printing" where
  "run_start n =
     bindS (if n = 0 then first_child_node 0 else returnS n) (\<lambda>m.
     bindS (getS (\<lambda>p. instruction_at (pt_world p) m)) (\<lambda>i.
       if i = ''change_mask'' then first_child_node m else returnS m))"

text \<open>The text of the condition of a branch; \<open>None\<close> cannot be written.\<close>

definition condition_text :: "print_env \<Rightarrow> nat \<Rightarrow> string printing" where
  "condition_text env n = bindS (opencl_of env n) (\<lambda>z. case z of None \<Rightarrow> raiseS TypeError | Some s \<Rightarrow> returnS s)"

definition inner_region :: "region_point \<Rightarrow> nat printing" where
  "inner_region z = (case z of At_Region q \<Rightarrow> returnS q | At_Node n \<Rightarrow> raiseS AttributeError)"

definition own_node :: "region_point \<Rightarrow> nat printing" where
  "own_node z = (case z of At_Node n \<Rightarrow> returnS n | At_Region q \<Rightarrow> raiseS AttributeError)"

definition branch_head :: "print_env \<Rightarrow> region \<Rightarrow> string \<Rightarrow> unit printing" where
  "branch_head env x indent =
     bindS (write_out env (indent @ ''if ('')) (\<lambda>_. bindS (inner_region (rn_start x)) (\<lambda>q. bindS (in_regions (region_of q)) (\<lambda>y.
     bindS (own_node (rn_start y)) (\<lambda>n. bindS (condition_text env n) (\<lambda>s.
     bindS (write_out env s) (\<lambda>_. write_out env ('') {'' @ [CHR 0x0A])))))))"

definition branch_body :: "region \<Rightarrow> nat \<Rightarrow> nat printing" where
  "branch_body x k = bindS (inner_region (rn_start x)) (\<lambda>q. in_regions (child_region q k))"

definition print_break :: "print_env \<Rightarrow> region \<Rightarrow> string \<Rightarrow> unit printing" where
  "print_break env x indent =
     bindS (write_out env (indent @ ''if ('')) (\<lambda>_. bindS (own_node (rn_start x)) (\<lambda>n. bindS (condition_text env n) (\<lambda>s.
     bindS (write_out env (''!('' @ s @ '')'')) (\<lambda>_. bindS (write_out env ('') {'' @ [CHR 0x0A])) (\<lambda>_.
     bindS (write_out env (indent @ ''    break;'' @ [CHR 0x0A])) (\<lambda>_. write_out env (indent @ ''}'' @ [CHR 0x0A])))))))"

definition loop_condition :: "print_env \<Rightarrow> region \<Rightarrow> unit printing" where
  "loop_condition env x =
     bindS (inner_region (rn_end x)) (\<lambda>q. bindS (in_regions (region_of q)) (\<lambda>y.
     bindS (own_node (rn_start y)) (\<lambda>n. bindS (condition_text env n) (\<lambda>s.
     bindS (write_out env (''!('' @ s @ '')'')) (\<lambda>_. write_out env ('');'' @ [CHR 0x0A]))))))"

text \<open>What is printed next: a region, or the regions that follow a region up to an end.  The functions of the regions get
  the printing of a goal as an argument, which the recursion at the end supplies.\<close>

datatype print_goal = Whole nat | Following nat region_point

type_synonym print_rec = "print_goal \<Rightarrow> string \<Rightarrow> unit print_fuel"

definition make_output_for_linear_region :: "print_env \<Rightarrow> nat \<Rightarrow> print_rec \<Rightarrow> region \<Rightarrow> string \<Rightarrow> unit print_fuel" where
  "make_output_for_linear_region env f rec x indent =
     (case rn_start x of
        At_Node n \<Rightarrow> bindP (ready (run_start n)) (\<lambda>m. print_run env f m (rn_end x) indent)
      | At_Region q \<Rightarrow> bindP (rec (Whole q) indent) (\<lambda>_. rec (Following q (rn_end x)) indent))"

definition make_output_from_part_of_if_else :: "print_rec \<Rightarrow> region \<Rightarrow> string \<Rightarrow> nat \<Rightarrow> unit print_fuel" where
  "make_output_from_part_of_if_else rec x indent k =
     bindP (ready (branch_body x k)) (\<lambda>b. rec (Whole b) (indent @ ''    ''))"

definition make_output_from_if_statement_region :: "print_env \<Rightarrow> print_rec \<Rightarrow> region \<Rightarrow> string \<Rightarrow> unit print_fuel" where
  "make_output_from_if_statement_region env rec x indent =
     bindP (ready (branch_head env x indent)) (\<lambda>_.
     bindP (make_output_from_part_of_if_else rec x indent 0) (\<lambda>_. ready (write_out env (indent @ ''}'' @ [CHR 0x0A]))))"

definition make_output_from_if_else_statement_region :: "print_env \<Rightarrow> print_rec \<Rightarrow> region \<Rightarrow> string \<Rightarrow> unit print_fuel" where
  "make_output_from_if_else_statement_region env rec x indent =
     bindP (make_output_from_if_statement_region env rec x indent) (\<lambda>_.
     bindP (ready (write_out env (indent @ ''else {'' @ [CHR 0x0A]))) (\<lambda>_.
     bindP (make_output_from_part_of_if_else rec x indent 1) (\<lambda>_. ready (write_out env (indent @ ''}'' @ [CHR 0x0A])))))"

definition make_output_from_loop_region :: "print_env \<Rightarrow> print_rec \<Rightarrow> region \<Rightarrow> string \<Rightarrow> unit print_fuel" where
  "make_output_from_loop_region env rec x indent =
     bindP (ready (write_out env (indent @ ''do {'' @ [CHR 0x0A]))) (\<lambda>_.
     bindP (make_output_from_part_of_if_else rec x indent 0) (\<lambda>_.
     bindP (ready (write_out env (indent @ ''} while (''))) (\<lambda>_. ready (loop_condition env x))))"

definition make_output_from_region :: "print_env \<Rightarrow> nat \<Rightarrow> print_rec \<Rightarrow> region \<Rightarrow> string \<Rightarrow> unit print_fuel" where
  "make_output_from_region env f rec x indent =
     (case rn_type x of
        LINEAR \<Rightarrow> make_output_for_linear_region env f rec x indent
      | IF_STATEMENT \<Rightarrow> make_output_from_if_statement_region env rec x indent
      | IF_ELSE_STATEMENT \<Rightarrow> make_output_from_if_else_statement_region env rec x indent
      | LOOP \<Rightarrow> make_output_from_loop_region env rec x indent
      | CONTINUE_REGION \<Rightarrow> ready (write_out env (indent @ ''continue;'' @ [CHR 0x0A]))
      | BREAK_REGION \<Rightarrow> ready (print_break env x indent)
      | RETURN_REGION \<Rightarrow> ready (write_out env (indent @ ''return;'' @ [CHR 0x0A]))
      | _ \<Rightarrow> ready (returnS ()))"

fun print_goals :: "print_env \<Rightarrow> nat \<Rightarrow> print_rec" where
  "print_goals env 0 g indent = (\<lambda>p. None)"
| "print_goals env (Suc f) (Whole r) indent =
     bindP (ready (in_regions (region_of r))) (\<lambda>x. make_output_from_region env f (print_goals env f) x indent)"
| "print_goals env (Suc f) (Following q e) indent =
     (if At_Region q = e then ready (returnS ())
      else bindP (ready (in_regions (child_region q 0))) (\<lambda>c.
           bindP (print_goals env f (Whole c) indent) (\<lambda>_. print_goals env f (Following c e) indent)))"

section \<open>Data, head and variables\<close>

text \<open>\<open>evaluate_from_hex\<close>: the bytes are texts with a prefix of two characters.\<close>

definition evaluate_from_hex :: "print_env \<Rightarrow> string list \<Rightarrow> nat \<Rightarrow> string \<Rightarrow> string list res" where
  "evaluate_from_hex env data n flag =
     mapE (\<lambda>k. pe_unpack env flag (concat (map (drop 2) (take n (drop (k * n) data))))) [0..<length data div n]"

definition data_format :: "string \<Rightarrow> (nat \<times> string) res" where
  "data_format t =
     (if t \<in> {''uint'', ''int''} then Inr (4, ''<i'')
      else if t \<in> {''ulong'', ''long''} then Inr (8, ''<q'')
      else if t = ''float'' then Inr (4, ''<f'')
      else if t = ''double'' then Inr (8, ''<d'')
      else if t \<in> {''int2'', ''int4'', ''int8''} then Inr (4, ''<i'')
      else Inl NotImplementedError)"

text \<open>The elements of an array of vectors are grouped in brackets.\<close>

definition vector_element :: "string \<Rightarrow> nat \<Rightarrow> nat \<times> string \<Rightarrow> string list" where
  "vector_element t m = (\<lambda>(k, e).
     if k = 0 then [''('' @ t @ '')('', e]
     else if k mod m = 0 then ['', ('' @ t @ '')('', e]
     else if k mod m = m - 1 then ['', '' @ e, '')'']
     else ['', '' @ e])"

definition data_elements :: "string \<Rightarrow> string list \<Rightarrow> string list" where
  "data_elements t es =
     (if t \<in> {''int2'', ''int4'', ''int8''}
      then concat (map (vector_element t (decimal_value (last t))) (enumerate 0 es))
      else concat (map (\<lambda>(k, e). [if 0 < k then '', '' @ e else e]) (enumerate 0 es)))"

fun write_all :: "print_env \<Rightarrow> string list \<Rightarrow> unit printing" where
  "write_all env [] = returnS ()"
| "write_all env (s # ss) = bindS (write_out env s) (\<lambda>_. write_all env ss)"

definition write_array :: "print_env \<Rightarrow> string \<times> string \<Rightarrow> unit printing" where
  "write_array env = (\<lambda>(key, t).
     bindS (liftS (data_format t)) (\<lambda>(n, flag).
     bindS (getS (\<lambda>p. map_of (dd_global_data (pt_dec p)) key)) (\<lambda>z. case z of
         None \<Rightarrow> raiseS KeyError
       | Some data \<Rightarrow>
           bindS (liftS (evaluate_from_hex env data n flag)) (\<lambda>es.
           bindS (getS (\<lambda>p. get_variable_info key (dd_manager (pt_dec p)))) (\<lambda>v. case v of
               None \<Rightarrow> raiseS AttributeError
             | Some x \<Rightarrow>
                 write_all env ([hint_str_arr (node_hint x) @ '' '' @ key @ ''[] = {''] @ data_elements t es
                   @ [''};'' @ [CHR 0x0A, CHR 0x0A]]))))))"

fun write_arrays :: "print_env \<Rightarrow> (string \<times> string) list \<Rightarrow> unit printing" where
  "write_arrays env [] = returnS ()"
| "write_arrays env (x # xs) = bindS (write_array env x) (\<lambda>_. write_arrays env xs)"

definition write_global_data :: "print_env \<Rightarrow> unit printing" where
  "write_global_data env = bindS (getS (\<lambda>p. sort_key fst (dd_type_gdata (pt_dec p)))) (write_arrays env)"

definition get_function_definition :: "print_env \<Rightarrow> decompiler \<Rightarrow> string res" where
  "get_function_definition env dd =
     bind_res (mapE (\<lambda>a. kernel_arg_to_string (arg_name a) (dd_manager dd)) (filter (\<lambda>a. \<not> arg_hidden a) (dd_arguments dd))) (\<lambda>ps.
       Inr (''__kernel ''
         @ (case dd_work_groups dd of
              None \<Rightarrow> []
            | Some [] \<Rightarrow> []
            | Some ns \<Rightarrow> ''__attribute__((reqd_work_group_size('' @ join '', '' (map show_int ns) @ '')))'' @ [CHR 0x0A])
         @ ''void '' @ pe_name env @ ''('' @ join '', '' ps @ '')'' @ [CHR 0x0A]))"

text \<open>The name of a variable ends before an element access.\<close>

definition declared_name :: "string \<Rightarrow> string" where
  "declared_name v = (if contains v ''___'' then text_slice v 0 (text_find v ''___'') else v)"

definition write_variable :: "print_env \<Rightarrow> string \<Rightarrow> unit printing" where
  "write_variable env v =
     (if CHR '' '' \<in> set v then returnS ()
      else bindS (getS (\<lambda>p. get_variable_info (declared_name v) (dd_manager (pt_dec p)))) (\<lambda>z. case z of
          None \<Rightarrow> raiseS AttributeError
        | Some x \<Rightarrow>
            let t = hint_str (node_hint x)
            in bindS (liftS (last_but 0 t)) (\<lambda>c.
                 write_out env (''    '' @ t @ (if c = CHR ''*'' then [] else '' '') @ declared_name v @ '';'' @ [CHR 0x0A]))))"

fun write_variables :: "print_env \<Rightarrow> string list \<Rightarrow> unit printing" where
  "write_variables env [] = returnS ()"
| "write_variables env (v # vs) = bindS (write_variable env v) (\<lambda>_. write_variables env vs)"

text \<open>Every local array reaches to the next offset, the last one to the size of the local memory.\<close>

definition lds_array :: "(int \<times> expr_node) list \<Rightarrow> int \<times> int \<Rightarrow> string res" where
  "lds_array vars = (\<lambda>(a, b). case map_of vars a of
     None \<Rightarrow> Inl KeyError
   | Some (NVar i name) \<Rightarrow>
       let h = hint i; n = hint_size_bytes h
       in if n = 0 then Inl ZeroDivisionError
          else Inr (''    '' @ hint_str_arr h @ '' '' @ name @ ''['' @ show_int (rat_trunc (of_int (b - a) / of_int n)) @ '']'' @ '';''
                 @ [CHR 0x0A])
   | Some _ \<Rightarrow> Inl TypeError)"

definition lds_arrays :: "(int \<times> expr_node) list \<Rightarrow> int \<Rightarrow> string list res" where
  "lds_arrays vars local_size =
     (let offsets = sort (map fst vars @ [local_size]) in mapE (lds_array vars) (zip offsets (tl offsets)))"

definition create_opencl_body :: "print_env \<Rightarrow> nat \<Rightarrow> nat \<Rightarrow> unit print_fuel" where
  "create_opencl_body env f improve_cfg =
     bindP (ready (write_global_data env)) (\<lambda>_.
     bindP (ready (bindS (getS pt_dec) (\<lambda>dd. liftS (get_function_definition env dd)))) (\<lambda>head.
     bindP (ready (write_all env [head, ''{'' @ [CHR 0x0A]])) (\<lambda>_.
     bindP (ready (bindS (getS (\<lambda>p. sort (map fst (dd_names_of_vars (pt_dec p))))) (write_variables env))) (\<lambda>_.
     bindP (ready (bindS (getS (\<lambda>p. lds_arrays (dd_lds_vars (pt_dec p)) (dd_local_size (pt_dec p)))) liftS)) (\<lambda>arrays.
     bindP (ready (write_all env arrays)) (\<lambda>_.
     bindP (print_goals env f (Whole improve_cfg) ''    '') (\<lambda>_.
       ready (write_out env (''}'' @ [CHR 0x0A])))))))))"

end
