(* ===== verification/Spec2Isabelle.thy ===== *)
theory Spec2Isabelle
  imports Expr_Sound Expr_Print IR_Machine PTX_Masks PTX_Infer IR_Registers Mask_CFG Reg_Frame Print_Node Region_Cover Region_Reduce Code_Print
begin

text \<open>
  A verification development for the OpenCL decompiler (the Python package under \<open>src/src\<close>).

  \<^bold>\<open>The program.\<close>  An assembler kernel for an AMD or NVIDIA graphics processor is read into an intermediate
  representation (\<open>ir/asm_to_ir\<close>), passes complete and normalise that kernel (\<open>ir/passes\<close>), and each of its
  instructions is lowered to a few backend instructions (\<open>ir/instructions\<close>).  Running the backend instructions
  (\<open>instructions\<close>) builds a graph of nodes, each with the registers as they are after it: what value, type and
  expression each register holds, and in which version.  Expressions are made and simplified by one shared manager
  (\<open>expression_manager\<close>).  At the end the graph is reduced to regions and printed as OpenCL.

  \<^bold>\<open>Foundations.\<close>  \<open>Prelude\<close>, \<open>Py_Text\<close>: Python exceptions as values of \<open>res\<close>, indexing, numerals and text.
  \<open>State_Res\<close>: methods that read and change an object and may raise (\<open>action\<close>), with the rules \<open>yields_intros\<close> by
  which invariants of such methods are proved.

  \<^bold>\<open>Expressions.\<close>  \<open>Value_Types\<close>, \<open>Common_Type\<close> (\<open>types/\<close>, \<open>get_common_type\<close>), \<open>Register_Types\<close>
  (\<open>register_type.py\<close>, \<open>opencl_types.py\<close>), \<open>Expr_Node\<close>, \<open>Expr_Build\<close>, \<open>Expr_Optim\<close>, \<open>Expr_Manager\<close>, \<open>Expr_Vars\<close>
  (nodes, constructors and every method of the manager that changes it).  \<open>Expr_Semantics\<close> gives expressions a
  value in exact arithmetic; \<open>Expr_Sound\<close> shows that the simplifications of sums, products, quotients, negations
  and comparisons keep it under stated conditions, and where they do not; \<open>Expr_Print\<close> is the printer.

  \<^bold>\<open>Intermediate representation.\<close>  \<open>IR_Types\<close>, \<open>IR_Instr\<close>, \<open>IR_Memory\<close>: operation types, registers, and for
  every instruction class its constructor and the backend instructions of its lowering; \<open>IR_Machine\<close> runs 32-bit
  opcodes on words and shows that the lowerings of 64-bit operations compute what they stand for.  \<open>IR_Kernel\<close>,
  \<open>PTX_Masks\<close>: the kernel and the passes that materialise its parts and turn predicates into masks.  \<open>PTX_Flow\<close>,
  \<open>PTX_Infer\<close>: data flow and the inference of argument types; the worklist of the inference is given as fuel the
  number of instructions up to the position where it starts, which suffices because every edge of the flow goes
  forward (\<open>pointer_inference_ends\<close>).  \<open>IR_Lower\<close>, \<open>PTX_Rules\<close>, \<open>PTX_Read\<close>, \<open>AMD_Rules\<close>, \<open>AMD_Read\<close>: the rules of
  both readers and the readers; \<open>IR_Registers\<close>: the contract of the register factories, a locale with both
  factories as interpretations.

  \<^bold>\<open>Graph.\<close>  \<open>Exec_Condition\<close> (\<open>logical_variable.py\<close>): conditions of execution.  \<open>CFG_Nodes\<close> (\<open>node.py\<close>, labels
  and branches), \<open>Mask_CFG\<close> (\<open>ir/passes/decompilation\<close>): the construction of the graph with the stack of open
  masks.  Its step on the registers is an argument, so that its theorems hold for every backend; the step of the
  program is \<open>register_step\<close>, and the merging at joins is \<open>find_max_and_prev_versions\<close>.

  \<^bold>\<open>Registers.\<close>  \<open>Reg_Content\<close>, \<open>Reg_Packed\<close> (\<open>register_content.py\<close>, \<open>operation_register_content.py\<close>,
  \<open>combined_register_content.py\<close>): what a register holds, with the simplification of sums and the fields of packed
  registers.  \<open>Kernel_State\<close> (\<open>register.py\<close>, \<open>state.py\<close>, \<open>decompiler_data.py\<close>): registers with their versions, the
  tables of the decompiler (record \<open>decompiler\<close>), and \<open>set_reg_value\<close>.  \<open>Version_Join\<close> (\<open>versions.py\<close>): what happens
  to the registers where control flow joins.  \<open>Reg_Backends\<close>, \<open>Op_Values\<close>, \<open>Reg_Arith\<close>, \<open>Reg_Sums\<close>, \<open>Reg_Adds\<close>,
  \<open>Reg_Select\<close>, \<open>Reg_Memory\<close>, \<open>Reg_Flat\<close> (\<open>instructions\<close>, \<open>kernel_params.py\<close>, \<open>upload.py\<close>): \<open>to_fill_node\<close> of every
  backend class that a lowering emits, one definition per branch of the source; \<open>Reg_Step\<close> dispatches on the class.
  \<open>Reg_Frame\<close>: a locale for invariants that table changes, edits of a content and versioned writes preserve, its
  lemmas for every backend instruction, and its interpretation on the growth of versions.

  \<^bold>\<open>Regions and printing.\<close>  \<open>Region_Graph\<close> (\<open>regions/\<close>): regions are objects in a heap, named by their position,
  because the code rewires their lists of children and parents while it walks over them; the grouping of nodes, and
  the reduction of if and if-else.  \<open>Region_Cover\<close> shows that grouping forgets no node, \<open>Region_Reduce\<close> that the
  reduction ends: the depth given to \<open>region_dfs\<close> is counted in \<open>region_fuel\<close> from the regions and their children,
  which shrink in a measure although new regions are made.  \<open>Region_Loops\<close>: the search for loops and the variables of
  the registers that change from round to round; its walks, which the code may repeat for ever, get fuel.
  \<open>Print_Node\<close> (\<open>node_processor.py\<close>, \<open>to_print\<close> in \<open>instructions\<close>): the statement of a node, with the search for the
  class by the opcode.  \<open>Print_Text\<close> (\<open>simplify_opencl_statement\<close>, \<open>write\<close>): the simplification of indices in a line.
  \<open>Code_Print\<close> (\<open>code_printer.py\<close>): global data, head, variables, local arrays and the text of the regions.  The
  record \<open>print_env\<close> holds what is not in the source: how Python prints numbers and enumeration members, sympy, and
  the unpacking of binary data.

  \<^bold>\<open>What the theorems show.\<close>  Types: the kernels that both readers produce are well typed.  Values: expression
  rewriting, constant folding, 64-bit lowerings, unpacking of loads, sums and fields in registers keep or compute the
  values they stand for.  Invariants: argument tables, register factories, the graph, open masks, versions.  Order:
  masks follow predicates, the flow graph names the last writer, materialised parts stand in a fixed order.  Regions:
  every node gets one, their reduction ends, and a register that a loop changes becomes one variable.  Text: every
  statement is printed by the class that made its node, and indices are simplified one by one.  Errors:
  cases in which the code raises or loses a value are stated as theorems about the code as it is.

  \<^bold>\<open>Conventions.\<close>  Python integers are \<open>int\<close>, text is ASCII.  Dictionaries that are iterated are association lists,
  others are maps; sets are lists without a promise on their order.  How Python prints a \<open>float\<close>, and a 32-bit float
  of a PTX literal, are the parameters \<open>fl\<close> and \<open>f32_text\<close>.  Floats are exact rationals; infinities, NaN and rounding
  are not modelled.  Contents of registers and nodes are values: two registers loaded from one argument do not share
  their content object.  The type that \<open>VSub\<close> stores is an \<open>Integrity\<close>; no comparison with a register type holds
  for it, and \<open>None\<close> stands for it.

  \<^bold>\<open>Not modelled.\<close>  Reading files and their sections (\<open>kernel_parser\<close>, \<open>parser_for_instructions.py\<close>), drawing
  (\<open>graph\<close>), and the command line are input and output.  The renaming of variables over the finished graph
  (\<open>change_values\<close> of \<open>versions.py\<close>) and the search for unrolled loops (\<open>unrolled_loops_processing.py\<close>) come between
  the graph and its regions and are left for an extension.  Classes of the former front end that no lowering emits (\<open>SAdd\<close>, \<open>SAddc\<close>,
  \<open>SMul\<close>, \<open>VMov\<close>) and functions that nothing calls (\<open>upload_by_offset\<close>, \<open>upload_usesetup\<close>,
  \<open>process_kernel_params\<close>, \<open>init_state\<close>) are left out.
\<close>

end
